(* ===== verification/Prelude.thy ===== *)
theory Prelude
  imports Main "HOL-Library.State_Monad"
begin

text \<open>
  Shared vocabulary of the development: the result type of fallible Go functions, the
  combinators that translate Go's control flow (early return on an error, ignored errors,
  \<open>for\<close> loops) into the state monad of the library, and the two small calculi the
  component proofs use.

  \<^item> \<open>state_io_rel P m\<close> (of the library) says that \<open>P\<close> relates the state before and
    after \<open>m\<close>. The collection \<open>io_intros\<close> holds its syntax-directed rules for every
    combinator, so an invariant of the primitive operations is lifted through a handler by
    \<open>intro io_intros\<close>.
  \<^item> \<open>hoare P m Q\<close> is a total-correctness triple (the monad has no failure besides the
    error values); the collection \<open>hoare_intros\<close> holds its rules.
\<close>

subsection \<open>Go control flow in the state monad\<close>

abbreviation ret :: "'a \<Rightarrow> ('s, 'a) state" where
  "ret \<equiv> State_Monad.return"

definition gets :: "('s \<Rightarrow> 'a) \<Rightarrow> ('s, 'a) state" where
  "gets f = State (\<lambda>s. (f s, s))"

definition modifies :: "('s \<Rightarrow> 's) \<Rightarrow> ('s, unit) state" where
  "modifies f = State (\<lambda>s. ((), f s))"

text \<open>
  \<open>v, err := m; if err != nil { return wrap(err) }; f(v)\<close>, the pattern almost every Go
  function of the program is built from: \<open>on_ok\<close> returns the error as it is,
  \<open>on_ok_map\<close> rewrites it first.
\<close>

definition on_ok_map ::
  "('e \<Rightarrow> 'e) \<Rightarrow> ('s, 'e + 'a) state \<Rightarrow> ('a \<Rightarrow> ('s, 'e + 'b) state) \<Rightarrow> ('s, 'e + 'b) state" where
  "on_ok_map h m f =
     do { r \<leftarrow> m; (case r of Inl e \<Rightarrow> ret (Inl (h e)) | Inr v \<Rightarrow> f v) }"

definition on_ok ::
  "('s, 'e + 'a) state \<Rightarrow> ('a \<Rightarrow> ('s, 'e + 'b) state) \<Rightarrow> ('s, 'e + 'b) state" where
  "on_ok m f = do { r \<leftarrow> m; (case r of Inl e \<Rightarrow> ret (Inl e) | Inr v \<Rightarrow> f v) }"

text \<open>
  \<open>logutil.WarnIfErr(m, ...)\<close>: the error is logged and dropped.
\<close>

definition warn_if_err :: "('s, 'e + 'a) state \<Rightarrow> ('s, unit) state" where
  "warn_if_err m = do { _ \<leftarrow> m; ret () }"

text \<open>\<open>for _, x := range xs { body }\<close> without and with loop-carried variables.\<close>

primrec for_each :: "'a list \<Rightarrow> ('a \<Rightarrow> ('s, unit) state) \<Rightarrow> ('s, unit) state" where
  "for_each [] f = ret ()"
| "for_each (x # xs) f = do { f x; for_each xs f }"

primrec for_acc :: "'a list \<Rightarrow> 'b \<Rightarrow> ('a \<Rightarrow> 'b \<Rightarrow> ('s, 'b) state) \<Rightarrow> ('s, 'b) state" where
  "for_acc [] b f = ret b"
| "for_acc (x # xs) b f = do { b' \<leftarrow> f x b; for_acc xs b' f }"

lemma run_gets [simp]: "run_state (gets f) s = (f s, s)"
  by (simp add: gets_def)

lemma run_modifies [simp]: "run_state (modifies f) s = ((), f s)"
  by (simp add: modifies_def)

lemma run_on_ok [simp]:
  "run_state (on_ok m f) s =
     (case run_state m s of (Inl e, s') \<Rightarrow> (Inl e, s') | (Inr v, s') \<Rightarrow> run_state (f v) s')"
  by (auto simp: on_ok_def split: prod.splits sum.splits)

lemma run_on_ok_map [simp]:
  "run_state (on_ok_map h m f) s =
     (case run_state m s of (Inl e, s') \<Rightarrow> (Inl (h e), s') | (Inr v, s') \<Rightarrow> run_state (f v) s')"
  by (auto simp: on_ok_map_def split: prod.splits sum.splits)

lemma run_warn_if_err [simp]:
  "run_state (warn_if_err m) s = ((), snd (run_state m s))"
  by (auto simp: warn_if_err_def split: prod.splits)

lemma for_each_append: "for_each (xs @ ys) f = do { for_each xs f; for_each ys f }"
  by (induction xs) auto

lemma for_acc_append: "for_acc (xs @ ys) b f = do { b' \<leftarrow> for_acc xs b f; for_acc ys b' f }"
  by (induction xs arbitrary: b) auto

lemma run_Inr:
  assumes "\<not> isl (fst (run_state m s))"
  obtains x s' where "run_state m s = (Inr x, s')"
  using assms by (cases "run_state m s"; cases "fst (run_state m s)") auto

subsection \<open>Relations kept by a computation\<close>

named_theorems io_intros

definition po_rel :: "('s \<Rightarrow> 's \<Rightarrow> bool) \<Rightarrow> bool" where
  "po_rel P \<longleftrightarrow> (\<forall>s. P s s) \<and> (\<forall>s t u. P s t \<longrightarrow> P t u \<longrightarrow> P s u)"

lemma io_ret [io_intros]: "po_rel P \<Longrightarrow> state_io_rel P (ret x)"
  by (simp add: state_io_rel_def po_rel_def)

lemma io_gets [io_intros]: "po_rel P \<Longrightarrow> state_io_rel P (gets f)"
  by (simp add: state_io_rel_def po_rel_def)

lemma io_bind [io_intros]:
  assumes "po_rel P" "state_io_rel P m" "\<And>x. state_io_rel P (f x)"
  shows "state_io_rel P (State_Monad.bind m f)"
  using assms unfolding state_io_rel_def po_rel_def
  by (auto split: prod.splits) (metis snd_conv)

lemma io_if [io_intros]:
  "state_io_rel P m \<Longrightarrow> state_io_rel P n \<Longrightarrow> state_io_rel P (if b then m else n)"
  by simp

lemma io_sum [io_intros]:
  "(\<And>e. state_io_rel P (f e)) \<Longrightarrow> (\<And>v. state_io_rel P (g v)) \<Longrightarrow>
     state_io_rel P (case r of Inl e \<Rightarrow> f e | Inr v \<Rightarrow> g v)"
  by (cases r) auto

lemma io_option [io_intros]:
  "state_io_rel P m \<Longrightarrow> (\<And>v. state_io_rel P (g v)) \<Longrightarrow>
     state_io_rel P (case r of None \<Rightarrow> m | Some v \<Rightarrow> g v)"
  by (cases r) auto

lemma io_list [io_intros]:
  "state_io_rel P m \<Longrightarrow> (\<And>x xs. state_io_rel P (g x xs)) \<Longrightarrow>
     state_io_rel P (case r of [] \<Rightarrow> m | x # xs \<Rightarrow> g x xs)"
  by (cases r) auto

lemma io_prod [io_intros]:
  "(\<And>a b. state_io_rel P (f a b)) \<Longrightarrow> state_io_rel P (case r of (a, b) \<Rightarrow> f a b)"
  by (cases r) auto

lemma io_prod_app [io_intros]:
  "(\<And>a b. state_io_rel P (f a b c)) \<Longrightarrow> state_io_rel P ((case r of (a, b) \<Rightarrow> f a b) c)"
  by (cases r) auto

lemma io_bool [io_intros]:
  "state_io_rel P m \<Longrightarrow> state_io_rel P n \<Longrightarrow> state_io_rel P (case b of True \<Rightarrow> m | False \<Rightarrow> n)"
  by (cases b) auto

lemma io_let [io_intros]: "(\<And>x. state_io_rel P (f x)) \<Longrightarrow> state_io_rel P (let x = e in f x)"
  by (simp add: Let_def)

lemma io_on_ok [io_intros]:
  "po_rel P \<Longrightarrow> state_io_rel P m \<Longrightarrow> (\<And>v. state_io_rel P (f v)) \<Longrightarrow> state_io_rel P (on_ok m f)"
  unfolding on_ok_def by (intro io_intros)

lemma io_on_ok_map [io_intros]:
  "po_rel P \<Longrightarrow> state_io_rel P m \<Longrightarrow> (\<And>v. state_io_rel P (f v)) \<Longrightarrow>
     state_io_rel P (on_ok_map h m f)"
  unfolding on_ok_map_def by (intro io_intros)

lemma io_warn_if_err [io_intros]:
  "po_rel P \<Longrightarrow> state_io_rel P m \<Longrightarrow> state_io_rel P (warn_if_err m)"
  unfolding warn_if_err_def by (intro io_intros)

lemma io_for_each [io_intros]:
  "po_rel P \<Longrightarrow> (\<And>x. state_io_rel P (f x)) \<Longrightarrow> state_io_rel P (for_each xs f)"
  by (induction xs) (auto intro!: io_intros)

lemma io_for_acc [io_intros]:
  "po_rel P \<Longrightarrow> (\<And>x b. state_io_rel P (f x b)) \<Longrightarrow> state_io_rel P (for_acc xs b f)"
  by (induction xs arbitrary: b) (auto intro!: io_intros)

text \<open>An invariant is the special case of a relation that carries a predicate over.\<close>

definition carries :: "('s \<Rightarrow> bool) \<Rightarrow> 's \<Rightarrow> 's \<Rightarrow> bool" where
  "carries I s s' \<longleftrightarrow> (I s \<longrightarrow> I s')"

lemma po_rel_carries [simp, intro]: "po_rel (carries I)"
  by (auto simp: po_rel_def carries_def)

lemma io_carriesD: "state_io_rel (carries I) m \<Longrightarrow> I s \<Longrightarrow> I (snd (run_state m s))"
  by (auto simp: state_io_rel_def carries_def)

lemma po_rel_eq [simp, intro]: "po_rel (\<lambda>s s'. g s' = g s)"
  by (auto simp: po_rel_def)

lemma po_rel_conj [intro]: "po_rel P \<Longrightarrow> po_rel Q \<Longrightarrow> po_rel (\<lambda>s s'. P s s' \<and> Q s s')"
  by (auto simp: po_rel_def)

subsection \<open>Triples\<close>

named_theorems hoare_intros

definition hoare :: "('s \<Rightarrow> bool) \<Rightarrow> ('s, 'a) state \<Rightarrow> ('a \<Rightarrow> 's \<Rightarrow> bool) \<Rightarrow> bool" where
  "hoare P m Q \<longleftrightarrow> (\<forall>s. P s \<longrightarrow> (case run_state m s of (a, s') \<Rightarrow> Q a s'))"

lemma hoareI: "(\<And>s a s'. P s \<Longrightarrow> run_state m s = (a, s') \<Longrightarrow> Q a s') \<Longrightarrow> hoare P m Q"
  by (auto simp: hoare_def)

lemma hoareD: "hoare P m Q \<Longrightarrow> P s \<Longrightarrow> run_state m s = (a, s') \<Longrightarrow> Q a s'"
  by (auto simp: hoare_def)

lemma hoareD_snd: "hoare P m (\<lambda>_. Q) \<Longrightarrow> P s \<Longrightarrow> Q (snd (run_state m s))"
  by (cases "run_state m s") (auto simp: hoare_def)

lemma hoare_weaken: "hoare P m Q \<Longrightarrow> (\<And>s. P' s \<Longrightarrow> P s) \<Longrightarrow> hoare P' m Q"
  by (auto simp: hoare_def)

lemma hoare_post: "hoare P m Q \<Longrightarrow> (\<And>a s. Q a s \<Longrightarrow> Q' a s) \<Longrightarrow> hoare P m Q'"
  by (fastforce simp: hoare_def split: prod.splits)

lemma hoare_ret [hoare_intros]: "(\<And>s. P s \<Longrightarrow> Q x s) \<Longrightarrow> hoare P (ret x) Q"
  by (auto simp: hoare_def)

lemma hoare_bind [hoare_intros]:
  "hoare P m R \<Longrightarrow> (\<And>x. hoare (R x) (f x) Q) \<Longrightarrow> hoare P (State_Monad.bind m f) Q"
  by (fastforce simp: hoare_def split: prod.splits)

lemma hoare_if [hoare_intros]:
  "(b \<Longrightarrow> hoare P m Q) \<Longrightarrow> (\<not> b \<Longrightarrow> hoare P n Q) \<Longrightarrow> hoare P (if b then m else n) Q"
  by simp

lemma hoare_sum [hoare_intros]:
  "(\<And>e. r = Inl e \<Longrightarrow> hoare P (f e) Q) \<Longrightarrow> (\<And>v. r = Inr v \<Longrightarrow> hoare P (g v) Q) \<Longrightarrow>
     hoare P (case r of Inl e \<Rightarrow> f e | Inr v \<Rightarrow> g v) Q"
  by (cases r) auto

lemma hoare_option [hoare_intros]:
  "(r = None \<Longrightarrow> hoare P m Q) \<Longrightarrow> (\<And>v. r = Some v \<Longrightarrow> hoare P (g v) Q) \<Longrightarrow>
     hoare P (case r of None \<Rightarrow> m | Some v \<Rightarrow> g v) Q"
  by (cases r) auto

lemma hoare_list [hoare_intros]:
  "(r = [] \<Longrightarrow> hoare P m Q) \<Longrightarrow> (\<And>x xs. r = x # xs \<Longrightarrow> hoare P (g x xs) Q) \<Longrightarrow>
     hoare P (case r of [] \<Rightarrow> m | x # xs \<Rightarrow> g x xs) Q"
  by (cases r) auto

lemma hoare_prod [hoare_intros]:
  "(\<And>a b. r = (a, b) \<Longrightarrow> hoare P (f a b) Q) \<Longrightarrow> hoare P (case r of (a, b) \<Rightarrow> f a b) Q"
  by (cases r) auto

lemma hoare_bool [hoare_intros]:
  "(b \<Longrightarrow> hoare P m Q) \<Longrightarrow> (\<not> b \<Longrightarrow> hoare P n Q) \<Longrightarrow>
     hoare P (case b of True \<Rightarrow> m | False \<Rightarrow> n) Q"
  by (cases b) auto

lemma hoare_let [hoare_intros]:
  "(\<And>x. x = e \<Longrightarrow> hoare P (f x) Q) \<Longrightarrow> hoare P (let x = e in f x) Q"
  by (simp add: Let_def)

lemma hoare_on_ok [hoare_intros]:
  "hoare P m (\<lambda>r s. case r of Inl e \<Rightarrow> Q (Inl e) s | Inr v \<Rightarrow> R v s) \<Longrightarrow>
     (\<And>v. hoare (R v) (f v) Q) \<Longrightarrow> hoare P (on_ok m f) Q"
  by (fastforce simp: hoare_def split: prod.splits sum.splits)

lemma hoare_on_ok_map [hoare_intros]:
  "hoare P m (\<lambda>r s. case r of Inl e \<Rightarrow> Q (Inl (h e)) s | Inr v \<Rightarrow> R v s) \<Longrightarrow>
     (\<And>v. hoare (R v) (f v) Q) \<Longrightarrow> hoare P (on_ok_map h m f) Q"
  by (fastforce simp: hoare_def split: prod.splits sum.splits)

lemma hoare_warn_if_err [hoare_intros]:
  "hoare P m (\<lambda>_. Q ()) \<Longrightarrow> hoare P (warn_if_err m) Q"
  unfolding warn_if_err_def by (intro hoare_intros) auto

lemma hoare_for_each:
  assumes "\<And>x. x \<in> set xs \<Longrightarrow> hoare I (f x) (\<lambda>_. I)"
  shows "hoare I (for_each xs f) (\<lambda>_. I)"
  using assms by (induction xs) (auto intro!: hoare_intros)

lemma hoare_for_acc:
  assumes "\<And>x b. x \<in> set xs \<Longrightarrow> hoare (I b) (f x b) I"
  shows "hoare (I b) (for_acc xs b f) I"
  using assms by (induction xs arbitrary: b) (auto intro!: hoare_intros)

lemma hoare_carries: "state_io_rel (carries I) m \<Longrightarrow> hoare I m (\<lambda>_. I)"
  by (rule hoareI) (metis io_carriesD snd_conv)

subsection \<open>Lists\<close>

text \<open>
  Rows of a table are updated where a predicate holds, as an SQL \<open>UPDATE\<close> does.
\<close>

definition update_where :: "('a \<Rightarrow> bool) \<Rightarrow> ('a \<Rightarrow> 'a) \<Rightarrow> 'a list \<Rightarrow> 'a list" where
  "update_where p f xs = map (\<lambda>x. if p x then f x else x) xs"

lemma update_where_simps [simp]:
  "update_where p f [] = []"
  "update_where p f (x # xs) = (if p x then f x else x) # update_where p f xs"
  by (simp_all add: update_where_def)

lemma update_where_append [simp]:
  "update_where p f (xs @ ys) = update_where p f xs @ update_where p f ys"
  by (simp add: update_where_def)

lemma length_update_where [simp]: "length (update_where p f xs) = length xs"
  by (simp add: update_where_def)

lemma map_update_where [simp]:
  "(\<And>x. g (f x) = g x) \<Longrightarrow> map g (update_where p f xs) = map g xs"
  by (auto simp: update_where_def)

lemma set_update_where: "set (update_where p f xs) = (\<lambda>x. if p x then f x else x) ` set xs"
  by (simp add: update_where_def)

lemma update_where_none: "(\<And>x. x \<in> set xs \<Longrightarrow> \<not> p x) \<Longrightarrow> update_where p f xs = xs"
  by (induction xs) auto

lemma filter_update_where:
  "(\<And>x. q (f x) = q x) \<Longrightarrow> filter q (update_where p f xs) = update_where p f (filter q xs)"
  by (induction xs) auto

lemma sort_key_update_where:
  "(\<And>x. k (f x) = k x) \<Longrightarrow> sort_key k (update_where p f xs) = update_where p f (sort_key k xs)"
proof (induction xs)
  case (Cons x xs)
  have ins: "insort_key k (if p x then f x else x) (update_where p f ys) =
      update_where p f (insort_key k x ys)" for ys
    using Cons.prems by (induction ys) auto
  from Cons show ?case by (simp add: ins)
qed simp

lemma distinct_map_filter: "distinct (map f xs) \<Longrightarrow> distinct (map f (filter p xs))"
  by (induction xs) auto

text \<open>Inserting a row whose key is at least every key present appends it to the order.\<close>

lemma sort_key_snoc:
  assumes "\<And>y. y \<in> set xs \<Longrightarrow> k y \<le> k x"
  shows "sort_key k (xs @ [x]) = sort_key k xs @ [x]"
  using assms
proof (induction xs)
  case (Cons a xs)
  have "insort_key k a (ys @ [x]) = insort_key k a ys @ [x]" if "k a \<le> k x" for ys
    using that by (induction ys) auto
  with Cons show ?case by simp
qed simp

lemma find_None_filter: "List.find p xs = None \<longleftrightarrow> filter p xs = []"
  by (induction xs) auto

lemma find_SomeD: "List.find p xs = Some x \<Longrightarrow> x \<in> set xs \<and> p x"
  by (induction xs) (auto split: if_splits)

lemma find_Some_hd: "List.find p xs = Some x \<Longrightarrow> \<exists>ys. filter p xs = x # ys"
  by (induction xs) (auto split: if_splits)

lemma distinct_map_inj:
  "distinct (map f xs) \<Longrightarrow> x \<in> set xs \<Longrightarrow> y \<in> set xs \<Longrightarrow> f x = f y \<Longrightarrow> x = y"
  by (auto simp: distinct_map inj_on_def)

lemma filter_unique:
  assumes "distinct (map f xs)" "x \<in> set xs"
  shows "filter (\<lambda>y. f y = f x) xs = [x]"
  using assms by (induction xs) (auto simp: filter_empty_conv rev_image_eqI)

end
