(* ===== verification/Errors.thy ===== *)
theory Errors
  imports GoStrings
begin

text \<open>
  Go's \<open>error\<close> values as one datatype: the sentinel and struct errors the program tests for
  with \<open>errors.Is\<close>/\<open>errors.As\<close> (\<open>pgx.ErrNoRows\<close>, \<open>forge.ErrNotFastForward\<close>,
  \<open>*forge.PushDeniedError\<close>, \<open>*forge.UnknownForgeError\<close>, and the Gitea client's
  \<open>*APIError\<close>, \<open>*MergeConflictError\<close>, \<open>*NotFastForwardError\<close>,
  \<open>*ProtectedBranchError\<close>, the GitHub library's \<open>*ErrorResponse\<close>), database errors, plain texts, and \<open>fmt.Errorf\<close> with
  \<open>%w\<close>. \<open>error_chain\<close> is the sequence \<open>errors.Is\<close> and \<open>errors.As\<close> walk.
  \<open>OutOfFuel\<close> is not a Go error: it marks an exhausted fuel parameter of the model, and the
  batch theory proves that it never occurs.
\<close>

datatype error =
    ErrNoRows
  | PgError string
  | ErrNotFastForward
  | PushDeniedError string string
  | UnknownForgeError string
  | APIError int string
  | MergeConflictError string string string
  | NotFastForwardError string string
  | ProtectedBranchError string string
  | GitError string int string
  | GhErrorResponse string string "int option"
  | PlainError string
  | Wrap string error
  | Wrap2 string error string error
  | OutOfFuel

fun error_chain :: "error \<Rightarrow> error list" where
  "error_chain (Wrap p e) = Wrap p e # error_chain e"
| "error_chain (Wrap2 p e q f) = Wrap2 p e q f # error_chain e @ error_chain f"
| "error_chain e = [e]"

definition errors_is :: "error \<Rightarrow> error \<Rightarrow> bool" where
  "errors_is e target \<longleftrightarrow> target \<in> set (error_chain e)"

text \<open>\<open>errors.As\<close>: the first error of the chain a projection accepts.\<close>

fun first_some :: "('a \<Rightarrow> 'b option) \<Rightarrow> 'a list \<Rightarrow> 'b option" where
  "first_some f [] = None"
| "first_some f (x # xs) = (case f x of None \<Rightarrow> first_some f xs | Some y \<Rightarrow> Some y)"

definition errors_as :: "(error \<Rightarrow> 'b option) \<Rightarrow> error \<Rightarrow> 'b option" where
  "errors_as f e = first_some f (error_chain e)"

fun as_push_denied :: "error \<Rightarrow> (string \<times> string) option" where
  "as_push_denied (PushDeniedError b m) = Some (b, m)"
| "as_push_denied _ = None"

fun as_api_error :: "error \<Rightarrow> (int \<times> string) option" where
  "as_api_error (APIError s b) = Some (s, b)"
| "as_api_error _ = None"

fun as_merge_conflict :: "error \<Rightarrow> (string \<times> string \<times> string) option" where
  "as_merge_conflict (MergeConflictError b h m) = Some (b, h, m)"
| "as_merge_conflict _ = None"

fun as_not_fast_forward :: "error \<Rightarrow> (string \<times> string) option" where
  "as_not_fast_forward (NotFastForwardError b s) = Some (b, s)"
| "as_not_fast_forward _ = None"

fun as_protected_branch :: "error \<Rightarrow> (string \<times> string) option" where
  "as_protected_branch (ProtectedBranchError b m) = Some (b, m)"
| "as_protected_branch _ = None"

text \<open>A failed git process: the command, its exit status (\<open>-1\<close> when it did not exit), its output.\<close>

fun as_exit_error :: "error \<Rightarrow> int option" where
  "as_exit_error (GitError cmd code out) = Some code"
| "as_exit_error _ = None"

text \<open>A refused GitHub call: its text, its \<open>Message\<close>, and the status of its \<open>Response\<close> if there is one.\<close>

fun as_gh_error :: "error \<Rightarrow> (string \<times> int option) option" where
  "as_gh_error (GhErrorResponse text msg status) = Some (msg, status)"
| "as_gh_error _ = None"

text \<open>\<open>shortSHA\<close>: the first eight characters.\<close>

definition shortSHA :: "string \<Rightarrow> string" where
  "shortSHA s = (if length s > 8 then take 8 s else s)"

text \<open>The \<open>Error()\<close> methods.\<close>

fun error_text :: "error \<Rightarrow> string" where
  "error_text ErrNoRows = ''no rows in result set''"
| "error_text (PgError m) = m"
| "error_text ErrNotFastForward = ''forge: not a fast-forward''"
| "error_text (PushDeniedError b m) = ''forge: push to '' @ b @ '' denied: '' @ m"
| "error_text (UnknownForgeError k) =
     ''forge: no adapter registered for kind '' @ [CHR 0x22] @ k @ [CHR 0x22]"
| "error_text (APIError s b) = ''gitea API error (status '' @ show_int s @ ''): '' @ b"
| "error_text (MergeConflictError b h m) =
     ''merge conflict: cannot merge '' @ h @ '' into '' @ b @ '': '' @ m"
| "error_text (NotFastForwardError b s) =
     ''push '' @ shortSHA s @ '' to '' @ b @ '': non-fast-forward''"
| "error_text (ProtectedBranchError b m) =
     ''push to protected branch '' @ b @ '' denied: '' @ m"
| "error_text (GitError cmd code out) = ''git '' @ cmd @ '': exit status '' @ show_int code @ [CHR 0x0A] @ out"
| "error_text (GhErrorResponse text msg status) = text"
| "error_text (PlainError m) = m"
| "error_text (Wrap p e) = p @ '': '' @ error_text e"
| "error_text (Wrap2 p e q f) =
     p @ '' ('' @ error_text e @ ''), '' @ q @ '' ('' @ error_text f @ '')''"
| "error_text OutOfFuel = ''out of fuel''"

lemma errors_is_Wrap [simp]:
  "errors_is (Wrap p e) t \<longleftrightarrow> t = Wrap p e \<or> errors_is e t"
  by (auto simp: errors_is_def)

lemma errors_is_self [simp]: "errors_is e e"
  by (cases e) (auto simp: errors_is_def)

lemma length_shortSHA: "length (shortSHA s) \<le> 8"
  by (simp add: shortSHA_def)

end
