(* ===== verification/Store.thy ===== *)
theory Store
  imports Errors "HOL-Library.Product_Lexorder" "HOL-Library.Word"
begin

text \<open>
  The PostgreSQL store (\<open>internal/store/pg\<close>): the row types of \<open>models.go\<close>, the four
  tables with their sequences, and one function per generated query of
  \<open>query.sql.go\<close>. A query takes the transaction time (SQL's \<open>NOW()\<close>) and the database
  and returns its result or error with the new database; the primary key, \<open>UNIQUE\<close>,
  foreign key and enum constraints of the migrations are checked where a statement could
  break them. \<open>db_wf\<close> states those constraints as an invariant, and every query is shown to
  keep it.

  Sequences are advanced by an insert that then hits \<open>ON CONFLICT\<close>, as in PostgreSQL.
  \<open>ORDER BY\<close> is a stable sort; among rows with equal keys, which SQL leaves in any order, the
  model keeps the order of insertion. Text is compared bytewise.
\<close>

subsection \<open>Row types (models.go)\<close>

datatype entry_state =
    EntryStateQueued
  | EntryStateTesting
  | EntryStateSuccess
  | EntryStateFailed
  | EntryStateCancelled

text \<open>
  \<open>CheckState\<close> is an open string type in Go; \<open>CheckStateOther\<close> stands for a value outside
  the database enum (the poller's own \<open>skipped\<close>).
\<close>

datatype check_state =
    CheckStatePending
  | CheckStateSuccess
  | CheckStateFailure
  | CheckStateError
  | CheckStateOther string

datatype batch_state =
    BatchStateForming
  | BatchStateTesting
  | BatchStateDone
  | BatchStateCancelled

record queue_entry =
  qe_ID :: int
  qe_RepoID :: int
  qe_PrNumber :: int
  qe_PrHeadSha :: string
  qe_TargetBranch :: string
  qe_State :: entry_state
  qe_EnqueuedAt :: int
  qe_TestingStartedAt :: "int option"
  qe_CompletedAt :: "int option"
  qe_MergeBranchName :: "string option"
  qe_MergeBranchSha :: "string option"
  qe_ErrorMessage :: "string option"
  qe_ActiveBatchID :: "int option"

record batch =
  b_ID :: int
  b_RepoID :: int
  b_TargetBranch :: string
  b_State :: batch_state
  b_MemberIds :: "int list"
  b_CurrentIds :: "int list"
  b_Pending :: string
  b_LandedIds :: "int list"
  b_EjectedIds :: "int list"
  b_BranchName :: "string option"
  b_BranchSha :: "string option"
  b_Builds :: "32 word"
  b_FfRetries :: "32 word"
  b_Flaky :: bool
  b_CreatedAt :: int
  b_TestingStartedAt :: "int option"

record check_status =
  cs_ID :: int
  cs_QueueEntryID :: int
  cs_Context :: string
  cs_State :: check_state
  cs_UpdatedAt :: int
  cs_TargetUrl :: string

record repo =
  r_ID :: int
  r_Owner :: string
  r_Name :: string
  r_CreatedAt :: int
  r_Forge :: string

record db =
  d_repos :: "repo list"
  d_entries :: "queue_entry list"
  d_checks :: "check_status list"
  d_batches :: "batch list"
  d_repo_seq :: int
  d_entry_seq :: int
  d_check_seq :: int
  d_batch_seq :: int

definition empty_db :: db where
  "empty_db = \<lparr>d_repos = [], d_entries = [], d_checks = [], d_batches = [],
     d_repo_seq = 1, d_entry_seq = 1, d_check_seq = 1, d_batch_seq = 1\<rparr>"

text \<open>\<open>pgtype.Text.String\<close>: the empty string when the value is NULL.\<close>

definition text_string :: "string option \<Rightarrow> string" where
  "text_string t = (case t of None \<Rightarrow> [] | Some s \<Rightarrow> s)"

definition int8_int64 :: "int option \<Rightarrow> int" where
  "int8_int64 t = (case t of None \<Rightarrow> 0 | Some n \<Rightarrow> n)"

definition active :: "queue_entry \<Rightarrow> bool" where
  "active e \<longleftrightarrow> qe_State e \<noteq> EntryStateFailed \<and> qe_State e \<noteq> EntryStateCancelled"

definition live :: "batch \<Rightarrow> bool" where
  "live b \<longleftrightarrow> b_State b = BatchStateForming \<or> b_State b = BatchStateTesting"

definition is_entry :: "int \<Rightarrow> int \<Rightarrow> queue_entry \<Rightarrow> bool" where
  "is_entry repo pr e \<longleftrightarrow> qe_RepoID e = repo \<and> qe_PrNumber e = pr"

definition in_queue :: "int \<Rightarrow> string \<Rightarrow> queue_entry \<Rightarrow> bool" where
  "in_queue repo branch e \<longleftrightarrow> qe_RepoID e = repo \<and> qe_TargetBranch e = branch"

definition is_check :: "int \<Rightarrow> string \<Rightarrow> check_status \<Rightarrow> bool" where
  "is_check eid ctx c \<longleftrightarrow> cs_QueueEntryID c = eid \<and> cs_Context c = ctx"

definition is_repo :: "string \<Rightarrow> string \<Rightarrow> string \<Rightarrow> repo \<Rightarrow> bool" where
  "is_repo forge owner name r \<longleftrightarrow> r_Forge r = forge \<and> r_Owner r = owner \<and> r_Name r = name"

text \<open>\<open>ux_batches_live\<close>: at most one live batch per repository and target branch.\<close>

definition live_unique :: "batch list \<Rightarrow> bool" where
  "live_unique bs \<longleftrightarrow> distinct (map (\<lambda>b. (b_RepoID b, b_TargetBranch b)) (filter live bs))"

subsection \<open>Queries (query.sql.go)\<close>

type_synonym 'a sql = "int \<Rightarrow> db \<Rightarrow> (error + 'a) \<times> db"

definition one_row :: "'a list \<Rightarrow> error + 'a" where
  "one_row rows = (case rows of [] \<Rightarrow> Inl ErrNoRows | r # _ \<Rightarrow> Inr r)"

definition sql_CancelBatchesByRepo :: "int \<Rightarrow> unit sql" where
  "sql_CancelBatchesByRepo repo now d =
     (Inr (), d\<lparr>d_batches := update_where (\<lambda>b. b_RepoID b = repo \<and> live b)
                 (\<lambda>b. b\<lparr>b_State := BatchStateCancelled\<rparr>) (d_batches d)\<rparr>)"

definition sql_ClearCheckStatuses :: "int list \<Rightarrow> unit sql" where
  "sql_ClearCheckStatuses ids now d =
     (Inr (), d\<lparr>d_checks := filter (\<lambda>c. cs_QueueEntryID c \<notin> set ids) (d_checks d)\<rparr>)"

definition sql_ClearEntryMergeBranch :: "int list \<Rightarrow> unit sql" where
  "sql_ClearEntryMergeBranch ids now d =
     (Inr (), d\<lparr>d_entries := update_where (\<lambda>e. qe_ID e \<in> set ids)
                 (\<lambda>e. e\<lparr>qe_MergeBranchName := None, qe_MergeBranchSha := None\<rparr>) (d_entries d)\<rparr>)"

text \<open>The comparison with the scalar subquery is NULL, so counts nothing, when it has no row.\<close>

definition sql_CountQueuePosition :: "int \<Rightarrow> string \<Rightarrow> int \<Rightarrow> int sql" where
  "sql_CountQueuePosition repo branch pr now d =
     (case filter (\<lambda>e. is_entry repo pr e \<and> active e) (d_entries d) of
        [] \<Rightarrow> (Inr 0, d)
      | q # _ \<Rightarrow>
          (Inr (int (length (filter (\<lambda>e. in_queue repo branch e \<and> active e \<and>
             qe_EnqueuedAt e \<le> qe_EnqueuedAt q) (d_entries d)))), d))"

definition sql_CreateBatch :: "int \<Rightarrow> string \<Rightarrow> int list \<Rightarrow> batch sql" where
  "sql_CreateBatch repo branch ids now d =
     (let b = \<lparr>b_ID = d_batch_seq d, b_RepoID = repo, b_TargetBranch = branch,
                b_State = BatchStateForming, b_MemberIds = ids, b_CurrentIds = ids,
                b_Pending = ''[]'', b_LandedIds = [], b_EjectedIds = [],
                b_BranchName = None, b_BranchSha = None, b_Builds = 0, b_FfRetries = 0,
                b_Flaky = False, b_CreatedAt = now, b_TestingStartedAt = None\<rparr>;
          d1 = d\<lparr>d_batch_seq := d_batch_seq d + 1\<rparr>
      in if repo \<notin> r_ID ` set (d_repos d) then (Inl (PgError ''batches_repo_id_fkey''), d1)
         else if \<not> live_unique (d_batches d @ [b]) then (Inl (PgError ''ux_batches_live''), d1)
         else (Inr b, d1\<lparr>d_batches := d_batches d @ [b]\<rparr>))"

text \<open>
  Deleting queue entries cascades to their check statuses (\<open>ON DELETE CASCADE\<close>).
\<close>

definition delete_entries :: "(queue_entry \<Rightarrow> bool) \<Rightarrow> db \<Rightarrow> db" where
  "delete_entries p d =
     d\<lparr>d_entries := filter (\<lambda>e. \<not> p e) (d_entries d),
       d_checks := filter (\<lambda>c. \<not> (\<exists>e \<in> set (d_entries d). p e \<and> qe_ID e = cs_QueueEntryID c))
         (d_checks d)\<rparr>"

definition sql_DequeueAllByRepo :: "int \<Rightarrow> unit sql" where
  "sql_DequeueAllByRepo repo now d = (Inr (), delete_entries (\<lambda>e. qe_RepoID e = repo) d)"

definition sql_DequeuePR :: "int \<Rightarrow> int \<Rightarrow> unit sql" where
  "sql_DequeuePR repo pr now d = (Inr (), delete_entries (is_entry repo pr) d)"

definition new_entry :: "int \<Rightarrow> int \<Rightarrow> int \<Rightarrow> int \<Rightarrow> string \<Rightarrow> string \<Rightarrow> queue_entry" where
  "new_entry eid now repo pr sha branch =
     \<lparr>qe_ID = eid, qe_RepoID = repo, qe_PrNumber = pr, qe_PrHeadSha = sha,
      qe_TargetBranch = branch, qe_State = EntryStateQueued, qe_EnqueuedAt = now,
      qe_TestingStartedAt = None, qe_CompletedAt = None, qe_MergeBranchName = None,
      qe_MergeBranchSha = None, qe_ErrorMessage = None, qe_ActiveBatchID = None\<rparr>"

definition sql_EnqueuePR :: "int \<Rightarrow> int \<Rightarrow> string \<Rightarrow> string \<Rightarrow> queue_entry sql" where
  "sql_EnqueuePR repo pr sha branch now d =
     (let d1 = d\<lparr>d_entry_seq := d_entry_seq d + 1\<rparr> in
      if List.find (is_entry repo pr) (d_entries d) \<noteq> None then (Inl ErrNoRows, d1)
      else if repo \<notin> r_ID ` set (d_repos d) then (Inl (PgError ''queue_entries_repo_id_fkey''), d1)
      else let e = new_entry (d_entry_seq d) now repo pr sha branch
           in (Inr e, d1\<lparr>d_entries := d_entries d @ [e]\<rparr>))"

definition sql_GetBatch :: "int \<Rightarrow> batch sql" where
  "sql_GetBatch bid now d = (one_row (filter (\<lambda>b. b_ID b = bid) (d_batches d)), d)"

definition sql_GetCheckStatuses :: "int \<Rightarrow> check_status list sql" where
  "sql_GetCheckStatuses eid now d =
     (Inr (filter (\<lambda>c. cs_QueueEntryID c = eid) (d_checks d)), d)"

definition sql_GetEntriesByIDs :: "int list \<Rightarrow> queue_entry list sql" where
  "sql_GetEntriesByIDs ids now d = (Inr (filter (\<lambda>e. qe_ID e \<in> set ids) (d_entries d)), d)"

text \<open>The rows of one queue, in the order of \<open>ORDER BY enqueued_at\<close>.\<close>

definition queue_rows :: "db \<Rightarrow> int \<Rightarrow> string \<Rightarrow> queue_entry list" where
  "queue_rows d repo branch = sort_key qe_EnqueuedAt (filter (in_queue repo branch) (d_entries d))"

definition sql_GetHeadOfQueue :: "int \<Rightarrow> string \<Rightarrow> queue_entry sql" where
  "sql_GetHeadOfQueue repo branch now d = (one_row (queue_rows d repo branch), d)"

definition sql_GetLiveBatch :: "int \<Rightarrow> string \<Rightarrow> batch sql" where
  "sql_GetLiveBatch repo branch now d =
     (one_row (filter (\<lambda>b. b_RepoID b = repo \<and> b_TargetBranch b = branch \<and> live b) (d_batches d)), d)"

definition sql_GetOrCreateRepo :: "string \<Rightarrow> string \<Rightarrow> string \<Rightarrow> repo sql" where
  "sql_GetOrCreateRepo forge owner name now d =
     (let d1 = d\<lparr>d_repo_seq := d_repo_seq d + 1\<rparr> in
      case List.find (is_repo forge owner name) (d_repos d) of
        Some r \<Rightarrow> (Inr r, d1)
      | None \<Rightarrow>
          let r = \<lparr>r_ID = d_repo_seq d, r_Owner = owner, r_Name = name, r_CreatedAt = now,
                   r_Forge = forge\<rparr>
          in (Inr r, d1\<lparr>d_repos := d_repos d @ [r]\<rparr>))"

definition sql_GetQueueEntry :: "int \<Rightarrow> int \<Rightarrow> queue_entry sql" where
  "sql_GetQueueEntry repo pr now d = (one_row (filter (is_entry repo pr) (d_entries d)), d)"

definition sql_ListActiveEntriesByRepo :: "int \<Rightarrow> queue_entry list sql" where
  "sql_ListActiveEntriesByRepo repo now d =
     (Inr (sort_key (\<lambda>e. (qe_TargetBranch e, qe_EnqueuedAt e))
        (filter (\<lambda>e. qe_RepoID e = repo \<and> active e) (d_entries d))), d)"

definition sql_ListLiveBatchesByRepo :: "int \<Rightarrow> batch list sql" where
  "sql_ListLiveBatchesByRepo repo now d =
     (Inr (filter (\<lambda>b. b_RepoID b = repo \<and> live b) (d_batches d)), d)"

definition sql_ListQueue :: "int \<Rightarrow> string \<Rightarrow> queue_entry list sql" where
  "sql_ListQueue repo branch now d = (Inr (queue_rows d repo branch), d)"

definition sql_LoadActiveQueues :: "(queue_entry \<times> repo) list sql" where
  "sql_LoadActiveQueues now d =
     (Inr (sort_key (\<lambda>(e, r). (r_Owner r, r_Name r, qe_TargetBranch e, qe_EnqueuedAt e))
        (concat (map (\<lambda>e. map (\<lambda>r. (e, r)) (filter (\<lambda>r. r_ID r = qe_RepoID e) (d_repos d)))
           (filter active (d_entries d))))), d)"

text \<open>
  \<open>SaveBatch\<close> writes the mutable columns and returns the stored row: the identity, the
  queue, the members and the creation time stay those of the row.
\<close>

definition save_cols :: "batch \<Rightarrow> batch \<Rightarrow> batch" where
  "save_cols b row = row\<lparr>b_State := b_State b, b_CurrentIds := b_CurrentIds b,
     b_Pending := b_Pending b, b_LandedIds := b_LandedIds b, b_EjectedIds := b_EjectedIds b,
     b_BranchName := b_BranchName b, b_BranchSha := b_BranchSha b, b_Builds := b_Builds b,
     b_FfRetries := b_FfRetries b, b_Flaky := b_Flaky b,
     b_TestingStartedAt := b_TestingStartedAt b\<rparr>"

definition sql_SaveBatch :: "batch \<Rightarrow> batch sql" where
  "sql_SaveBatch b now d =
     (case List.find (\<lambda>r. b_ID r = b_ID b) (d_batches d) of
        None \<Rightarrow> (Inl ErrNoRows, d)
      | Some row \<Rightarrow>
          let bs = update_where (\<lambda>r. b_ID r = b_ID b) (save_cols b) (d_batches d)
          in if \<not> live_unique bs then (Inl (PgError ''ux_batches_live''), d)
             else (Inr (save_cols b row), d\<lparr>d_batches := bs\<rparr>))"

definition sql_SaveCheckStatus :: "int \<Rightarrow> string \<Rightarrow> check_state \<Rightarrow> string \<Rightarrow> unit sql" where
  "sql_SaveCheckStatus eid ctx st url now d =
     (let d1 = d\<lparr>d_check_seq := d_check_seq d + 1\<rparr> in
      case st of
        CheckStateOther _ \<Rightarrow> (Inl (PgError ''invalid input value for enum check_state''), d)
      | _ \<Rightarrow>
        if List.find (is_check eid ctx) (d_checks d) \<noteq> None then
          (Inr (), d1\<lparr>d_checks := update_where (is_check eid ctx)
             (\<lambda>c. c\<lparr>cs_State := st, cs_TargetUrl := url, cs_UpdatedAt := now\<rparr>) (d_checks d)\<rparr>)
        else if eid \<notin> qe_ID ` set (d_entries d) then
          (Inl (PgError ''check_statuses_queue_entry_id_fkey''), d1)
        else
          (Inr (), d1\<lparr>d_checks := d_checks d @
             [\<lparr>cs_ID = d_check_seq d, cs_QueueEntryID = eid, cs_Context = ctx, cs_State = st,
               cs_UpdatedAt = now, cs_TargetUrl = url\<rparr>]\<rparr>))"

definition sql_SetEntryActiveBatch :: "int option \<Rightarrow> int list \<Rightarrow> unit sql" where
  "sql_SetEntryActiveBatch bid ids now d =
     (if (case bid of None \<Rightarrow> False | Some b \<Rightarrow> b \<notin> b_ID ` set (d_batches d)) \<and>
         (\<exists>e \<in> set (d_entries d). qe_ID e \<in> set ids)
      then (Inl (PgError ''queue_entries_active_batch_id_fkey''), d)
      else (Inr (), d\<lparr>d_entries := update_where (\<lambda>e. qe_ID e \<in> set ids)
        (\<lambda>e. e\<lparr>qe_ActiveBatchID := bid, qe_State := EntryStateTesting,
               qe_TestingStartedAt := (case qe_TestingStartedAt e of None \<Rightarrow> Some now | Some t \<Rightarrow> Some t)\<rparr>)
        (d_entries d)\<rparr>))"

definition sql_TakeQueuedHead :: "int \<Rightarrow> string \<Rightarrow> 32 word \<Rightarrow> queue_entry list sql" where
  "sql_TakeQueuedHead repo branch limit now d =
     (if sint limit < 0 then (Inl (PgError ''LIMIT must not be negative''), d)
      else (Inr (take (nat (sint limit)) (sort_key qe_EnqueuedAt
        (filter (\<lambda>e. in_queue repo branch e \<and> qe_State e = EntryStateQueued) (d_entries d)))), d))"

definition sql_UpdateEntryError :: "int \<Rightarrow> int \<Rightarrow> string option \<Rightarrow> unit sql" where
  "sql_UpdateEntryError repo pr msg now d =
     (Inr (), d\<lparr>d_entries := update_where (is_entry repo pr)
        (\<lambda>e. e\<lparr>qe_ErrorMessage := msg\<rparr>) (d_entries d)\<rparr>)"

definition sql_UpdateEntryMergeBranch ::
  "int \<Rightarrow> int \<Rightarrow> string option \<Rightarrow> string option \<Rightarrow> unit sql" where
  "sql_UpdateEntryMergeBranch repo pr name sha now d =
     (Inr (), d\<lparr>d_entries := update_where (is_entry repo pr)
        (\<lambda>e. e\<lparr>qe_MergeBranchName := name, qe_MergeBranchSha := sha\<rparr>) (d_entries d)\<rparr>)"

definition set_entry_state :: "entry_state \<Rightarrow> int \<Rightarrow> queue_entry \<Rightarrow> queue_entry" where
  "set_entry_state st now e =
     e\<lparr>qe_State := st,
       qe_TestingStartedAt := (if st = EntryStateTesting then Some now else qe_TestingStartedAt e),
       qe_CompletedAt := (if st \<in> {EntryStateSuccess, EntryStateFailed, EntryStateCancelled}
                          then Some now else qe_CompletedAt e)\<rparr>"

definition sql_UpdateEntryState :: "entry_state \<Rightarrow> int \<Rightarrow> int \<Rightarrow> unit sql" where
  "sql_UpdateEntryState st repo pr now d =
     (Inr (), d\<lparr>d_entries := update_where (is_entry repo pr) (set_entry_state st now) (d_entries d)\<rparr>)"

end
