(* ===== verification/Forge.thy ===== *)
theory Forge
  imports Store "HOL-Library.State_Monad"
begin

text \<open>
  \<open>internal/forge\<close>: repository references, check states, the records the forge interface
  exchanges, the interface itself and the adapter registry \<open>Set\<close>. The interface
  \<open>Forge\<close> is the record \<open>'f forge\<close> of state-monad operations over a forge state
  \<open>'f\<close>: whatever a hosting forge does is a parameter of everything built on it. A Go map
  \<open>map[string]Check\<close> is an association list in the order in which the run happens to iterate
  it.
\<close>

subsection \<open>Kinds, contexts and references\<close>

definition KindGitea :: string where
  "KindGitea = ''gitea''"

definition KindGithub :: string where
  "KindGithub = ''github''"

definition MQContext :: string where
  "MQContext = ''gitea-mq''"

definition MirrorContextPrefix :: string where
  "MirrorContextPrefix = MQContext @ ''/''"

definition IsOwnContext :: "string \<Rightarrow> bool" where
  "IsOwnContext ctx \<longleftrightarrow> ctx = MQContext \<or> has_prefix ctx MirrorContextPrefix"

definition DashboardPRURL :: "string \<Rightarrow> string \<Rightarrow> string \<Rightarrow> string \<Rightarrow> int \<Rightarrow> string" where
  "DashboardPRURL base kind owner name n =
     trim_right CHR ''/'' base @ ''/repo/'' @ kind @ ''/'' @ owner @ ''/'' @ name @ ''/pr/'' @ show_int n"

definition Kind_Valid :: "string \<Rightarrow> bool" where
  "Kind_Valid k \<longleftrightarrow> k = KindGitea \<or> k = KindGithub"

record repo_ref =
  rr_Forge :: string
  rr_Owner :: string
  rr_Name :: string

definition RepoRef_String :: "repo_ref \<Rightarrow> string" where
  "RepoRef_String r = rr_Forge r @ '':'' @ rr_Owner r @ ''/'' @ rr_Name r"

definition ParseRepoRef :: "string \<Rightarrow> repo_ref option" where
  "ParseRepoRef s =
     (case cut '':'' s of
        None \<Rightarrow> None
      | Some (forge, rest) \<Rightarrow>
          if \<not> Kind_Valid forge then None
          else (case cut ''/'' rest of
                  None \<Rightarrow> None
                | Some (owner, name) \<Rightarrow>
                    if owner = [] \<or> name = [] then None
                    else Some \<lparr>rr_Forge = forge, rr_Owner = owner, rr_Name = name\<rparr>))"

subsection \<open>Pull requests, statuses and checks\<close>

record PR =
  pr_Number :: int
  pr_Title :: string
  pr_State :: string
  pr_Merged :: bool
  pr_AuthorLogin :: string
  pr_HeadBranch :: string
  pr_HeadSHA :: string
  pr_BaseBranch :: string
  pr_HTMLURL :: string
  pr_AutoMergeEnabled :: bool

record MQStatus =
  mq_State :: check_state
  mq_Description :: string
  mq_TargetURL :: string

record Check =
  ck_State :: check_state
  ck_Description :: string
  ck_TargetURL :: string

definition ParseCheckState :: "string \<Rightarrow> check_state" where
  "ParseCheckState s =
     (if s \<in> {''success'', ''warning'', ''skipped''} then CheckStateSuccess
      else if s = ''failure'' then CheckStateFailure
      else if s = ''error'' then CheckStateError
      else CheckStatePending)"

record SetupConfig =
  sc_ExternalURL :: string
  sc_WebhookSecret :: string

datatype MergeStep = MergeStep (ms_Conflict: bool) (ms_Err: "error option")

subsection \<open>The interface\<close>

record 'f forge =
  f_Kind :: string
  f_StatusWebhook :: bool
  f_RepoHTMLURL :: "string \<Rightarrow> string \<Rightarrow> string"
  f_BranchHTMLURL :: "string \<Rightarrow> string \<Rightarrow> string \<Rightarrow> string"
  f_ListOpenPRs :: "string \<Rightarrow> string \<Rightarrow> ('f, error + PR list) state"
  f_GetPR :: "string \<Rightarrow> string \<Rightarrow> int \<Rightarrow> ('f, error + PR) state"
  f_SetMQStatus :: "string \<Rightarrow> string \<Rightarrow> string \<Rightarrow> MQStatus \<Rightarrow> ('f, error + unit) state"
  f_MirrorCheck :: "string \<Rightarrow> string \<Rightarrow> string \<Rightarrow> string \<Rightarrow> Check \<Rightarrow> ('f, error + unit) state"
  f_GetRequiredChecks :: "string \<Rightarrow> string \<Rightarrow> string \<Rightarrow> ('f, error + string list) state"
  f_GetCheckStates :: "string \<Rightarrow> string \<Rightarrow> string \<Rightarrow> ('f, error + (string \<times> Check) list) state"
  f_CreateMergeBranch ::
    "string \<Rightarrow> string \<Rightarrow> string \<Rightarrow> string \<Rightarrow> string \<Rightarrow> ('f, error + (string \<times> bool)) state"
  f_DeleteBranch :: "string \<Rightarrow> string \<Rightarrow> string \<Rightarrow> ('f, error + unit) state"
  f_ListBranches :: "string \<Rightarrow> string \<Rightarrow> ('f, error + string list) state"
  f_IsUpToDate :: "string \<Rightarrow> string \<Rightarrow> string \<Rightarrow> string \<Rightarrow> ('f, error + bool) state"
  f_CancelAutoMerge :: "string \<Rightarrow> string \<Rightarrow> int \<Rightarrow> ('f, error + unit) state"
  f_Comment :: "string \<Rightarrow> string \<Rightarrow> int \<Rightarrow> string \<Rightarrow> ('f, error + unit) state"
  f_EnsureRepoSetup :: "string \<Rightarrow> string \<Rightarrow> SetupConfig \<Rightarrow> ('f, error + unit) state"
  f_MergeInto ::
    "string \<Rightarrow> string \<Rightarrow> string \<Rightarrow> string \<Rightarrow> ('f, error + (string \<times> bool)) state"
  f_FastForward :: "string \<Rightarrow> string \<Rightarrow> string \<Rightarrow> string \<Rightarrow> ('f, error + unit) state"
  f_ClosePR :: "string \<Rightarrow> string \<Rightarrow> int \<Rightarrow> ('f, error + unit) state"
  f_StackMerges ::
    "(string \<Rightarrow> string \<Rightarrow> string \<Rightarrow> string list \<Rightarrow> string \<Rightarrow>
       ('f, error + (string \<times> MergeStep list)) state) option"

text \<open>\<open>Set\<close>: adapters by kind.\<close>

type_synonym 'f forge_set = "(string \<times> 'f forge) list"

definition NewSet :: "'f forge_set" where
  "NewSet = []"

definition Register :: "'f forge \<Rightarrow> 'f forge_set \<Rightarrow> 'f forge_set" where
  "Register f s = (f_Kind f, f) # filter (\<lambda>(k, _). k \<noteq> f_Kind f) s"

definition Set_For :: "'f forge_set \<Rightarrow> repo_ref \<Rightarrow> error + 'f forge" where
  "Set_For s ref =
     (case map_of s (rr_Forge ref) of None \<Rightarrow> Inl (UnknownForgeError (rr_Forge ref)) | Some f \<Rightarrow> Inr f)"

definition Set_Kinds :: "'f forge_set \<Rightarrow> string list" where
  "Set_Kinds s = map fst s"

subsection \<open>Laws\<close>

lemma IsOwnContext_mirror [simp]: "IsOwnContext (MirrorContextPrefix @ c)"
  by (simp add: IsOwnContext_def)

lemma Kind_Valid_kinds [simp]: "Kind_Valid KindGitea" "Kind_Valid KindGithub"
  by (simp_all add: Kind_Valid_def)

lemma Kind_Valid_chars: "Kind_Valid k \<Longrightarrow> CHR '':'' \<notin> set k"
  by (auto simp: Kind_Valid_def KindGitea_def KindGithub_def)

text \<open>
  A reference is printable when its kind is known, its owner is a nonempty string without a
  slash and its name is not empty: exactly the references that survive a round trip.
\<close>

definition ref_ok :: "repo_ref \<Rightarrow> bool" where
  "ref_ok r \<longleftrightarrow> Kind_Valid (rr_Forge r) \<and> rr_Owner r \<noteq> [] \<and> CHR ''/'' \<notin> set (rr_Owner r) \<and>
     rr_Name r \<noteq> []"

lemma ParseRepoRef_String: "ref_ok r \<Longrightarrow> ParseRepoRef (RepoRef_String r) = Some r"
  by (cases r)
    (simp add: ref_ok_def ParseRepoRef_def RepoRef_String_def cut_first Kind_Valid_chars)

lemma ParseRepoRef_sound:
  assumes "ParseRepoRef s = Some r"
  shows "ref_ok r \<and> RepoRef_String r = s"
proof -
  from assms obtain forge rest ow nm where
      c: "cut '':'' s = Some (forge, rest)" "cut [CHR ''/''] rest = Some (ow, nm)"
    and ok: "Kind_Valid forge" "ow \<noteq> []" "nm \<noteq> []"
    and r: "r = \<lparr>rr_Forge = forge, rr_Owner = ow, rr_Name = nm\<rparr>"
    by (auto simp: ParseRepoRef_def split: option.splits prod.splits if_splits)
  from cut_Some[OF c(1)] cut_Some[OF c(2)] cut_Some_first[OF c(2)] ok show ?thesis
    by (simp add: r ref_ok_def RepoRef_String_def)
qed

lemma ParseCheckState_enum: "ParseCheckState s \<noteq> CheckStateOther t"
  by (simp add: ParseCheckState_def)

lemma Set_For_Register:
  "Set_For (Register f s) ref =
     (if rr_Forge ref = f_Kind f then Inr f else Set_For s ref)"
proof -
  have "map_of (filter (\<lambda>(k, _). k \<noteq> f_Kind f) s) k' = map_of s k'" if "k' \<noteq> f_Kind f" for k'
    using that by (induction s) auto
  then show ?thesis by (auto simp: Set_For_def Register_def)
qed

lemma Set_Kinds_Register: "distinct (Set_Kinds s) \<Longrightarrow> distinct (Set_Kinds (Register f s))"
  by (auto simp: Set_Kinds_def Register_def distinct_map_filter)

end
