(* ===== verification/StoreInv.thy ===== *)
theory StoreInv
  imports Store
begin

text \<open>
  The constraints of the migrations as an invariant of the store, and the proof that every
  query of \<open>Store\<close> keeps it: primary keys are unique and below their sequence, the
  \<open>UNIQUE\<close> keys are unique, foreign keys point at existing rows, and no queue has two live
  batches. \<open>keeps_wf q\<close> says it of one query; the collection \<open>wf_sql\<close> holds the facts, one
  per query.
\<close>

definition repos_wf :: "db \<Rightarrow> bool" where
  "repos_wf d \<longleftrightarrow> distinct (map r_ID (d_repos d)) \<and>
     distinct (map (\<lambda>r. (r_Forge r, r_Owner r, r_Name r)) (d_repos d)) \<and>
     (\<forall>r \<in> set (d_repos d). 0 < r_ID r \<and> r_ID r < d_repo_seq d) \<and> 0 < d_repo_seq d"

definition entry_key :: "queue_entry \<Rightarrow> int \<times> int" where
  "entry_key e = (qe_RepoID e, qe_PrNumber e)"

definition entries_wf :: "db \<Rightarrow> bool" where
  "entries_wf d \<longleftrightarrow> distinct (map qe_ID (d_entries d)) \<and> distinct (map entry_key (d_entries d)) \<and>
     (\<forall>e \<in> set (d_entries d). 0 < qe_ID e \<and> qe_ID e < d_entry_seq d \<and>
        qe_RepoID e \<in> r_ID ` set (d_repos d) \<and>
        set_option (qe_ActiveBatchID e) \<subseteq> b_ID ` set (d_batches d)) \<and>
     0 < d_entry_seq d"

definition checks_wf :: "db \<Rightarrow> bool" where
  "checks_wf d \<longleftrightarrow> distinct (map cs_ID (d_checks d)) \<and>
     distinct (map (\<lambda>c. (cs_QueueEntryID c, cs_Context c)) (d_checks d)) \<and>
     (\<forall>c \<in> set (d_checks d). cs_ID c < d_check_seq d \<and>
        cs_QueueEntryID c \<in> qe_ID ` set (d_entries d))"

definition batches_wf :: "db \<Rightarrow> bool" where
  "batches_wf d \<longleftrightarrow> distinct (map b_ID (d_batches d)) \<and> live_unique (d_batches d) \<and>
     (\<forall>b \<in> set (d_batches d). 0 < b_ID b \<and> b_ID b < d_batch_seq d \<and>
        b_RepoID b \<in> r_ID ` set (d_repos d)) \<and> 0 < d_batch_seq d"

definition db_wf :: "db \<Rightarrow> bool" where
  "db_wf d \<longleftrightarrow> repos_wf d \<and> entries_wf d \<and> checks_wf d \<and> batches_wf d"

lemmas db_wf_defs = db_wf_def repos_wf_def entries_wf_def checks_wf_def batches_wf_def

definition keeps_wf :: "'a sql \<Rightarrow> bool" where
  "keeps_wf q \<longleftrightarrow> (\<forall>now d. db_wf d \<longrightarrow> db_wf (snd (q now d)))"

named_theorems wf_sql

lemma keeps_wfI: "(\<And>now d. db_wf d \<Longrightarrow> db_wf (snd (q now d))) \<Longrightarrow> keeps_wf q"
  by (simp add: keeps_wf_def)

lemma keeps_wfD: "keeps_wf q \<Longrightarrow> db_wf d \<Longrightarrow> db_wf (snd (q now d))"
  by (simp add: keeps_wf_def)

lemma db_wf_empty: "db_wf empty_db"
  by (simp add: db_wf_defs empty_db_def live_unique_def)

subsection \<open>Building blocks\<close>

text \<open>
  Updating columns of queue entries other than the keys, and setting the batch reference to
  an existing batch.
\<close>

lemma db_wf_update_entries:
  assumes wf: "db_wf d"
    and keys: "\<And>e. qe_ID (f e) = qe_ID e" "\<And>e. qe_RepoID (f e) = qe_RepoID e"
      "\<And>e. qe_PrNumber (f e) = qe_PrNumber e"
    and ref: "\<And>e. e \<in> set (d_entries d) \<Longrightarrow> p e \<Longrightarrow> qe_ActiveBatchID (f e) = qe_ActiveBatchID e \<or>
      set_option (qe_ActiveBatchID (f e)) \<subseteq> b_ID ` set (d_batches d)"
  shows "db_wf (d\<lparr>d_entries := update_where p f (d_entries d)\<rparr>)"
proof -
  let ?es = "update_where p f (d_entries d)"
  have ids: "map qe_ID ?es = map qe_ID (d_entries d)"
    and ks: "map entry_key ?es = map entry_key (d_entries d)"
    by (simp_all add: keys entry_key_def)
  then have idset: "qe_ID ` set ?es = qe_ID ` set (d_entries d)"
    by (metis list.set_map)
  have "set_option (qe_ActiveBatchID (f e)) \<subseteq> b_ID ` set (d_batches d)"
    if "e \<in> set (d_entries d)" "p e" for e
    using ref[OF that] wf that(1) by (auto simp: db_wf_def entries_wf_def)
  then have "\<forall>e \<in> set ?es. 0 < qe_ID e \<and> qe_ID e < d_entry_seq d \<and>
      qe_RepoID e \<in> r_ID ` set (d_repos d) \<and>
      set_option (qe_ActiveBatchID e) \<subseteq> b_ID ` set (d_batches d)"
    using wf unfolding db_wf_def entries_wf_def
    by (auto simp: keys set_update_where simp del: subset_image_iff)
  with wf have "entries_wf (d\<lparr>d_entries := ?es\<rparr>)"
    by (simp add: ids ks db_wf_def entries_wf_def)
  then show ?thesis
    using wf by (auto simp: db_wf_def repos_wf_def checks_wf_def batches_wf_def idset)
qed

lemma db_wf_delete_entries: "db_wf d \<Longrightarrow> db_wf (delete_entries p d)"
proof -
  assume wf: "db_wf d"
  have "cs_QueueEntryID c \<in> qe_ID ` set (d_entries (delete_entries p d))"
    if c: "c \<in> set (d_checks (delete_entries p d))" for c
  proof -
    from c wf obtain e where e: "e \<in> set (d_entries d)" "qe_ID e = cs_QueueEntryID c"
      by (auto simp: db_wf_def checks_wf_def delete_entries_def)
    with c have "\<not> p e" by (auto simp: delete_entries_def)
    with e show ?thesis by (auto simp: delete_entries_def intro!: rev_image_eqI)
  qed
  then have "checks_wf (delete_entries p d)"
    using wf by (auto simp: db_wf_def checks_wf_def delete_entries_def distinct_map_filter)
  then show ?thesis
    using wf by (auto simp: db_wf_def repos_wf_def entries_wf_def batches_wf_def
        delete_entries_def distinct_map_filter)
qed

lemma db_wf_seq:
  "db_wf d \<Longrightarrow> db_wf (d\<lparr>d_entry_seq := d_entry_seq d + 1\<rparr>)"
  "db_wf d \<Longrightarrow> db_wf (d\<lparr>d_batch_seq := d_batch_seq d + 1\<rparr>)"
  "db_wf d \<Longrightarrow> db_wf (d\<lparr>d_check_seq := d_check_seq d + 1\<rparr>)"
  "db_wf d \<Longrightarrow> db_wf (d\<lparr>d_repo_seq := d_repo_seq d + 1\<rparr>)"
  unfolding db_wf_defs by (force intro: less_trans[OF _ zless_add1_eq[THEN iffD2]])+

text \<open>Rows keep their identity when the columns of a batch change.\<close>

lemma db_wf_update_batches:
  assumes wf: "db_wf d"
    and keys: "\<And>b. b_ID (f b) = b_ID b" "\<And>b. b_RepoID (f b) = b_RepoID b"
    and uniq: "live_unique (update_where p f (d_batches d))"
  shows "db_wf (d\<lparr>d_batches := update_where p f (d_batches d)\<rparr>)"
proof -
  let ?bs = "update_where p f (d_batches d)"
  have ids: "map b_ID ?bs = map b_ID (d_batches d)" by (simp add: keys)
  then have idset: "b_ID ` set ?bs = b_ID ` set (d_batches d)"
    by (metis list.set_map)
  have "batches_wf (d\<lparr>d_batches := ?bs\<rparr>)"
    using wf uniq unfolding db_wf_def batches_wf_def
    by (auto simp: ids set_update_where keys)
  then show ?thesis
    using wf by (auto simp: db_wf_def repos_wf_def checks_wf_def entries_wf_def idset)
qed

lemma live_unique_subset:
  assumes "live_unique bs" "\<And>b. live (f b) \<Longrightarrow> p b \<Longrightarrow> live b"
    "\<And>b. b_RepoID (f b) = b_RepoID b" "\<And>b. b_TargetBranch (f b) = b_TargetBranch b"
  shows "live_unique (update_where p f bs)"
  using assms(1) unfolding live_unique_def
proof (induction bs)
  case (Cons b bs)
  have sub: "(\<lambda>b. (b_RepoID b, b_TargetBranch b)) ` {x \<in> set (update_where p f bs). live x} \<subseteq>
      (\<lambda>b. (b_RepoID b, b_TargetBranch b)) ` {x \<in> set bs. live x}"
    using assms(2-4) by (auto simp: set_update_where image_iff split: if_splits)
  from Cons show ?case
    using assms(2-4) sub by (auto split: if_splits)
qed simp

subsection \<open>Every query keeps the constraints\<close>

lemma db_wf_live_unique: "db_wf d \<Longrightarrow> live_unique (d_batches d)"
  by (simp add: db_wf_def batches_wf_def)

lemma wf_CancelBatches [wf_sql]: "keeps_wf (sql_CancelBatchesByRepo r)"
  by (rule keeps_wfI)
    (auto simp: sql_CancelBatchesByRepo_def db_wf_live_unique
      intro!: db_wf_update_batches live_unique_subset)

lemma wf_ClearChecks [wf_sql]: "keeps_wf (sql_ClearCheckStatuses ids)"
  by (rule keeps_wfI)
    (auto simp: sql_ClearCheckStatuses_def db_wf_defs distinct_map_filter)

lemma wf_ClearMergeBranch [wf_sql]: "keeps_wf (sql_ClearEntryMergeBranch ids)"
  by (rule keeps_wfI) (auto simp: sql_ClearEntryMergeBranch_def intro!: db_wf_update_entries)

lemma wf_CountPosition [wf_sql]: "keeps_wf (sql_CountQueuePosition r b p)"
  by (rule keeps_wfI) (auto simp: sql_CountQueuePosition_def split: list.splits)

lemma wf_CreateBatch [wf_sql]: "keeps_wf (sql_CreateBatch r b ids)"
proof (rule keeps_wfI)
  fix now d
  assume wf: "db_wf d"
  have ins: "db_wf (d\<lparr>d_batch_seq := d_batch_seq d + 1, d_batches := d_batches d @ [x]\<rparr>)"
    if "b_ID x = d_batch_seq d" "b_RepoID x \<in> r_ID ` set (d_repos d)"
      "live_unique (d_batches d @ [x])" for x
  proof -
    have "batches_wf (d\<lparr>d_batch_seq := d_batch_seq d + 1, d_batches := d_batches d @ [x]\<rparr>)"
      using wf that by (fastforce simp: db_wf_def batches_wf_def)
    then show ?thesis
      using wf by (auto simp: db_wf_def repos_wf_def entries_wf_def checks_wf_def)
  qed
  show "db_wf (snd (sql_CreateBatch r b ids now d))"
    using db_wf_seq(2)[OF wf] by (auto simp: sql_CreateBatch_def Let_def intro!: ins)
qed

lemma wf_DequeueAll [wf_sql]: "keeps_wf (sql_DequeueAllByRepo r)"
  by (rule keeps_wfI) (simp add: sql_DequeueAllByRepo_def db_wf_delete_entries)

lemma wf_DequeuePR [wf_sql]: "keeps_wf (sql_DequeuePR r p)"
  by (rule keeps_wfI) (simp add: sql_DequeuePR_def db_wf_delete_entries)

lemma wf_EnqueuePR [wf_sql]: "keeps_wf (sql_EnqueuePR r p s b)"
proof (rule keeps_wfI)
  fix now d
  assume wf: "db_wf d"
  show "db_wf (snd (sql_EnqueuePR r p s b now d))"
  proof (cases "List.find (is_entry r p) (d_entries d) = None \<and> r \<in> r_ID ` set (d_repos d)")
    case False
    then show ?thesis using db_wf_seq(1)[OF wf] by (auto simp: sql_EnqueuePR_def Let_def)
  next
    case True
    then have "(r, p) \<notin> entry_key ` set (d_entries d)"
      by (auto simp: find_None_iff is_entry_def entry_key_def)
    with True wf show ?thesis
      by (fastforce simp: sql_EnqueuePR_def Let_def new_entry_def entry_key_def db_wf_defs)
  qed
qed

lemma wf_reads [wf_sql]:
  "keeps_wf (sql_GetBatch i)"
  "keeps_wf (sql_GetCheckStatuses i)"
  "keeps_wf (sql_GetEntriesByIDs ids)"
  "keeps_wf (sql_GetHeadOfQueue r b)"
  "keeps_wf (sql_GetLiveBatch r b)"
  "keeps_wf (sql_GetQueueEntry r p)"
  "keeps_wf (sql_ListActiveEntriesByRepo r)"
  "keeps_wf (sql_ListLiveBatchesByRepo r)"
  "keeps_wf (sql_ListQueue r b)"
  "keeps_wf sql_LoadActiveQueues"
  "keeps_wf (sql_TakeQueuedHead r b l)"
  by (auto intro!: keeps_wfI simp: sql_GetBatch_def sql_GetCheckStatuses_def sql_GetEntriesByIDs_def
      sql_GetHeadOfQueue_def sql_GetLiveBatch_def sql_GetQueueEntry_def
      sql_ListActiveEntriesByRepo_def sql_ListLiveBatchesByRepo_def sql_ListQueue_def
      sql_LoadActiveQueues_def sql_TakeQueuedHead_def)

lemma wf_GetOrCreateRepo [wf_sql]: "keeps_wf (sql_GetOrCreateRepo f ow n)"
proof (rule keeps_wfI)
  fix now d
  assume wf: "db_wf d"
  show "db_wf (snd (sql_GetOrCreateRepo f ow n now d))"
  proof (cases "List.find (is_repo f ow n) (d_repos d)")
    case (Some r)
    then show ?thesis using db_wf_seq(4)[OF wf] by (simp add: sql_GetOrCreateRepo_def Let_def)
  next
    case None
    then have "(f, ow, n) \<notin> (\<lambda>r. (r_Forge r, r_Owner r, r_Name r)) ` set (d_repos d)"
      by (auto simp: find_None_iff is_repo_def)
    with None wf show ?thesis
      by (fastforce simp: sql_GetOrCreateRepo_def Let_def db_wf_defs)
  qed
qed

lemma save_cols_keys [simp]:
  "b_ID (save_cols b row) = b_ID row" "b_RepoID (save_cols b row) = b_RepoID row"
  "b_TargetBranch (save_cols b row) = b_TargetBranch row"
  "b_MemberIds (save_cols b row) = b_MemberIds row"
  "b_CreatedAt (save_cols b row) = b_CreatedAt row"
  by (simp_all add: save_cols_def)

lemma save_cols_values [simp]:
  "b_State (save_cols b row) = b_State b" "b_CurrentIds (save_cols b row) = b_CurrentIds b"
  "b_Pending (save_cols b row) = b_Pending b" "b_LandedIds (save_cols b row) = b_LandedIds b"
  "b_EjectedIds (save_cols b row) = b_EjectedIds b" "b_BranchName (save_cols b row) = b_BranchName b"
  "b_BranchSha (save_cols b row) = b_BranchSha b" "b_Builds (save_cols b row) = b_Builds b"
  "b_FfRetries (save_cols b row) = b_FfRetries b" "b_Flaky (save_cols b row) = b_Flaky b"
  "b_TestingStartedAt (save_cols b row) = b_TestingStartedAt b"
  by (simp_all add: save_cols_def)

lemma wf_SaveBatch [wf_sql]: "keeps_wf (sql_SaveBatch b)"
  by (rule keeps_wfI)
    (auto simp: sql_SaveBatch_def Let_def intro!: db_wf_update_batches split: option.splits)

lemma wf_SaveCheckStatus [wf_sql]: "keeps_wf (sql_SaveCheckStatus i c st u)"
proof (rule keeps_wfI)
  fix now d
  assume wf: "db_wf d"
  note seq = db_wf_seq(3)[OF wf]
  let ?f = "\<lambda>x. x\<lparr>cs_State := st, cs_TargetUrl := u, cs_UpdatedAt := now\<rparr>"
  let ?cs = "update_where (is_check i c) ?f (d_checks d)"
  have upd: "db_wf (d\<lparr>d_check_seq := d_check_seq d + 1, d_checks := ?cs\<rparr>)"
  proof -
    have "map cs_ID ?cs = map cs_ID (d_checks d)"
      "map (\<lambda>c. (cs_QueueEntryID c, cs_Context c)) ?cs =
        map (\<lambda>c. (cs_QueueEntryID c, cs_Context c)) (d_checks d)"
      by simp_all
    with wf show ?thesis
      by (fastforce simp: db_wf_defs set_update_where)
  qed
  have ins: "db_wf (d\<lparr>d_check_seq := d_check_seq d + 1, d_checks := d_checks d @
      [\<lparr>cs_ID = d_check_seq d, cs_QueueEntryID = i, cs_Context = c, cs_State = st,
        cs_UpdatedAt = now, cs_TargetUrl = u\<rparr>]\<rparr>)"
    if "List.find (is_check i c) (d_checks d) = None" "i \<in> qe_ID ` set (d_entries d)"
  proof -
    from that(1) have "(i, c) \<notin> (\<lambda>c. (cs_QueueEntryID c, cs_Context c)) ` set (d_checks d)"
      by (auto simp: find_None_iff is_check_def)
    with wf that(2) show ?thesis by (fastforce simp: db_wf_defs)
  qed
  show "db_wf (snd (sql_SaveCheckStatus i c st u now d))"
    using wf seq upd ins
    by (auto simp: sql_SaveCheckStatus_def Let_def split: check_state.splits)
qed

lemma wf_SetEntryActiveBatch [wf_sql]: "keeps_wf (sql_SetEntryActiveBatch bid ids)"
  by (rule keeps_wfI)
    (fastforce simp: sql_SetEntryActiveBatch_def intro!: db_wf_update_entries split: option.splits)

lemma set_entry_state_keys [simp]:
  "qe_ID (set_entry_state st now e) = qe_ID e" "qe_RepoID (set_entry_state st now e) = qe_RepoID e"
  "qe_PrNumber (set_entry_state st now e) = qe_PrNumber e"
  "qe_TargetBranch (set_entry_state st now e) = qe_TargetBranch e"
  "qe_EnqueuedAt (set_entry_state st now e) = qe_EnqueuedAt e"
  "qe_PrHeadSha (set_entry_state st now e) = qe_PrHeadSha e"
  "qe_ActiveBatchID (set_entry_state st now e) = qe_ActiveBatchID e"
  "qe_State (set_entry_state st now e) = st"
  by (simp_all add: set_entry_state_def)

lemma wf_entry_updates [wf_sql]:
  "keeps_wf (sql_UpdateEntryError r p m)"
  "keeps_wf (sql_UpdateEntryMergeBranch r p n s)"
  "keeps_wf (sql_UpdateEntryState st r p)"
  by (auto intro!: keeps_wfI db_wf_update_entries
      simp: sql_UpdateEntryError_def sql_UpdateEntryMergeBranch_def sql_UpdateEntryState_def)

end
