(* ===== verification/World.thy ===== *)
theory World
  imports Prelude Forge StoreInv
begin

text \<open>
  The state every handler of the program runs in: the database, the clock, the forge, and the
  pollers' trigger channels. Two things are made explicit:

  \<^item> \<^bold>\<open>faults\<close>. \<open>w_faults\<close> is an oracle: the \<open>n\<close>-th statement sent to the database
    fails when it says so (connection loss, timeout, serialisation failure), without an
    effect. Results proved for every oracle hold for every pattern of database failures.
    Forge calls fail as the forge parameter decides.
  \<^item> \<^bold>\<open>transactions\<close>. \<open>withTx\<close> is \<open>queue.Service.withTx\<close>: the tables are restored unless
    the body and the commit succeed, a failed statement aborts the transaction, so that
    later statements and the commit fail; sequences are not restored.

  \<open>w_calls\<close> is a ghost variable, the trace of all forge calls with their repository; no
  definition of the program reads it.
\<close>

datatype tx_state = NoTx | InTx | Aborted

datatype forge_call =
    CallListOpenPRs
  | CallGetPR int
  | CallSetMQStatus string MQStatus
  | CallMirrorCheck string string Check
  | CallGetRequiredChecks string
  | CallGetCheckStates string
  | CallCreateMergeBranch string string string
  | CallDeleteBranch string
  | CallListBranches
  | CallIsUpToDate string string
  | CallCancelAutoMerge int
  | CallComment int string
  | CallEnsureRepoSetup
  | CallMergeInto string string
  | CallFastForward string string
  | CallClosePR int
  | CallStackMerges string "string list" string
  | CallDiscover

type_synonym forge_event = "string \<times> string \<times> forge_call"

record 'f world =
  w_db :: db
  w_now :: int
  w_faults :: "nat \<Rightarrow> bool"
  w_stmts :: nat
  w_tx :: tx_state
  w_forge :: 'f
  w_calls :: "forge_event list"
  w_trigger :: "int set"

type_synonym ('f, 'a) go = "('f world, 'a) state"
type_synonym ('f, 'a) go_err = "('f world, error + 'a) state"

subsection \<open>Statements and transactions\<close>

definition db_fault :: error where
  "db_fault = PgError ''connection failure''"

definition tx_aborted :: error where
  "tx_aborted = PgError ''current transaction is aborted''"

definition is_no_rows :: "error \<Rightarrow> bool" where
  "is_no_rows e = errors_is e ErrNoRows"

definition exec_stmt :: "'a sql \<Rightarrow> ('f, 'a) go_err" where
  "exec_stmt q = State (\<lambda>w.
     let w1 = w\<lparr>w_stmts := Suc (w_stmts w)\<rparr>;
         fail = (\<lambda>e w. (Inl e, w\<lparr>w_tx := (if w_tx w = NoTx then NoTx else Aborted)\<rparr>))
     in if w_tx w = Aborted then (Inl tx_aborted, w1)
        else if w_faults w (w_stmts w) then fail db_fault w1
        else (case q (w_now w) (w_db w) of
                (Inr a, d) \<Rightarrow> (Inr a, w1\<lparr>w_db := d\<rparr>)
              | (Inl e, d) \<Rightarrow> if is_no_rows e then (Inl e, w1\<lparr>w_db := d\<rparr>) else fail e (w1\<lparr>w_db := d\<rparr>)))"

text \<open>Rolling back restores the tables and keeps the sequences.\<close>

definition restore_tables :: "db \<Rightarrow> db \<Rightarrow> db" where
  "restore_tables old cur = cur\<lparr>d_repos := d_repos old, d_entries := d_entries old,
     d_checks := d_checks old, d_batches := d_batches old\<rparr>"

definition withTx :: "('f, 'a) go_err \<Rightarrow> ('f, 'a) go_err" where
  "withTx fn = State (\<lambda>w.
     let w0 = w\<lparr>w_stmts := Suc (w_stmts w)\<rparr>;
         rollback = (\<lambda>e w'. (Inl e, w'\<lparr>w_db := restore_tables (w_db w) (w_db w'), w_tx := NoTx\<rparr>))
     in if w_faults w (w_stmts w) then (Inl (Wrap ''begin transaction'' db_fault), w0)
        else (case run_state fn (w0\<lparr>w_tx := InTx\<rparr>) of
                (Inl e, w1) \<Rightarrow> rollback e w1
              | (Inr a, w1) \<Rightarrow>
                  let w2 = w1\<lparr>w_stmts := Suc (w_stmts w1)\<rparr>
                  in if w_tx w1 = Aborted then rollback tx_aborted w2
                     else if w_faults w1 (w_stmts w1) then rollback db_fault w2
                     else (Inr a, w2\<lparr>w_tx := NoTx\<rparr>)))"

subsection \<open>Forge calls\<close>

definition forge_do :: "string \<Rightarrow> string \<Rightarrow> forge_call \<Rightarrow> ('f, 'a) state \<Rightarrow> ('f, 'a) go" where
  "forge_do owner name call m = State (\<lambda>w.
     case run_state m (w_forge w) of
       (a, f) \<Rightarrow> (a, w\<lparr>w_forge := f, w_calls := w_calls w @ [(owner, name, call)]\<rparr>))"

definition go_now :: "('f, int) go" where
  "go_now = gets w_now"

text \<open>Every poller has a trigger channel with one slot, sent to without blocking; \<open>w_trigger\<close> holds
  the repositories whose slot is full.\<close>

definition set_trigger :: "int \<Rightarrow> ('f, unit) go" where
  "set_trigger repoID = modifies (\<lambda>w. w\<lparr>w_trigger := insert repoID (w_trigger w)\<rparr>)"

subsection \<open>What the primitives do\<close>

lemma exec_stmt_ok [simp]:
  "w_tx w \<noteq> Aborted \<Longrightarrow> \<not> w_faults w (w_stmts w) \<Longrightarrow> q (w_now w) (w_db w) = (Inr a, d) \<Longrightarrow>
     run_state (exec_stmt q) w = (Inr a, w\<lparr>w_stmts := Suc (w_stmts w), w_db := d\<rparr>)"
  by (simp add: exec_stmt_def Let_def)

lemma exec_stmt_cases:
  assumes "run_state (exec_stmt q) w = (r, w')"
  obtains (ok) a d where "r = Inr a" "q (w_now w) (w_db w) = (Inr a, d)"
      "w' = w\<lparr>w_stmts := Suc (w_stmts w), w_db := d\<rparr>"
    | (no_rows) e d where "r = Inl e" "is_no_rows e" "q (w_now w) (w_db w) = (Inl e, d)"
      "w' = w\<lparr>w_stmts := Suc (w_stmts w), w_db := d\<rparr>"
    | (failed) e d where "r = Inl e" "\<not> is_no_rows e" "q (w_now w) (w_db w) = (Inl e, d)"
      "w' = w\<lparr>w_stmts := Suc (w_stmts w), w_db := d, w_tx := (if w_tx w = NoTx then NoTx else Aborted)\<rparr>"
    | (fault) "r = Inl db_fault"
      "w' = w\<lparr>w_stmts := Suc (w_stmts w), w_tx := (if w_tx w = NoTx then NoTx else Aborted)\<rparr>"
    | (aborted) "r = Inl tx_aborted" "w_tx w = Aborted" "w' = w\<lparr>w_stmts := Suc (w_stmts w)\<rparr>"
  using assms
  by (auto simp: exec_stmt_def Let_def split: if_splits prod.splits sum.splits)

lemma run_forge_do:
  "run_state (forge_do ow nm call m) w =
     (fst (run_state m (w_forge w)),
      w\<lparr>w_forge := snd (run_state m (w_forge w)), w_calls := w_calls w @ [(ow, nm, call)]\<rparr>)"
  by (simp add: forge_do_def split: prod.splits)

lemma restore_tables_simps [simp]:
  "d_repos (restore_tables o' c) = d_repos o'" "d_entries (restore_tables o' c) = d_entries o'"
  "d_checks (restore_tables o' c) = d_checks o'" "d_batches (restore_tables o' c) = d_batches o'"
  "d_repo_seq (restore_tables o' c) = d_repo_seq c" "d_entry_seq (restore_tables o' c) = d_entry_seq c"
  "d_check_seq (restore_tables o' c) = d_check_seq c" "d_batch_seq (restore_tables o' c) = d_batch_seq c"
  by (simp_all add: restore_tables_def)

end
