(* ===== verification/Effects.thy ===== *)
theory Effects
  imports World
begin

text \<open>
  The interface between the primitives and the handlers built on them, as locales: a relation
  \<open>P\<close> between the worlds before and after, the set \<open>ok\<close> of table updates and the set
  \<open>okc\<close> of forge calls that respect it.

  \<^item> \<open>effects\<close> holds the laws of the primitives; every forge call but a fast-forward is
    assumed to respect \<open>P\<close>;
  \<^item> \<open>entry_effects\<close> adds the queries that write queue entries and check statuses;
  \<^item> \<open>store_effects\<close> adds the queries that write batches;
  \<^item> \<open>landing_effects\<close> adds the fast-forward of a target branch.

  Each component theory extends the weakest of these contexts that fits with one fact per
  handler (\<open>io_<handler>\<close>: the handler respects \<open>P\<close>), proved once; each interpretation
  turns all of them into a property of the program.
\<close>

fun is_ff :: "forge_call \<Rightarrow> bool" where
  "is_ff (CallFastForward b sha) = True"
| "is_ff _ = False"

abbreviation effect :: "'a sql \<Rightarrow> int \<Rightarrow> db \<Rightarrow> db" where
  "effect q \<equiv> (\<lambda>now d. snd (q now d))"

locale effects =
  fixes P :: "'f world \<Rightarrow> 'f world \<Rightarrow> bool"
    and ok :: "(int \<Rightarrow> db \<Rightarrow> db) \<Rightarrow> bool"
    and okc :: "forge_event \<Rightarrow> bool"
  assumes P_refl: "P w w"
    and P_trans: "P u v \<Longrightarrow> P v w \<Longrightarrow> P u w"
    and P_stmts: "P w (w\<lparr>w_stmts := Suc (w_stmts w)\<rparr>)"
    and P_tx: "P w (w\<lparr>w_tx := t\<rparr>)"
    and P_forge: "okc c \<Longrightarrow> P w (w\<lparr>w_forge := f, w_calls := w_calls w @ [c]\<rparr>)"
    and okc_call: "\<not> is_ff call \<Longrightarrow> okc (ow, nm, call)"
    and P_trigger: "P w (w\<lparr>w_trigger := b\<rparr>)"
    and P_db: "ok g \<Longrightarrow> P w (w\<lparr>w_db := g (w_now w) (w_db w)\<rparr>)"
    and P_rollback: "P w w' \<Longrightarrow> P w (w'\<lparr>w_db := restore_tables (w_db w) (w_db w')\<rparr>)"
begin

lemma po [io_intros, simp]: "po_rel P"
  using P_refl P_trans by (auto simp: po_rel_def)

lemma P_ctl: "P w (w\<lparr>w_stmts := Suc (w_stmts w), w_tx := t\<rparr>)"
  using P_trans[OF P_stmts P_tx] by simp

lemma io_exec:
  assumes "ok (effect q)"
  shows "state_io_rel P (exec_stmt q)"
proof (rule state_io_relI)
  fix w :: "'f world" and r w'
  assume run: "run_state (exec_stmt q) w = (r, w')"
  have db: "P w (w\<lparr>w_stmts := Suc (w_stmts w), w_db := snd (q (w_now w) (w_db w))\<rparr>)"
    using P_trans[OF P_stmts P_db[OF assms]] by simp
  have dbt: "P w (w\<lparr>w_stmts := Suc (w_stmts w), w_db := snd (q (w_now w) (w_db w)), w_tx := t\<rparr>)" for t
    using P_trans[OF db P_tx] by simp
  from run show "P w w'"
    by (cases rule: exec_stmt_cases) (use db dbt P_stmts P_ctl in auto)
qed

lemma io_exec_read:
  assumes ro: "\<And>now d. snd (q now d) = d"
  shows "state_io_rel P (exec_stmt q)"
proof (rule state_io_relI)
  fix w :: "'f world" and r w'
  assume run: "run_state (exec_stmt q) w = (r, w')"
  from ro have ro': "q now d = (a, d') \<Longrightarrow> d' = d" for now d a d' by (metis snd_conv)
  have same: "w\<lparr>w_stmts := n, w_db := w_db w, w_tx := t\<rparr> = w\<lparr>w_stmts := n, w_tx := t\<rparr>"
    "w\<lparr>w_stmts := n, w_db := w_db w\<rparr> = w\<lparr>w_stmts := n\<rparr>" for n t
    by simp_all
  from run show "P w w'"
    by (cases rule: exec_stmt_cases) (use P_stmts P_ctl in \<open>auto dest!: ro' simp: same\<close>)
qed

lemma io_withTx [io_intros]:
  assumes "state_io_rel P fn"
  shows "state_io_rel P (withTx fn)"
proof (rule state_io_relI)
  fix w :: "'f world" and r' w'
  assume tx: "run_state (withTx fn) w = (r', w')"
  let ?w0 = "w\<lparr>w_stmts := Suc (w_stmts w), w_tx := InTx\<rparr>"
  obtain r w1 where run: "run_state fn ?w0 = (r, w1)" by fastforce
  with assms have "P ?w0 w1" by (auto simp: state_io_rel_def dest: spec[of _ ?w0])
  then have w1: "P w w1" using P_ctl P_trans by blast
  then have w2: "P w (w1\<lparr>w_stmts := Suc (w_stmts w1)\<rparr>)" using P_stmts P_trans by blast
  have rolled: "P w (w'\<lparr>w_db := restore_tables (w_db w) (w_db w'), w_tx := NoTx\<rparr>)" if "P w w'" for w'
    using P_trans[OF P_rollback[OF that] P_tx] by simp
  show "P w w'"
    using tx run P_stmts[of w] rolled[OF w1] rolled[OF w2] P_trans[OF w2 P_tx]
    by (auto simp: withTx_def Let_def split: sum.splits if_splits)
qed

lemma io_forge_do: "okc (ow, nm, call) \<Longrightarrow> state_io_rel P (forge_do ow nm call m)"
  by (auto simp: state_io_rel_def run_forge_do P_forge)

lemma io_forge_call [io_intros]: "\<not> is_ff call \<Longrightarrow> state_io_rel P (forge_do ow nm call m)"
  by (simp add: io_forge_do okc_call)

lemma io_trigger [io_intros]: "state_io_rel P (set_trigger r)"
  by (simp add: state_io_rel_def set_trigger_def P_trigger)

lemma io_now [io_intros]: "state_io_rel P go_now"
  unfolding go_now_def by (intro io_intros)

lemma io_reads [io_intros]:
  "state_io_rel P (exec_stmt (sql_GetBatch i))"
  "state_io_rel P (exec_stmt (sql_GetCheckStatuses i))"
  "state_io_rel P (exec_stmt (sql_GetEntriesByIDs ids))"
  "state_io_rel P (exec_stmt (sql_GetHeadOfQueue r b))"
  "state_io_rel P (exec_stmt (sql_GetLiveBatch r b))"
  "state_io_rel P (exec_stmt (sql_GetQueueEntry r p))"
  "state_io_rel P (exec_stmt (sql_ListActiveEntriesByRepo r))"
  "state_io_rel P (exec_stmt (sql_ListLiveBatchesByRepo r))"
  "state_io_rel P (exec_stmt (sql_ListQueue r b))"
  "state_io_rel P (exec_stmt sql_LoadActiveQueues)"
  "state_io_rel P (exec_stmt (sql_TakeQueuedHead r b l))"
  "state_io_rel P (exec_stmt (sql_CountQueuePosition r b p))"
  by (rule io_exec_read, simp add: sql_GetBatch_def sql_GetCheckStatuses_def sql_GetEntriesByIDs_def
      sql_GetHeadOfQueue_def sql_GetLiveBatch_def sql_GetQueueEntry_def
      sql_ListActiveEntriesByRepo_def sql_ListLiveBatchesByRepo_def sql_ListQueue_def
      sql_LoadActiveQueues_def sql_TakeQueuedHead_def sql_CountQueuePosition_def split: list.splits)+

end

locale entry_effects = effects +
  assumes ok_ClearChecks: "ok (effect (sql_ClearCheckStatuses ids))"
    and ok_ClearMergeBranch: "ok (effect (sql_ClearEntryMergeBranch ids))"
    and ok_DequeueAll: "ok (effect (sql_DequeueAllByRepo r))"
    and ok_DequeuePR: "ok (effect (sql_DequeuePR r p))"
    and ok_EnqueuePR: "ok (effect (sql_EnqueuePR r p s b))"
    and ok_GetOrCreateRepo: "ok (effect (sql_GetOrCreateRepo f ow n))"
    and ok_SaveCheckStatus: "ok (effect (sql_SaveCheckStatus i c st u))"
    and ok_UpdateEntryError: "ok (effect (sql_UpdateEntryError r p m))"
    and ok_UpdateEntryMergeBranch: "ok (effect (sql_UpdateEntryMergeBranch r p nm sh))"
    and ok_UpdateEntryState: "ok (effect (sql_UpdateEntryState est r p))"
begin

lemmas io_entry_writes [io_intros] =
  ok_ClearChecks[THEN io_exec] ok_ClearMergeBranch[THEN io_exec] ok_DequeueAll[THEN io_exec]
  ok_DequeuePR[THEN io_exec] ok_EnqueuePR[THEN io_exec] ok_GetOrCreateRepo[THEN io_exec]
  ok_SaveCheckStatus[THEN io_exec] ok_UpdateEntryError[THEN io_exec]
  ok_UpdateEntryMergeBranch[THEN io_exec] ok_UpdateEntryState[THEN io_exec]

end

locale store_effects = entry_effects +
  assumes ok_CancelBatches: "ok (effect (sql_CancelBatchesByRepo r))"
    and ok_CreateBatch: "ok (effect (sql_CreateBatch r b ids))"
    and ok_SaveBatch: "ok (effect (sql_SaveBatch x))"
    and ok_SetEntryActiveBatch: "ok (effect (sql_SetEntryActiveBatch bid ids))"
begin

lemmas io_batch_writes [io_intros] =
  ok_CancelBatches[THEN io_exec] ok_CreateBatch[THEN io_exec] ok_SaveBatch[THEN io_exec]
  ok_SetEntryActiveBatch[THEN io_exec]

end

locale landing_effects = store_effects +
  assumes okc_ff: "okc (ow, nm, CallFastForward b sha)"

end
