(* ===== verification/Queue.thy ===== *)
theory Queue
  imports Effects
begin

text \<open>
  \<open>internal/queue\<close>: the merge queue service. The multi-statement operations run in
  \<open>withTx\<close>, the others are single statements. A method that returns \<open>nil, nil\<close> for a
  missing row returns \<open>None\<close>.
\<close>

subsection \<open>queue.go\<close>

record EnqueueResult =
  er_Position :: int
  er_IsNew :: bool
  er_Entry :: queue_entry

datatype DequeueResult = NotFound | Found (dr_WasHead: bool) (dr_Entry: queue_entry)

definition count_position :: "int \<Rightarrow> string \<Rightarrow> int \<Rightarrow> (int \<Rightarrow> EnqueueResult) \<Rightarrow>
    ('f, EnqueueResult) go_err" where
  "count_position repoID branch prNumber mk =
     on_ok_map (Wrap (''count position for PR #'' @ show_int prNumber))
       (exec_stmt (sql_CountQueuePosition repoID branch prNumber))
       (\<lambda>pos. ret (Inr (mk pos)))"

text \<open>The function literals passed to \<open>withTx\<close> are the definitions ending in \<open>_tx\<close>.\<close>

definition enqueue_tx :: "int \<Rightarrow> int \<Rightarrow> string \<Rightarrow> string \<Rightarrow> ('f, EnqueueResult) go_err" where
  "enqueue_tx repoID prNumber prHeadSHA targetBranch = do {
     inserted \<leftarrow> exec_stmt (sql_EnqueuePR repoID prNumber prHeadSHA targetBranch);
     (case inserted of
        Inl insertErr \<Rightarrow>
          on_ok_map
            (\<lambda>getErr. Wrap2 (''enqueue PR #'' @ show_int prNumber @ '': insert failed'') insertErr
               ''and lookup failed'' getErr)
            (exec_stmt (sql_GetQueueEntry repoID prNumber))
            (\<lambda>existing. count_position repoID (qe_TargetBranch existing) prNumber
               (\<lambda>pos. \<lparr>er_Position = pos, er_IsNew = False, er_Entry = existing\<rparr>))
      | Inr entry \<Rightarrow>
          count_position repoID targetBranch prNumber
            (\<lambda>pos. \<lparr>er_Position = pos, er_IsNew = True, er_Entry = entry\<rparr>)) }"

definition Enqueue :: "int \<Rightarrow> int \<Rightarrow> string \<Rightarrow> string \<Rightarrow> ('f, EnqueueResult) go_err" where
  "Enqueue repoID prNumber prHeadSHA targetBranch =
     withTx (enqueue_tx repoID prNumber prHeadSHA targetBranch)"

definition dequeue_tx :: "int \<Rightarrow> int \<Rightarrow> ('f, DequeueResult) go_err" where
  "dequeue_tx repoID prNumber = do {
     got \<leftarrow> exec_stmt (sql_GetQueueEntry repoID prNumber);
     (case got of
        Inl _ \<Rightarrow> ret (Inr NotFound)
      | Inr entry \<Rightarrow> do {
          headr \<leftarrow> exec_stmt (sql_GetHeadOfQueue repoID (qe_TargetBranch entry));
          (let wasHead = (case headr of Inl _ \<Rightarrow> False | Inr h \<Rightarrow> qe_PrNumber h = prNumber) in
           on_ok_map (Wrap (''dequeue PR #'' @ show_int prNumber))
             (exec_stmt (sql_DequeuePR repoID prNumber))
             (\<lambda>_. ret (Inr (Found wasHead entry)))) }) }"

definition Dequeue :: "int \<Rightarrow> int \<Rightarrow> ('f, DequeueResult) go_err" where
  "Dequeue repoID prNumber = withTx (dequeue_tx repoID prNumber)"

definition Head :: "int \<Rightarrow> string \<Rightarrow> ('f, error + queue_entry option) go" where
  "Head repoID targetBranch = do {
     r \<leftarrow> exec_stmt (sql_GetHeadOfQueue repoID targetBranch);
     ret (Inr (case r of Inl _ \<Rightarrow> None | Inr e \<Rightarrow> Some e)) }"

definition advance_tx :: "int \<Rightarrow> string \<Rightarrow> ('f, queue_entry option) go_err" where
  "advance_tx repoID targetBranch = do {
     headr \<leftarrow> exec_stmt (sql_GetHeadOfQueue repoID targetBranch);
     (case headr of
        Inl _ \<Rightarrow> ret (Inr None)
      | Inr h \<Rightarrow>
          on_ok_map (Wrap ''advance queue'')
            (exec_stmt (sql_DequeuePR repoID (qe_PrNumber h)))
            (\<lambda>_. do {
               nextr \<leftarrow> exec_stmt (sql_GetHeadOfQueue repoID targetBranch);
               ret (Inr (case nextr of Inl _ \<Rightarrow> None | Inr n \<Rightarrow> Some n)) })) }"

definition Advance :: "int \<Rightarrow> string \<Rightarrow> ('f, queue_entry option) go_err" where
  "Advance repoID targetBranch = withTx (advance_tx repoID targetBranch)"

definition Queue_List :: "int \<Rightarrow> string \<Rightarrow> ('f, queue_entry list) go_err" where
  "Queue_List repoID targetBranch =
     on_ok_map (Wrap ''list queue'') (exec_stmt (sql_ListQueue repoID targetBranch)) (\<lambda>es. ret (Inr es))"

definition Position :: "int \<Rightarrow> string \<Rightarrow> int \<Rightarrow> ('f, int) go_err" where
  "Position repoID targetBranch prNumber =
     exec_stmt (sql_CountQueuePosition repoID targetBranch prNumber)"

definition UpdateState :: "int \<Rightarrow> int \<Rightarrow> entry_state \<Rightarrow> ('f, unit) go_err" where
  "UpdateState repoID prNumber st = exec_stmt (sql_UpdateEntryState st repoID prNumber)"

definition SetMergeBranch :: "int \<Rightarrow> int \<Rightarrow> string \<Rightarrow> string \<Rightarrow> ('f, unit) go_err" where
  "SetMergeBranch repoID prNumber branchName branchSHA =
     exec_stmt (sql_UpdateEntryMergeBranch repoID prNumber (Some branchName) (Some branchSHA))"

definition SetError :: "int \<Rightarrow> int \<Rightarrow> string \<Rightarrow> ('f, unit) go_err" where
  "SetError repoID prNumber msg = exec_stmt (sql_UpdateEntryError repoID prNumber (Some msg))"

definition GetEntry :: "int \<Rightarrow> int \<Rightarrow> ('f, queue_entry option) go_err" where
  "GetEntry repoID prNumber = do {
     r \<leftarrow> exec_stmt (sql_GetQueueEntry repoID prNumber);
     ret (Inr (case r of Inl _ \<Rightarrow> None | Inr e \<Rightarrow> Some e)) }"

definition SaveCheckStatus :: "int \<Rightarrow> string \<Rightarrow> check_state \<Rightarrow> string \<Rightarrow> ('f, unit) go_err" where
  "SaveCheckStatus entryID ctx st url = exec_stmt (sql_SaveCheckStatus entryID ctx st url)"

definition GetCheckStatuses :: "int \<Rightarrow> ('f, check_status list) go_err" where
  "GetCheckStatuses entryID = exec_stmt (sql_GetCheckStatuses entryID)"

definition ListActiveEntries :: "int \<Rightarrow> ('f, queue_entry list) go_err" where
  "ListActiveEntries repoID = exec_stmt (sql_ListActiveEntriesByRepo repoID)"

definition GetOrCreateRepo :: "string \<Rightarrow> string \<Rightarrow> string \<Rightarrow> ('f, repo) go_err" where
  "GetOrCreateRepo forge owner name = exec_stmt (sql_GetOrCreateRepo forge owner name)"

definition DequeueAll :: "int \<Rightarrow> ('f, unit) go_err" where
  "DequeueAll repoID = exec_stmt (sql_DequeueAllByRepo repoID)"

definition LoadActiveQueues :: "('f, (queue_entry \<times> repo) list) go_err" where
  "LoadActiveQueues = exec_stmt sql_LoadActiveQueues"

subsection \<open>batch.go\<close>

definition int32 :: "int \<Rightarrow> 32 word" where
  "int32 n = word_of_int n"

definition formbatch_tx :: "int \<Rightarrow> string \<Rightarrow> int \<Rightarrow> ('f, batch option) go_err" where
  "formbatch_tx repoID targetBranch limit =
     on_ok_map (Wrap ''take queued head'')
       (exec_stmt (sql_TakeQueuedHead repoID targetBranch (int32 limit)))
       (\<lambda>entries.
          if entries = [] then ret (Inr None)
          else let ids = map qe_ID entries in
            on_ok_map (Wrap ''create batch'')
              (exec_stmt (sql_CreateBatch repoID targetBranch ids))
              (\<lambda>b. on_ok_map (Wrap ''set active batch'')
                 (exec_stmt (sql_SetEntryActiveBatch (Some (b_ID b)) ids))
                 (\<lambda>_. ret (Inr (Some b)))))"

text \<open>The result is \<open>None\<close> for a nil batch: nothing was queued.\<close>

definition FormBatch :: "int \<Rightarrow> string \<Rightarrow> int \<Rightarrow> ('f, batch option) go_err" where
  "FormBatch repoID targetBranch maxn =
     (let limit = (if maxn \<le> 0 then 2 ^ 30 else maxn) in
      on_ok (withTx (formbatch_tx repoID targetBranch limit))
        (\<lambda>r. ret (Inr (case r of None \<Rightarrow> None | Some b \<Rightarrow> if b_ID b = 0 then None else Some b))))"

definition nil_if_no_rows :: "('f, 'a) go_err \<Rightarrow> ('f, 'a option) go_err" where
  "nil_if_no_rows m = do {
     r \<leftarrow> m;
     (case r of
        Inl e \<Rightarrow> if errors_is e ErrNoRows then ret (Inr None) else ret (Inl e)
      | Inr b \<Rightarrow> ret (Inr (Some b))) }"

definition GetLiveBatch :: "int \<Rightarrow> string \<Rightarrow> ('f, batch option) go_err" where
  "GetLiveBatch repoID targetBranch = nil_if_no_rows (exec_stmt (sql_GetLiveBatch repoID targetBranch))"

definition GetBatch :: "int \<Rightarrow> ('f, batch option) go_err" where
  "GetBatch i = nil_if_no_rows (exec_stmt (sql_GetBatch i))"

definition ListLiveBatches :: "int \<Rightarrow> ('f, batch list) go_err" where
  "ListLiveBatches repoID = exec_stmt (sql_ListLiveBatchesByRepo repoID)"

text \<open>\<open>SaveBatch\<close> returns the stored row: the caller's \<open>*b\<close> becomes that row.\<close>

definition SaveBatch :: "batch \<Rightarrow> ('f, batch) go_err" where
  "SaveBatch b = exec_stmt (sql_SaveBatch
     (b\<lparr>b_Pending := (if b_Pending b = [] then ''[]'' else b_Pending b)\<rparr>))"

definition GetEntriesByIDs :: "int list \<Rightarrow> ('f, queue_entry list) go_err" where
  "GetEntriesByIDs ids =
     (if ids = [] then ret (Inr [])
      else on_ok (exec_stmt (sql_GetEntriesByIDs ids))
        (\<lambda>rows.
           let byID = map_of (rev (map (\<lambda>r. (qe_ID r, r)) rows))
           in ret (Inr (List.map_filter byID ids))))"

definition ClearMergeBranch :: "int list \<Rightarrow> ('f, unit) go_err" where
  "ClearMergeBranch ids =
     (if ids = [] then ret (Inr ()) else exec_stmt (sql_ClearEntryMergeBranch ids))"

definition ClearCheckStatuses :: "int list \<Rightarrow> ('f, unit) go_err" where
  "ClearCheckStatuses ids =
     (if ids = [] then ret (Inr ()) else exec_stmt (sql_ClearCheckStatuses ids))"

definition CancelLiveBatches :: "int \<Rightarrow> ('f, unit) go_err" where
  "CancelLiveBatches repoID = exec_stmt (sql_CancelBatchesByRepo repoID)"

lemmas queue_defs = enqueue_tx_def dequeue_tx_def advance_tx_def formbatch_tx_def
  count_position_def Enqueue_def Dequeue_def Head_def Advance_def Queue_List_def
  Position_def UpdateState_def SetMergeBranch_def SetError_def GetEntry_def SaveCheckStatus_def
  GetCheckStatuses_def ListActiveEntries_def GetOrCreateRepo_def DequeueAll_def
  LoadActiveQueues_def FormBatch_def nil_if_no_rows_def GetLiveBatch_def GetBatch_def
  ListLiveBatches_def SaveBatch_def GetEntriesByIDs_def ClearMergeBranch_def
  ClearCheckStatuses_def CancelLiveBatches_def

subsection \<open>The service respects every interface of the store\<close>

context effects begin

lemma io_queue_reads [io_intros]:
  "state_io_rel P (Head r b)"
  "state_io_rel P (Queue_List r b)"
  "state_io_rel P (Position r b p)"
  "state_io_rel P (GetEntry r p)"
  "state_io_rel P (GetCheckStatuses i)"
  "state_io_rel P (ListActiveEntries r)"
  "state_io_rel P LoadActiveQueues"
  "state_io_rel P (GetLiveBatch r b)"
  "state_io_rel P (GetBatch i)"
  "state_io_rel P (ListLiveBatches r)"
  "state_io_rel P (GetEntriesByIDs ids)"
  unfolding queue_defs by (intro io_intros)+

end

context entry_effects begin

lemma io_queue [io_intros]:
  "state_io_rel P (Enqueue r p s b)"
  "state_io_rel P (Dequeue r p)"
  "state_io_rel P (Advance r b)"
  "state_io_rel P (UpdateState r p est)"
  "state_io_rel P (SetMergeBranch r p nm sh)"
  "state_io_rel P (SetError r p m)"
  "state_io_rel P (SaveCheckStatus i c st u)"
  "state_io_rel P (GetOrCreateRepo f ow n)"
  "state_io_rel P (DequeueAll r)"
  "state_io_rel P (ClearMergeBranch ids)"
  "state_io_rel P (ClearCheckStatuses ids)"
  unfolding queue_defs by (intro io_intros)+

end

context store_effects begin

lemma io_queue_batch [io_intros]:
  "state_io_rel P (FormBatch r b n)"
  "state_io_rel P (SaveBatch x)"
  "state_io_rel P (CancelLiveBatches r)"
  unfolding queue_defs by (intro io_intros)+

end

end
