(* ===== verification/Merge.thy ===== *)
theory Merge
  imports Queue
begin

text \<open>
  \<open>internal/merge\<close>: creating the merge branch of a single pull request, resetting the
  mirrored statuses of an earlier attempt, and deleting merge branches that nothing refers to.
  The user-visible texts contain emoji; they are written as their UTF-8 bytes.
\<close>

subsection \<open>Texts\<close>

definition cross_mark :: string where
  "cross_mark = [CHR 0xE2, CHR 0x9D, CHR 0x8C, CHR '' '']"

definition alarm_clock :: string where
  "alarm_clock = [CHR 0xE2, CHR 0x8F, CHR 0xB0, CHR '' '']"

definition warning_sign :: string where
  "warning_sign = [CHR 0xE2, CHR 0x9A, CHR 0xA0, CHR 0xEF, CHR 0xB8, CHR 0x8F, CHR '' '']"

definition check_mark :: string where
  "check_mark = [CHR 0xE2, CHR 0x9C, CHR 0x85, CHR '' '']"

definition em_dash :: string where
  "em_dash = [CHR '' '', CHR 0xE2, CHR 0x80, CHR 0x94, CHR '' '']"

definition nl :: string where
  "nl = [CHR 0x0A]"

definition code_block :: "string \<Rightarrow> string" where
  "code_block s = nl @ nl @ ''```'' @ nl @ s @ nl @ ''```''"

definition BranchPrefix :: string where
  "BranchPrefix = ''gitea-mq/''"

definition StaleMirrorDescription :: string where
  "StaleMirrorDescription = ''From a previous merge queue attempt''"

definition BranchName :: "int \<Rightarrow> string" where
  "BranchName prNumber = BranchPrefix @ show_int prNumber"

subsection \<open>Forge calls of the handlers\<close>

text \<open>The methods of the interface, called on one adapter \<open>f\<close> and recorded in the trace.\<close>

definition call_SetMQStatus ::
  "'f forge \<Rightarrow> string \<Rightarrow> string \<Rightarrow> string \<Rightarrow> MQStatus \<Rightarrow> ('f, unit) go_err" where
  "call_SetMQStatus f ow nm sha st =
     forge_do ow nm (CallSetMQStatus sha st) (f_SetMQStatus f ow nm sha st)"

definition call_MirrorCheck ::
  "'f forge \<Rightarrow> string \<Rightarrow> string \<Rightarrow> string \<Rightarrow> string \<Rightarrow> Check \<Rightarrow> ('f, unit) go_err" where
  "call_MirrorCheck f ow nm sha ctx c =
     forge_do ow nm (CallMirrorCheck sha ctx c) (f_MirrorCheck f ow nm sha ctx c)"

definition call_GetCheckStates ::
  "'f forge \<Rightarrow> string \<Rightarrow> string \<Rightarrow> string \<Rightarrow> ('f, (string \<times> Check) list) go_err" where
  "call_GetCheckStates f ow nm sha = forge_do ow nm (CallGetCheckStates sha) (f_GetCheckStates f ow nm sha)"

definition call_CancelAutoMerge :: "'f forge \<Rightarrow> string \<Rightarrow> string \<Rightarrow> int \<Rightarrow> ('f, unit) go_err" where
  "call_CancelAutoMerge f ow nm n = forge_do ow nm (CallCancelAutoMerge n) (f_CancelAutoMerge f ow nm n)"

definition call_Comment :: "'f forge \<Rightarrow> string \<Rightarrow> string \<Rightarrow> int \<Rightarrow> string \<Rightarrow> ('f, unit) go_err" where
  "call_Comment f ow nm n body = forge_do ow nm (CallComment n body) (f_Comment f ow nm n body)"

definition call_DeleteBranch :: "'f forge \<Rightarrow> string \<Rightarrow> string \<Rightarrow> string \<Rightarrow> ('f, unit) go_err" where
  "call_DeleteBranch f ow nm b = forge_do ow nm (CallDeleteBranch b) (f_DeleteBranch f ow nm b)"

definition call_ListBranches :: "'f forge \<Rightarrow> string \<Rightarrow> string \<Rightarrow> ('f, string list) go_err" where
  "call_ListBranches f ow nm = forge_do ow nm CallListBranches (f_ListBranches f ow nm)"

definition call_CreateMergeBranch ::
  "'f forge \<Rightarrow> string \<Rightarrow> string \<Rightarrow> string \<Rightarrow> string \<Rightarrow> string \<Rightarrow> ('f, string \<times> bool) go_err" where
  "call_CreateMergeBranch f ow nm base sha b =
     forge_do ow nm (CallCreateMergeBranch base sha b) (f_CreateMergeBranch f ow nm base sha b)"

subsection \<open>merge.go\<close>

datatype StartTestingResult = Removed | Started (st_MergeBranchName: string) (st_MergeBranchSHA: string)

text \<open>The two removal paths of \<open>StartTesting\<close> differ in state, texts and the error wrapping.\<close>

definition remove_unmergeable ::
  "'f forge \<Rightarrow> string \<Rightarrow> string \<Rightarrow> int \<Rightarrow> queue_entry \<Rightarrow> MQStatus \<Rightarrow> string \<Rightarrow> string \<Rightarrow>
     ('f, StartTestingResult) go_err" where
  "remove_unmergeable f ow nm repoID entry st comment wrap = do {
     warn_if_err (call_CancelAutoMerge f ow nm (qe_PrNumber entry));
     warn_if_err (call_SetMQStatus f ow nm (qe_PrHeadSha entry) st);
     warn_if_err (call_Comment f ow nm (qe_PrNumber entry) comment);
     on_ok_map (Wrap wrap) (Dequeue repoID (qe_PrNumber entry)) (\<lambda>_. ret (Inr Removed)) }"

definition clearStaleMirroredStatuses ::
  "'f forge \<Rightarrow> string \<Rightarrow> string \<Rightarrow> string \<Rightarrow> ('f, unit) go" where
  "clearStaleMirroredStatuses f ow nm sha = do {
     r \<leftarrow> call_GetCheckStates f ow nm sha;
     (case r of
        Inl _ \<Rightarrow> ret ()
      | Inr checks \<Rightarrow> for_each checks (\<lambda>(ctxName, _).
          if \<not> IsOwnContext ctxName then ret ()
          else warn_if_err (call_MirrorCheck f ow nm sha ctxName
            \<lparr>ck_State = CheckStatePending, ck_Description = StaleMirrorDescription,
             ck_TargetURL = []\<rparr>))) }"

definition StartTesting ::
  "'f forge \<Rightarrow> string \<Rightarrow> string \<Rightarrow> int \<Rightarrow> queue_entry \<Rightarrow> string \<Rightarrow> ('f, StartTestingResult) go_err" where
  "StartTesting f ow nm repoID entry externalURL =
     (let n = qe_PrNumber entry;
          branchName = BranchName n;
          targetURL = DashboardPRURL externalURL (f_Kind f) ow nm n;
          status = (\<lambda>st desc. \<lparr>mq_State = st, mq_Description = desc, mq_TargetURL = targetURL\<rparr>)
      in do {
        made \<leftarrow> call_CreateMergeBranch f ow nm (qe_TargetBranch entry) (qe_PrHeadSha entry) branchName;
        (case made of
           Inr (mergeSHA, True) \<Rightarrow>
             remove_unmergeable f ow nm repoID entry
               (status CheckStateFailure ''Merge conflict with target branch'')
               (cross_mark @ ''Removed from merge queue: merge conflict with target branch. '' @
                ''Please rebase and re-schedule automerge.'')
               (''dequeue conflicting PR #'' @ show_int n)
         | Inl err \<Rightarrow>
             remove_unmergeable f ow nm repoID entry
               (status CheckStateError ''Failed to create merge branch'')
               (cross_mark @ ''Removed from merge queue: failed to create merge branch.'' @
                code_block (error_text err))
               (''dequeue PR #'' @ show_int n @ '' after merge error'')
         | Inr (mergeSHA, False) \<Rightarrow>
             on_ok_map (Wrap (''set merge branch for PR #'' @ show_int n))
               (SetMergeBranch repoID n branchName mergeSHA)
               (\<lambda>_. on_ok_map (Wrap (''update state to testing for PR #'' @ show_int n))
                  (UpdateState repoID n EntryStateTesting)
                  (\<lambda>_. do {
                     clearStaleMirroredStatuses f ow nm (qe_PrHeadSha entry);
                     warn_if_err (call_SetMQStatus f ow nm (qe_PrHeadSha entry)
                       (status CheckStatePending ''Testing merge result''));
                     ret (Inr (Started branchName mergeSHA)) }))) })"

definition CleanupMergeBranch :: "'f forge \<Rightarrow> string \<Rightarrow> string \<Rightarrow> queue_entry \<Rightarrow> ('f, unit) go" where
  "CleanupMergeBranch f ow nm entry =
     (case qe_MergeBranchName entry of
        None \<Rightarrow> ret ()
      | Some b \<Rightarrow> if b = [] then ret () else warn_if_err (call_DeleteBranch f ow nm b))"

definition active_branches :: "queue_entry list \<Rightarrow> string list \<Rightarrow> string list" where
  "active_branches entries spare =
     filter (\<lambda>b. b \<noteq> []) (List.map_filter qe_MergeBranchName entries) @ spare"

definition CleanupStaleBranches ::
  "'f forge \<Rightarrow> string \<Rightarrow> string \<Rightarrow> int \<Rightarrow> string list \<Rightarrow> ('f, unit) go_err" where
  "CleanupStaleBranches f ow nm repoID spare =
     on_ok_map (Wrap ''list active entries'') (ListActiveEntries repoID)
       (\<lambda>activeEntries.
          let activeBranches = active_branches activeEntries spare in
          on_ok_map (Wrap ''list branches'') (call_ListBranches f ow nm)
            (\<lambda>branches. do {
               for_each branches (\<lambda>b.
                 if \<not> has_prefix b BranchPrefix then ret ()
                 else if b \<in> set activeBranches then ret ()
                 else warn_if_err (call_DeleteBranch f ow nm b));
               ret (Inr ()) }))"

subsection \<open>Effects\<close>

context effects begin

lemma io_calls [io_intros]:
  "state_io_rel P (call_SetMQStatus f ow nm sha st)"
  "state_io_rel P (call_MirrorCheck f ow nm sha ctx c)"
  "state_io_rel P (call_GetCheckStates f ow nm sha)"
  "state_io_rel P (call_CancelAutoMerge f ow nm n)"
  "state_io_rel P (call_Comment f ow nm n body)"
  "state_io_rel P (call_DeleteBranch f ow nm b)"
  "state_io_rel P (call_ListBranches f ow nm)"
  "state_io_rel P (call_CreateMergeBranch f ow nm base sha b)"
  unfolding call_SetMQStatus_def call_MirrorCheck_def call_GetCheckStates_def
    call_CancelAutoMerge_def call_Comment_def call_DeleteBranch_def call_ListBranches_def
    call_CreateMergeBranch_def
  by (rule io_forge_call, simp)+

lemma io_merge_reads [io_intros]:
  "state_io_rel P (clearStaleMirroredStatuses f ow nm sha)"
  "state_io_rel P (CleanupMergeBranch f ow nm e)"
  "state_io_rel P (CleanupStaleBranches f ow nm r spare)"
  unfolding clearStaleMirroredStatuses_def CleanupMergeBranch_def CleanupStaleBranches_def
  by (intro io_intros)+

end

context entry_effects begin

lemma io_StartTesting [io_intros]: "state_io_rel P (StartTesting f ow nm r e u)"
  unfolding StartTesting_def remove_unmergeable_def Let_def
  by (intro io_intros)

end

end
