(* ===== verification/Monitor.thy ===== *)
theory Monitor
  imports Merge
begin

text \<open>
  \<open>internal/monitor\<close>: evaluation of the recorded checks of a merge branch, and what follows
  from a verdict for a pull request tested on its own. The batch engine is reached through
  the \<open>BatchHandler\<close> interface, the field \<open>md_Batch\<close>.
\<close>

record 'f deps =
  md_Forge :: "'f forge"
  md_Owner :: string
  md_Repo :: string
  md_RepoID :: int
  md_ExternalURL :: string
  md_CheckTimeout :: int
  md_FallbackChecks :: "string list"
  md_Batch :: "(queue_entry \<Rightarrow> string \<Rightarrow> check_state \<Rightarrow> string \<Rightarrow> ('f, unit) go_err) option"

datatype CheckResult = CheckWaiting | CheckSuccess | CheckFailure

definition call_GetRequiredChecks ::
  "'f forge \<Rightarrow> string \<Rightarrow> string \<Rightarrow> string \<Rightarrow> ('f, string list) go_err" where
  "call_GetRequiredChecks f ow nm b =
     forge_do ow nm (CallGetRequiredChecks b) (f_GetRequiredChecks f ow nm b)"

definition ResolveRequiredChecks ::
  "'f forge \<Rightarrow> string \<Rightarrow> string \<Rightarrow> string \<Rightarrow> string list \<Rightarrow> ('f, string list) go_err" where
  "ResolveRequiredChecks f ow nm targetBranch fallback =
     on_ok_map (Wrap (''get required checks for '' @ targetBranch))
       (call_GetRequiredChecks f ow nm targetBranch)
       (\<lambda>checks. ret (Inr (if checks \<noteq> [] then checks else fallback)))"

definition red :: "check_state \<Rightarrow> bool" where
  "red st \<longleftrightarrow> st = CheckStateFailure \<or> st = CheckStateError"

text \<open>The loop of \<open>EvaluateChecks\<close> for an empty requirement; \<open>failed\<close> is its variable.\<close>

fun eval_any :: "check_status list \<Rightarrow> check_status option \<Rightarrow> CheckResult \<times> string \<times> string" where
  "eval_any [] failed =
     (case failed of Some f \<Rightarrow> (CheckFailure, cs_Context f, cs_TargetUrl f) | None \<Rightarrow> (CheckWaiting, [], []))"
| "eval_any (s # ss) failed =
     (if cs_State s = CheckStateSuccess then (CheckSuccess, [], [])
      else eval_any ss (if failed = None \<and> red (cs_State s) then Some s else failed))"

fun first_red :: "(string \<Rightarrow> check_status option) \<Rightarrow> string list \<Rightarrow> (string \<times> string) option" where
  "first_red m [] = None"
| "first_red m (req # reqs) =
     (case m req of
        Some c \<Rightarrow> if red (cs_State c) then Some (req, cs_TargetUrl c) else first_red m reqs
      | None \<Rightarrow> first_red m reqs)"

fun all_green :: "(string \<Rightarrow> check_status option) \<Rightarrow> string list \<Rightarrow> bool" where
  "all_green m [] = True"
| "all_green m (req # reqs) =
     (case m req of
        None \<Rightarrow> False
      | Some c \<Rightarrow> if cs_State c \<noteq> CheckStateSuccess then False else all_green m reqs)"

fun status_map :: "check_status list \<Rightarrow> string \<Rightarrow> check_status option" where
  "status_map [] = Map.empty"
| "status_map (s # ss) = (\<lambda>c. case status_map ss c of Some r \<Rightarrow> Some r | None \<Rightarrow>
     if c = cs_Context s then Some s else None)"

definition EvaluateChecks :: "check_status list \<Rightarrow> string list \<Rightarrow> CheckResult \<times> string \<times> string" where
  "EvaluateChecks statuses requiredChecks =
     (if requiredChecks = [] then eval_any statuses None
      else case first_red (status_map statuses) requiredChecks of
             Some (req, url) \<Rightarrow> (CheckFailure, req, url)
           | None \<Rightarrow> if all_green (status_map statuses) requiredChecks then (CheckSuccess, [], [])
                     else (CheckWaiting, [], []))"

definition CheckTimeout :: "int \<Rightarrow> queue_entry \<Rightarrow> int \<Rightarrow> bool" where
  "CheckTimeout now entry timeout =
     (case qe_TestingStartedAt entry of None \<Rightarrow> False | Some t \<Rightarrow> now - t > timeout)"

definition skipPendingMirroredStatuses ::
  "'f forge \<Rightarrow> string \<Rightarrow> string \<Rightarrow> string \<Rightarrow> ('f, unit) go" where
  "skipPendingMirroredStatuses f ow nm sha = do {
     r \<leftarrow> call_GetCheckStates f ow nm sha;
     (case r of
        Inl _ \<Rightarrow> ret ()
      | Inr checks \<Rightarrow> for_each checks (\<lambda>(ctxName, c).
          if \<not> IsOwnContext ctxName then ret ()
          else if ck_State c \<noteq> CheckStatePending \<or> ck_Description c \<noteq> StaleMirrorDescription then ret ()
          else warn_if_err (call_MirrorCheck f ow nm sha ctxName
            \<lparr>ck_State = CheckStateOther ''skipped'', ck_Description = StaleMirrorDescription,
             ck_TargetURL = []\<rparr>))) }"

definition deps_status :: "'f deps \<Rightarrow> queue_entry \<Rightarrow> check_state \<Rightarrow> string \<Rightarrow> ('f, unit) go_err" where
  "deps_status deps entry st desc =
     call_SetMQStatus (md_Forge deps) (md_Owner deps) (md_Repo deps) (qe_PrHeadSha entry)
       \<lparr>mq_State = st, mq_Description = desc,
        mq_TargetURL = DashboardPRURL (md_ExternalURL deps) (f_Kind (md_Forge deps))
          (md_Owner deps) (md_Repo deps) (qe_PrNumber entry)\<rparr>"

definition HandleSuccess :: "'f deps \<Rightarrow> queue_entry \<Rightarrow> ('f, unit) go_err" where
  "HandleSuccess deps entry =
     on_ok_map (Wrap (''set success status for PR #'' @ show_int (qe_PrNumber entry)))
       (deps_status deps entry CheckStateSuccess ''Merge queue passed'')
       (\<lambda>_. do {
          skipPendingMirroredStatuses (md_Forge deps) (md_Owner deps) (md_Repo deps) (qe_PrHeadSha entry);
          CleanupMergeBranch (md_Forge deps) (md_Owner deps) (md_Repo deps) entry;
          on_ok_map (Wrap (''update state to success for PR #'' @ show_int (qe_PrNumber entry)))
            (UpdateState (md_RepoID deps) (qe_PrNumber entry) EntryStateSuccess)
            (\<lambda>_. ret (Inr ())) })"

definition removeFromQueue ::
  "'f deps \<Rightarrow> queue_entry \<Rightarrow> check_state \<Rightarrow> string \<Rightarrow> string \<Rightarrow> ('f, unit) go_err" where
  "removeFromQueue deps entry statusState statusDesc comment = do {
     warn_if_err (deps_status deps entry statusState statusDesc);
     warn_if_err (call_CancelAutoMerge (md_Forge deps) (md_Owner deps) (md_Repo deps) (qe_PrNumber entry));
     warn_if_err (call_Comment (md_Forge deps) (md_Owner deps) (md_Repo deps) (qe_PrNumber entry) comment);
     CleanupMergeBranch (md_Forge deps) (md_Owner deps) (md_Repo deps) entry;
     warn_if_err (UpdateState (md_RepoID deps) (qe_PrNumber entry) EntryStateFailed);
     on_ok_map (Wrap (''advance queue after removing PR #'' @ show_int (qe_PrNumber entry)))
       (Advance (md_RepoID deps) (qe_TargetBranch entry))
       (\<lambda>_. ret (Inr ())) }"

definition check_ref :: "string \<Rightarrow> string \<Rightarrow> string" where
  "check_ref failedCheck targetURL =
     (if targetURL \<noteq> [] then ''['' @ failedCheck @ ''](''  @ targetURL @ '')'' else failedCheck)"

definition HandleFailure :: "'f deps \<Rightarrow> queue_entry \<Rightarrow> string \<Rightarrow> string \<Rightarrow> ('f, unit) go_err" where
  "HandleFailure deps entry failedCheck targetURL =
     removeFromQueue deps entry CheckStateFailure (''Check failed: '' @ failedCheck)
       (cross_mark @ ''Removed from merge queue: Check failed: '' @ check_ref failedCheck targetURL)"

definition HandleTimeout :: "'f deps \<Rightarrow> queue_entry \<Rightarrow> ('f, unit) go_err" where
  "HandleTimeout deps entry =
     removeFromQueue deps entry CheckStateError ''Check timeout exceeded''
       (alarm_clock @ ''Removed from merge queue: check timeout exceeded. '' @
        ''Required checks did not complete in time.'')"

definition ProcessCheckStatus ::
  "'f deps \<Rightarrow> queue_entry \<Rightarrow> string \<Rightarrow> check_state \<Rightarrow> string \<Rightarrow> ('f, unit) go_err" where
  "ProcessCheckStatus deps entry checkContext checkState targetURL =
     (case (md_Batch deps, qe_ActiveBatchID entry) of
        (Some handle, Some _) \<Rightarrow> handle entry checkContext checkState targetURL
      | _ \<Rightarrow>
        on_ok_map (Wrap (''save check status for PR #'' @ show_int (qe_PrNumber entry)))
          (SaveCheckStatus (qe_ID entry) checkContext checkState targetURL)
          (\<lambda>_. on_ok_map (Wrap ''resolve required checks'')
            (ResolveRequiredChecks (md_Forge deps) (md_Owner deps) (md_Repo deps)
              (qe_TargetBranch entry) (md_FallbackChecks deps))
            (\<lambda>requiredChecks.
              on_ok_map (Wrap (''get check statuses for PR #'' @ show_int (qe_PrNumber entry)))
                (GetCheckStatuses (qe_ID entry))
                (\<lambda>statuses.
                  case EvaluateChecks statuses requiredChecks of
                    (CheckSuccess, _, _) \<Rightarrow> HandleSuccess deps entry
                  | (CheckFailure, failedCheck, failedURL) \<Rightarrow>
                      HandleFailure deps entry failedCheck failedURL
                  | (CheckWaiting, _, _) \<Rightarrow> do {
                      now \<leftarrow> go_now;
                      if CheckTimeout now entry (md_CheckTimeout deps) then HandleTimeout deps entry
                      else ret (Inr ()) }))))"

definition ApplyCheck :: "'f deps \<Rightarrow> queue_entry \<Rightarrow> string \<Rightarrow> Check \<Rightarrow> ('f, unit) go_err" where
  "ApplyCheck deps entry checkCtx c = do {
     warn_if_err (call_MirrorCheck (md_Forge deps) (md_Owner deps) (md_Repo deps) (qe_PrHeadSha entry)
       (MirrorContextPrefix @ checkCtx) c);
     ProcessCheckStatus deps entry checkCtx (ck_State c) (ck_TargetURL c) }"

subsection \<open>Effects\<close>

lemma io_check_result [io_intros]:
  "state_io_rel P m \<Longrightarrow> state_io_rel P n \<Longrightarrow> state_io_rel P k \<Longrightarrow>
     state_io_rel P (case r of CheckWaiting \<Rightarrow> m | CheckSuccess \<Rightarrow> n | CheckFailure \<Rightarrow> k)"
  by (cases r) auto

context effects begin

lemma io_ResolveRequiredChecks [io_intros]: "state_io_rel P (ResolveRequiredChecks f ow nm b fb)"
  unfolding ResolveRequiredChecks_def call_GetRequiredChecks_def by (intro io_intros) simp

lemma io_skipPending [io_intros]: "state_io_rel P (skipPendingMirroredStatuses f ow nm sha)"
  unfolding skipPendingMirroredStatuses_def by (intro io_intros)

lemma io_deps_status [io_intros]: "state_io_rel P (deps_status deps e st d)"
  unfolding deps_status_def by (intro io_intros)

end

context entry_effects begin

lemma io_monitor [io_intros]:
  "state_io_rel P (HandleSuccess deps e)"
  "state_io_rel P (removeFromQueue deps e st d c)"
  "state_io_rel P (HandleFailure deps e fc u)"
  "state_io_rel P (HandleTimeout deps e)"
  unfolding HandleSuccess_def removeFromQueue_def HandleFailure_def HandleTimeout_def
  by (intro io_intros)+

lemma io_ProcessCheckStatus:
  assumes "\<And>h x c s u. md_Batch deps = Some h \<Longrightarrow> state_io_rel P (h x c s u)"
  shows "state_io_rel P (ProcessCheckStatus deps e ctx st u)"
  using assms unfolding ProcessCheckStatus_def
  by (cases "md_Batch deps"; cases "qe_ActiveBatchID e") (auto intro!: io_intros)

lemma io_ApplyCheck:
  assumes "\<And>h x c s u. md_Batch deps = Some h \<Longrightarrow> state_io_rel P (h x c s u)"
  shows "state_io_rel P (ApplyCheck deps e ctx c)"
  unfolding ApplyCheck_def using assms by (intro io_intros io_ProcessCheckStatus)

end

end
