(* ===== verification/PendingStack.thy ===== *)
theory PendingStack
  imports GoStrings "HOL-Library.Multiset"
begin

text \<open>
  The stack of pending slices of a batch, stored as JSON in the column \<open>pending\<close>
  (\<open>pendingStack\<close> of \<open>internal/batch/batch.go\<close>). \<open>bytes\<close> is \<open>json.Marshal\<close> of a
  \<open>[][]int64\<close>, \<open>loadPending\<close> is \<open>json.Unmarshal\<close> with its error dropped. The reader
  skips white space between tokens, since PostgreSQL reprints a \<open>JSONB\<close> value with spaces;
  a text that is no array of integer arrays loads as the empty stack.
\<close>

type_synonym pendingStack = "int list list"

subsection \<open>Writing\<close>

definition slice_bytes :: "int list \<Rightarrow> string" where
  "slice_bytes s = CHR ''['' # join_with '','' (map show_int s) @ '']''"

definition bytes :: "pendingStack \<Rightarrow> string" where
  "bytes p = (if p = [] then ''[]'' else CHR ''['' # join_with '','' (map slice_bytes p) @ '']'')"

subsection \<open>Reading\<close>

datatype token = LBr | RBr | Comma | Num int

definition is_space :: "char \<Rightarrow> bool" where
  "is_space c \<longleftrightarrow> c \<in> {CHR 0x09, CHR 0x0A, CHR 0x0D, CHR '' ''}"

definition num_char :: "char \<Rightarrow> bool" where
  "num_char c \<longleftrightarrow> c = CHR ''-'' \<or> char_digit c \<noteq> None"

function lex_json :: "string \<Rightarrow> token list option" where
  "lex_json [] = Some []"
| "lex_json (c # cs) =
     (if is_space c then lex_json cs
      else if c = CHR ''['' then map_option (Cons LBr) (lex_json cs)
      else if c = CHR '']'' then map_option (Cons RBr) (lex_json cs)
      else if c = CHR '','' then map_option (Cons Comma) (lex_json cs)
      else if num_char c then
        (case parse_int (takeWhile num_char (c # cs)) of
           None \<Rightarrow> None
         | Some n \<Rightarrow> map_option (Cons (Num n)) (lex_json (dropWhile num_char cs)))
      else None)"
  by pat_completeness auto
termination
  by (relation "measure length") (auto simp: le_imp_less_Suc length_dropWhile_le)

fun p_ints :: "token list \<Rightarrow> (int list \<times> token list) option" where
  "p_ints (Num n # RBr # ts) = Some ([n], ts)"
| "p_ints (Num n # Comma # ts) = map_option (\<lambda>(ns, r). (n # ns, r)) (p_ints ts)"
| "p_ints _ = None"

fun p_slice :: "token list \<Rightarrow> (int list \<times> token list) option" where
  "p_slice (LBr # RBr # ts) = Some ([], ts)"
| "p_slice (LBr # ts) = p_ints ts"
| "p_slice _ = None"

lemma p_ints_shorter: "p_ints ts = Some (ns, r) \<Longrightarrow> length r < length ts"
  by (induction ts arbitrary: ns rule: p_ints.induct) fastforce+

lemma p_slice_shorter: "p_slice ts = Some (ns, r) \<Longrightarrow> length r < length ts"
  by (induction ts rule: p_slice.induct) (fastforce dest: p_ints_shorter)+

function p_slices :: "token list \<Rightarrow> pendingStack option" where
  "p_slices ts =
     (case p_slice ts of
        Some (s, [RBr]) \<Rightarrow> Some [s]
      | Some (s, Comma # r) \<Rightarrow> map_option (Cons s) (p_slices r)
      | _ \<Rightarrow> None)"
  by pat_completeness auto
termination
  by (relation "measure length") (auto dest: p_slice_shorter)

declare p_slices.simps [simp del]

definition loadPending :: "string \<Rightarrow> pendingStack" where
  "loadPending raw =
     (if raw = [] then []
      else case lex_json raw of
        Some [LBr, RBr] \<Rightarrow> []
      | Some (LBr # ts) \<Rightarrow> (case p_slices ts of Some p \<Rightarrow> p | None \<Rightarrow> [])
      | _ \<Rightarrow> [])"

text \<open>\<open>drop\<close> removes an entry id from every slice and forgets the slices left empty.\<close>

definition drop_id :: "int \<Rightarrow> pendingStack \<Rightarrow> pendingStack" where
  "drop_id i p = filter (\<lambda>s. s \<noteq> []) (map (filter (\<lambda>v. v \<noteq> i)) p)"

subsection \<open>Round trip\<close>

fun int_tokens :: "int list \<Rightarrow> token list" where
  "int_tokens [] = []"
| "int_tokens [n] = [Num n]"
| "int_tokens (n # m # ns) = Num n # Comma # int_tokens (m # ns)"

fun slice_tokens :: "pendingStack \<Rightarrow> token list" where
  "slice_tokens [] = []"
| "slice_tokens [s] = LBr # int_tokens s @ [RBr]"
| "slice_tokens (s # t # p) = LBr # int_tokens s @ RBr # Comma # slice_tokens (t # p)"

lemma show_int_num: "c \<in> set (show_int n) \<Longrightarrow> num_char c"
  by (auto simp: num_char_def dest!: show_int_chars)

lemma num_char_other [simp]:
  "\<not> num_char CHR ''[''" "\<not> num_char CHR '']''" "\<not> num_char CHR '',''"
  by (simp_all add: num_char_def char_digit_def)

lemma num_char_not_space: "num_char c \<Longrightarrow> \<not> is_space c"
  by (auto simp: num_char_def is_space_def char_digit_def)

lemma lex_other [simp]:
  "lex_json (CHR ''['' # cs) = map_option (Cons LBr) (lex_json cs)"
  "lex_json (CHR '']'' # cs) = map_option (Cons RBr) (lex_json cs)"
  "lex_json (CHR '','' # cs) = map_option (Cons Comma) (lex_json cs)"
  by (simp_all add: is_space_def)

lemma lex_show_int:
  assumes "\<not> num_char c"
  shows "lex_json (show_int n @ c # s) = map_option (Cons (Num n)) (lex_json (c # s))"
proof -
  have tw: "takeWhile num_char (show_int n @ c # s) = show_int n"
    and dw: "dropWhile num_char (show_int n @ c # s) = c # s"
    using assms by (auto simp: takeWhile_append2 dropWhile_append2 show_int_num)
  obtain d ds where s: "show_int n = d # ds" by (cases "show_int n") auto
  have d: "num_char d" using show_int_num[of d n] s by simp
  then have d': "\<not> is_space d" "d \<noteq> CHR ''[''" "d \<noteq> CHR '']''" "d \<noteq> CHR '',''"
    using num_char_not_space by auto
  have num: "parse_int (takeWhile num_char (d # ds @ c # s)) = Some n"
    and rest: "dropWhile num_char (ds @ c # s) = c # s"
    using tw dw d parse_show_int[of n] by (simp_all add: s del: parse_show_int)
  show ?thesis
    unfolding s append_Cons lex_json.simps(2) num rest using d d' by simp
qed

declare lex_json.simps(2) [simp del]

lemma lex_ints:
  "lex_json (join_with '','' (map show_int ns) @ CHR '']'' # s) =
     map_option (\<lambda>ts. int_tokens ns @ RBr # ts) (lex_json s)"
  by (induction ns rule: int_tokens.induct)
    (simp_all add: lex_show_int option.map_comp comp_def)

lemma lex_slices:
  "p \<noteq> [] \<Longrightarrow> lex_json (join_with '','' (map slice_bytes p) @ s) =
     map_option (\<lambda>ts. slice_tokens p @ ts) (lex_json s)"
proof (induction p rule: slice_tokens.induct)
  case (3 a b p)
  have "lex_json (join_with '','' (map slice_bytes (a # b # p)) @ s) =
      map_option (\<lambda>ts. LBr # int_tokens a @ RBr # Comma # ts)
        (lex_json (join_with '','' (map slice_bytes (b # p)) @ s))"
    by (simp add: slice_bytes_def[of a] lex_ints option.map_comp comp_def)
  with 3 show ?case by (cases "lex_json s") simp_all
qed (cases "lex_json s"; simp add: slice_bytes_def lex_ints)+

lemma p_ints_tokens: "ns \<noteq> [] \<Longrightarrow> p_ints (int_tokens ns @ RBr # ts) = Some (ns, ts)"
  by (induction ns rule: int_tokens.induct) simp_all

lemma p_slice_tokens: "p_slice (LBr # int_tokens ns @ RBr # ts) = Some (ns, ts)"
proof (cases ns rule: int_tokens.cases)
  case (2 n)
  then show ?thesis by simp
next
  case (3 n m ns')
  then show ?thesis using p_ints_tokens[of ns ts] by simp
qed simp

lemma p_slices_tokens: "p \<noteq> [] \<Longrightarrow> p_slices (slice_tokens p @ [RBr]) = Some p"
  by (induction p rule: slice_tokens.induct)
    (simp_all add: p_slices.simps[of "LBr # _"] p_slice_tokens)

lemma slice_tokens_hd: "p \<noteq> [] \<Longrightarrow> \<exists>ts. slice_tokens p = LBr # ts"
  by (cases p rule: slice_tokens.cases) auto

lemma load_bytes [simp]: "loadPending (bytes p) = p"
proof (cases "p = []")
  case False
  then obtain ts where ts: "slice_tokens p = LBr # ts" using slice_tokens_hd by blast
  have "lex_json (bytes p) = Some (LBr # slice_tokens p @ [RBr])"
    using False by (simp add: bytes_def lex_slices)
  moreover have "bytes p \<noteq> []" by (simp add: bytes_def)
  ultimately show ?thesis
    using p_slices_tokens[OF False] by (simp add: loadPending_def ts)
qed (simp add: bytes_def loadPending_def)

lemma load_empty [simp]: "loadPending [] = []" "loadPending ''[]'' = []"
  by (simp_all add: loadPending_def)

lemma drop_id_notin: "i \<notin> set (concat (drop_id i p))"
  by (auto simp: drop_id_def)

lemma mset_drop_id: "mset (concat (drop_id i p)) = filter_mset (\<lambda>v. v \<noteq> i) (mset (concat p))"
  by (induction p) (auto simp: drop_id_def filter_empty_conv)

lemma drop_id_nonempty: "s \<in> set (drop_id i p) \<Longrightarrow> s \<noteq> []"
  by (auto simp: drop_id_def)

end
