(* ===== verification/Batch.thy ===== *)
theory Batch
  imports Monitor PendingStack
begin

text \<open>
  \<open>internal/batch\<close>: the batch engine. A method with receiver \<open>b *pg.Batch\<close> takes the row
  and, when it returns no error, yields the row as the method leaves it. Every entry point
  runs under the lock of its target branch and is one step here; the goroutines of
  \<open>HandlePass\<close>, which touch no shared variable, run in the order they are started.

  \<open>Build\<close>, \<open>next\<close> and \<open>rebuild\<close> call one another. \<open>build_fuel\<close> bounds the depth of that
  recursion; \<open>Build\<close> takes one more than the number of pending slices, and the theory
  \<open>BatchBuild\<close> proves that this is enough: \<open>Build\<close> satisfies the equation of the source and
  more fuel changes nothing.
\<close>

record 'f engine =
  en_Forge :: "'f forge"
  en_Owner :: string
  en_Repo :: string
  en_RepoID :: int
  en_ExternalURL :: string
  en_BatchMax :: int
  en_BisectMaxSteps :: int
  en_CheckTimeout :: int
  en_FallbackChecks :: "string list"
  en_MergedPollAttempts :: int
  en_Advance :: bool

definition MaxFFRetries :: int where
  "MaxFFRetries = 3"

definition batch_BranchPrefix :: string where
  "batch_BranchPrefix = BranchPrefix @ ''batch/''"

definition batch_BranchName :: "int \<Rightarrow> string" where
  "batch_BranchName i = batch_BranchPrefix @ show_int i"

definition Enabled :: "'f engine option \<Rightarrow> bool" where
  "Enabled e = (case e of None \<Rightarrow> False | Some e \<Rightarrow> en_BatchMax e \<noteq> 1)"

definition entry_ids :: "queue_entry list \<Rightarrow> int list" where
  "entry_ids = map qe_ID"

definition prURL :: "'f engine \<Rightarrow> int \<Rightarrow> string" where
  "prURL e n = DashboardPRURL (en_ExternalURL e) (f_Kind (en_Forge e)) (en_Owner e) (en_Repo e) n"

definition TimedOut :: "int \<Rightarrow> batch \<Rightarrow> int \<Rightarrow> bool" where
  "TimedOut now b timeout \<longleftrightarrow>
     timeout > 0 \<and> (case b_TestingStartedAt b of None \<Rightarrow> False | Some t \<Rightarrow> now - t > timeout)"

subsection \<open>Forge calls of the engine\<close>

definition call_MergeInto ::
  "'f forge \<Rightarrow> string \<Rightarrow> string \<Rightarrow> string \<Rightarrow> string \<Rightarrow> ('f, string \<times> bool) go_err" where
  "call_MergeInto f ow nm b sha = forge_do ow nm (CallMergeInto b sha) (f_MergeInto f ow nm b sha)"

definition call_FastForward ::
  "'f forge \<Rightarrow> string \<Rightarrow> string \<Rightarrow> string \<Rightarrow> string \<Rightarrow> ('f, unit) go_err" where
  "call_FastForward f ow nm b sha = forge_do ow nm (CallFastForward b sha) (f_FastForward f ow nm b sha)"

definition call_GetPR :: "'f forge \<Rightarrow> string \<Rightarrow> string \<Rightarrow> int \<Rightarrow> ('f, PR) go_err" where
  "call_GetPR f ow nm n = forge_do ow nm (CallGetPR n) (f_GetPR f ow nm n)"

definition call_ClosePR :: "'f forge \<Rightarrow> string \<Rightarrow> string \<Rightarrow> int \<Rightarrow> ('f, unit) go_err" where
  "call_ClosePR f ow nm n = forge_do ow nm (CallClosePR n) (f_ClosePR f ow nm n)"

definition e_status :: "'f engine \<Rightarrow> queue_entry \<Rightarrow> check_state \<Rightarrow> string \<Rightarrow> ('f, unit) go" where
  "e_status e ent st desc = warn_if_err (call_SetMQStatus (en_Forge e) (en_Owner e) (en_Repo e)
     (qe_PrHeadSha ent)
     \<lparr>mq_State = st, mq_Description = desc, mq_TargetURL = prURL e (qe_PrNumber ent)\<rparr>)"

subsection \<open>Ejecting members\<close>

definition eject ::
  "'f engine \<Rightarrow> check_state \<Rightarrow> string \<Rightarrow> string \<Rightarrow> queue_entry \<Rightarrow> batch \<Rightarrow> ('f, batch) go" where
  "eject e st statusDesc comment ent b = do {
     e_status e ent st statusDesc;
     warn_if_err (call_CancelAutoMerge (en_Forge e) (en_Owner e) (en_Repo e) (qe_PrNumber ent));
     warn_if_err (call_Comment (en_Forge e) (en_Owner e) (en_Repo e) (qe_PrNumber ent) comment);
     warn_if_err (Dequeue (en_RepoID e) (qe_PrNumber ent));
     ret (b\<lparr>b_EjectedIds := b_EjectedIds b @ [qe_ID ent]\<rparr>) }"

definition entries_or_nil :: "int list \<Rightarrow> ('f, queue_entry list) go" where
  "entries_or_nil is = do {
     r \<leftarrow> GetEntriesByIDs is;
     ret (case r of Inl _ \<Rightarrow> [] | Inr es \<Rightarrow> es) }"

definition ejectCurrent ::
  "'f engine \<Rightarrow> check_state \<Rightarrow> string \<Rightarrow> string \<Rightarrow> batch \<Rightarrow> ('f, batch) go" where
  "ejectCurrent e st statusDesc comment b = do {
     entries \<leftarrow> entries_or_nil (b_CurrentIds b);
     b' \<leftarrow> for_acc entries b (eject e st statusDesc comment);
     ret (b'\<lparr>b_CurrentIds := []\<rparr>) }"

subsection \<open>Building the batch branch\<close>

definition stack ::
  "'f engine \<Rightarrow> string \<Rightarrow> string list \<Rightarrow> string \<Rightarrow> ('f, string \<times> MergeStep list) go_err" where
  "stack e base heads branch =
     (case f_StackMerges (en_Forge e) of
        Some sm \<Rightarrow> forge_do (en_Owner e) (en_Repo e) (CallStackMerges base heads branch)
          (sm (en_Owner e) (en_Repo e) base heads branch)
      | None \<Rightarrow> do {
          r \<leftarrow> for_acc heads ([], []) (\<lambda>head (tip, steps). do {
            m \<leftarrow> (if tip = [] then
                   call_CreateMergeBranch (en_Forge e) (en_Owner e) (en_Repo e) base head branch
                 else call_MergeInto (en_Forge e) (en_Owner e) (en_Repo e) branch head);
            (case m of
               Inl err \<Rightarrow> ret (tip, steps @ [MergeStep False (Some err)])
             | Inr (sha, conflict) \<Rightarrow>
                 ret (if conflict then tip else sha, steps @ [MergeStep conflict None])) });
          ret (Inr r) })"

text \<open>One turn of the loop over the merge steps; the loop carries the row, the survivors and
  the previous pull request.\<close>

definition build_one ::
  "'f engine \<Rightarrow> queue_entry \<times> MergeStep \<Rightarrow> batch \<times> queue_entry list \<times> int \<Rightarrow>
     ('f, batch \<times> queue_entry list \<times> int) go" where
  "build_one e es acc =
     (case (es, acc) of ((ent, step), (b, surv, prev)) \<Rightarrow>
       if ms_Conflict step then
         (let msg = (if prev \<noteq> 0 then ''Merge conflict in batch (after #'' @ show_int prev @ '')''
                     else ''Merge conflict with target branch'')
          in do {
            b' \<leftarrow> eject e CheckStateFailure msg
              (cross_mark @ ''Removed from merge queue: '' @ msg @
               ''. Please rebase and re-schedule automerge.'') ent b;
            ret (b', surv, prev) })
       else (case ms_Err step of
         Some err \<Rightarrow> do {
            b' \<leftarrow> eject e CheckStateError ''Failed to create merge branch''
              (cross_mark @ ''Removed from merge queue: failed to create merge branch.'' @
               code_block (error_text err)) ent b;
            ret (b', surv, prev) }
       | None \<Rightarrow> ret (b, surv @ [ent], qe_PrNumber ent)))"

definition batch_branch :: "batch \<Rightarrow> string" where
  "batch_branch b = (case b_BranchName b of None \<Rightarrow> batch_BranchName (b_ID b) | Some n \<Rightarrow> n)"

definition route_entry ::
  "'f engine \<Rightarrow> string \<Rightarrow> string \<Rightarrow> bool \<Rightarrow> string \<Rightarrow> queue_entry \<Rightarrow> ('f, unit) go" where
  "route_entry e branch tip first desc ent = do {
     warn_if_err (SetMergeBranch (en_RepoID e) (qe_PrNumber ent) branch tip);
     if first then e_status e ent CheckStatePending desc else ret () }"

text \<open>What follows the loop: the row is finished when nobody survived, else saved as testing.\<close>

definition build_finish ::
  "(batch \<Rightarrow> ('f, batch) go_err) \<Rightarrow> 'f engine \<Rightarrow> string \<Rightarrow> string \<Rightarrow>
     batch \<times> queue_entry list \<times> int \<Rightarrow> ('f, batch) go_err" where
  "build_finish nxt e branch tip acc =
     (case acc of (b, surv, prev) \<Rightarrow>
       let b = b\<lparr>b_CurrentIds := entry_ids surv\<rparr> in
       if surv = [] then nxt b
       else do {
         now \<leftarrow> go_now;
         (let first = (b_Builds b = 0);
              b = b\<lparr>b_BranchSha := Some tip, b_State := BatchStateTesting,
                    b_TestingStartedAt := Some now, b_Builds := b_Builds b + 1\<rparr>
          in on_ok (SaveBatch b) (\<lambda>b. do {
               for_each surv (route_entry e branch tip first
                 (''Testing batch #'' @ show_int (b_ID b) @ '' ('' @
                  show_nat (length (b_MemberIds b)) @ '' PRs)''));
               warn_if_err (ClearCheckStatuses (b_CurrentIds b));
               ret (Inr b) })) })"

definition build_step ::
  "(batch \<Rightarrow> ('f, batch) go_err) \<Rightarrow> 'f engine \<Rightarrow> batch \<Rightarrow> ('f, batch) go_err" where
  "build_step nxt e b0 =
     (let branch = batch_branch b0;
          b = b0\<lparr>b_BranchName := Some branch\<rparr>
      in do {
        warn_if_err (call_DeleteBranch (en_Forge e) (en_Owner e) (en_Repo e) branch);
        on_ok_map (Wrap ''load batch members'') (GetEntriesByIDs (b_CurrentIds b))
          (\<lambda>entries.
            on_ok_map (Wrap ''build batch branch'')
              (stack e (b_TargetBranch b) (map qe_PrHeadSha entries) branch)
              (\<lambda>(tip, steps). do {
                 acc \<leftarrow> for_acc (zip entries steps) (b, [], 0) (build_one e);
                 build_finish nxt e branch tip acc })) })"

definition rebuild_with ::
  "(batch \<Rightarrow> ('f, batch) go_err) \<Rightarrow> batch \<Rightarrow> ('f, batch) go_err" where
  "rebuild_with build b = on_ok (SaveBatch (b\<lparr>b_State := BatchStateForming\<rparr>)) build"

definition next_with ::
  "(batch \<Rightarrow> ('f, batch) go_err) \<Rightarrow> 'f engine \<Rightarrow> batch \<Rightarrow> ('f, batch) go_err" where
  "next_with rebuild e b =
     (let pending = loadPending (b_Pending b) in
      if pending \<noteq> [] then
        rebuild (b\<lparr>b_CurrentIds := last pending, b_Pending := bytes (butlast pending)\<rparr>)
      else
        on_ok (SaveBatch (b\<lparr>
            b_Flaky := (b_EjectedIds b = [] \<and> sint (b_Builds b) > 1 \<and>
              length (b_LandedIds b) = length (b_MemberIds b)),
            b_State := BatchStateDone, b_CurrentIds := []\<rparr>))
          (\<lambda>b. do {
             warn_if_err (call_DeleteBranch (en_Forge e) (en_Owner e) (en_Repo e) (text_string (b_BranchName b)));
             (if en_Advance e then set_trigger (en_RepoID e) else ret ());
             ret (Inr b) }))"

primrec build_fuel :: "nat \<Rightarrow> 'f engine \<Rightarrow> batch \<Rightarrow> ('f, batch) go_err" where
  "build_fuel 0 e b = ret (Inl OutOfFuel)"
| "build_fuel (Suc n) e b = build_step (next_with (rebuild_with (build_fuel n e)) e) e b"

definition Build :: "'f engine \<Rightarrow> batch \<Rightarrow> ('f, batch) go_err" where
  "Build e b = build_fuel (Suc (length (loadPending (b_Pending b)))) e b"

definition rebuild :: "'f engine \<Rightarrow> batch \<Rightarrow> ('f, batch) go_err" where
  "rebuild e = rebuild_with (Build e)"

definition next_batch :: "'f engine \<Rightarrow> batch \<Rightarrow> ('f, batch) go_err" where
  "next_batch e = next_with (rebuild e) e"

definition FormAndBuild :: "'f engine \<Rightarrow> string \<Rightarrow> ('f, batch option) go_err" where
  "FormAndBuild e targetBranch =
     on_ok (GetLiveBatch (en_RepoID e) targetBranch)
       (\<lambda>live. case live of
          Some b \<Rightarrow>
            if b_State b = BatchStateForming then on_ok (Build e b) (\<lambda>b. ret (Inr (Some b)))
            else ret (Inr None)
        | None \<Rightarrow>
            on_ok (FormBatch (en_RepoID e) targetBranch (en_BatchMax e))
              (\<lambda>formed. case formed of
                 None \<Rightarrow> ret (Inr None)
               | Some b \<Rightarrow> on_ok (Build e b) (\<lambda>b. ret (Inr (Some b)))))"

subsection \<open>Verdicts\<close>

definition ensureMergedOrClose ::
  "'f engine \<Rightarrow> string \<Rightarrow> int \<Rightarrow> queue_entry \<Rightarrow> ('f, unit) go" where
  "ensureMergedOrClose e sha batchID ent = do {
     seen \<leftarrow> for_acc
       [0 ..< nat (if en_MergedPollAttempts e \<noteq> 0 then en_MergedPollAttempts e else 50)] False
       (\<lambda>_ seen. if seen then ret True else do {
          r \<leftarrow> call_GetPR (en_Forge e) (en_Owner e) (en_Repo e) (qe_PrNumber ent);
          ret (case r of Inl _ \<Rightarrow> False | Inr p \<Rightarrow> pr_Merged p \<or> pr_State p = ''closed'') });
     if seen then ret ()
     else do {
       warn_if_err (call_Comment (en_Forge e) (en_Owner e) (en_Repo e) (qe_PrNumber ent)
         (check_mark @ ''Merged as `'' @ sha @ ''` via batch #'' @ show_int batchID @ ''.''));
       warn_if_err (call_ClosePR (en_Forge e) (en_Owner e) (en_Repo e) (qe_PrNumber ent)) } }"

definition land_entry :: "'f engine \<Rightarrow> string \<Rightarrow> int \<Rightarrow> queue_entry \<Rightarrow> ('f, unit) go" where
  "land_entry e sha batchID ent = do {
     e_status e ent CheckStateSuccess (''Merged via batch #'' @ show_int batchID);
     warn_if_err (Dequeue (en_RepoID e) (qe_PrNumber ent));
     ensureMergedOrClose e sha batchID ent }"

definition HandlePass :: "'f engine \<Rightarrow> batch \<Rightarrow> ('f, batch) go_err" where
  "HandlePass e b =
     (if b_State b \<noteq> BatchStateTesting then ret (Inr b)
      else let sha = text_string (b_BranchSha b); tb = b_TargetBranch b in do {
        pushed \<leftarrow> call_FastForward (en_Forge e) (en_Owner e) (en_Repo e) tb sha;
        (case pushed of
           Inl err \<Rightarrow>
             if errors_is err ErrNotFastForward then
               (let b = b\<lparr>b_FfRetries := b_FfRetries b + 1\<rparr> in
                if sint (b_FfRetries b) < MaxFFRetries then rebuild e b
                else do {
                  b \<leftarrow> ejectCurrent e CheckStateError ''Target branch moved repeatedly''
                    (warning_sign @
                     ''Removed from merge queue: the target branch moved during fast-forward '' @
                     show_int MaxFFRetries @ '' times in a row'' @ em_dash @
                     '' is something else pushing to `'' @ tb @ ''`?'') b;
                  next_batch e b })
             else (case errors_as as_push_denied err of
                 Some (_, message) \<Rightarrow> do {
                   b \<leftarrow> ejectCurrent e CheckStateError (''gitea-mq cannot push to '' @ tb)
                     (warning_sign @
                      ''Removed from merge queue: gitea-mq is not allowed to push to `'' @ tb @ ''`.'' @
                      nl @ nl @
                      ''Add the gitea-mq user/app to the branch'' @ [CHR 0x27] @
                      ''s push whitelist (or ruleset bypass) and re-schedule.'' @
                      code_block message) b;
                   next_batch e b }
               | None \<Rightarrow> ret (Inl (Wrap (''fast-forward '' @ tb) err)))
         | Inr _ \<Rightarrow>
             (let b = b\<lparr>b_FfRetries := 0\<rparr> in
              on_ok (GetEntriesByIDs (b_CurrentIds b))
                (\<lambda>entries. do {
                   for_each entries (land_entry e sha (b_ID b));
                   next_batch e (b\<lparr>b_LandedIds := b_LandedIds b @ b_CurrentIds b,
                     b_CurrentIds := []\<rparr>) }))) })"

definition split_ids :: "int list \<Rightarrow> int list \<times> int list" where
  "split_ids is = (let mid = length is div 2 in (take mid is, drop mid is))"

definition HandleFail :: "'f engine \<Rightarrow> batch \<Rightarrow> string \<Rightarrow> string \<Rightarrow> ('f, batch) go_err" where
  "HandleFail e b failedCheck targetURL =
     (if b_State b \<noteq> BatchStateTesting then ret (Inr b)
      else if length (b_CurrentIds b) = 1 then do {
        entries \<leftarrow> entries_or_nil (b_CurrentIds b);
        b \<leftarrow> (case entries of
               [ent] \<Rightarrow> eject e CheckStateFailure (''Check failed: '' @ failedCheck)
                 (cross_mark @ ''Removed from merge queue: Check failed: '' @
                  check_ref failedCheck targetURL) ent b
             | _ \<Rightarrow> ret b);
        next_batch e (b\<lparr>b_CurrentIds := []\<rparr>) }
      else if en_BisectMaxSteps e > 0 \<and> sint (b_Builds b) \<ge> en_BisectMaxSteps e then do {
        b \<leftarrow> ejectCurrent e CheckStateError ''Bisection limit reached''
          (warning_sign @
           ''Removed from merge queue: batch bisection reached the configured limit of '' @
           show_int (en_BisectMaxSteps e) @ '' builds.'')
          (b\<lparr>b_CurrentIds := b_CurrentIds b @ concat (loadPending (b_Pending b)),
             b_Pending := []\<rparr>);
        next_batch e b }
      else (case split_ids (b_CurrentIds b) of (left, right) \<Rightarrow> do {
        warn_if_err (ClearMergeBranch right);
        rebuild e (b\<lparr>b_Pending := bytes (loadPending (b_Pending b) @ [right]),
          b_CurrentIds := left\<rparr>) }))"

definition batch_HandleTimeout :: "'f engine \<Rightarrow> int \<Rightarrow> ('f, unit) go_err" where
  "batch_HandleTimeout e batchID =
     on_ok (GetBatch batchID)
       (\<lambda>got. do {
          now \<leftarrow> go_now;
          (case got of
             None \<Rightarrow> ret (Inr ())
           | Some b \<Rightarrow>
               if b_State b \<noteq> BatchStateTesting \<or> \<not> TimedOut now b (en_CheckTimeout e) then ret (Inr ())
               else on_ok (HandleFail e b ''timeout'' []) (\<lambda>_. ret (Inr ()))) })"

definition remove_member :: "int \<Rightarrow> batch \<Rightarrow> batch" where
  "remove_member i b = b\<lparr>b_CurrentIds := filter (\<lambda>v. v \<noteq> i) (b_CurrentIds b),
     b_Pending := bytes (drop_id i (loadPending (b_Pending b))),
     b_EjectedIds := b_EjectedIds b @ [i]\<rparr>"

definition OnMemberRemoved :: "'f engine \<Rightarrow> int \<Rightarrow> int \<Rightarrow> ('f, unit) go_err" where
  "OnMemberRemoved e batchID entryID =
     on_ok (GetBatch batchID)
       (\<lambda>got. case got of
          None \<Rightarrow> ret (Inr ())
        | Some b0 \<Rightarrow>
            if \<not> live b0 then ret (Inr ())
            else let wasCurrent = entryID \<in> set (b_CurrentIds b0); b = remove_member entryID b0 in
              if \<not> wasCurrent then on_ok (SaveBatch b) (\<lambda>_. ret (Inr ()))
              else if b_CurrentIds b = [] then on_ok (next_batch e b) (\<lambda>_. ret (Inr ()))
              else on_ok (rebuild e b) (\<lambda>_. ret (Inr ())))"

subsection \<open>Recovery, routing, display\<close>

definition LiveBranchNames :: "'f engine \<Rightarrow> ('f, string list) go_err" where
  "LiveBranchNames e =
     on_ok (ListLiveBatches (en_RepoID e)) (\<lambda>bs. ret (Inr (List.map_filter b_BranchName bs)))"

definition ReconcileLive :: "'f engine \<Rightarrow> ('f, unit) go_err" where
  "ReconcileLive e =
     on_ok (ListLiveBatches (en_RepoID e))
       (\<lambda>bs. do {
          for_each bs (\<lambda>b. case b_State b of
              BatchStateForming \<Rightarrow> warn_if_err (Build e b)
            | BatchStateTesting \<Rightarrow> do {
                entries \<leftarrow> entries_or_nil (b_CurrentIds b);
                for_each entries (\<lambda>ent. warn_if_err (SetMergeBranch (en_RepoID e) (qe_PrNumber ent)
                  (text_string (b_BranchName b)) (text_string (b_BranchSha b)))) }
            | _ \<Rightarrow> ret ());
          ret (Inr ()) })"

datatype MemberBucket = BucketCurrent | BucketPending | BucketLanded | BucketEjected | BucketNone

definition Bucket :: "batch \<Rightarrow> int \<Rightarrow> MemberBucket" where
  "Bucket b i =
     (if i \<in> set (b_CurrentIds b) then BucketCurrent
      else if i \<in> set (b_LandedIds b) then BucketLanded
      else if i \<in> set (b_EjectedIds b) then BucketEjected
      else if \<exists>s \<in> set (loadPending (b_Pending b)). i \<in> set s then BucketPending
      else BucketNone)"

text \<open>\<open>batch/monitor.go\<close>: the entry point from the check pipeline.\<close>

definition HandleCheck ::
  "'f engine \<Rightarrow> queue_entry \<Rightarrow> string \<Rightarrow> check_state \<Rightarrow> string \<Rightarrow> ('f, unit) go_err" where
  "HandleCheck e entry checkCtx st targetURL =
     on_ok (GetBatch (int8_int64 (qe_ActiveBatchID entry)))
       (\<lambda>got. case got of
          None \<Rightarrow> ret (Inr ())
        | Some b \<Rightarrow>
            if b_State b \<noteq> BatchStateTesting then ret (Inr ())
            else if qe_MergeBranchSha entry = None \<or>
                text_string (qe_MergeBranchSha entry) \<noteq> text_string (b_BranchSha b)
            then ret (Inr ())
            else on_ok (SaveCheckStatus (qe_ID entry) checkCtx st targetURL)
              (\<lambda>_. on_ok (ResolveRequiredChecks (en_Forge e) (en_Owner e) (en_Repo e)
                  (b_TargetBranch b) (en_FallbackChecks e))
                (\<lambda>required. on_ok (GetCheckStatuses (qe_ID entry))
                  (\<lambda>statuses. case EvaluateChecks statuses required of
                     (CheckSuccess, _, _) \<Rightarrow> on_ok (HandlePass e b) (\<lambda>_. ret (Inr ()))
                   | (CheckFailure, fc, fu) \<Rightarrow> on_ok (HandleFail e b fc fu) (\<lambda>_. ret (Inr ()))
                   | (CheckWaiting, _, _) \<Rightarrow> do {
                       now \<leftarrow> go_now;
                       if TimedOut now b (en_CheckTimeout e)
                       then on_ok (HandleFail e b ''timeout'' []) (\<lambda>_. ret (Inr ()))
                       else ret (Inr ()) }))))"

subsection \<open>Effects\<close>

lemma io_batch_state [io_intros]:
  "state_io_rel P m \<Longrightarrow> state_io_rel P n \<Longrightarrow> state_io_rel P k \<Longrightarrow> state_io_rel P l \<Longrightarrow>
     state_io_rel P (case st of BatchStateForming \<Rightarrow> m | BatchStateTesting \<Rightarrow> n
       | BatchStateDone \<Rightarrow> k | BatchStateCancelled \<Rightarrow> l)"
  by (cases st) auto

context effects begin

lemma io_engine_calls [io_intros]:
  "state_io_rel P (call_MergeInto f ow nm b sha)"
  "state_io_rel P (call_GetPR f ow nm n)"
  "state_io_rel P (call_ClosePR f ow nm n)"
  "state_io_rel P (e_status e ent st d)"
  unfolding call_MergeInto_def call_GetPR_def call_ClosePR_def e_status_def
  by (intro io_intros; simp)+

lemma io_stack [io_intros]: "state_io_rel P (stack e base heads branch)"
  unfolding stack_def by (intro io_intros) simp_all

lemma io_ensureMergedOrClose [io_intros]: "state_io_rel P (ensureMergedOrClose e sha i ent)"
  unfolding ensureMergedOrClose_def by (intro io_intros)

end

context entry_effects begin

lemma io_eject [io_intros]:
  "state_io_rel P (eject e st d c ent b)"
  "state_io_rel P (entries_or_nil is)"
  "state_io_rel P (ejectCurrent e st d c b)"
  "state_io_rel P (build_one e es acc)"
  "state_io_rel P (route_entry e br tip fst' d ent)"
  "state_io_rel P (land_entry e sha i ent)"
  unfolding eject_def entries_or_nil_def ejectCurrent_def build_one_def route_entry_def
    land_entry_def Let_def
  by (intro io_intros)+

end

context store_effects begin

lemma io_build_step:
  "(\<And>b. state_io_rel P (nxt b)) \<Longrightarrow> state_io_rel P (build_step nxt e b)"
  unfolding build_step_def build_finish_def Let_def by (intro io_intros)

lemma io_rebuild_with:
  "(\<And>b. state_io_rel P (build b)) \<Longrightarrow> state_io_rel P (rebuild_with build b)"
  unfolding rebuild_with_def by (intro io_intros)

lemma io_next_with:
  "(\<And>b. state_io_rel P (rb b)) \<Longrightarrow> state_io_rel P (next_with rb e b)"
  unfolding next_with_def Let_def by (intro io_intros)

lemma io_build_fuel: "state_io_rel P (build_fuel n e b)"
  by (induction n arbitrary: b)
    (auto intro!: io_intros io_build_step io_next_with io_rebuild_with)

lemma io_build [io_intros]:
  "state_io_rel P (Build e b)"
  "state_io_rel P (rebuild e b)"
  "state_io_rel P (next_batch e b)"
  unfolding Build_def rebuild_def next_batch_def
  by (intro io_build_fuel io_rebuild_with io_next_with)+

lemma io_engine [io_intros]:
  "state_io_rel P (FormAndBuild e tb)"
  "state_io_rel P (HandleFail e b fc u)"
  unfolding FormAndBuild_def HandleFail_def Let_def
  by (intro io_intros)+

lemma io_engine_entry [io_intros]:
  "state_io_rel P (batch_HandleTimeout e i)"
  "state_io_rel P (OnMemberRemoved e i j)"
  "state_io_rel P (LiveBranchNames e)"
  "state_io_rel P (ReconcileLive e)"
  unfolding batch_HandleTimeout_def OnMemberRemoved_def LiveBranchNames_def ReconcileLive_def Let_def
  by (intro io_intros)+

end

context landing_effects begin

lemma io_FastForward [io_intros]: "state_io_rel P (call_FastForward f ow nm b sha)"
  unfolding call_FastForward_def by (rule io_forge_do[OF okc_ff])

lemma io_HandlePass [io_intros]: "state_io_rel P (HandlePass e b)"
  unfolding HandlePass_def Let_def by (intro io_intros)

lemma io_HandleCheck [io_intros]: "state_io_rel P (HandleCheck e ent ctx st u)"
  unfolding HandleCheck_def by (intro io_intros)

end

end
