(* ===== verification/Poller.thy ===== *)
theory Poller
  imports Batch
begin

text \<open>
  \<open>internal/poller\<close>: one reconcile cycle of a repository and the loop around it. The
  \<open>*PollResult\<close> the phases share is passed along and returned. Go iterates its maps in an
  arbitrary order; the association lists of the forge model are that order. Log output and the
  test hooks \<open>Now\<close>, \<open>Ticks\<close> and \<open>TickDone\<close> have no counterpart: the clock is
  \<open>w_now\<close>.
\<close>

record 'f pdeps =
  pd_Forge :: "'f forge"
  pd_RepoID :: int
  pd_Owner :: string
  pd_Repo :: string
  pd_ExternalURL :: string
  pd_FallbackChecks :: "string list"
  pd_SuccessTimeout :: int
  pd_SkipQueueIfUpToDate :: bool
  pd_CheckTimeout :: int
  pd_Batch :: "'f engine option"
  pd_IdleGating :: bool

record PollResult =
  res_Enqueued :: "int list"
  res_Dequeued :: "int list"
  res_Advanced :: "int list"
  res_Errors :: "error list"
  res_Paused :: bool

definition empty_result :: PollResult where
  "empty_result = \<lparr>res_Enqueued = [], res_Dequeued = [], res_Advanced = [], res_Errors = [],
     res_Paused = False\<rparr>"

definition add_error :: "error \<Rightarrow> PollResult \<Rightarrow> PollResult" where
  "add_error e r = r\<lparr>res_Errors := res_Errors r @ [e]\<rparr>"

definition pr_tag :: "string \<Rightarrow> int \<Rightarrow> string" where
  "pr_tag s n = s @ '' PR #'' @ show_int n"

subsection \<open>Forge calls\<close>

definition call_ListOpenPRs :: "'f forge \<Rightarrow> string \<Rightarrow> string \<Rightarrow> ('f, PR list) go_err" where
  "call_ListOpenPRs f ow nm = forge_do ow nm CallListOpenPRs (f_ListOpenPRs f ow nm)"

definition call_IsUpToDate ::
  "'f forge \<Rightarrow> string \<Rightarrow> string \<Rightarrow> string \<Rightarrow> string \<Rightarrow> ('f, bool) go_err" where
  "call_IsUpToDate f ow nm base sha =
     forge_do ow nm (CallIsUpToDate base sha) (f_IsUpToDate f ow nm base sha)"

definition pd_status :: "'f pdeps \<Rightarrow> string \<Rightarrow> int \<Rightarrow> check_state \<Rightarrow> string \<Rightarrow> ('f, unit) go_err" where
  "pd_status deps sha n st desc =
     call_SetMQStatus (pd_Forge deps) (pd_Owner deps) (pd_Repo deps) sha
       \<lparr>mq_State = st, mq_Description = desc,
        mq_TargetURL = DashboardPRURL (pd_ExternalURL deps) (f_Kind (pd_Forge deps))
          (pd_Owner deps) (pd_Repo deps) n\<rparr>"

subsection \<open>Removing a pull request\<close>

record removeOpts =
  ro_cancelAutomerge :: bool
  ro_comment :: string
  ro_advance :: bool

definition removePR ::
  "'f pdeps \<Rightarrow> PollResult \<Rightarrow> queue_entry \<Rightarrow> removeOpts \<Rightarrow> ('f, PollResult) go_err" where
  "removePR deps result entry opts =
     on_ok (Dequeue (pd_RepoID deps) (qe_PrNumber entry))
       (\<lambda>dq. do {
          (if ro_cancelAutomerge opts then warn_if_err (call_CancelAutoMerge (pd_Forge deps)
             (pd_Owner deps) (pd_Repo deps) (qe_PrNumber entry)) else ret ());
          (if ro_comment opts \<noteq> [] then warn_if_err (call_Comment (pd_Forge deps)
             (pd_Owner deps) (pd_Repo deps) (qe_PrNumber entry) (ro_comment opts)) else ret ());
          (case dq of
             Found True _ \<Rightarrow>
               if qe_ActiveBatchID entry = None
               then CleanupMergeBranch (pd_Forge deps) (pd_Owner deps) (pd_Repo deps) entry
               else ret ()
           | _ \<Rightarrow> ret ());
          (let result = result\<lparr>res_Dequeued := res_Dequeued result @ [qe_PrNumber entry]\<rparr>
           in ret (Inr (if ro_advance opts
                then result\<lparr>res_Advanced := res_Advanced result @ [qe_PrNumber entry]\<rparr>
                else result))) })"

definition record_err ::
  "(error \<Rightarrow> error) \<Rightarrow> PollResult \<Rightarrow> ('f, PollResult) go_err \<Rightarrow> ('f, PollResult) go" where
  "record_err wrap result m = do {
     r \<leftarrow> m;
     ret (case r of Inl e \<Rightarrow> add_error (wrap e) result | Inr result' \<Rightarrow> result') }"

subsection \<open>Enqueueing\<close>

definition external_statuses :: "(string \<times> Check) list \<Rightarrow> check_status list" where
  "external_statuses checks =
     map (\<lambda>(ctxName, c). \<lparr>cs_ID = 0, cs_QueueEntryID = 0, cs_Context = ctxName,
            cs_State = ck_State c, cs_UpdatedAt = 0, cs_TargetUrl = []\<rparr>)
       (filter (\<lambda>(ctxName, _). \<not> IsOwnContext ctxName) checks)"

definition prChecksGreen :: "'f pdeps \<Rightarrow> PR \<Rightarrow> ('f, bool) go_err" where
  "prChecksGreen deps pr =
     on_ok_map (Wrap (pr_tag ''resolve required checks for'' (pr_Number pr)))
       (ResolveRequiredChecks (pd_Forge deps) (pd_Owner deps) (pd_Repo deps) (pr_BaseBranch pr)
          (pd_FallbackChecks deps))
       (\<lambda>requiredChecks.
          on_ok_map (Wrap (pr_tag ''get check states for'' (pr_Number pr)))
            (call_GetCheckStates (pd_Forge deps) (pd_Owner deps) (pd_Repo deps) (pr_HeadSHA pr))
            (\<lambda>checks.
               let externalStatuses = external_statuses checks in
               ret (Inr (if requiredChecks = [] \<and> externalStatuses = [] then True
                 else fst (EvaluateChecks externalStatuses requiredChecks) = CheckSuccess))))"

definition enqueue_one :: "'f pdeps \<Rightarrow> PR \<Rightarrow> PollResult \<Rightarrow> ('f, PollResult) go" where
  "enqueue_one deps pr result =
     (if \<not> pr_AutoMergeEnabled pr then ret result
      else record_err (Wrap (pr_tag ''check queue for'' (pr_Number pr))) result
        (on_ok (GetEntry (pd_RepoID deps) (pr_Number pr))
          (\<lambda>existing. if existing \<noteq> None then ret (Inr result)
             else do {
               g \<leftarrow> prChecksGreen deps pr;
               (case g of
                  Inl e \<Rightarrow> ret (Inr (add_error (Wrap (pr_tag ''check CI status for'' (pr_Number pr)) e) result))
                | Inr green \<Rightarrow>
                    if \<not> green then ret (Inr result)
                    else do {
                      enq \<leftarrow> Enqueue (pd_RepoID deps) (pr_Number pr) (pr_HeadSHA pr) (pr_BaseBranch pr);
                      (case enq of
                         Inl e \<Rightarrow> ret (Inr (add_error (Wrap (pr_tag ''enqueue'' (pr_Number pr)) e) result))
                       | Inr enqResult \<Rightarrow>
                           if \<not> er_IsNew enqResult then ret (Inr result)
                           else do {
                             st \<leftarrow> pd_status deps (pr_HeadSHA pr) (pr_Number pr) CheckStatePending
                               (''Queued (position #'' @ show_int (er_Position enqResult) @ '')'');
                             (let result = (case st of
                                Inl e \<Rightarrow> add_error (Wrap (pr_tag ''set pending status for'' (pr_Number pr)) e) result
                              | Inr _ \<Rightarrow> result)
                              in ret (Inr (result\<lparr>res_Enqueued := res_Enqueued result @ [pr_Number pr]\<rparr>))) }) }) })))"

definition enqueueAutoMergePRs :: "'f pdeps \<Rightarrow> PollResult \<Rightarrow> PR list \<Rightarrow> ('f, PollResult) go" where
  "enqueueAutoMergePRs deps result openPRs = for_acc openPRs result (enqueue_one deps)"

subsection \<open>Timeouts\<close>

definition timedOut :: "int \<Rightarrow> int option \<Rightarrow> int \<Rightarrow> bool" where
  "timedOut now ts timeout \<longleftrightarrow>
     timeout > 0 \<and> (case ts of None \<Rightarrow> False | Some t \<Rightarrow> now - t > timeout)"

definition removeTimedOut ::
  "'f pdeps \<Rightarrow> PollResult \<Rightarrow> queue_entry \<Rightarrow> string \<Rightarrow> string \<Rightarrow> string \<Rightarrow> ('f, PollResult) go" where
  "removeTimedOut deps result entry statusDescription errorMessage comment = do {
     warn_if_err (pd_status deps (qe_PrHeadSha entry) (qe_PrNumber entry) CheckStateError statusDescription);
     warn_if_err (SetError (pd_RepoID deps) (qe_PrNumber entry) errorMessage);
     record_err (Wrap (pr_tag ''dequeue timed-out'' (qe_PrNumber entry))) result
       (removePR deps result entry
         \<lparr>ro_cancelAutomerge = True, ro_comment = comment, ro_advance = True\<rparr>) }"

definition handleSuccessTimeout ::
  "'f pdeps \<Rightarrow> queue_entry \<Rightarrow> PollResult \<Rightarrow> ('f, PollResult) go" where
  "handleSuccessTimeout deps entry result = do {
     now \<leftarrow> go_now;
     if qe_State entry \<noteq> EntryStateSuccess \<or>
        \<not> timedOut now (qe_CompletedAt entry) (pd_SuccessTimeout deps) then ret result
     else removeTimedOut deps result entry ''Automerge did not complete in time''
       ''automerge did not complete in time''
       (warning_sign @ ''Removed from merge queue: PR was marked as ready to merge but Gitea did '' @
        ''not merge it in time. This may indicate a branch protection issue.'') }"

definition handleTestingTimeout ::
  "'f pdeps \<Rightarrow> queue_entry \<Rightarrow> PollResult \<Rightarrow> ('f, PollResult) go" where
  "handleTestingTimeout deps entry result =
     (if qe_ActiveBatchID entry \<noteq> None then ret result
      else do {
        now \<leftarrow> go_now;
        if qe_State entry \<noteq> EntryStateTesting \<or>
           \<not> timedOut now (qe_TestingStartedAt entry) (pd_CheckTimeout deps) then ret result
        else do {
          CleanupMergeBranch (pd_Forge deps) (pd_Owner deps) (pd_Repo deps) entry;
          removeTimedOut deps result entry ''CI did not report within timeout''
            ''CI did not report within timeout''
            (warning_sign @ ''Removed from merge queue: CI did not report a status within the '' @
             ''timeout. The CI server may have lost the build.'') } })"

subsection \<open>Reconciling entries\<close>

text \<open>The table of reasons for removal: the first row whose condition holds is applied.\<close>

definition removal_checks ::
  "bool \<Rightarrow> PR \<Rightarrow> queue_entry \<Rightarrow> (bool \<times> string \<times> removeOpts) list" where
  "removal_checks isOpen pr entry =
     [(\<not> isOpen \<and> pr_Merged pr, ''merged'',
         \<lparr>ro_cancelAutomerge = False, ro_comment = [], ro_advance = True\<rparr>),
      (\<not> isOpen, ''closed'',
         \<lparr>ro_cancelAutomerge = False, ro_comment = [], ro_advance = False\<rparr>),
      (pr_BaseBranch pr \<noteq> [] \<and> pr_BaseBranch pr \<noteq> qe_TargetBranch entry, ''retargeted'',
         \<lparr>ro_cancelAutomerge = True,
          ro_comment = warning_sign @ ''Removed from merge queue: target branch changed from `'' @
            qe_TargetBranch entry @ ''` to `'' @ pr_BaseBranch pr @ ''`. Please re-schedule automerge.'',
          ro_advance = False\<rparr>),
      (pr_HeadSHA pr \<noteq> [] \<and> pr_HeadSHA pr \<noteq> qe_PrHeadSha entry, ''pushed'',
         \<lparr>ro_cancelAutomerge = True,
          ro_comment = warning_sign @
            ''Removed from merge queue: new commits were pushed. Please re-schedule automerge.'',
          ro_advance = True\<rparr>),
      (\<not> pr_AutoMergeEnabled pr, ''cancelled'',
         \<lparr>ro_cancelAutomerge = False, ro_comment = [], ro_advance = False\<rparr>)]"

definition removal :: "bool \<Rightarrow> PR \<Rightarrow> queue_entry \<Rightarrow> (string \<times> removeOpts) option" where
  "removal isOpen pr entry =
     map_option snd (List.find (\<lambda>(when, _, _). when) (removal_checks isOpen pr entry))"

definition member_removed :: "'f pdeps \<Rightarrow> queue_entry \<Rightarrow> PollResult \<Rightarrow> ('f, PollResult) go" where
  "member_removed deps entry result =
     (case (qe_ActiveBatchID entry, pd_Batch deps) of
        (Some bid, Some eng) \<Rightarrow>
          record_err (Wrap (pr_tag ''batch member removed'' (qe_PrNumber entry))) result
            (on_ok (OnMemberRemoved eng bid (qe_ID entry)) (\<lambda>_. ret (Inr result)))
      | _ \<Rightarrow> ret result)"

definition reconcile_with ::
  "'f pdeps \<Rightarrow> queue_entry \<Rightarrow> bool \<Rightarrow> PR \<Rightarrow> PollResult \<Rightarrow> ('f, PollResult) go" where
  "reconcile_with deps entry isOpen pr result =
     (case removal isOpen pr entry of
        Some (label, opts) \<Rightarrow> do {
          result \<leftarrow> record_err (Wrap (pr_tag (''dequeue '' @ label) (qe_PrNumber entry))) result
            (removePR deps result entry opts);
          member_removed deps entry result }
      | None \<Rightarrow> do {
          result \<leftarrow> handleSuccessTimeout deps entry result;
          handleTestingTimeout deps entry result })"

definition reconcile_one ::
  "'f pdeps \<Rightarrow> (int \<Rightarrow> PR option) \<Rightarrow> queue_entry \<Rightarrow> PollResult \<Rightarrow> ('f, PollResult) go" where
  "reconcile_one deps openPRMap entry result =
     (case openPRMap (qe_PrNumber entry) of
        Some pr \<Rightarrow> reconcile_with deps entry True pr result
      | None \<Rightarrow> do {
          r \<leftarrow> call_GetPR (pd_Forge deps) (pd_Owner deps) (pd_Repo deps) (qe_PrNumber entry);
          (case r of
             Inl e \<Rightarrow> ret (add_error (Wrap (pr_tag ''get'' (qe_PrNumber entry)) e) result)
           | Inr fullPR \<Rightarrow> reconcile_with deps entry False fullPR result) })"

definition with_entries ::
  "'f pdeps \<Rightarrow> string \<Rightarrow> PollResult \<Rightarrow> (queue_entry list \<Rightarrow> ('f, PollResult) go) \<Rightarrow>
     ('f, PollResult) go" where
  "with_entries deps msg result f = do {
     r \<leftarrow> ListActiveEntries (pd_RepoID deps);
     (case r of
        Inl e \<Rightarrow> ret (add_error (Wrap msg e) result)
      | Inr activeEntries \<Rightarrow> f activeEntries) }"

definition reconcileEntries ::
  "'f pdeps \<Rightarrow> PollResult \<Rightarrow> (int \<Rightarrow> PR option) \<Rightarrow> ('f, PollResult) go" where
  "reconcileEntries deps result openPRMap =
     with_entries deps ''list active entries'' result
       (\<lambda>activeEntries. for_acc activeEntries result (reconcile_one deps openPRMap))"

subsection \<open>Starting queue heads\<close>

definition tryFastForwardSuccess ::
  "'f pdeps \<Rightarrow> PollResult \<Rightarrow> queue_entry \<Rightarrow> ('f, bool \<times> PollResult) go" where
  "tryFastForwardSuccess deps result h = do {
     r \<leftarrow> call_IsUpToDate (pd_Forge deps) (pd_Owner deps) (pd_Repo deps) (qe_TargetBranch h) (qe_PrHeadSha h);
     (case r of
        Inl _ \<Rightarrow> ret (False, result)
      | Inr upToDate \<Rightarrow>
          if \<not> upToDate then ret (False, result)
          else do {
            warn_if_err (pd_status deps (qe_PrHeadSha h) (qe_PrNumber h) CheckStateSuccess
              ''Already up to date with target branch'');
            u \<leftarrow> UpdateState (pd_RepoID deps) (qe_PrNumber h) EntryStateSuccess;
            ret (True, (case u of
              Inl e \<Rightarrow> add_error (Wrap (pr_tag ''update state to success for'' (qe_PrNumber h)) e) result
            | Inr _ \<Rightarrow> result)) }) }"

definition start_head :: "'f pdeps \<Rightarrow> string \<Rightarrow> queue_entry \<Rightarrow> PollResult \<Rightarrow> ('f, PollResult) go" where
  "start_head deps branch h result = do {
     (handled, result) \<leftarrow> (if pd_SkipQueueIfUpToDate deps then tryFastForwardSuccess deps result h
                           else ret (False, result));
     if handled then ret result
     else if Enabled (pd_Batch deps) then do {
       r \<leftarrow> FormAndBuild (the (pd_Batch deps)) branch;
       ret (case r of Inl e \<Rightarrow> add_error (Wrap (''form batch for '' @ branch) e) result | Inr _ \<Rightarrow> result) }
     else do {
       r \<leftarrow> StartTesting (pd_Forge deps) (pd_Owner deps) (pd_Repo deps) (pd_RepoID deps) h (pd_ExternalURL deps);
       ret (case r of
           Inl e \<Rightarrow> add_error (Wrap (pr_tag ''start testing for'' (qe_PrNumber h)) e) result
         | Inr Removed \<Rightarrow> add_error (PlainError (''removed PR #'' @ show_int (qe_PrNumber h) @
               '' from queue during testing start''))
             (result\<lparr>res_Dequeued := res_Dequeued result @ [qe_PrNumber h]\<rparr>)
         | Inr (Started _ _) \<Rightarrow> result) } }"

definition start_branch ::
  "'f pdeps \<Rightarrow> queue_entry \<Rightarrow> string list \<times> PollResult \<Rightarrow> ('f, string list \<times> PollResult) go" where
  "start_branch deps entry acc =
     (case acc of (seenBranches, result) \<Rightarrow>
       let branch = qe_TargetBranch entry in
       if branch \<in> set seenBranches then ret (seenBranches, result)
       else do {
         r \<leftarrow> Head (pd_RepoID deps) branch;
         result \<leftarrow> (case r of
             Inl e \<Rightarrow> ret (add_error (Wrap (''get head for branch '' @ branch) e) result)
           | Inr None \<Rightarrow> ret result
           | Inr (Some h) \<Rightarrow>
               if qe_State h \<noteq> EntryStateQueued then ret result
               else start_head deps branch h result);
         ret (branch # seenBranches, result) })"

definition startQueuedHeads :: "'f pdeps \<Rightarrow> PollResult \<Rightarrow> ('f, PollResult) go" where
  "startQueuedHeads deps result =
     with_entries deps ''list active entries for testing'' result
       (\<lambda>activeEntries. do {
          (_, result) \<leftarrow> for_acc activeEntries ([], result) (start_branch deps);
          ret result })"

subsection \<open>Polling merge-branch checks\<close>

definition monitorDeps :: "'f pdeps \<Rightarrow> 'f deps" where
  "monitorDeps deps = \<lparr>md_Forge = pd_Forge deps, md_Owner = pd_Owner deps, md_Repo = pd_Repo deps,
     md_RepoID = pd_RepoID deps, md_ExternalURL = pd_ExternalURL deps,
     md_CheckTimeout = pd_CheckTimeout deps, md_FallbackChecks = pd_FallbackChecks deps,
     md_Batch = (if Enabled (pd_Batch deps) then Some (HandleCheck (the (pd_Batch deps))) else None)\<rparr>"

definition apply_external ::
  "'f pdeps \<Rightarrow> (error \<Rightarrow> error) \<Rightarrow> queue_entry \<Rightarrow> (string \<times> Check) list \<Rightarrow> PollResult \<Rightarrow>
     ('f, PollResult) go" where
  "apply_external deps wrap entry checks result =
     for_acc checks result (\<lambda>(ctxName, c) result.
       if IsOwnContext ctxName then ret result
       else do {
         r \<leftarrow> ApplyCheck (monitorDeps deps) entry ctxName c;
         ret (case r of Inl e \<Rightarrow> add_error (wrap e) result | Inr _ \<Rightarrow> result) })"

definition poll_batch :: "'f pdeps \<Rightarrow> 'f engine \<Rightarrow> batch \<Rightarrow> PollResult \<Rightarrow> ('f, PollResult) go" where
  "poll_batch deps eng b result =
     (if b_State b \<noteq> BatchStateTesting \<or> b_CurrentIds b = [] then ret result
      else do {
        now \<leftarrow> go_now;
        if TimedOut now b (pd_CheckTimeout deps) then
          record_err (Wrap (''batch #'' @ show_int (b_ID b) @ '' timeout'')) result
            (on_ok (batch_HandleTimeout eng (b_ID b)) (\<lambda>_. ret (Inr result)))
        else do {
          rep \<leftarrow> GetEntriesByIDs (take 1 (b_CurrentIds b));
          (case rep of
             Inr (ent # _) \<Rightarrow> do {
               r \<leftarrow> call_GetCheckStates (pd_Forge deps) (pd_Owner deps) (pd_Repo deps)
                 (text_string (b_BranchSha b));
               (case r of
                  Inl e \<Rightarrow> ret (add_error (Wrap (''get batch #'' @ show_int (b_ID b) @ '' checks'') e) result)
                | Inr checks \<Rightarrow>
                    apply_external deps (Wrap (''process batch #'' @ show_int (b_ID b) @ '' check''))
                      (ent\<lparr>qe_MergeBranchSha := b_BranchSha b\<rparr>) checks result) }
           | _ \<Rightarrow> ret result) } })"

definition poll_entry :: "'f pdeps \<Rightarrow> queue_entry \<Rightarrow> PollResult \<Rightarrow> ('f, PollResult) go" where
  "poll_entry deps entry result =
     (if qe_ActiveBatchID entry \<noteq> None then ret result
      else if qe_State entry \<noteq> EntryStateTesting then ret result
      else (case qe_MergeBranchSha entry of
        None \<Rightarrow> ret result
      | Some sha \<Rightarrow> do {
          r \<leftarrow> call_GetCheckStates (pd_Forge deps) (pd_Owner deps) (pd_Repo deps) sha;
          (case r of
             Inl e \<Rightarrow> ret (add_error (Wrap (pr_tag ''get merge branch checks for'' (qe_PrNumber entry)) e) result)
           | Inr checks \<Rightarrow>
               apply_external deps (Wrap (pr_tag ''process merge branch check for'' (qe_PrNumber entry)))
                 entry checks result) }))"

definition pollMergeBranchChecks :: "'f pdeps \<Rightarrow> PollResult \<Rightarrow> ('f, PollResult) go" where
  "pollMergeBranchChecks deps result =
     with_entries deps ''list active entries for check poll'' result
       (\<lambda>activeEntries. do {
          result \<leftarrow> (case pd_Batch deps of
              Some eng \<Rightarrow>
                if Enabled (pd_Batch deps) then do {
                  r \<leftarrow> ListLiveBatches (pd_RepoID deps);
                  (case r of
                     Inl e \<Rightarrow> ret (add_error (Wrap ''list live batches'' e) result)
                   | Inr bs \<Rightarrow> for_acc bs result (poll_batch deps eng)) }
                else ret result
            | None \<Rightarrow> ret result);
          for_acc activeEntries result (poll_entry deps) })"

subsection \<open>A cycle, and the loop\<close>

definition open_map :: "PR list \<Rightarrow> int \<Rightarrow> PR option" where
  "open_map openPRs = map_of (rev (map (\<lambda>pr. (pr_Number pr, pr)) openPRs))"

definition PollOnce :: "'f pdeps \<Rightarrow> ('f, PollResult) go" where
  "PollOnce deps = do {
     r \<leftarrow> call_ListOpenPRs (pd_Forge deps) (pd_Owner deps) (pd_Repo deps);
     (case r of
        Inl err \<Rightarrow> ret (empty_result\<lparr>res_Paused := True, res_Errors := [err]\<rparr>)
      | Inr openPRs \<Rightarrow> do {
          result \<leftarrow> enqueueAutoMergePRs deps empty_result openPRs;
          result \<leftarrow> reconcileEntries deps result (open_map openPRs);
          result \<leftarrow> startQueuedHeads deps result;
          pollMergeBranchChecks deps result }) }"

definition hasActiveWork :: "'f pdeps \<Rightarrow> ('f, bool) go" where
  "hasActiveWork deps = do {
     r \<leftarrow> ListActiveEntries (pd_RepoID deps);
     ret (case r of Inl _ \<Rightarrow> True | Inr entries \<Rightarrow> entries \<noteq> []) }"

datatype poll_event = TriggerEvent | TickEvent

text \<open>One turn of the \<open>select\<close> of \<open>Run\<close>; the result is the new \<open>lastFull\<close>.\<close>

definition run_event :: "'f pdeps \<Rightarrow> int \<Rightarrow> int \<Rightarrow> poll_event \<Rightarrow> int \<Rightarrow> ('f, int) go" where
  "run_event deps interval idleInterval ev lastFull =
     (let idle = (if idleInterval < interval then interval else idleInterval) in
      case ev of
        TriggerEvent \<Rightarrow> do { _ \<leftarrow> PollOnce deps; go_now }
      | TickEvent \<Rightarrow> do {
          skipIdle \<leftarrow> (if pd_IdleGating deps then do {
              work \<leftarrow> hasActiveWork deps;
              now \<leftarrow> go_now;
              ret (\<not> work \<and> now - lastFull < idle) }
            else ret False);
          if skipIdle then ret lastFull else do { _ \<leftarrow> PollOnce deps; go_now } })"

subsection \<open>Effects\<close>

lemma io_dequeue_result [io_intros]:
  "state_io_rel P m \<Longrightarrow> (\<And>h e. state_io_rel P (f h e)) \<Longrightarrow>
     state_io_rel P (case r of NotFound \<Rightarrow> m | Found h e \<Rightarrow> f h e)"
  by (cases r) auto

lemma io_poll_event [io_intros]:
  "state_io_rel P m \<Longrightarrow> state_io_rel P n \<Longrightarrow>
     state_io_rel P (case r of TriggerEvent \<Rightarrow> m | TickEvent \<Rightarrow> n)"
  by (cases r) auto

context effects begin

lemma io_poll_calls [io_intros]:
  "state_io_rel P (call_ListOpenPRs f ow nm)"
  "state_io_rel P (call_IsUpToDate f ow nm base sha)"
  "state_io_rel P (pd_status deps sha n st d)"
  "state_io_rel P (prChecksGreen deps pr)"
  "state_io_rel P (hasActiveWork deps)"
  unfolding call_ListOpenPRs_def call_IsUpToDate_def pd_status_def prChecksGreen_def
    hasActiveWork_def Let_def
  by (intro io_intros; simp)+

lemma io_record_err [io_intros]:
  "state_io_rel P m \<Longrightarrow> state_io_rel P (record_err wr res m)"
  unfolding record_err_def by (intro io_intros)

end

text \<open>
  The poller's view of the batch engine: \<open>engine_effects\<close> are the entry points that never land
  anything, \<open>check_effects\<close> adds the check entry point. The effects of the engine's own
  operations give both.
\<close>

locale engine_effects = entry_effects +
  assumes eng_FormAndBuild: "state_io_rel P (FormAndBuild e tb)"
    and eng_OnMemberRemoved: "state_io_rel P (OnMemberRemoved e i j)"
    and eng_HandleTimeout: "state_io_rel P (batch_HandleTimeout e i)"
begin

lemma io_with_entries [io_intros]:
  "(\<And>es. state_io_rel P (f es)) \<Longrightarrow> state_io_rel P (with_entries deps msg res f)"
  unfolding with_entries_def by (intro io_intros)

lemma io_poll_removal [io_intros]:
  "state_io_rel P (removePR deps res e opts)"
  "state_io_rel P (removeTimedOut deps res e s m c)"
  "state_io_rel P (handleSuccessTimeout deps e res)"
  "state_io_rel P (handleTestingTimeout deps e res)"
  "state_io_rel P (member_removed deps e res)"
  unfolding removePR_def removeTimedOut_def handleSuccessTimeout_def handleTestingTimeout_def
    member_removed_def Let_def
  by (intro io_intros eng_OnMemberRemoved)+

lemma io_poll_phases [io_intros]:
  "state_io_rel P (enqueueAutoMergePRs deps res prs)"
  "state_io_rel P (reconcileEntries deps res m)"
  "state_io_rel P (startQueuedHeads deps res)"
  unfolding enqueueAutoMergePRs_def enqueue_one_def reconcileEntries_def reconcile_one_def
    reconcile_with_def startQueuedHeads_def start_branch_def start_head_def
    tryFastForwardSuccess_def Let_def
  by (intro io_intros eng_FormAndBuild)+

end

locale check_effects = engine_effects +
  assumes eng_HandleCheck: "state_io_rel P (HandleCheck e ent ctx st u)"
begin

lemma io_monitorDeps: "md_Batch (monitorDeps deps) = Some h \<Longrightarrow> state_io_rel P (h x c s u)"
  by (auto simp: monitorDeps_def split: if_splits intro!: eng_HandleCheck)

lemma io_pollMergeBranchChecks [io_intros]: "state_io_rel P (pollMergeBranchChecks deps res)"
  unfolding pollMergeBranchChecks_def poll_batch_def poll_entry_def apply_external_def
  by (intro io_intros io_ApplyCheck io_monitorDeps eng_HandleTimeout)

lemma io_PollOnce [io_intros]: "state_io_rel P (PollOnce deps)"
  unfolding PollOnce_def by (intro io_intros)

lemma io_run_event [io_intros]: "state_io_rel P (run_event deps iv idle ev lf)"
  unfolding run_event_def Let_def by (intro io_intros)

end

sublocale store_effects \<subseteq> engine_effects P ok okc
  by unfold_locales (intro io_intros)+

sublocale landing_effects \<subseteq> check_effects P ok okc
  by unfold_locales (intro io_intros)

end
