(* ===== verification/Invariants.thy ===== *)
theory Invariants
  imports Poller
begin

text \<open>
  The interpretations of \<open>landing_effects\<close> on the program's own store: the constraints of the
  schema (\<open>wf\<close>), the identity of batch rows (\<open>rows\<close>) and the trace, clock and fault
  oracle (\<open>trace\<close>). Each turns the facts \<open>io_<handler>\<close> into an invariant of every
  handler.
\<close>

subsection \<open>Schema constraints\<close>

definition seq_le :: "db \<Rightarrow> db \<Rightarrow> bool" where
  "seq_le d d' \<longleftrightarrow> d_repo_seq d \<le> d_repo_seq d' \<and> d_entry_seq d \<le> d_entry_seq d' \<and>
     d_check_seq d \<le> d_check_seq d' \<and> d_batch_seq d \<le> d_batch_seq d'"

lemma seq_le_refl [simp]: "seq_le d d"
  by (simp add: seq_le_def)

lemma seq_le_trans: "seq_le a b \<Longrightarrow> seq_le b c \<Longrightarrow> seq_le a c"
  by (auto simp: seq_le_def)

definition keeps_db :: "(int \<Rightarrow> db \<Rightarrow> db) \<Rightarrow> bool" where
  "keeps_db g \<longleftrightarrow> (\<forall>now d. db_wf d \<longrightarrow> db_wf (g now d) \<and> seq_le d (g now d))"

definition db_step :: "'f world \<Rightarrow> 'f world \<Rightarrow> bool" where
  "db_step w w' \<longleftrightarrow> (db_wf (w_db w) \<longrightarrow> db_wf (w_db w') \<and> seq_le (w_db w) (w_db w'))"

lemma keeps_dbI:
  assumes "keeps_wf q" "\<And>now d. seq_le d (snd (q now d))"
  shows "keeps_db (effect q)"
  using assms by (auto simp: keeps_db_def keeps_wf_def)

lemma keeps_dbD: "keeps_db g \<Longrightarrow> db_wf d \<Longrightarrow> db_wf (g now d) \<and> seq_le d (g now d)"
  by (simp add: keeps_db_def)

lemma db_wf_restore:
  assumes "db_wf old" "seq_le old cur"
  shows "db_wf (restore_tables old cur)"
  using assms unfolding db_wf_defs seq_le_def by fastforce

lemma seq_le_restore: "seq_le old cur \<Longrightarrow> seq_le old (restore_tables old cur)"
  by (simp add: seq_le_def)

lemma seq_sql:
  "seq_le d (snd (sql_CancelBatchesByRepo r now d))"
  "seq_le d (snd (sql_ClearCheckStatuses ids now d))"
  "seq_le d (snd (sql_ClearEntryMergeBranch ids now d))"
  "seq_le d (snd (sql_CreateBatch r b ids now d))"
  "seq_le d (snd (sql_DequeueAllByRepo r now d))"
  "seq_le d (snd (sql_DequeuePR r p now d))"
  "seq_le d (snd (sql_EnqueuePR r p s b now d))"
  "seq_le d (snd (sql_GetOrCreateRepo f ow n now d))"
  "seq_le d (snd (sql_SaveBatch x now d))"
  "seq_le d (snd (sql_SaveCheckStatus i c st u now d))"
  "seq_le d (snd (sql_SetEntryActiveBatch bid ids now d))"
  "seq_le d (snd (sql_UpdateEntryError r p m now d))"
  "seq_le d (snd (sql_UpdateEntryMergeBranch r p nm sh now d))"
  "seq_le d (snd (sql_UpdateEntryState est r p now d))"
  by (auto simp: seq_le_def sql_CancelBatchesByRepo_def sql_ClearCheckStatuses_def
      sql_ClearEntryMergeBranch_def sql_CreateBatch_def sql_DequeueAllByRepo_def sql_DequeuePR_def
      delete_entries_def sql_EnqueuePR_def sql_GetOrCreateRepo_def sql_SaveBatch_def
      sql_SaveCheckStatus_def sql_SetEntryActiveBatch_def sql_UpdateEntryError_def
      sql_UpdateEntryMergeBranch_def sql_UpdateEntryState_def Let_def
      split: option.splits check_state.splits)

interpretation wf: landing_effects db_step keeps_db "\<lambda>_. True"
proof
  fix w w' :: "'a world"
  assume "db_step w w'"
  then show "db_step w (w'\<lparr>w_db := restore_tables (w_db w) (w_db w')\<rparr>)"
    by (auto simp: db_step_def db_wf_restore seq_le_restore)
qed (auto simp: db_step_def dest: seq_le_trans keeps_dbD intro!: keeps_dbI wf_sql seq_sql)

lemma wf_kept: "state_io_rel db_step m \<Longrightarrow> db_wf (w_db w) \<Longrightarrow> db_wf (w_db (snd (run_state m w)))"
  by (cases "run_state m w") (auto simp: db_step_def dest: state_io_relD)

subsection \<open>Batch rows\<close>

definition same_batch :: "batch \<Rightarrow> batch \<Rightarrow> bool" where
  "same_batch b b' \<longleftrightarrow> b_ID b' = b_ID b \<and> b_RepoID b' = b_RepoID b \<and>
     b_TargetBranch b' = b_TargetBranch b \<and> b_MemberIds b' = b_MemberIds b \<and>
     b_CreatedAt b' = b_CreatedAt b"

lemma same_batch_refl [simp]: "same_batch b b"
  by (simp add: same_batch_def)

lemma same_batch_trans: "same_batch a b \<Longrightarrow> same_batch b c \<Longrightarrow> same_batch a c"
  by (auto simp: same_batch_def)

definition rows_kept :: "batch list \<Rightarrow> batch list \<Rightarrow> bool" where
  "rows_kept bs bs' \<longleftrightarrow> list_all2 same_batch bs (take (length bs) bs')"

lemma rows_kept_refl [simp]: "rows_kept bs bs"
  by (simp add: rows_kept_def list_all2_refl)

lemma rows_kept_trans:
  assumes "rows_kept xs ys" "rows_kept ys zs"
  shows "rows_kept xs zs"
proof -
  from assms(1) have len: "length xs \<le> length ys"
    by (auto simp: rows_kept_def dest: list_all2_lengthD)
  from assms(2) have "list_all2 same_batch (take (length xs) ys) (take (length xs) (take (length ys) zs))"
    unfolding rows_kept_def by (rule list_all2_takeI)
  moreover have "take (length xs) (take (length ys) zs) = take (length xs) zs"
    using len by (simp add: min_def)
  ultimately have "list_all2 same_batch (take (length xs) ys) (take (length xs) zs)"
    by simp
  with assms(1) show ?thesis
    unfolding rows_kept_def using list_all2_trans[of same_batch same_batch same_batch] same_batch_trans
    by blast
qed

lemma rows_kept_append [simp]: "rows_kept bs (bs @ cs)"
  by (simp add: rows_kept_def list_all2_refl)

lemma rows_kept_update:
  assumes "\<And>b. same_batch b (f b)"
  shows "rows_kept bs (update_where p f bs)"
  using assms by (auto simp: rows_kept_def update_where_def list_all2_map2 list_all2_same)

definition batch_rows_step :: "'f world \<Rightarrow> 'f world \<Rightarrow> bool" where
  "batch_rows_step w w' \<longleftrightarrow> rows_kept (d_batches (w_db w)) (d_batches (w_db w'))"

definition keeps_rows :: "(int \<Rightarrow> db \<Rightarrow> db) \<Rightarrow> bool" where
  "keeps_rows g \<longleftrightarrow> (\<forall>now d. rows_kept (d_batches d) (d_batches (g now d)))"

lemma keeps_rowsD: "keeps_rows g \<Longrightarrow> rows_kept (d_batches d) (d_batches (g now d))"
  by (simp add: keeps_rows_def)

lemma keeps_rows_sql:
  "keeps_rows (effect (sql_CancelBatchesByRepo r))"
  "keeps_rows (effect (sql_ClearCheckStatuses ids))"
  "keeps_rows (effect (sql_ClearEntryMergeBranch ids))"
  "keeps_rows (effect (sql_CreateBatch r b ids))"
  "keeps_rows (effect (sql_DequeueAllByRepo r))"
  "keeps_rows (effect (sql_DequeuePR r p))"
  "keeps_rows (effect (sql_EnqueuePR r p s b))"
  "keeps_rows (effect (sql_GetOrCreateRepo f ow n))"
  "keeps_rows (effect (sql_SaveBatch x))"
  "keeps_rows (effect (sql_SaveCheckStatus i c st u))"
  "keeps_rows (effect (sql_SetEntryActiveBatch bid ids))"
  "keeps_rows (effect (sql_UpdateEntryError r p m))"
  "keeps_rows (effect (sql_UpdateEntryMergeBranch r p nm sh))"
  "keeps_rows (effect (sql_UpdateEntryState est r p))"
  by (auto simp: keeps_rows_def sql_CancelBatchesByRepo_def sql_ClearCheckStatuses_def
      sql_ClearEntryMergeBranch_def sql_CreateBatch_def sql_DequeueAllByRepo_def sql_DequeuePR_def
      delete_entries_def sql_EnqueuePR_def sql_GetOrCreateRepo_def sql_SaveBatch_def
      sql_SaveCheckStatus_def sql_SetEntryActiveBatch_def sql_UpdateEntryError_def
      sql_UpdateEntryMergeBranch_def sql_UpdateEntryState_def Let_def same_batch_def
      split: option.splits check_state.splits intro!: rows_kept_update)

interpretation rows: landing_effects batch_rows_step keeps_rows "\<lambda>_. True"
  by unfold_locales
    (auto simp: batch_rows_step_def intro!: keeps_rows_sql dest: rows_kept_trans keeps_rowsD)

subsection \<open>Trace, clock and faults\<close>

definition trace_step :: "'f world \<Rightarrow> 'f world \<Rightarrow> bool" where
  "trace_step w w' \<longleftrightarrow> w_now w' = w_now w \<and> w_faults w' = w_faults w \<and> w_stmts w \<le> w_stmts w' \<and>
     prefix (w_calls w) (w_calls w')"

interpretation trace: landing_effects trace_step "\<lambda>_. True" "\<lambda>_. True"
  by unfold_locales (auto simp: trace_step_def)

subsection \<open>No fast-forward\<close>

text \<open>Everything but a verdict of success leaves the target branches alone.\<close>

definition quiet_step :: "'f world \<Rightarrow> 'f world \<Rightarrow> bool" where
  "quiet_step w w' \<longleftrightarrow>
     (\<exists>rest. w_calls w' = w_calls w @ rest \<and> (\<forall>c \<in> set rest. \<not> is_ff (snd (snd c))))"

lemma quiet_trans: "quiet_step u v \<Longrightarrow> quiet_step v w \<Longrightarrow> quiet_step u w"
  by (force simp: quiet_step_def)

interpretation quiet: store_effects quiet_step "\<lambda>_. True" "\<lambda>c. \<not> is_ff (snd (snd c))"
  by unfold_locales (auto simp: quiet_step_def intro: quiet_trans[unfolded quiet_step_def])

end
