(* ===== verification/QueueLemmas.thy ===== *)
theory QueueLemmas
  imports Queue
begin

text \<open>
  Functional behaviour of the queue service, for every pattern of database failures. The
  abstract view of a queue is \<open>queue_rows\<close>, its rows in the order of enqueueing. An error
  leaves all tables as they were; a result fixes them exactly.
\<close>

subsection \<open>Statements inside a transaction\<close>

definition same_tables :: "db \<Rightarrow> db \<Rightarrow> bool" where
  "same_tables d d' \<longleftrightarrow> d_repos d' = d_repos d \<and> d_entries d' = d_entries d \<and>
     d_checks d' = d_checks d \<and> d_batches d' = d_batches d"

lemma same_tables_refl [simp]: "same_tables d d"
  by (simp add: same_tables_def)

lemma same_tables_restore [simp]: "same_tables d (restore_tables d c)"
  by (simp add: same_tables_def)

lemma queue_rows_same: "same_tables d d' \<Longrightarrow> queue_rows d' r b = queue_rows d r b"
  by (simp add: same_tables_def queue_rows_def)

text \<open>
  A statement sent in an open transaction either ran, with at most a missing row as its error,
  or aborted the transaction; an aborted transaction runs nothing more.
\<close>

lemma tx_stmt:
  assumes "run_state (exec_stmt q) w = (r, w')"
  obtains (ran) "w_tx w' = w_tx w" "q (w_now w) (w_db w) = (r, w_db w')" "w_now w' = w_now w"
      "w_tx w \<noteq> Aborted" "\<And>e. r = Inl e \<Longrightarrow> w_tx w = InTx \<Longrightarrow> is_no_rows e"
      "\<And>e. r = Inl e \<Longrightarrow> is_no_rows e \<or> w_tx w = NoTx"
    | (aborted) e where "r = Inl e" "w_tx w' = Aborted"
    | (lost) "r = Inl db_fault" "w_tx w = NoTx" "w_tx w' = NoTx" "w_db w' = w_db w" "w_now w' = w_now w"
  using assms
proof (cases rule: exec_stmt_cases)
  case (ok a d)
  show ?thesis
  proof (cases "w_tx w = Aborted")
    case True
    with assms have "r = Inl tx_aborted" by (simp add: exec_stmt_def Let_def)
    with ok show ?thesis by simp
  next
    case False
    with ok show ?thesis by (intro ran) auto
  qed
next
  case (no_rows e d)
  show ?thesis
  proof (cases "w_tx w = Aborted")
    case True
    with assms no_rows show ?thesis by (auto intro: aborted)
  next
    case False
    with no_rows show ?thesis by (intro ran) auto
  qed
next
  case (failed e d)
  then show ?thesis by (cases "w_tx w = NoTx") (auto intro: aborted ran)
next
  case fault
  then show ?thesis by (cases "w_tx w = NoTx") (auto intro: aborted lost)
next
  case aborted
  then show ?thesis using that(2) by auto
qed

lemma withTx_Inl:
  "run_state (withTx fn) w = (Inl e, w') \<Longrightarrow> same_tables (w_db w) (w_db w')"
  by (auto simp: withTx_def Let_def split: if_splits prod.splits sum.splits)

lemma withTx_Inr:
  assumes "run_state (withTx fn) w = (Inr a, w')"
  obtains w0 w1 where "w_tx w0 = InTx" "w_db w0 = w_db w" "w_now w0 = w_now w"
    "run_state fn w0 = (Inr a, w1)" "w_tx w1 \<noteq> Aborted" "w_db w' = w_db w1" "w_now w' = w_now w1"
    "w_tx w' = NoTx"
proof -
  let ?w0 = "w\<lparr>w_stmts := Suc (w_stmts w), w_tx := InTx\<rparr>"
  obtain r w1 where run: "run_state fn ?w0 = (r, w1)" by fastforce
  with assms have "r = Inr a" "w_tx w1 \<noteq> Aborted"
    "w' = w1\<lparr>w_stmts := Suc (w_stmts w1), w_tx := NoTx\<rparr>"
    by (auto simp: withTx_def Let_def split: if_splits sum.splits)
  with run that[of ?w0 w1] show ?thesis by simp
qed

text \<open>\<open>InTx\<close> statements of a body whose transaction is not aborted at the end all ran.\<close>

lemma aborted_stays: "w_tx w = Aborted \<Longrightarrow> run_state (exec_stmt q) w = (Inl tx_aborted, w\<lparr>w_stmts := Suc (w_stmts w)\<rparr>)"
  by (simp add: exec_stmt_def Let_def)

lemma in_tx_stmt:
  assumes "run_state (exec_stmt q) w = (r, w')" "w_tx w = InTx"
  shows "(w_tx w' = InTx \<and> q (w_now w) (w_db w) = (r, w_db w') \<and> w_now w' = w_now w \<and>
           (\<forall>e. r = Inl e \<longrightarrow> is_no_rows e)) \<or> (w_tx w' = Aborted \<and> (\<exists>e. r = Inl e))"
  using assms by (cases rule: tx_stmt) auto

subsection \<open>Queries on well-formed tables\<close>

lemma find_entry_unique:
  assumes "db_wf d" "e \<in> set (d_entries d)" "is_entry r p e"
  shows "filter (is_entry r p) (d_entries d) = [e]"
proof -
  from assms have "distinct (map entry_key (d_entries d))"
    by (simp add: db_wf_def entries_wf_def)
  moreover have "is_entry r p = (\<lambda>y. entry_key y = entry_key e)"
    using assms(3) by (auto simp: is_entry_def entry_key_def fun_eq_iff)
  ultimately show ?thesis using filter_unique[OF _ assms(2), of entry_key] by simp
qed

lemma sql_GetQueueEntry_cases:
  assumes "db_wf d"
  obtains (none) "sql_GetQueueEntry r p now d = (Inl ErrNoRows, d)"
      "\<And>e. e \<in> set (d_entries d) \<Longrightarrow> \<not> is_entry r p e"
    | (some) e where "sql_GetQueueEntry r p now d = (Inr e, d)" "e \<in> set (d_entries d)" "is_entry r p e"
      "filter (is_entry r p) (d_entries d) = [e]"
proof (cases "\<exists>e \<in> set (d_entries d). is_entry r p e")
  case True
  then obtain e where "e \<in> set (d_entries d)" "is_entry r p e" by blast
  with find_entry_unique[OF assms this] show ?thesis
    by (intro some) (auto simp: sql_GetQueueEntry_def one_row_def)
next
  case False
  then have "filter (is_entry r p) (d_entries d) = []" by (auto simp: filter_empty_conv)
  with False show ?thesis by (intro none) (auto simp: sql_GetQueueEntry_def one_row_def)
qed

lemma set_queue_rows: "set (queue_rows d r b) = {e \<in> set (d_entries d). in_queue r b e}"
  by (simp add: queue_rows_def)

lemma queue_rows_sorted: "sorted (map qe_EnqueuedAt (queue_rows d r b))"
  by (simp add: queue_rows_def)

lemma is_no_rows_simps [simp]:
  "is_no_rows ErrNoRows" "\<not> is_no_rows (PgError m)" "\<not> is_no_rows tx_aborted" "\<not> is_no_rows db_fault"
  by (simp_all add: is_no_rows_def errors_is_def tx_aborted_def db_fault_def)

subsection \<open>Enqueue\<close>

text \<open>The number of entries a pull request enqueued now would wait behind, itself included.\<close>

definition position_of :: "db \<Rightarrow> int \<Rightarrow> string \<Rightarrow> queue_entry \<Rightarrow> int" where
  "position_of d repoID branch e =
     int (length (filter (\<lambda>x. in_queue repoID branch x \<and> active x \<and> qe_EnqueuedAt x \<le> qe_EnqueuedAt e)
       (d_entries d)))"

definition queue_position :: "db \<Rightarrow> int \<Rightarrow> string \<Rightarrow> int \<Rightarrow> int" where
  "queue_position d repoID branch prNumber =
     fst (case sql_CountQueuePosition repoID branch prNumber 0 d of (Inr n, d) \<Rightarrow> (n, d) | (Inl _, d) \<Rightarrow> (0, d))"

lemma sql_CountQueuePosition_eq:
  "sql_CountQueuePosition r b p now d = (Inr (queue_position d r b p), d)"
  by (auto simp: queue_position_def sql_CountQueuePosition_def split: list.splits)

lemma count_position_ran:
  assumes "run_state (count_position r b p mk) w = (Inr x, w')" "w_tx w = InTx"
  shows "x = mk (queue_position (w_db w) r b p) \<and> w_db w' = w_db w \<and> w_now w' = w_now w"
proof -
  obtain c w1 where run: "run_state (exec_stmt (sql_CountQueuePosition r b p)) w = (c, w1)" by fastforce
  with assms(1) obtain n where c: "c = Inr n" "x = mk n" "w' = w1"
    by (cases c) (auto simp: count_position_def)
  with in_tx_stmt[OF run assms(2)] show ?thesis by (auto simp: sql_CountQueuePosition_eq)
qed

lemma Enqueue_error_tables:
  "run_state (Enqueue r p s b) w = (Inl e, w') \<Longrightarrow> same_tables (w_db w) (w_db w')"
  unfolding Enqueue_def by (rule withTx_Inl)

lemma Enqueue_result:
  fixes w :: "'f world"
  assumes run: "run_state (Enqueue r p s b) w = (Inr res, w')"
  shows "(case filter (is_entry r p) (d_entries (w_db w)) of
            e # _ \<Rightarrow> same_tables (w_db w) (w_db w') \<and>
              res = \<lparr>er_Position = queue_position (w_db w) r (qe_TargetBranch e) p,
                     er_IsNew = False, er_Entry = e\<rparr>
          | [] \<Rightarrow> (let e = new_entry (d_entry_seq (w_db w)) (w_now w) r p s b in
              w_db w' = (w_db w)\<lparr>d_entry_seq := d_entry_seq (w_db w) + 1,
                d_entries := d_entries (w_db w) @ [e]\<rparr> \<and>
              r \<in> r_ID ` set (d_repos (w_db w)) \<and>
              res = \<lparr>er_Position = queue_position (w_db w') r b p, er_IsNew = True, er_Entry = e\<rparr>))"
proof -
  let ?d = "w_db w"
  from run[unfolded Enqueue_def] obtain w0 w1 :: "'f world" where w0: "w_tx w0 = InTx" "w_db w0 = ?d"
      "w_now w0 = w_now w" and body: "run_state (enqueue_tx r p s b) w0 = (Inr res, w1)"
    and w1: "w_tx w1 \<noteq> Aborted" "w_db w' = w_db w1" "w_now w' = w_now w1" "w_tx w' = NoTx"
    by (rule withTx_Inr)
  obtain ins w2 where ins: "run_state (exec_stmt (sql_EnqueuePR r p s b)) w0 = (ins, w2)" by fastforce
  show ?thesis
  proof (cases ins)
    case (Inr e)
    with in_tx_stmt[OF ins w0(1)] have ran: "sql_EnqueuePR r p s b (w_now w) ?d = (Inr e, w_db w2)"
      and tx: "w_tx w2 = InTx" by (auto simp: w0)
    from ran have none: "filter (is_entry r p) (d_entries ?d) = []"
      and repo: "r \<in> r_ID ` set (d_repos ?d)"
      and e: "e = new_entry (d_entry_seq ?d) (w_now w) r p s b"
      and d2: "w_db w2 = ?d\<lparr>d_entry_seq := d_entry_seq ?d + 1, d_entries := d_entries ?d @ [e]\<rparr>"
      by (auto simp: sql_EnqueuePR_def Let_def find_None_filter split: if_splits)
    from body ins Inr have "run_state (count_position r b p
        (\<lambda>pos. \<lparr>er_Position = pos, er_IsNew = True, er_Entry = e\<rparr>)) w2 = (Inr res, w1)"
      by (simp add: enqueue_tx_def)
    from count_position_ran[OF this tx] none repo e d2 w1 show ?thesis by (simp add: Let_def)
  next
    case (Inl err)
    from body ins Inl obtain got w3 where got: "run_state (exec_stmt (sql_GetQueueEntry r p)) w2 = (got, w3)"
      by fastforce
    from body ins Inl got obtain e where e: "got = Inr e"
      and count: "run_state (count_position r (qe_TargetBranch e) p
        (\<lambda>pos. \<lparr>er_Position = pos, er_IsNew = False, er_Entry = e\<rparr>)) w3 = (Inr res, w1)"
      by (cases got) (auto simp: enqueue_tx_def)
    have tx2: "w_tx w2 = InTx"
      using in_tx_stmt[OF ins w0(1)] got e by (auto simp: aborted_stays)
    with in_tx_stmt[OF ins w0(1)] Inl have "fst (sql_EnqueuePR r p s b (w_now w) ?d) = Inl err"
      and noerr: "is_no_rows err" and d2: "w_db w2 = snd (sql_EnqueuePR r p s b (w_now w) ?d)"
      by (auto simp: w0)
    then have same: "same_tables ?d (w_db w2)"
      by (auto simp: sql_EnqueuePR_def Let_def same_tables_def split: if_splits)
    from in_tx_stmt[OF got tx2] e have q: "sql_GetQueueEntry r p (w_now w2) (w_db w2) = (Inr e, w_db w3)"
      and tx3: "w_tx w3 = InTx" by auto
    from q have d3: "w_db w3 = w_db w2" and hd: "\<exists>es. filter (is_entry r p) (d_entries (w_db w2)) = e # es"
      by (auto simp: sql_GetQueueEntry_def one_row_def split: list.splits)
    have pos: "queue_position (w_db w2) r b' p = queue_position ?d r b' p" for b'
      using same by (simp add: queue_position_def sql_CountQueuePosition_def same_tables_def split: list.splits)
    from count_position_ran[OF count tx3] d3 hd same w1 pos show ?thesis
      by (auto simp: same_tables_def)
  qed
qed

subsection \<open>Dequeue\<close>

lemma in_tx_ok:
  assumes "run_state (exec_stmt q) w = (Inr a, w')" "w_tx w = InTx"
  shows "w_tx w' = InTx" "q (w_now w) (w_db w) = (Inr a, w_db w')" "w_now w' = w_now w"
  using in_tx_stmt[OF assms] by auto

lemma in_tx_before:
  assumes "run_state (exec_stmt q) w = (r, w')" "w_tx w = InTx" "w_tx w' \<noteq> Aborted"
  shows "w_tx w' = InTx" "q (w_now w) (w_db w) = (r, w_db w')" "w_now w' = w_now w"
    "\<forall>e. r = Inl e \<longrightarrow> is_no_rows e"
  using in_tx_stmt[OF assms(1,2)] assms(3) by auto

lemma ok_not_aborted: "run_state (exec_stmt q) w = (Inr a, w') \<Longrightarrow> w_tx w \<noteq> Aborted"
  by (auto simp: aborted_stays)

lemma Dequeue_error_tables:
  "run_state (Dequeue r p) w = (Inl e, w') \<Longrightarrow> same_tables (w_db w) (w_db w')"
  unfolding Dequeue_def by (rule withTx_Inl)

lemma Dequeue_result:
  fixes w :: "'f world"
  assumes run: "run_state (Dequeue r p) w = (Inr res, w')"
  shows "(case filter (is_entry r p) (d_entries (w_db w)) of
            [] \<Rightarrow> res = NotFound \<and> w_db w' = w_db w
          | e # _ \<Rightarrow> w_db w' = delete_entries (is_entry r p) (w_db w) \<and>
              res = Found (case queue_rows (w_db w) r (qe_TargetBranch e) of
                             [] \<Rightarrow> False | h # _ \<Rightarrow> qe_PrNumber h = p) e)"
proof -
  let ?d = "w_db w"
  from run[unfolded Dequeue_def] obtain w0 w1 :: "'f world" where w0: "w_tx w0 = InTx" "w_db w0 = ?d"
      "w_now w0 = w_now w" and body: "run_state (dequeue_tx r p) w0 = (Inr res, w1)"
    and w1: "w_tx w1 \<noteq> Aborted" "w_db w' = w_db w1" "w_now w' = w_now w1" "w_tx w' = NoTx"
    by (rule withTx_Inr)
  obtain got w2 where got: "run_state (exec_stmt (sql_GetQueueEntry r p)) w0 = (got, w2)" by fastforce
  show ?thesis
  proof (cases got)
    case (Inl err)
    with body got have "res = NotFound" "w1 = w2" by (auto simp: dequeue_tx_def)
    with in_tx_before[OF got w0(1)] w1 Inl show ?thesis
      by (auto simp: w0 sql_GetQueueEntry_def one_row_def split: list.splits)
  next
    case (Inr e)
    note tx2 = in_tx_ok[OF got[unfolded Inr] w0(1)]
    then have e: "\<exists>es. filter (is_entry r p) (d_entries ?d) = e # es" and d2: "w_db w2 = ?d"
      by (auto simp: w0 sql_GetQueueEntry_def one_row_def split: list.splits)
    obtain h w3 where h: "run_state (exec_stmt (sql_GetHeadOfQueue r (qe_TargetBranch e))) w2 = (h, w3)"
      by fastforce
    obtain del w4 where del: "run_state (exec_stmt (sql_DequeuePR r p)) w3 = (del, w4)" by fastforce
    from body got Inr h del have res: "del = Inr ()" "w1 = w4"
        "res = Found (case h of Inl _ \<Rightarrow> False | Inr x \<Rightarrow> qe_PrNumber x = p) e"
      by (auto simp: dequeue_tx_def split: sum.splits)
    from ok_not_aborted[OF del[unfolded res(1)]] have "w_tx w3 \<noteq> Aborted" .
    note tx3 = in_tx_before[OF h tx2(1) this]
    from in_tx_ok[OF del[unfolded res(1)] tx3(1)] tx3(2) d2 e res w1 show ?thesis
      by (auto simp: sql_GetHeadOfQueue_def one_row_def sql_DequeuePR_def split: list.splits)
  qed
qed

subsection \<open>Advance\<close>

lemma Advance_error_tables:
  "run_state (Advance r b) w = (Inl e, w') \<Longrightarrow> same_tables (w_db w) (w_db w')"
  unfolding Advance_def by (rule withTx_Inl)

lemma Advance_result:
  fixes w :: "'f world"
  assumes run: "run_state (Advance r b) w = (Inr res, w')"
  shows "(case queue_rows (w_db w) r b of
            [] \<Rightarrow> res = None \<and> w_db w' = w_db w
          | h # _ \<Rightarrow> w_db w' = delete_entries (is_entry r (qe_PrNumber h)) (w_db w) \<and>
              res = (case queue_rows (w_db w') r b of [] \<Rightarrow> None | n # _ \<Rightarrow> Some n))"
proof -
  let ?d = "w_db w"
  from run[unfolded Advance_def] obtain w0 w1 :: "'f world" where w0: "w_tx w0 = InTx" "w_db w0 = ?d"
      "w_now w0 = w_now w" and body: "run_state (advance_tx r b) w0 = (Inr res, w1)"
    and w1: "w_tx w1 \<noteq> Aborted" "w_db w' = w_db w1" "w_now w' = w_now w1" "w_tx w' = NoTx"
    by (rule withTx_Inr)
  obtain h w2 where h: "run_state (exec_stmt (sql_GetHeadOfQueue r b)) w0 = (h, w2)" by fastforce
  show ?thesis
  proof (cases h)
    case (Inl err)
    with body h have "res = None" "w1 = w2" by (auto simp: advance_tx_def)
    with in_tx_before[OF h w0(1)] w1 Inl show ?thesis
      by (auto simp: w0 sql_GetHeadOfQueue_def one_row_def split: list.splits)
  next
    case (Inr x)
    note tx2 = in_tx_ok[OF h[unfolded Inr] w0(1)]
    then have x: "\<exists>xs. queue_rows ?d r b = x # xs" and d2: "w_db w2 = ?d"
      by (auto simp: w0 sql_GetHeadOfQueue_def one_row_def split: list.splits)
    obtain del w3 where del: "run_state (exec_stmt (sql_DequeuePR r (qe_PrNumber x))) w2 = (del, w3)"
      by fastforce
    obtain n w4 where n: "run_state (exec_stmt (sql_GetHeadOfQueue r b)) w3 = (n, w4)" by fastforce
    from body h Inr del n have res: "del = Inr ()" "w1 = w4"
        "res = (case n of Inl _ \<Rightarrow> None | Inr y \<Rightarrow> Some y)"
      by (auto simp: advance_tx_def split: sum.splits)
    note tx3 = in_tx_ok[OF del[unfolded res(1)] tx2(1)]
    from w1 res have "w_tx w4 \<noteq> Aborted" by simp
    note tx4 = in_tx_before[OF n tx3(1) this]
    from tx3(2) tx4(2) d2 x res w1 show ?thesis
      by (auto simp: sql_GetHeadOfQueue_def one_row_def sql_DequeuePR_def split: list.splits)
  qed
qed

end
