(* ===== verification/Fifo.thy ===== *)
theory Fifo
  imports Invariants QueueLemmas
begin

text \<open>
  First in, first out. The rows of a queue only ever evolve by removing rows and appending
  newly enqueued ones; no handler lets a row overtake one that was enqueued before it. The
  relation \<open>evolves\<close> says so of two lists of entry ids, and the interpretation
  \<open>fifo\<close> of \<open>landing_effects\<close> proves it of every handler.
\<close>

definition queue_ids :: "db \<Rightarrow> int \<Rightarrow> string \<Rightarrow> int list" where
  "queue_ids d r b = map qe_ID (queue_rows d r b)"

definition evolves :: "int \<Rightarrow> int list \<Rightarrow> int list \<Rightarrow> bool" where
  "evolves fresh xs ys \<longleftrightarrow>
     (\<exists>keep new. ys = keep @ new \<and> subseq keep xs \<and> (\<forall>i \<in> set new. fresh \<le> i))"

lemma evolves_refl [simp]: "evolves n xs xs"
  unfolding evolves_def by (rule exI[of _ xs], rule exI[of _ "[]"]) simp

lemma evolves_subseq: "subseq ys xs \<Longrightarrow> evolves n xs ys"
  unfolding evolves_def by (rule exI[of _ ys], rule exI[of _ "[]"]) simp

lemma evolves_append: "n \<le> i \<Longrightarrow> evolves n xs (xs @ [i])"
  unfolding evolves_def by (rule exI[of _ xs], rule exI[of _ "[i]"]) simp

lemma subseq_set: "subseq xs ys \<Longrightarrow> x \<in> set xs \<Longrightarrow> x \<in> set ys"
  by (auto elim: list_emb_set)

lemma evolves_trans:
  assumes "evolves m xs ys" "evolves n ys zs" "m \<le> n"
  shows "evolves m xs zs"
proof -
  from assms(1) obtain k1 n1 where ys: "ys = k1 @ n1" "subseq k1 xs" "\<forall>i \<in> set n1. m \<le> i"
    by (auto simp: evolves_def)
  from assms(2) obtain k2 n2 where zs: "zs = k2 @ n2" "subseq k2 ys" "\<forall>i \<in> set n2. n \<le> i"
    by (auto simp: evolves_def)
  from zs(2) ys(1) obtain a c where k2: "k2 = a @ c" "subseq a k1" "subseq c n1"
    by (auto elim: subseq_appendE)
  have "zs = a @ (c @ n2)" "subseq a xs" "\<forall>i \<in> set (c @ n2). m \<le> i"
    using zs ys k2 assms(3) by (auto intro: subseq_order.trans dest: subseq_set)
  then show ?thesis unfolding evolves_def by blast
qed

definition times_ok :: "int \<Rightarrow> db \<Rightarrow> bool" where
  "times_ok now d \<longleftrightarrow> (\<forall>e \<in> set (d_entries d). qe_EnqueuedAt e \<le> now)"

definition fifo_wf :: "int \<Rightarrow> db \<Rightarrow> bool" where
  "fifo_wf now d \<longleftrightarrow> db_wf d \<and> times_ok now d"

definition fifo_db :: "int \<Rightarrow> db \<Rightarrow> db \<Rightarrow> bool" where
  "fifo_db now d d' \<longleftrightarrow> fifo_wf now d' \<and> seq_le d d' \<and>
     (\<forall>r b. evolves (d_entry_seq d) (queue_ids d r b) (queue_ids d' r b))"

definition fifo_step :: "'f world \<Rightarrow> 'f world \<Rightarrow> bool" where
  "fifo_step w w' \<longleftrightarrow> w_now w \<le> w_now w' \<and>
     (fifo_wf (w_now w) (w_db w) \<longrightarrow> fifo_db (w_now w') (w_db w) (w_db w'))"

definition keeps_fifo :: "(int \<Rightarrow> db \<Rightarrow> db) \<Rightarrow> bool" where
  "keeps_fifo g \<longleftrightarrow> (\<forall>now d. fifo_wf now d \<longrightarrow> fifo_db now d (g now d))"

lemma fifo_db_refl: "fifo_wf now d \<Longrightarrow> fifo_db now d d"
  by (simp add: fifo_db_def)

lemma fifo_wf_later: "fifo_wf now d \<Longrightarrow> now \<le> t \<Longrightarrow> fifo_wf t d"
  by (force simp: fifo_wf_def times_ok_def)

lemma fifo_db_trans: "fifo_db now a b \<Longrightarrow> fifo_db t b c \<Longrightarrow> fifo_db t a c"
  unfolding fifo_db_def seq_le_def using evolves_trans by (auto simp del: fifo_wf_def) blast

lemma fifo_db_restore:
  "fifo_wf now d \<Longrightarrow> now \<le> t \<Longrightarrow> fifo_db t d d' \<Longrightarrow> fifo_db t d (restore_tables d d')"
  using fifo_wf_later[of now d t]
  by (auto simp: fifo_db_def fifo_wf_def times_ok_def db_wf_restore seq_le_restore queue_ids_def
      queue_rows_same[OF same_tables_restore])

text \<open>The table updates of the program, by what they do to the rows of a queue.\<close>

lemma queue_rows_update:
  assumes "\<And>e. qe_ID (f e) = qe_ID e" "\<And>e. qe_RepoID (f e) = qe_RepoID e"
    "\<And>e. qe_TargetBranch (f e) = qe_TargetBranch e" "\<And>e. qe_EnqueuedAt (f e) = qe_EnqueuedAt e"
    "d_entries d' = update_where p f (d_entries d)"
  shows "queue_rows d' r b = update_where p f (queue_rows d r b)"
  using assms by (simp add: queue_rows_def filter_update_where sort_key_update_where in_queue_def)

lemma queue_rows_delete:
  "queue_rows (delete_entries p d) r b = filter (\<lambda>e. \<not> p e) (queue_rows d r b)"
  by (simp add: queue_rows_def delete_entries_def filter_sort conj_commute)

lemma queue_rows_advance:
  assumes "db_wf d" "queue_rows d r b = h # hs"
  shows "queue_rows (delete_entries (is_entry r (qe_PrNumber h)) d) r b = hs"
proof -
  have rows: "e \<in> set (h # hs) \<Longrightarrow> e \<in> set (d_entries d) \<and> qe_RepoID e = r" for e
    using set_queue_rows[of d r b] assms(2) by (auto simp: in_queue_def)
  have "distinct (map entry_key (d_entries d))"
    using assms(1) by (simp add: db_wf_def entries_wf_def)
  then have inj: "e = h" if "e \<in> set (h # hs)" "is_entry r (qe_PrNumber h) e" for e
    using distinct_map_inj[of entry_key "d_entries d" e h] that rows[OF that(1)] rows[of h]
    by (auto simp: entry_key_def is_entry_def)
  have "distinct (map qe_ID (d_entries d))"
    using assms(1) by (simp add: db_wf_def entries_wf_def)
  then have "distinct (queue_rows d r b)"
    by (auto simp: queue_rows_def distinct_map)
  with assms(2) have "h \<notin> set hs" by simp
  with inj have "filter (\<lambda>e. \<not> is_entry r (qe_PrNumber h) e) hs = hs"
    by (auto intro!: filter_True)
  moreover have "is_entry r (qe_PrNumber h) h" using rows[of h] by (simp add: is_entry_def)
  ultimately show ?thesis by (simp add: queue_rows_delete assms(2))
qed

lemma queue_rows_enqueue:
  assumes "times_ok (qe_EnqueuedAt e) d" "d_entries d' = d_entries d @ [e]"
  shows "queue_rows d' r b = queue_rows d r b @ (if in_queue r b e then [e] else [])"
  using assms by (auto simp: queue_rows_def times_ok_def intro!: sort_key_snoc)

lemma fifo_update:
  assumes "\<And>e. qe_ID (f e) = qe_ID e" "\<And>e. qe_RepoID (f e) = qe_RepoID e"
    "\<And>e. qe_TargetBranch (f e) = qe_TargetBranch e" "\<And>e. qe_EnqueuedAt (f e) = qe_EnqueuedAt e"
    "d_entries d' = update_where p f (d_entries d)" "fifo_wf now d" "db_wf d'" "seq_le d d'"
  shows "fifo_db now d d'"
  using assms queue_rows_update[of f d' p d, OF assms(1-5)]
  by (auto simp: fifo_db_def fifo_wf_def times_ok_def set_update_where queue_ids_def)

lemma fifo_same:
  "d_entries d' = d_entries d \<Longrightarrow> fifo_wf now d \<Longrightarrow> db_wf d' \<Longrightarrow> seq_le d d' \<Longrightarrow> fifo_db now d d'"
  using fifo_update[of id d' "\<lambda>_. False" d] by (simp add: update_where_def)

lemma fifo_delete:
  assumes "fifo_wf now d"
  shows "fifo_db now d (delete_entries p d)"
proof -
  have "evolves n (queue_ids d r b) (queue_ids (delete_entries p d) r b)" for n r b
    unfolding queue_ids_def queue_rows_delete
    by (intro evolves_subseq subseq_map) simp
  with assms show ?thesis
    by (auto simp: fifo_db_def fifo_wf_def times_ok_def db_wf_delete_entries seq_le_def)
      (auto simp: delete_entries_def)
qed

lemma fifo_EnqueuePR: "fifo_wf now d \<Longrightarrow> fifo_db now d (snd (sql_EnqueuePR r p s b now d))"
proof -
  assume wf: "fifo_wf now d"
  let ?d' = "snd (sql_EnqueuePR r p s b now d)"
  let ?e = "new_entry (d_entry_seq d) now r p s b"
  have wf': "db_wf ?d'" and sq: "seq_le d ?d'"
    using wf keeps_wfD[OF wf_EnqueuePR] seq_sql(7) by (auto simp: fifo_wf_def)
  have "d_entries ?d' = d_entries d \<or> d_entries ?d' = d_entries d @ [?e]"
    by (auto simp: sql_EnqueuePR_def Let_def)
  then consider "d_entries ?d' = d_entries d" | "d_entries ?d' = d_entries d @ [?e]" by blast
  then show ?thesis
  proof cases
    case 1
    then show ?thesis using wf wf' sq by (rule fifo_same)
  next
    case 2
    have "times_ok (qe_EnqueuedAt ?e) d" using wf by (simp add: fifo_wf_def new_entry_def)
    note rows = queue_rows_enqueue[OF this 2]
    have "evolves (d_entry_seq d) (queue_ids d r' b') (queue_ids ?d' r' b')" for r' b'
      by (simp add: queue_ids_def rows new_entry_def evolves_append)
    then show ?thesis using wf wf' sq 2
      by (auto simp: fifo_db_def fifo_wf_def times_ok_def new_entry_def)
  qed
qed

lemma keeps_fifo_update:
  assumes "keeps_wf q" "\<And>now d. seq_le d (snd (q now d))"
    "\<And>now d. d_entries (snd (q now d)) = update_where p (f now) (d_entries d)"
    "\<And>now e. qe_ID (f now e) = qe_ID e" "\<And>now e. qe_RepoID (f now e) = qe_RepoID e"
    "\<And>now e. qe_TargetBranch (f now e) = qe_TargetBranch e"
    "\<And>now e. qe_EnqueuedAt (f now e) = qe_EnqueuedAt e"
  shows "keeps_fifo (effect q)"
  unfolding keeps_fifo_def
proof (intro allI impI)
  fix now d
  assume wf: "fifo_wf now d"
  have "db_wf (snd (q now d))" using wf assms(1) by (auto simp: fifo_wf_def keeps_wfD)
  with assms wf show "fifo_db now d (snd (q now d))"
    using fifo_update[of "f now" "snd (q now d)" p d now] by blast
qed

lemma keeps_fifo_same:
  assumes "keeps_wf q" "\<And>now d. seq_le d (snd (q now d))"
    "\<And>now d. d_entries (snd (q now d)) = d_entries d"
  shows "keeps_fifo (effect q)"
  using assms keeps_fifo_update[of q "\<lambda>_. False" "\<lambda>_ e. e"] by (simp add: update_where_def)

lemma keeps_fifo_same_sql:
  "keeps_fifo (effect (sql_CancelBatchesByRepo r))"
  "keeps_fifo (effect (sql_ClearCheckStatuses ids))"
  "keeps_fifo (effect (sql_CreateBatch r b ids))"
  "keeps_fifo (effect (sql_GetOrCreateRepo f ow n))"
  "keeps_fifo (effect (sql_SaveBatch x))"
  "keeps_fifo (effect (sql_SaveCheckStatus i c st u))"
  by (rule keeps_fifo_same; (rule wf_sql seq_sql |
      simp add: sql_CancelBatchesByRepo_def sql_ClearCheckStatuses_def sql_CreateBatch_def
        sql_GetOrCreateRepo_def sql_SaveBatch_def sql_SaveCheckStatus_def Let_def
        split: option.splits check_state.splits))+

lemma keeps_fifo_ClearEntryMergeBranch: "keeps_fifo (effect (sql_ClearEntryMergeBranch ids))"
  by (rule keeps_fifo_update[OF _ _ _, where p = "\<lambda>e. qe_ID e \<in> set ids" and
        f = "\<lambda>_ e. e\<lparr>qe_MergeBranchName := None, qe_MergeBranchSha := None\<rparr>"])
    (simp_all add: wf_sql seq_sql, simp add: sql_ClearEntryMergeBranch_def)

lemma keeps_fifo_UpdateEntryError: "keeps_fifo (effect (sql_UpdateEntryError r p m))"
  by (rule keeps_fifo_update[where p = "is_entry r p" and f = "\<lambda>_ e. e\<lparr>qe_ErrorMessage := m\<rparr>"])
    (simp_all add: wf_sql seq_sql, simp add: sql_UpdateEntryError_def)

lemma keeps_fifo_UpdateEntryMergeBranch:
  "keeps_fifo (effect (sql_UpdateEntryMergeBranch r p nm sh))"
  by (rule keeps_fifo_update[where p = "is_entry r p" and
        f = "\<lambda>_ e. e\<lparr>qe_MergeBranchName := nm, qe_MergeBranchSha := sh\<rparr>"])
    (simp_all add: wf_sql seq_sql, simp add: sql_UpdateEntryMergeBranch_def)

lemma keeps_fifo_UpdateEntryState: "keeps_fifo (effect (sql_UpdateEntryState est r p))"
  by (rule keeps_fifo_update[where p = "is_entry r p" and f = "set_entry_state est"])
    (simp_all add: wf_sql seq_sql, simp add: sql_UpdateEntryState_def)

lemma keeps_fifo_SetEntryActiveBatch: "keeps_fifo (effect (sql_SetEntryActiveBatch bid ids))"
  unfolding keeps_fifo_def
proof (intro allI impI)
  fix now d
  let ?d' = "snd (sql_SetEntryActiveBatch bid ids now d)"
  assume wf: "fifo_wf now d"
  then have wf': "db_wf ?d'" using keeps_wfD[OF wf_SetEntryActiveBatch] by (auto simp: fifo_wf_def)
  have "?d' = d \<or> d_entries ?d' = update_where (\<lambda>e. qe_ID e \<in> set ids)
      (\<lambda>e. e\<lparr>qe_ActiveBatchID := bid, qe_State := EntryStateTesting,
             qe_TestingStartedAt := (case qe_TestingStartedAt e of None \<Rightarrow> Some now | Some t \<Rightarrow> Some t)\<rparr>)
      (d_entries d)"
    by (simp add: sql_SetEntryActiveBatch_def)
  then show "fifo_db now d ?d'"
    using wf wf' seq_sql(11) by (auto intro: fifo_db_refl fifo_update[rotated 4])
qed

lemmas keeps_fifo_sql = keeps_fifo_same_sql keeps_fifo_ClearEntryMergeBranch
  keeps_fifo_UpdateEntryError keeps_fifo_UpdateEntryMergeBranch keeps_fifo_UpdateEntryState
  keeps_fifo_SetEntryActiveBatch

lemma keeps_fifo_deletes:
  "keeps_fifo (effect (sql_DequeueAllByRepo r))" "keeps_fifo (effect (sql_DequeuePR r p))"
  "keeps_fifo (effect (sql_EnqueuePR r p s b))"
  by (simp_all add: keeps_fifo_def sql_DequeueAllByRepo_def sql_DequeuePR_def fifo_delete
      fifo_EnqueuePR)

lemma keeps_fifoD: "keeps_fifo g \<Longrightarrow> fifo_wf now d \<Longrightarrow> fifo_db now d (g now d)"
  by (simp add: keeps_fifo_def)

lemma fifo_db_wf: "fifo_db now d d' \<Longrightarrow> fifo_wf now d'"
  by (simp add: fifo_db_def)

interpretation fifo: landing_effects fifo_step keeps_fifo "\<lambda>_. True"
  by unfold_locales
    (auto simp: fifo_step_def intro!: keeps_fifo_sql keeps_fifo_deletes
      intro: fifo_db_refl fifo_db_restore fifo_db_trans keeps_fifoD fifo_db_wf)

lemma fifo_outside: "w_now w \<le> t \<Longrightarrow> fifo_step w (w\<lparr>w_now := t, w_forge := f\<rparr>)"
  by (auto simp: fifo_step_def intro: fifo_db_refl fifo_wf_later)

end
