(* ===== verification/QueueRefine.thy ===== *)
theory QueueRefine
  imports Fifo
begin

text \<open>
  The contract of the queue service, as its callers use it: one list of pull request numbers for
  every repository and target branch. \<open>Enqueue\<close> appends, \<open>Dequeue\<close> removes, \<open>Advance\<close> drops the
  first, \<open>List\<close> reads, and a call that returns an error has done nothing. The relation
  \<open>queue_step\<close> is that contract; \<open>serve_call\<close> runs the operations of the code on the tables; the
  lemmas show that every run of the second is a run of the first under the abstraction
  \<open>queues_of\<close>, whatever statements fail on the way.
\<close>

subsection \<open>The contract\<close>

type_synonym queues = "int \<Rightarrow> string \<Rightarrow> int list"

datatype queue_call =
    CallEnqueue int int string string
  | CallDequeue int int
  | CallAdvance int string
  | CallList int string

datatype queue_answer =
    Refused
  | Enqueued (enqueued_new: bool)
  | Dequeued "bool option"
  | Advanced "int option"
  | Listed "int list"

definition set_queue :: "int \<Rightarrow> string \<Rightarrow> int list \<Rightarrow> queues \<Rightarrow> queues" where
  "set_queue r b ps q = q(r := (q r)(b := ps))"

definition first_of :: "'a list \<Rightarrow> 'a option" where
  "first_of xs = (case xs of [] \<Rightarrow> None | x # _ \<Rightarrow> Some x)"

inductive queue_step :: "queue_call \<Rightarrow> queue_answer \<Rightarrow> queues \<Rightarrow> queues \<Rightarrow> bool" where
  refused: "queue_step c Refused q q"
| enqueue_new: "\<forall>b'. p \<notin> set (q r b') \<Longrightarrow>
    queue_step (CallEnqueue r p s b) (Enqueued True) q (set_queue r b (q r b @ [p]) q)"
| enqueue_again: "p \<in> set (q r b') \<Longrightarrow>
    queue_step (CallEnqueue r p s b) (Enqueued False) q q"
| dequeue: "p \<in> set (q r b) \<Longrightarrow>
    queue_step (CallDequeue r p) (Dequeued (Some (hd (q r b) = p))) q
      (set_queue r b (remove1 p (q r b)) q)"
| dequeue_unknown: "\<forall>b. p \<notin> set (q r b) \<Longrightarrow>
    queue_step (CallDequeue r p) (Dequeued None) q q"
| advance: "queue_step (CallAdvance r b) (Advanced (first_of (tl (q r b)))) q
    (set_queue r b (tl (q r b)) q)"
| list_queue: "queue_step (CallList r b) (Listed (q r b)) q q"

inductive_cases queue_step_elims [elim!]:
  "queue_step (CallEnqueue r p s b) a q q'" "queue_step (CallDequeue r p) a q q'"
  "queue_step (CallAdvance r b) a q q'" "queue_step (CallList r b) a q q'"

inductive queue_steps :: "queue_call list \<Rightarrow> queue_answer list \<Rightarrow> queues \<Rightarrow> queues \<Rightarrow> bool" where
  none: "queue_steps [] [] q q"
| more: "queue_step c a q q1 \<Longrightarrow> queue_steps cs as q1 q2 \<Longrightarrow> queue_steps (c # cs) (a # as) q q2"

text \<open>No pull request is in the queues of a repository twice; the contract keeps it so.\<close>

definition queues_distinct :: "queues \<Rightarrow> bool" where
  "queues_distinct q \<longleftrightarrow> (\<forall>r b. distinct (q r b)) \<and>
     (\<forall>r b b' p. p \<in> set (q r b) \<longrightarrow> p \<in> set (q r b') \<longrightarrow> b = b')"

lemma set_queue_apply:
  "set_queue r b ps q r' b' = (if r' = r \<and> b' = b then ps else q r' b')"
  by (simp add: set_queue_def)

lemma set_queue_same [simp]: "set_queue r b (q r b) q = q"
  by (simp add: set_queue_def)

lemma set_tl_subset: "set (tl xs) \<subseteq> set xs"
  by (cases xs) auto

lemma queue_step_distinct:
  "queue_step c a q q' \<Longrightarrow> queues_distinct q \<Longrightarrow> queues_distinct q'"
  by (induction rule: queue_step.induct)
    (auto simp: queues_distinct_def set_queue_apply distinct_tl
      dest: subsetD[OF set_remove1_subset] subsetD[OF set_tl_subset])

subsection \<open>The operations of the code\<close>

definition answer :: "('a \<Rightarrow> queue_answer) \<Rightarrow> ('f, 'a) go_err \<Rightarrow> ('f, queue_answer) go" where
  "answer mk m = do { r \<leftarrow> m; ret (case r of Inl _ \<Rightarrow> Refused | Inr a \<Rightarrow> mk a) }"

fun serve_call :: "queue_call \<Rightarrow> ('f, queue_answer) go" where
  "serve_call (CallEnqueue r p s b) = answer (\<lambda>res. Enqueued (er_IsNew res)) (Enqueue r p s b)"
| "serve_call (CallDequeue r p) =
     answer (\<lambda>res. Dequeued (case res of NotFound \<Rightarrow> None | Found h _ \<Rightarrow> Some h)) (Dequeue r p)"
| "serve_call (CallAdvance r b) = answer (\<lambda>res. Advanced (map_option qe_PrNumber res)) (Advance r b)"
| "serve_call (CallList r b) = answer (\<lambda>es. Listed (map qe_PrNumber es)) (Queue_List r b)"

primrec serve_calls :: "queue_call list \<Rightarrow> ('f, queue_answer list) go" where
  "serve_calls [] = ret []"
| "serve_calls (c # cs) = do { a \<leftarrow> serve_call c; as \<leftarrow> serve_calls cs; ret (a # as) }"

definition queues_of :: "db \<Rightarrow> queues" where
  "queues_of d = (\<lambda>r b. map qe_PrNumber (queue_rows d r b))"

subsection \<open>Refinement\<close>

lemma queues_of_apply: "queues_of d r b = map qe_PrNumber (queue_rows d r b)"
  by (simp add: queues_of_def)

lemma queues_of_same: "same_tables d d' \<Longrightarrow> queues_of d' = queues_of d"
  by (simp add: queues_of_def queue_rows_same fun_eq_iff)

lemma in_queues_of: "p \<in> set (queues_of d r b) \<longleftrightarrow> (\<exists>e \<in> set (d_entries d). is_entry r p e \<and> qe_TargetBranch e = b)"
  by (auto simp: queues_of_def set_queue_rows in_queue_def is_entry_def)

lemma entry_unique:
  assumes "db_wf d" "e \<in> set (d_entries d)" "x \<in> set (d_entries d)" "is_entry r p e" "is_entry r p x"
  shows "e = x"
  using assms distinct_map_inj[of entry_key "d_entries d" e x]
  by (simp add: db_wf_def entries_wf_def is_entry_def entry_key_def)

lemma queues_of_distinct: "db_wf d \<Longrightarrow> queues_distinct (queues_of d)"
  unfolding queues_distinct_def
proof (intro conjI allI impI)
  assume wf: "db_wf d"
  fix r b
  have "distinct (queue_rows d r b)"
    using wf by (auto simp: queue_rows_def db_wf_def entries_wf_def distinct_map)
  moreover have "inj_on qe_PrNumber (set (queue_rows d r b))"
    by (auto intro!: inj_onI entry_unique[OF wf] simp: set_queue_rows in_queue_def is_entry_def)
  ultimately show "distinct (queues_of d r b)" by (simp add: queues_of_def distinct_map)
next
  fix r b b' p assume "db_wf d" "p \<in> set (queues_of d r b)" "p \<in> set (queues_of d r b')"
  then show "b = b'" by (auto simp: in_queues_of dest: entry_unique)
qed

lemma filter_remove1: "distinct xs \<Longrightarrow> filter (\<lambda>x. x \<noteq> a) xs = remove1 a xs"
  by (induction xs) (auto simp: filter_id_conv)

lemma queues_of_delete:
  assumes "db_wf d" "e \<in> set (d_entries d)" "is_entry r p e"
  shows "queues_of (delete_entries (is_entry r p) d) =
    set_queue r (qe_TargetBranch e) (remove1 p (queues_of d r (qe_TargetBranch e))) (queues_of d)"
proof (intro ext)
  fix r' b'
  let ?q = "queues_of d"
  have dist: "distinct (?q r' b')" using queues_of_distinct[OF assms(1)] by (simp add: queues_distinct_def)
  have "queues_of (delete_entries (is_entry r p) d) r' b' = (if r' = r then filter (\<lambda>x. x \<noteq> p) (?q r' b') else ?q r' b')"
    by (auto simp: queues_of_def queue_rows_delete filter_map o_def set_queue_rows in_queue_def is_entry_def
        intro!: arg_cong[where f = "map qe_PrNumber"] filter_cong filter_True)
  moreover have "p \<notin> set (?q r b')" if "b' \<noteq> qe_TargetBranch e"
    using that assms by (auto simp: in_queues_of dest: entry_unique)
  ultimately show "queues_of (delete_entries (is_entry r p) d) r' b' =
      set_queue r (qe_TargetBranch e) (remove1 p (?q r (qe_TargetBranch e))) ?q r' b'"
    using dist by (auto simp: set_queue_apply filter_remove1 remove1_idem)
qed

lemma answer_run:
  assumes "run_state (answer mk m) w = (a, w')"
  obtains e where "a = Refused" "run_state m w = (Inl e, w')"
    | x where "a = mk x" "run_state m w = (Inr x, w')"
  using assms by (auto simp: answer_def split: prod.splits sum.splits)

lemma no_entry: "filter (is_entry r p) (d_entries d) = [] \<Longrightarrow> p \<notin> set (queues_of d r b)"
  by (auto simp: in_queues_of filter_empty_conv)

lemma first_entry:
  assumes "filter (is_entry r p) (d_entries d) = e # es"
  shows "e \<in> set (d_entries d)" "is_entry r p e" "p \<in> set (queues_of d r (qe_TargetBranch e))"
proof -
  have "e \<in> set (filter (is_entry r p) (d_entries d))" by (simp add: assms)
  then show "e \<in> set (d_entries d)" "is_entry r p e" "p \<in> set (queues_of d r (qe_TargetBranch e))"
    by (auto simp: in_queues_of)
qed

lemma Enqueue_refines:
  assumes "fifo_wf (w_now w) (w_db w)" "run_state (Enqueue r p s b) w = (Inr res, w')"
  shows "queue_step (CallEnqueue r p s b) (Enqueued (er_IsNew res)) (queues_of (w_db w)) (queues_of (w_db w'))"
proof (cases "filter (is_entry r p) (d_entries (w_db w))")
  case (Cons e es)
  with Enqueue_result[OF assms(2)] first_entry[OF Cons] show ?thesis
    by (auto simp: queues_of_same intro: enqueue_again)
next
  case Nil
  let ?e = "new_entry (d_entry_seq (w_db w)) (w_now w) r p s b"
  from Enqueue_result[OF assms(2)] Nil have new: "er_IsNew res"
    and d: "d_entries (w_db w') = d_entries (w_db w) @ [?e]" by (auto simp: Let_def)
  from assms(1) have "times_ok (qe_EnqueuedAt ?e) (w_db w)" by (simp add: fifo_wf_def new_entry_def)
  from queue_rows_enqueue[OF this d]
  have "queues_of (w_db w') = set_queue r b (queues_of (w_db w) r b @ [p]) (queues_of (w_db w))"
    by (auto simp: queues_of_def set_queue_apply new_entry_def in_queue_def fun_eq_iff)
  with new no_entry[OF Nil] show ?thesis by (auto intro: enqueue_new)
qed

lemma Dequeue_refines:
  assumes "db_wf (w_db w)" "run_state (Dequeue r p) w = (Inr res, w')"
  shows "queue_step (CallDequeue r p) (Dequeued (case res of NotFound \<Rightarrow> None | Found h _ \<Rightarrow> Some h))
    (queues_of (w_db w)) (queues_of (w_db w'))"
proof (cases "filter (is_entry r p) (d_entries (w_db w))")
  case Nil
  with Dequeue_result[OF assms(2)] no_entry[OF Nil] show ?thesis by (auto intro: dequeue_unknown)
next
  case (Cons e es)
  let ?b = "qe_TargetBranch e"
  note e = first_entry[OF Cons]
  from e(3) have "queue_rows (w_db w) r ?b \<noteq> []" by (auto simp: queues_of_def)
  then have hd: "(case queue_rows (w_db w) r ?b of [] \<Rightarrow> False | h # _ \<Rightarrow> qe_PrNumber h = p) \<longleftrightarrow>
      hd (queues_of (w_db w) r ?b) = p"
    by (cases "queue_rows (w_db w) r ?b") (auto simp: queues_of_def)
  from Dequeue_result[OF assms(2)] Cons hd queues_of_delete[OF assms(1) e(1,2)] dequeue[of p "queues_of (w_db w)" r ?b, OF e(3)]
  show ?thesis by auto
qed

lemma Advance_refines:
  assumes "db_wf (w_db w)" "run_state (Advance r b) w = (Inr res, w')"
  shows "queue_step (CallAdvance r b) (Advanced (map_option qe_PrNumber res))
    (queues_of (w_db w)) (queues_of (w_db w'))"
proof (cases "queue_rows (w_db w) r b")
  case Nil
  then have q: "queues_of (w_db w) r b = []" by (simp add: queues_of_def)
  have "set_queue r b [] (queues_of (w_db w)) = queues_of (w_db w)"
    using set_queue_same[of r b "queues_of (w_db w)"] q by simp
  with Advance_result[OF assms(2)] Nil advance[of r b "queues_of (w_db w)"] q show ?thesis
    by (simp add: first_of_def)
next
  case (Cons h hs)
  have h: "h \<in> set (d_entries (w_db w))" "is_entry r (qe_PrNumber h) h" "qe_TargetBranch h = b"
    using set_queue_rows[of "w_db w" r b] Cons by (auto simp: in_queue_def is_entry_def)
  from Advance_result[OF assms(2)] Cons
  have d: "w_db w' = delete_entries (is_entry r (qe_PrNumber h)) (w_db w)"
    and res: "res = first_of (queue_rows (w_db w') r b)"
    by (auto simp: first_of_def split: list.splits)
  have q: "queues_of (w_db w) r b = qe_PrNumber h # map qe_PrNumber hs"
    by (simp add: queues_of_def Cons)
  have "queues_of (w_db w') = set_queue r b (tl (queues_of (w_db w) r b)) (queues_of (w_db w))"
    using queues_of_delete[OF assms(1) h(1,2)] d q h(3) by simp
  moreover have "map_option qe_PrNumber res = first_of (tl (queues_of (w_db w) r b))"
    using queue_rows_advance[OF assms(1) Cons] d res q by (simp add: first_of_def split: list.splits)
  ultimately show ?thesis using advance[of r b "queues_of (w_db w)"] by simp
qed

lemma Queue_List_run:
  assumes "run_state (Queue_List r b) w = (res, w')"
  shows "w_db w' = w_db w \<and> (\<forall>es. res = Inr es \<longrightarrow> es = queue_rows (w_db w) r b)"
  using assms by (auto simp: Queue_List_def on_ok_map_def exec_stmt_def sql_ListQueue_def Let_def
      split: prod.splits sum.splits if_splits)

text \<open>One call: the contract is kept, and so are the facts about the tables the next call needs.\<close>

lemma serve_call_refines:
  assumes "fifo_wf (w_now w) (w_db w)" "run_state (serve_call c) w = (a, w')"
  shows "queue_step c a (queues_of (w_db w)) (queues_of (w_db w'))"
proof -
  have wf: "db_wf (w_db w)" using assms(1) by (simp add: fifo_wf_def)
  show ?thesis
  proof (cases c)
    case (CallEnqueue r p s b)
    show ?thesis using assms(2) unfolding CallEnqueue serve_call.simps
      by (rule answer_run)
        (auto intro: Enqueue_refines[OF assms(1)] simp: queues_of_same[OF Enqueue_error_tables] refused)
  next
    case (CallDequeue r p)
    show ?thesis using assms(2) unfolding CallDequeue serve_call.simps
      by (rule answer_run)
        (auto intro: Dequeue_refines[OF wf] simp: queues_of_same[OF Dequeue_error_tables] refused)
  next
    case (CallAdvance r b)
    show ?thesis using assms(2) unfolding CallAdvance serve_call.simps
      by (rule answer_run)
        (auto intro: Advance_refines[OF wf] simp: queues_of_same[OF Advance_error_tables] refused)
  next
    case (CallList r b)
    show ?thesis using assms(2) unfolding CallList serve_call.simps
      by (rule answer_run)
        (auto dest!: Queue_List_run simp: refused list_queue queues_of_apply[symmetric])
  qed
qed

lemma io_answer: "state_io_rel P m \<Longrightarrow> (\<And>w. P w w) \<Longrightarrow> state_io_rel P (answer mk m)"
  by (fastforce simp: answer_def intro!: state_io_relI dest: state_io_relD split: prod.splits)

lemma serve_call_fifo: "state_io_rel fifo_step (serve_call c)"
  by (cases c) (auto intro!: io_answer fifo.io_queue fifo.io_queue_reads fifo.P_refl)

lemma serve_call_wf:
  assumes "fifo_wf (w_now w) (w_db w)" "run_state (serve_call c) w = (a, w')"
  shows "fifo_wf (w_now w') (w_db w')"
  using state_io_relD[OF serve_call_fifo assms(2)] assms(1) by (auto simp: fifo_step_def fifo_db_def)

lemma serve_calls_refine:
  assumes "fifo_wf (w_now w) (w_db w)" "run_state (serve_calls cs) w = (as, w')"
  shows "queue_steps cs as (queues_of (w_db w)) (queues_of (w_db w')) \<and> fifo_wf (w_now w') (w_db w')"
  using assms
proof (induction cs arbitrary: w as)
  case Nil
  then show ?case by (auto intro: none)
next
  case (Cons c cs)
  from Cons.prems(2) obtain a w1 as1 where c: "run_state (serve_call c) w = (a, w1)"
    and cs: "run_state (serve_calls cs) w1 = (as1, w')" and as: "as = a # as1"
    by (auto split: prod.splits)
  from Cons.IH[OF serve_call_wf[OF Cons.prems(1) c] cs] serve_call_refines[OF Cons.prems(1) c]
  show ?case by (auto simp: as intro: more)
qed

subsection \<open>No call is refused without a reason\<close>

text \<open>With a database that answers, the only refusal is an enqueue for an unknown repository.\<close>

definition answering :: "'f world \<Rightarrow> bool" where
  "answering w \<longleftrightarrow> w_tx w = NoTx \<and> (\<forall>n. \<not> w_faults w n)"

fun repo_known :: "db \<Rightarrow> queue_call \<Rightarrow> bool" where
  "repo_known d (CallEnqueue r _ _ _) \<longleftrightarrow> r \<in> r_ID ` set (d_repos d)"
| "repo_known d _ \<longleftrightarrow> True"

lemma exec_stmt_answers:
  "w_tx w \<noteq> Aborted \<Longrightarrow> \<not> w_faults w (w_stmts w) \<Longrightarrow>
     run_state (exec_stmt q) w = (case q (w_now w) (w_db w) of
       (Inr a, d) \<Rightarrow> (Inr a, w\<lparr>w_stmts := Suc (w_stmts w), w_db := d\<rparr>)
     | (Inl e, d) \<Rightarrow> (Inl e, w\<lparr>w_stmts := Suc (w_stmts w), w_db := d,
          w_tx := (if is_no_rows e \<or> w_tx w = NoTx then w_tx w else Aborted)\<rparr>))"
  by (simp add: exec_stmt_def Let_def split: prod.splits sum.splits)

lemma withTx_answers:
  assumes "answering w"
    and "run_state fn (w\<lparr>w_stmts := Suc (w_stmts w), w_tx := InTx\<rparr>) = (Inr a, w1)"
    and "w_tx w1 = InTx" "w_faults w1 = w_faults w"
  shows "run_state (withTx fn) w = (Inr a, w1\<lparr>w_stmts := Suc (w_stmts w1), w_tx := NoTx\<rparr>)"
  using assms by (simp add: withTx_def Let_def answering_def)

lemmas tx_answers = exec_stmt_answers on_ok_map_def count_position_def sql_CountQueuePosition_eq
  one_row_def Let_def

lemma Enqueue_answers:
  fixes w :: "'f world"
  assumes "answering w" "r \<in> r_ID ` set (d_repos (w_db w))"
  shows "\<exists>res w'. run_state (Enqueue r p s b) w = (Inr res, w') \<and> answering w' \<and>
    d_repos (w_db w') = d_repos (w_db w)"
proof -
  let ?w = "w\<lparr>w_stmts := Suc (w_stmts w), w_tx := InTx\<rparr>"
  have "\<exists>res w1. run_state (enqueue_tx r p s b) ?w = (Inr res, w1) \<and> w_tx w1 = InTx \<and>
      w_faults w1 = w_faults w \<and> d_repos (w_db w1) = d_repos (w_db w)"
    using assms
    by (cases "filter (is_entry r p) (d_entries (w_db w))")
      (auto simp: answering_def enqueue_tx_def tx_answers sql_EnqueuePR_def sql_GetQueueEntry_def
        find_None_filter)
  then show ?thesis
    using withTx_answers[OF assms(1)] assms(1) by (fastforce simp: Enqueue_def answering_def)
qed

lemma Dequeue_answers:
  fixes w :: "'f world"
  assumes "answering w"
  shows "\<exists>res w'. run_state (Dequeue r p) w = (Inr res, w') \<and> answering w' \<and>
    d_repos (w_db w') = d_repos (w_db w)"
proof -
  let ?w = "w\<lparr>w_stmts := Suc (w_stmts w), w_tx := InTx\<rparr>"
  have "\<exists>res w1. run_state (dequeue_tx r p) ?w = (Inr res, w1) \<and> w_tx w1 = InTx \<and>
      w_faults w1 = w_faults w \<and> d_repos (w_db w1) = d_repos (w_db w)"
    using assms
    by (auto simp: answering_def dequeue_tx_def tx_answers sql_DequeuePR_def sql_GetQueueEntry_def
        sql_GetHeadOfQueue_def delete_entries_def split: list.splits)
  then show ?thesis
    using withTx_answers[OF assms(1)] assms(1) by (fastforce simp: Dequeue_def answering_def)
qed

lemma Advance_answers:
  fixes w :: "'f world"
  assumes "answering w"
  shows "\<exists>res w'. run_state (Advance r b) w = (Inr res, w') \<and> answering w' \<and>
    d_repos (w_db w') = d_repos (w_db w)"
proof -
  let ?w = "w\<lparr>w_stmts := Suc (w_stmts w), w_tx := InTx\<rparr>"
  have "\<exists>res w1. run_state (advance_tx r b) ?w = (Inr res, w1) \<and> w_tx w1 = InTx \<and>
      w_faults w1 = w_faults w \<and> d_repos (w_db w1) = d_repos (w_db w)"
    using assms
    by (auto simp: answering_def advance_tx_def tx_answers sql_DequeuePR_def sql_GetHeadOfQueue_def
        delete_entries_def split: list.splits)
  then show ?thesis
    using withTx_answers[OF assms(1)] assms(1) by (fastforce simp: Advance_def answering_def)
qed

lemma Queue_List_answers:
  "answering w \<Longrightarrow> \<exists>res w'. run_state (Queue_List r b) w = (Inr res, w') \<and> answering w' \<and>
    d_repos (w_db w') = d_repos (w_db w)"
  by (auto simp: answering_def Queue_List_def tx_answers sql_ListQueue_def)

lemma answer_answers:
  "run_state (answer mk m) w = (a, w') \<Longrightarrow> \<exists>res w'. run_state m w = (Inr res, w') \<and> P w' \<Longrightarrow>
   \<exists>res. a = mk res \<and> P w'"
  by (auto simp: answer_def)

lemma serve_call_answers:
  assumes "answering w" "repo_known (w_db w) c" "run_state (serve_call c) w = (a, w')"
  shows "a \<noteq> Refused \<and> answering w' \<and> d_repos (w_db w') = d_repos (w_db w)"
proof (cases c)
  case (CallEnqueue r p s b)
  with assms(2) answer_answers[OF assms(3)[unfolded CallEnqueue serve_call.simps]
      Enqueue_answers[OF assms(1)]] show ?thesis by auto
next
  case (CallDequeue r p)
  from answer_answers[OF assms(3)[unfolded CallDequeue serve_call.simps]
      Dequeue_answers[OF assms(1)]] show ?thesis by auto
next
  case (CallAdvance r b)
  from answer_answers[OF assms(3)[unfolded CallAdvance serve_call.simps]
      Advance_answers[OF assms(1)]] show ?thesis by auto
next
  case (CallList r b)
  from answer_answers[OF assms(3)[unfolded CallList serve_call.simps]
      Queue_List_answers[OF assms(1)]] show ?thesis by auto
qed

lemma repo_known_same: "d_repos d' = d_repos d \<Longrightarrow> repo_known d' = repo_known d"
proof
  fix c assume "d_repos d' = d_repos d" then show "repo_known d' c = repo_known d c" by (cases c) auto
qed

lemma serve_calls_answer:
  assumes "answering w" "list_all (repo_known (w_db w)) cs" "run_state (serve_calls cs) w = (as, w')"
  shows "Refused \<notin> set as"
  using assms
proof (induction cs arbitrary: w as)
  case (Cons c cs)
  from Cons.prems(3) obtain a w1 as1 where c: "run_state (serve_call c) w = (a, w1)"
    and cs: "run_state (serve_calls cs) w1 = (as1, w')" and as: "as = a # as1"
    by (auto split: prod.splits)
  have one: "a \<noteq> Refused" "answering w1" "d_repos (w_db w1) = d_repos (w_db w)"
    using serve_call_answers[OF Cons.prems(1) _ c] Cons.prems(2) by auto
  with Cons.IH[OF one(2) _ cs] Cons.prems(2) show ?case
    by (simp add: as repo_known_same[OF one(3)])
qed simp

end
