(* ===== verification/BatchForming.thy ===== *)
theory BatchForming
  imports QueueLemmas
begin

text \<open>
  \<open>internal/queue/batch.go\<close>: which entries a new batch claims, what the claim does to the
  tables, and the lookup of members by id.
\<close>

definition queued_rows :: "db \<Rightarrow> int \<Rightarrow> string \<Rightarrow> queue_entry list" where
  "queued_rows d r b = filter (\<lambda>e. qe_State e = EntryStateQueued) (queue_rows d r b)"

lemma sql_TakeQueuedHead_eq:
  "sql_TakeQueuedHead r b limit now d =
     (if sint limit < 0 then (Inl (PgError ''LIMIT must not be negative''), d)
      else (Inr (take (nat (sint limit)) (queued_rows d r b)), d))"
  by (simp add: sql_TakeQueuedHead_def queued_rows_def queue_rows_def filter_sort conj_commute)

lemma sint_int32: "- (2 ^ 31) \<le> n \<Longrightarrow> n < 2 ^ 31 \<Longrightarrow> sint (int32 n) = n"
  by (simp add: int32_def sint_sbintrunc' signed_take_bit_int_eq_self)

definition claim :: "int \<Rightarrow> int list \<Rightarrow> int \<Rightarrow> queue_entry \<Rightarrow> queue_entry" where
  "claim bid ids now e =
     (if qe_ID e \<in> set ids then
        e\<lparr>qe_ActiveBatchID := Some bid, qe_State := EntryStateTesting,
          qe_TestingStartedAt := (case qe_TestingStartedAt e of None \<Rightarrow> Some now | Some t \<Rightarrow> Some t)\<rparr>
      else e)"

definition fresh_batch :: "db \<Rightarrow> int \<Rightarrow> int \<Rightarrow> string \<Rightarrow> int list \<Rightarrow> batch" where
  "fresh_batch d now r b ids =
     \<lparr>b_ID = d_batch_seq d, b_RepoID = r, b_TargetBranch = b, b_State = BatchStateForming,
      b_MemberIds = ids, b_CurrentIds = ids, b_Pending = ''[]'', b_LandedIds = [], b_EjectedIds = [],
      b_BranchName = None, b_BranchSha = None, b_Builds = 0, b_FfRetries = 0, b_Flaky = False,
      b_CreatedAt = now, b_TestingStartedAt = None\<rparr>"

lemma sql_CreateBatch_ok:
  assumes "sql_CreateBatch r b ids now d = (Inr x, d')"
  shows "x = fresh_batch d now r b ids" "live_unique (d_batches d @ [x])"
    "d' = d\<lparr>d_batch_seq := d_batch_seq d + 1, d_batches := d_batches d @ [x]\<rparr>"
  using assms by (auto simp: sql_CreateBatch_def fresh_batch_def Let_def split: if_splits)

lemma live_unique_snoc:
  "live_unique (bs @ [x]) \<Longrightarrow> live x \<Longrightarrow> y \<in> set bs \<Longrightarrow> live y \<Longrightarrow>
     (b_RepoID y, b_TargetBranch y) \<noteq> (b_RepoID x, b_TargetBranch x)"
  by (auto simp: live_unique_def rev_image_eqI)

lemma FormBatch_error_tables:
  "run_state (FormBatch r b n) w = (Inl e, w') \<Longrightarrow> same_tables (w_db w) (w_db w')"
  by (auto simp: FormBatch_def Let_def dest: withTx_Inl split: prod.splits sum.splits)

lemma formbatch_tx_result:
  fixes w :: "'f world"
  assumes run: "run_state (withTx (formbatch_tx r b limit)) w = (Inr res, w')"
  defines "taken \<equiv> take (nat (sint (int32 limit))) (queued_rows (w_db w) r b)"
  defines "x \<equiv> fresh_batch (w_db w) (w_now w) r b (map qe_ID taken)"
  shows "0 \<le> sint (int32 limit) \<and>
    (if taken = [] then res = None \<and> w_db w' = w_db w
     else res = Some x \<and> live_unique (d_batches (w_db w) @ [x]) \<and>
       w_db w' = (w_db w)\<lparr>d_batch_seq := d_batch_seq (w_db w) + 1,
         d_batches := d_batches (w_db w) @ [x],
         d_entries := map (claim (b_ID x) (b_MemberIds x) (w_now w)) (d_entries (w_db w))\<rparr>)"
proof -
  let ?d = "w_db w"
  from run obtain w0 w1 :: "'f world" where w0: "w_tx w0 = InTx" "w_db w0 = ?d" "w_now w0 = w_now w"
    and body: "run_state (formbatch_tx r b limit) w0 = (Inr res, w1)"
    and w1: "w_tx w1 \<noteq> Aborted" "w_db w' = w_db w1" "w_now w' = w_now w1" "w_tx w' = NoTx"
    by (rule withTx_Inr)
  obtain t w2 where t: "run_state (exec_stmt (sql_TakeQueuedHead r b (int32 limit))) w0 = (t, w2)" by fastforce
  from body t obtain es where es: "t = Inr es" by (cases t) (auto simp: formbatch_tx_def)
  note tx2 = in_tx_ok[OF t[unfolded es] w0(1)]
  then have nn: "0 \<le> sint (int32 limit)" and taken: "es = taken" and d2: "w_db w2 = ?d"
    by (auto simp: w0 sql_TakeQueuedHead_eq taken_def split: if_splits)
  show ?thesis
  proof (cases "taken = []")
    case True
    with body t es taken d2 nn w1 show ?thesis by (auto simp: formbatch_tx_def)
  next
    case False
    let ?ids = "map qe_ID taken"
    obtain c w3 where c: "run_state (exec_stmt (sql_CreateBatch r b ?ids)) w2 = (c, w3)" by fastforce
    from body t es taken False c obtain y where y: "c = Inr y"
      by (cases c) (auto simp: formbatch_tx_def Let_def)
    note tx3 = in_tx_ok[OF c[unfolded y] tx2(1)]
    from sql_CreateBatch_ok[OF tx3(2)] have x: "y = x" "live_unique (d_batches ?d @ [x])"
      and d3: "w_db w3 = ?d\<lparr>d_batch_seq := d_batch_seq ?d + 1, d_batches := d_batches ?d @ [x]\<rparr>"
      by (simp_all add: d2 tx2 w0 x_def)
    obtain a w4 where a: "run_state (exec_stmt (sql_SetEntryActiveBatch (Some (b_ID x)) ?ids)) w3 = (a, w4)"
      by fastforce
    from body t es taken False c y x(1) a have res: "a = Inr ()" "w4 = w1" "res = Some x"
      by (auto simp: formbatch_tx_def Let_def split: sum.splits)
    from in_tx_ok[OF a[unfolded res(1)] tx3(1)] d3
    have "w_db w4 = ?d\<lparr>d_batch_seq := d_batch_seq ?d + 1, d_batches := d_batches ?d @ [x],
        d_entries := map (claim (b_ID x) ?ids (w_now w)) (d_entries ?d)\<rparr>"
      by (auto simp: sql_SetEntryActiveBatch_def claim_def[abs_def] update_where_def tx3 tx2 w0 split: if_splits)
    moreover have "b_MemberIds x = ?ids" by (simp add: x_def fresh_batch_def)
    ultimately show ?thesis using False nn x(2) res w1 by simp
  qed
qed

lemma GetEntriesByIDs_result:
  assumes "run_state (GetEntriesByIDs ids) w = (Inr es, w')" "db_wf (w_db w)"
  shows "w_db w' = w_db w" "es = List.map_filter (\<lambda>i. List.find (\<lambda>e. qe_ID e = i) (d_entries (w_db w))) ids"
proof -
  let ?d = "w_db w"
  let ?rows = "filter (\<lambda>e. qe_ID e \<in> set ids) (d_entries ?d)"
  have dist: "distinct (map qe_ID (d_entries ?d))"
    using assms(2) by (simp add: db_wf_def entries_wf_def)
  have lookup: "map_of (rev (map (\<lambda>r. (qe_ID r, r)) ?rows)) i = List.find (\<lambda>e. qe_ID e = i) (d_entries ?d)"
    if "i \<in> set ids" for i
  proof -
    have "map_of (rev (map (\<lambda>r. (qe_ID r, r)) ?rows)) = map_of (map (\<lambda>r. (qe_ID r, r)) ?rows)"
      using distinct_map_filter[OF dist] by (subst map_of_inject_set) (simp_all add: comp_def flip: rev_map)
    moreover have "map_of (map (\<lambda>r. (qe_ID r, r)) (filter (\<lambda>e. qe_ID e \<in> set ids) es)) i =
        List.find (\<lambda>e. qe_ID e = i) es" for es
      using that by (induction es) auto
    ultimately show ?thesis by simp
  qed
  have mf: "List.map_filter f xs = List.map_filter g xs" if "\<And>x. x \<in> set xs \<Longrightarrow> f x = g x"
    for f g :: "int \<Rightarrow> queue_entry option" and xs
    using that by (induction xs) (auto simp: List.map_filter_simps split: option.splits)
  show "w_db w' = ?d" "es = List.map_filter (\<lambda>i. List.find (\<lambda>e. qe_ID e = i) (d_entries ?d)) ids"
    using assms(1) mf[OF lookup, of ids]
    by (auto simp: GetEntriesByIDs_def sql_GetEntriesByIDs_def exec_stmt_def Let_def List.map_filter_simps
        split: if_splits prod.splits sum.splits)
qed

end
