(* ===== verification/Fixtures.thy ===== *)
theory Fixtures
  imports Poller
begin

text \<open>
  Concrete inputs for the witnesses: a forge that accepts every call, and a small database with
  one repository and two queued pull requests.
\<close>

definition ok_forge :: "unit forge" where
  "ok_forge = \<lparr>f_Kind = ''gitea'', f_StatusWebhook = False,
     f_RepoHTMLURL = (\<lambda>ow nm. ow @ ''/'' @ nm), f_BranchHTMLURL = (\<lambda>ow nm b. b),
     f_ListOpenPRs = (\<lambda>_ _. ret (Inr [])), f_GetPR = (\<lambda>_ _ _. ret (Inl (PlainError ''not found''))),
     f_SetMQStatus = (\<lambda>_ _ _ _. ret (Inr ())), f_MirrorCheck = (\<lambda>_ _ _ _ _. ret (Inr ())),
     f_GetRequiredChecks = (\<lambda>_ _ _. ret (Inr [''ci''])), f_GetCheckStates = (\<lambda>_ _ _. ret (Inr [])),
     f_CreateMergeBranch = (\<lambda>_ _ _ head _. ret (Inr (''m-'' @ head, False))),
     f_DeleteBranch = (\<lambda>_ _ _. ret (Inr ())), f_ListBranches = (\<lambda>_ _. ret (Inr [])),
     f_IsUpToDate = (\<lambda>_ _ _ _. ret (Inr False)), f_CancelAutoMerge = (\<lambda>_ _ _. ret (Inr ())),
     f_Comment = (\<lambda>_ _ _ _. ret (Inr ())), f_EnsureRepoSetup = (\<lambda>_ _ _. ret (Inr ())),
     f_MergeInto = (\<lambda>_ _ _ head. ret (Inr (''m-'' @ head, False))),
     f_FastForward = (\<lambda>_ _ _ _. ret (Inr ())), f_ClosePR = (\<lambda>_ _ _. ret (Inr ())),
     f_StackMerges = None\<rparr>"

definition demo_entry :: "int \<Rightarrow> int \<Rightarrow> queue_entry" where
  "demo_entry i n = new_entry i (10 * i) 1 n (''head'' @ show_int n) ''main''"

definition demo_repo :: repo where
  "demo_repo = \<lparr>r_ID = 1, r_Owner = ''org'', r_Name = ''app'', r_CreatedAt = 0, r_Forge = ''gitea''\<rparr>"

definition demo_db :: db where
  "demo_db = \<lparr>d_repos = [demo_repo], d_entries = [demo_entry 1 11, demo_entry 2 12], d_checks = [],
     d_batches = [], d_repo_seq = 2, d_entry_seq = 3, d_check_seq = 1, d_batch_seq = 1\<rparr>"

definition demo_world :: "unit world" where
  "demo_world = \<lparr>w_db = demo_db, w_now = 100, w_faults = (\<lambda>_. False), w_stmts = 0, w_tx = NoTx,
     w_forge = (), w_calls = [], w_trigger = {}\<rparr>"

definition demo_engine :: "unit engine" where
  "demo_engine = \<lparr>en_Forge = ok_forge, en_Owner = ''org'', en_Repo = ''app'', en_RepoID = 1,
     en_ExternalURL = ''http://mq'', en_BatchMax = 4, en_BisectMaxSteps = 0, en_CheckTimeout = 3600,
     en_FallbackChecks = [], en_MergedPollAttempts = 1, en_Advance = True\<rparr>"

definition demo_pdeps :: "unit pdeps" where
  "demo_pdeps = \<lparr>pd_Forge = ok_forge, pd_RepoID = 1, pd_Owner = ''org'', pd_Repo = ''app'',
     pd_ExternalURL = ''http://mq'', pd_FallbackChecks = [], pd_SuccessTimeout = 300,
     pd_SkipQueueIfUpToDate = False, pd_CheckTimeout = 3600, pd_Batch = None, pd_IdleGating = False\<rparr>"

definition demo_deps :: "unit deps" where
  "demo_deps = monitorDeps demo_pdeps"

lemma demo_world_simps [simp]:
  "w_db demo_world = demo_db" "w_now demo_world = 100" "\<not> w_faults demo_world n"
  "w_tx demo_world = NoTx"
  by (simp_all add: demo_world_def)

lemma demo_wf [simp]: "db_wf demo_db"
  by (simp add: demo_db_def demo_entry_def demo_repo_def new_entry_def db_wf_defs entry_key_def
      live_unique_def)

end
