(* ===== verification/QueueProps.thy ===== *)
theory QueueProps
  imports QueueRefine BatchForming Fixtures
begin

text \<open>
  The properties of the queue service. Each holds for every fault oracle: the statement
  distinguishes only whether the operation returned an error.
\<close>

text \<open>C12. The queue service is the queues it promises. The abstract state has one list of pull
  request numbers for every repository and branch. Every sequence of \<open>Enqueue\<close>, \<open>Dequeue\<close>,
  \<open>Advance\<close> and \<open>List\<close> calls gives answers and final tables that a run of the abstract queues
  gives: append when the pull request is in none of the repository's queues and otherwise report
  it as already there, remove one, drop the first and return the new first, read. That holds
  whichever statements fail: a call that returns an error has no effect. If no statement fails
  and the repositories are known, no call returns an error. No pull request is ever in two
  places.\<close>

theorem queue_refines:
  assumes "fifo_wf (w_now w) (w_db w)"
  shows "case run_state (serve_calls cs) w of (as, w') \<Rightarrow>
     queue_steps cs as (queues_of (w_db w)) (queues_of (w_db w')) \<and>
     queues_distinct (queues_of (w_db w')) \<and>
     (answering w \<and> list_all (repo_known (w_db w)) cs \<longrightarrow> Refused \<notin> set as)"
proof -
  obtain as w' where run: "run_state (serve_calls cs) w = (as, w')" by fastforce
  from serve_calls_refine[OF assms run] serve_calls_answer[OF _ _ run] show ?thesis
    by (simp add: run fifo_wf_def queues_of_distinct)
qed

theorem queue_refines_witness:
  "case run_state (serve_calls [CallEnqueue 1 13 ''h'' ''main'', CallEnqueue 1 11 ''h'' ''dev'',
       CallDequeue 1 12, CallAdvance 1 ''main'', CallList 1 ''main'']) demo_world of (as, w') \<Rightarrow>
     as = [Enqueued True, Enqueued False, Dequeued (Some False), Advanced (Some 13), Listed [13]] \<and>
     queue_steps [CallEnqueue 1 13 ''h'' ''main'', CallEnqueue 1 11 ''h'' ''dev'',
       CallDequeue 1 12, CallAdvance 1 ''main'', CallList 1 ''main''] as
       (queues_of demo_db) (queues_of (w_db w')) \<and> Refused \<notin> set as"
proof -
  let ?cs = "[CallEnqueue 1 13 ''h'' ''main'', CallEnqueue 1 11 ''h'' ''dev'',
       CallDequeue 1 12, CallAdvance 1 ''main'', CallList 1 ''main'']"
  have as: "fst (run_state (serve_calls ?cs) demo_world) =
      [Enqueued True, Enqueued False, Dequeued (Some False), Advanced (Some 13), Listed [13]]"
    by code_simp
  have "times_ok 100 demo_db" "1 \<in> r_ID ` set (d_repos demo_db)"
    by (simp_all add: times_ok_def demo_db_def demo_entry_def new_entry_def demo_repo_def)
  then have "fifo_wf (w_now demo_world) (w_db demo_world)" "answering demo_world"
    "list_all (repo_known (w_db demo_world)) ?cs"
    by (simp_all add: fifo_wf_def answering_def)
  from queue_refines[OF this(1), of ?cs] this(2,3) as show ?thesis
    by (auto split: prod.splits)
qed

text \<open>C21. Enqueue. An error leaves the tables unchanged. If the pull request is already in the
  queue of the repository, on whatever branch, nothing changes and its entry and position are
  returned with \<open>IsNew = False\<close>; otherwise exactly one row is appended, queued, with the next
  id and the current time, and its position is returned with \<open>IsNew = True\<close>.\<close>

theorem enqueue_spec:
  "case run_state (Enqueue r p s b) w of
     (Inl e, w') \<Rightarrow> same_tables (w_db w) (w_db w')
   | (Inr res, w') \<Rightarrow>
       (case filter (is_entry r p) (d_entries (w_db w)) of
          e # _ \<Rightarrow> same_tables (w_db w) (w_db w') \<and>
            res = \<lparr>er_Position = queue_position (w_db w) r (qe_TargetBranch e) p,
                   er_IsNew = False, er_Entry = e\<rparr>
        | [] \<Rightarrow> (let e = new_entry (d_entry_seq (w_db w)) (w_now w) r p s b in
            w_db w' = (w_db w)\<lparr>d_entry_seq := d_entry_seq (w_db w) + 1,
              d_entries := d_entries (w_db w) @ [e]\<rparr> \<and>
            r \<in> r_ID ` set (d_repos (w_db w)) \<and>
            res = \<lparr>er_Position = queue_position (w_db w') r b p, er_IsNew = True, er_Entry = e\<rparr>))"
proof -
  obtain res w' where run: "run_state (Enqueue r p s b) w = (res, w')" by fastforce
  show ?thesis
    by (cases res) (use run Enqueue_error_tables[of r p s b w] Enqueue_result[of r p s b w] in auto)
qed

text \<open>Dequeue. An error leaves the tables unchanged. An unknown pull request is reported as
  not found and nothing changes; otherwise exactly its row (with its check statuses) is
  deleted, the deleted row is returned, and \<open>WasHead\<close> says whether it was the first row of
  its queue.\<close>

theorem dequeue_spec:
  "case run_state (Dequeue r p) w of
     (Inl e, w') \<Rightarrow> same_tables (w_db w) (w_db w')
   | (Inr res, w') \<Rightarrow>
       (case filter (is_entry r p) (d_entries (w_db w)) of
          [] \<Rightarrow> res = NotFound \<and> w_db w' = w_db w
        | e # _ \<Rightarrow> w_db w' = delete_entries (is_entry r p) (w_db w) \<and>
            res = Found (case queue_rows (w_db w) r (qe_TargetBranch e) of
                           [] \<Rightarrow> False | h # _ \<Rightarrow> qe_PrNumber h = p) e)"
proof -
  obtain res w' where run: "run_state (Dequeue r p) w = (res, w')" by fastforce
  show ?thesis
    by (cases res) (use run Dequeue_error_tables[of r p w] Dequeue_result[of r p w] in auto)
qed

text \<open>C20. Advance pops the queue: on success an empty queue stays as it is, and otherwise the
  queue afterwards is the tail of the queue before, the new head is returned, and the rows of
  the other queues are those they had; an error leaves all tables unchanged.\<close>

theorem advance_spec:
  assumes "db_wf (w_db w)"
  shows "case run_state (Advance r b) w of
     (Inl e, w') \<Rightarrow> same_tables (w_db w) (w_db w')
   | (Inr res, w') \<Rightarrow>
       queue_rows (w_db w') r b = tl (queue_rows (w_db w) r b) \<and>
       res = (case tl (queue_rows (w_db w) r b) of [] \<Rightarrow> None | n # _ \<Rightarrow> Some n) \<and>
       (\<forall>r' b'. (r', b') = (r, b) \<or> queue_rows (w_db w') r' b' = queue_rows (w_db w) r' b')"
proof -
  obtain res w' where run: "run_state (Advance r b) w = (res, w')" by fastforce
  show ?thesis
  proof (cases res)
    case (Inl e)
    with run Advance_error_tables[of r b w] show ?thesis by simp
  next
    case (Inr x)
    note adv = Advance_result[OF run[unfolded Inr]]
    show ?thesis
    proof (cases "queue_rows (w_db w) r b")
      case Nil
      with adv run Inr show ?thesis by simp
    next
      case (Cons h hs)
      have hd: "h \<in> set (d_entries (w_db w))" "in_queue r b h"
        using set_queue_rows[of "w_db w" r b] Cons by auto
      have "queue_rows (w_db w') r' b' = queue_rows (w_db w) r' b'" if "(r', b') \<noteq> (r, b)" for r' b'
      proof -
        have "distinct (map entry_key (d_entries (w_db w)))"
          using assms by (simp add: db_wf_def entries_wf_def)
        then have "\<not> is_entry r (qe_PrNumber h) e" if "e \<in> set (queue_rows (w_db w) r' b')" for e
          using distinct_map_inj[of entry_key "d_entries (w_db w)" e h] that hd \<open>(r', b') \<noteq> (r, b)\<close>
          by (auto simp: set_queue_rows entry_key_def is_entry_def in_queue_def)
        with adv Cons show ?thesis by (simp add: queue_rows_delete filter_True)
      qed
      with adv Cons run Inr queue_rows_advance[OF assms Cons] show ?thesis by auto
    qed
  qed
qed

theorem advance_spec_witness:
  "case run_state (Advance 1 ''main'') demo_world of
     (Inl e, w') \<Rightarrow> False
   | (Inr res, w') \<Rightarrow> queue_rows (w_db w') 1 ''main'' = tl (queue_rows demo_db 1 ''main'') \<and>
       map_option qe_PrNumber res = Some 12"
proof -
  have "isl (fst (run_state (Advance 1 ''main'') demo_world)) = False"
    "map_option qe_PrNumber (projr (fst (run_state (Advance 1 ''main'') demo_world))) = Some 12"
    by code_simp+
  with advance_spec[of demo_world 1 "''main''"] show ?thesis
    by (auto split: prod.splits sum.splits)
qed

text \<open>C13. FormBatch. An error leaves the tables unchanged. With a limit that fits a 32-bit
  integer, the batch takes exactly the first \<open>max\<close> queued entries of the queue (all of them,
  up to 2^30, when \<open>max\<close> is not positive) in queue order; there is a result only if no other
  batch of the queue is live; the new row owns these entries, which become testing with its id,
  and no other entry changes. Nothing queued gives no batch and no change.\<close>

theorem form_batch_spec:
  assumes "db_wf (w_db w)" "maxn < 2 ^ 31"
  shows "let limit = (if maxn \<le> 0 then 2 ^ 30 else maxn);
             taken = take (nat limit) (queued_rows (w_db w) r b);
             x = fresh_batch (w_db w) (w_now w) r b (map qe_ID taken)
    in case run_state (FormBatch r b maxn) w of
         (Inl e, w') \<Rightarrow> same_tables (w_db w) (w_db w')
       | (Inr None, w') \<Rightarrow> taken = [] \<and> w_db w' = w_db w
       | (Inr (Some y), w') \<Rightarrow> y = x \<and> taken \<noteq> [] \<and>
           filter (\<lambda>o'. live o' \<and> b_RepoID o' = r \<and> b_TargetBranch o' = b) (d_batches (w_db w)) = [] \<and>
           w_db w' = (w_db w)\<lparr>d_batch_seq := d_batch_seq (w_db w) + 1,
             d_batches := d_batches (w_db w) @ [x],
             d_entries := map (claim (b_ID x) (b_MemberIds x) (w_now w)) (d_entries (w_db w))\<rparr>"
proof -
  define limit where "limit = (if maxn \<le> 0 then 2 ^ 30 else maxn)"
  define taken where "taken = take (nat limit) (queued_rows (w_db w) r b)"
  define x where "x = fresh_batch (w_db w) (w_now w) r b (map qe_ID taken)"
  have sint: "sint (int32 limit) = limit"
    using assms(2) by (intro sint_int32) (auto simp: limit_def)
  have id: "b_ID x \<noteq> 0"
    using assms(1) by (auto simp: x_def fresh_batch_def db_wf_def batches_wf_def)
  obtain res w1 where tx: "run_state (withTx (formbatch_tx r b limit)) w = (res, w1)" by fastforce
  have run: "run_state (FormBatch r b maxn) w =
      (case res of Inl e \<Rightarrow> Inl e | Inr o' \<Rightarrow>
         Inr (case o' of None \<Rightarrow> None | Some b \<Rightarrow> if b_ID b = 0 then None else Some b), w1)"
    using tx by (simp add: FormBatch_def Let_def limit_def split: sum.splits)
  have alone: "filter (\<lambda>o'. live o' \<and> b_RepoID o' = r \<and> b_TargetBranch o' = b) (d_batches (w_db w)) = []"
    if "live_unique (d_batches (w_db w) @ [x])"
    using live_unique_snoc[OF that] by (auto simp: filter_empty_conv x_def fresh_batch_def live_def)
  show ?thesis
  proof (cases res)
    case (Inl e)
    with tx run show ?thesis by (auto simp: Let_def dest: withTx_Inl)
  next
    case (Inr y)
    from formbatch_tx_result[OF tx[unfolded Inr]] run id alone show ?thesis
      unfolding sint limit_def[symmetric] taken_def[symmetric] x_def[symmetric] Inr Let_def
      by (auto split: if_splits)
  qed
qed

theorem form_batch_spec_witness:
  "case run_state (FormBatch 1 ''main'' 4) demo_world of
     (Inr (Some y), w') \<Rightarrow> b_MemberIds y = [1, 2] \<and> y = fresh_batch demo_db 100 1 ''main'' [1, 2]
   | _ \<Rightarrow> False"
proof -
  have ok: "isl (fst (run_state (FormBatch 1 ''main'' 4) demo_world)) = False"
    "projr (fst (run_state (FormBatch 1 ''main'' 4) demo_world)) \<noteq> None"
    "map qe_ID (take 4 (queued_rows demo_db 1 ''main'')) = [1, 2]"
    by code_simp+
  from form_batch_spec[of demo_world 4 1 "''main''"] ok show ?thesis
    by (auto simp: Let_def fresh_batch_def split: prod.splits sum.splits option.splits)
qed

text \<open>The 32-bit conversion of the limit. \<open>FormBatch\<close> converts the configured maximum with
  \<open>int32(max)\<close>, and the configuration accepts any integer. A maximum that is a positive
  multiple of 2^32 becomes the limit 0: no batch is ever formed, however many pull requests are
  queued, and no error is reported either.\<close>

theorem form_batch_truncated:
  assumes "0 < k"
  shows "\<nexists>x. fst (run_state (FormBatch r b (k * 2 ^ 32)) w) = Inr (Some x)"
proof
  assume "\<exists>x. fst (run_state (FormBatch r b (k * 2 ^ 32)) w) = Inr (Some x)"
  then obtain x where some: "fst (run_state (FormBatch r b (k * 2 ^ 32)) w) = Inr (Some x)" ..
  define limit :: int where "limit = k * 2 ^ 32"
  have "0 < limit" using assms by (simp add: limit_def)
  then have form: "FormBatch r b (k * 2 ^ 32) = on_ok (withTx (formbatch_tx r b limit))
      (\<lambda>r. ret (Inr (case r of None \<Rightarrow> None | Some b \<Rightarrow> if b_ID b = 0 then None else Some b)))"
    unfolding FormBatch_def Let_def limit_def by simp
  have "int32 limit = 0"
    unfolding limit_def int32_def word_of_int_eq_0_iff by simp
  then have zero: "sint (int32 limit) = 0" by simp
  obtain res w1 where tx: "run_state (withTx (formbatch_tx r b limit)) w = (res, w1)" by fastforce
  with some[unfolded form] have "res = Inr (Some x)"
    by (auto split: sum.splits option.splits if_splits)
  from formbatch_tx_result[OF tx[unfolded this]] zero show False by simp
qed

theorem form_batch_truncated_witness:
  "(\<nexists>x. fst (run_state (FormBatch 1 ''main'' (1 * 2 ^ 32)) demo_world) = Inr (Some x)) \<and>
   length (queued_rows demo_db 1 ''main'') = 2"
proof
  show "length (queued_rows demo_db 1 ''main'') = 2" by code_simp
qed (rule form_batch_truncated, simp)

text \<open>Members are loaded in the order of the ids asked for, ids without a row being
  skipped, and the tables are not changed.\<close>

theorem entries_by_ids_order:
  assumes "db_wf (w_db w)"
  shows "case run_state (GetEntriesByIDs ids) w of
     (Inl e, w') \<Rightarrow> w_db w' = w_db w
   | (Inr es, w') \<Rightarrow> w_db w' = w_db w \<and>
       map qe_ID es = filter (\<lambda>i. i \<in> qe_ID ` set (d_entries (w_db w))) ids \<and>
       set es \<subseteq> set (d_entries (w_db w))"
proof -
  obtain res w' where run: "run_state (GetEntriesByIDs ids) w = (res, w')" by fastforce
  let ?f = "\<lambda>i. List.find (\<lambda>e. qe_ID e = i) (d_entries (w_db w))"
  have "map qe_ID (List.map_filter ?f is) = filter (\<lambda>i. i \<in> qe_ID ` set (d_entries (w_db w))) is"
    "set (List.map_filter ?f is) \<subseteq> set (d_entries (w_db w))" for "is"
    by (induction "is") (auto simp: List.map_filter_simps find_None_iff dest!: find_SomeD
        split: option.splits)
  moreover have "w_db w' = w_db w"
    using run by (auto simp: GetEntriesByIDs_def exec_stmt_def sql_GetEntriesByIDs_def Let_def
        split: if_splits sum.splits prod.splits)
  ultimately show ?thesis
    using run GetEntriesByIDs_result[of ids w _ w'] assms by (cases res) auto
qed

theorem entries_by_ids_order_witness:
  "map qe_ID (projr (fst (run_state (GetEntriesByIDs [2, 7, 1]) demo_world))) = [2, 1]"
proof -
  have "\<not> isl (fst (run_state (GetEntriesByIDs [2, 7, 1]) demo_world))" by code_simp
  then obtain es w' where "run_state (GetEntriesByIDs [2, 7, 1]) demo_world = (Inr es, w')"
    by (rule run_Inr)
  moreover have "db_wf (w_db demo_world)" by simp
  ultimately show ?thesis using entries_by_ids_order[of demo_world "[2, 7, 1]"]
    by (simp only: if_True demo_world_simps demo_wf case_prod_conv sum.case)
      (simp add: demo_db_def demo_entry_def new_entry_def)
qed

end
