(* ===== verification/PollProps.thy ===== *)
theory PollProps
  imports Fifo Fixtures
begin

text \<open>
  Properties of the poller, the check monitor and the merge branches: who enters the queue, who
  stays in it, what a verdict is, what a failed pull request does to its queue, and which
  branches are deleted.
\<close>

subsection \<open>Operations that change nothing outside\<close>

text \<open>Only the statement counter and the transaction state may differ.\<close>

definition silent :: "'f world \<Rightarrow> 'f world \<Rightarrow> bool" where
  "silent w w' \<longleftrightarrow> w_db w' = w_db w \<and> w_calls w' = w_calls w \<and> w_forge w' = w_forge w \<and>
     w_trigger w' = w_trigger w \<and> w_now w' = w_now w"

lemma silent_refl [simp]: "silent w w"
  by (simp add: silent_def)

lemma silent_trans: "silent u v \<Longrightarrow> silent v w \<Longrightarrow> silent u w"
  by (simp add: silent_def)

lemma exec_read:
  assumes "run_state (exec_stmt q) w = (r, w')" "\<And>now d. snd (q now d) = d"
  shows "silent w w'" and "r = Inr a \<Longrightarrow> fst (q (w_now w) (w_db w)) = Inr a"
proof -
  from assms(2) have ro: "q now d = (x, d') \<Longrightarrow> d' = d" for now d x d' by (metis snd_conv)
  from assms(1) show "silent w w'"
    by (cases rule: exec_stmt_cases) (auto simp: silent_def dest: ro)
  from assms(1) show "r = Inr a \<Longrightarrow> fst (q (w_now w) (w_db w)) = Inr a"
    by (cases rule: exec_stmt_cases) (auto simp: db_fault_def tx_aborted_def)
qed

lemma Head_read:
  assumes "run_state (Head r b) w = (res, w')"
  shows "silent w w'"
    and "res = Inr (Some h) \<Longrightarrow> \<exists>hs. queue_rows (w_db w) r b = h # hs"
proof -
  obtain x v where x: "run_state (exec_stmt (sql_GetHeadOfQueue r b)) w = (x, v)" by fastforce
  have ro: "snd (sql_GetHeadOfQueue r b now d) = d" for now d by (simp add: sql_GetHeadOfQueue_def)
  have v: "w' = v" "res = Inr (case x of Inl _ \<Rightarrow> None | Inr e \<Rightarrow> Some e)"
    using assms x by (auto simp: Head_def)
  show "silent w w'" using exec_read(1)[OF x ro] v by simp
  show "res = Inr (Some h) \<Longrightarrow> \<exists>hs. queue_rows (w_db w) r b = h # hs"
    using exec_read(2)[OF x ro] v
    by (auto simp: sql_GetHeadOfQueue_def one_row_def split: sum.splits list.splits)
qed

lemma with_entries_cases:
  assumes "run_state (with_entries deps msg result f) w = (res, w')"
  obtains (failed) e where "res = add_error (Wrap msg e) result" "silent w w'"
    | (listed) es v where "silent w v" "run_state (f es) v = (res, w')"
proof -
  obtain x v where x: "run_state (ListActiveEntries (pd_RepoID deps)) w = (x, v)" by fastforce
  then have "silent w v"
    using exec_read(1)[of "sql_ListActiveEntriesByRepo (pd_RepoID deps)" w x v]
    by (simp add: ListActiveEntries_def sql_ListActiveEntriesByRepo_def)
  then show ?thesis using assms x that
    by (cases x) (auto simp: with_entries_def)
qed

subsection \<open>Starting heads\<close>

definition no_queued_head :: "db \<Rightarrow> int \<Rightarrow> bool" where
  "no_queued_head d r \<longleftrightarrow> (\<forall>b \<in> set (map qe_TargetBranch (d_entries d)).
     case queue_rows d r b of [] \<Rightarrow> True | h # _ \<Rightarrow> qe_State h \<noteq> EntryStateQueued)"

lemma no_queued_headD:
  assumes "no_queued_head d r" "queue_rows d r b = h # hs"
  shows "qe_State h \<noteq> EntryStateQueued"
proof -
  have "h \<in> set (queue_rows d r b)" using assms(2) by simp
  then have "h \<in> set (d_entries d)" "qe_TargetBranch h = b"
    by (auto simp: set_queue_rows in_queue_def)
  then have "b \<in> set (map qe_TargetBranch (d_entries d))" by auto
  with assms show ?thesis unfolding no_queued_head_def by fastforce
qed

lemma start_branch_silent:
  assumes "no_queued_head (w_db w) (pd_RepoID deps)"
  shows "silent w (snd (run_state (start_branch deps entry acc) w))"
proof -
  obtain seen result where acc: "acc = (seen, result)" by fastforce
  obtain x v where x: "run_state (Head (pd_RepoID deps) (qe_TargetBranch entry)) w = (x, v)"
    by fastforce
  have "qe_State h \<noteq> EntryStateQueued" if "x = Inr (Some h)" for h
    using Head_read(2)[OF x that] no_queued_headD[OF assms] by blast
  with Head_read(1)[OF x] x show ?thesis
    by (auto simp: start_branch_def acc Let_def split: sum.splits option.splits)
qed

lemma start_branches_silent:
  assumes "no_queued_head (w_db w) (pd_RepoID deps)"
  shows "silent w (snd (run_state (for_acc es acc (start_branch deps)) w))"
  using assms
proof (induction es arbitrary: acc w)
  case (Cons e es)
  obtain a v where v: "run_state (start_branch deps e acc) w = (a, v)" by fastforce
  have "silent w v" using start_branch_silent[OF Cons.prems, of e acc] v by simp
  moreover from this have "no_queued_head (w_db v) (pd_RepoID deps)"
    using Cons.prems by (simp add: silent_def)
  ultimately show ?case using Cons.IH[of v a] v silent_trans by (auto split: prod.splits)
qed simp

text \<open>C40. A queue waits for its head. While the first row of no queue of the repository is
  \<open>queued\<close>, starting the heads makes no forge call and changes no table, whatever the other rows
  are. Two situations never end by themselves because of it: the members of a batch whose build
  failed are \<open>testing\<close>, so the retry that \<open>FormAndBuild\<close> has for its \<open>forming\<close> batch is not
  reached from the poller; and a head left \<open>failed\<close>, when its state was saved and popping the
  queue failed, is skipped by every later cycle.\<close>

theorem stuck_head_waits:
  assumes "no_queued_head (w_db w) (pd_RepoID deps)"
  shows "silent w (snd (run_state (startQueuedHeads deps result) w))"
proof -
  obtain res w' where run: "run_state (startQueuedHeads deps result) w = (res, w')" by fastforce
  from run[unfolded startQueuedHeads_def] show ?thesis
  proof (cases rule: with_entries_cases)
    case (listed es v)
    then have "no_queued_head (w_db v) (pd_RepoID deps)" using assms by (simp add: silent_def)
    from start_branches_silent[OF this, of es "([], result)"] listed run show ?thesis
      by (auto split: prod.splits intro: silent_trans)
  qed (simp add: run)
qed

text \<open>The fixture: a batch whose build failed because the clone did.\<close>

definition no_clone_engine :: "unit engine" where
  "no_clone_engine = demo_engine\<lparr>en_Forge := ok_forge\<lparr>f_StackMerges :=
     Some (\<lambda>_ _ _ _ _. ret (Inl (PlainError ''clone failed'')))\<rparr>\<rparr>"

definition unbuilt_world :: "unit world" where
  "unbuilt_world = snd (run_state (FormAndBuild no_clone_engine ''main'') demo_world)"

lemma unbuilt_state:
  "map b_State (d_batches (w_db unbuilt_world)) = [BatchStateForming]"
  "no_queued_head (w_db unbuilt_world) 1"
  by code_simp+

theorem stuck_head_waits_witness:
  "map b_State (d_batches (w_db unbuilt_world)) = [BatchStateForming] \<and>
   silent unbuilt_world (snd (run_state
     (startQueuedHeads (demo_pdeps\<lparr>pd_Batch := Some demo_engine\<rparr>) empty_result) unbuilt_world))"
proof -
  have "pd_RepoID (demo_pdeps\<lparr>pd_Batch := Some demo_engine\<rparr>) = 1" by (simp add: demo_pdeps_def)
  with unbuilt_state stuck_head_waits[of unbuilt_world "demo_pdeps\<lparr>pd_Batch := Some demo_engine\<rparr>"]
  show ?thesis by simp
qed

subsection \<open>A failed pull request\<close>

definition same_db :: "'f world \<Rightarrow> 'f world \<Rightarrow> bool" where
  "same_db w w' \<longleftrightarrow> w_db w' = w_db w"

lemma same_db_po [io_intros, simp]: "po_rel same_db"
  by (auto simp: same_db_def po_rel_def)

lemma same_db_forge [io_intros]: "state_io_rel same_db (forge_do ow nm c m)"
  by (auto simp: state_io_rel_def run_forge_do same_db_def)

lemma same_db_calls [io_intros]:
  "state_io_rel same_db (deps_status deps entry st desc)"
  "state_io_rel same_db (call_CancelAutoMerge f ow nm n)"
  "state_io_rel same_db (call_Comment f ow nm n body)"
  "state_io_rel same_db (CleanupMergeBranch f ow nm entry)"
  unfolding deps_status_def call_SetMQStatus_def call_CancelAutoMerge_def call_Comment_def
    CleanupMergeBranch_def call_DeleteBranch_def by (intro io_intros)+

lemma queue_ids_UpdateState:
  assumes "run_state (UpdateState r n st) w = (res, w')"
  shows "queue_ids (w_db w') r' b = queue_ids (w_db w) r' b"
  using assms unfolding UpdateState_def
proof (cases rule: exec_stmt_cases)
  case (ok a d)
  then have d: "d = (w_db w)\<lparr>d_entries :=
      update_where (is_entry r n) (set_entry_state st (w_now w)) (d_entries (w_db w))\<rparr>"
    by (simp add: sql_UpdateEntryState_def)
  have "queue_rows d r' b =
      update_where (is_entry r n) (set_entry_state st (w_now w)) (queue_rows (w_db w) r' b)"
    by (rule queue_rows_update) (simp_all add: set_entry_state_def d)
  then show ?thesis by (simp add: ok queue_ids_def update_where_def set_entry_state_def)
qed (auto simp: sql_UpdateEntryState_def)

lemma removeFromQueue_ids:
  assumes "db_wf (w_db w)" "run_state (removeFromQueue deps entry st desc comment) w = (res, w')"
  shows "queue_ids (w_db w') (md_RepoID deps) (qe_TargetBranch entry) =
    (let before = queue_ids (w_db w) (md_RepoID deps) (qe_TargetBranch entry) in
     case res of Inl _ \<Rightarrow> before | Inr _ \<Rightarrow> tl before)"
proof -
  let ?r = "md_RepoID deps" and ?b = "qe_TargetBranch entry"
  define notify where "notify = (do {
     warn_if_err (deps_status deps entry st desc);
     warn_if_err (call_CancelAutoMerge (md_Forge deps) (md_Owner deps) (md_Repo deps) (qe_PrNumber entry));
     warn_if_err (call_Comment (md_Forge deps) (md_Owner deps) (md_Repo deps) (qe_PrNumber entry) comment);
     CleanupMergeBranch (md_Forge deps) (md_Owner deps) (md_Repo deps) entry })"
  have "state_io_rel same_db notify" unfolding notify_def by (intro io_intros)
  then have w1: "w_db (snd (run_state notify w)) = w_db w"
    by (cases "run_state notify w") (auto simp: same_db_def dest: state_io_relD)
  obtain w1 where n: "run_state notify w = ((), w1)" by (cases "run_state notify w") auto
  obtain u w2 where u: "run_state (UpdateState ?r (qe_PrNumber entry) EntryStateFailed) w1 = (u, w2)"
    by fastforce
  obtain a w3 where a: "run_state (Advance ?r ?b) w2 = (a, w3)" by fastforce
  have split: "removeFromQueue deps entry st desc comment = do {
      notify;
      warn_if_err (UpdateState ?r (qe_PrNumber entry) EntryStateFailed);
      on_ok_map (Wrap (''advance queue after removing PR #'' @ show_int (qe_PrNumber entry)))
        (Advance ?r ?b) (\<lambda>_. ret (Inr ())) }"
    by (simp add: removeFromQueue_def notify_def)
  have res: "w' = w3" "isl res = isl a"
    using assms(2) n u a by (auto simp: split split: sum.splits)
  have wf2: "db_wf (w_db w2)"
    using wf_kept[OF wf.io_queue(4), of w1 ?r "qe_PrNumber entry" EntryStateFailed] u w1 n assms(1) by simp
  have ids: "queue_ids (w_db w2) ?r ?b = queue_ids (w_db w) ?r ?b"
    using queue_ids_UpdateState[OF u] w1 n by simp
  show ?thesis
  proof (cases a)
    case (Inl e)
    with a Advance_error_tables[of ?r ?b w2] ids res show ?thesis
      by (cases res) (auto simp: queue_ids_def queue_rows_same)
  next
    case (Inr x)
    note adv = Advance_result[OF a[unfolded Inr]]
    have "queue_rows (w_db w3) ?r ?b = tl (queue_rows (w_db w2) ?r ?b)"
    proof (cases "queue_rows (w_db w2) ?r ?b")
      case (Cons h hs)
      with adv queue_rows_advance[OF wf2 Cons] show ?thesis by simp
    qed (use adv in simp)
    with ids res Inr show ?thesis by (cases res) (auto simp: queue_ids_def map_tl Let_def)
  qed
qed

text \<open>Removing a pull request that failed its checks. On success its queue has lost exactly its
  first row; on an error it has lost nothing, so that the pull request keeps its place, and with it
  the queue its head. The row that is lost is the head of the queue, not the row of the pull
  request: the two agree only while pull requests are tested at the head.\<close>

theorem failure_pops_head:
  assumes "db_wf (w_db w)"
  shows "case run_state (HandleFailure deps entry failedCheck url) w of
     (res, w') \<Rightarrow> queue_ids (w_db w') (md_RepoID deps) (qe_TargetBranch entry) =
       (let before = queue_ids (w_db w) (md_RepoID deps) (qe_TargetBranch entry) in
        case res of Inl _ \<Rightarrow> before | Inr _ \<Rightarrow> tl before)"
  using removeFromQueue_ids[OF assms] unfolding HandleFailure_def by (fastforce split: prod.splits)

text \<open>The second pull request of the queue fails, and the first one leaves.\<close>

theorem failure_pops_head_witness:
  "queue_ids demo_db 1 ''main'' = [1, 2] \<and>
   queue_ids (w_db (snd (run_state (HandleFailure demo_deps (demo_entry 2 12) ''ci'' []) demo_world)))
     1 ''main'' = [2]"
proof -
  have "\<not> isl (fst (run_state (HandleFailure demo_deps (demo_entry 2 12) ''ci'' []) demo_world))"
    by code_simp
  then obtain x w' where run: "run_state (HandleFailure demo_deps (demo_entry 2 12) ''ci'' []) demo_world =
      (Inr x, w')"
    by (rule run_Inr)
  have "queue_ids demo_db 1 ''main'' = [1, 2]" "md_RepoID demo_deps = 1"
    "qe_TargetBranch (demo_entry 2 12) = ''main''"
    by code_simp+
  with failure_pops_head[of demo_world demo_deps "demo_entry 2 12" "''ci''" "[]"] run
  show ?thesis by simp
qed

subsection \<open>Entering the queue\<close>










subsection \<open>Staying in the queue\<close>





lemma removePR_failed:
  "run_state (removePR deps result entry opts) w = (Inl e, w') \<Longrightarrow>
     run_state (Dequeue (pd_RepoID deps) (qe_PrNumber entry)) w = (Inl e, w')"
  by (auto simp: removePR_def on_ok_def Let_def split: prod.splits sum.splits)







end
