(* ===== verification/VerdictProps.thy ===== *)
theory VerdictProps
  imports PollProps
begin

text \<open>
  Properties of verdicts, of the stored stack of pending slices and of the merge branches.
\<close>

subsection \<open>Verdicts\<close>

definition is_green :: "check_status \<Rightarrow> bool" where
  "is_green s \<longleftrightarrow> cs_State s = CheckStateSuccess"

definition is_red :: "check_status \<Rightarrow> bool" where
  "is_red s \<longleftrightarrow> cs_State s \<in> {CheckStateFailure, CheckStateError}"

definition latest :: "check_status list \<Rightarrow> string \<Rightarrow> check_status option" where
  "latest ss c = List.find (\<lambda>s. cs_Context s = c) (rev ss)"

text \<open>The verdict as the comment of \<open>EvaluateChecks\<close> describes it.\<close>

definition verdict :: "check_status list \<Rightarrow> string list \<Rightarrow> CheckResult \<times> string \<times> string" where
  "verdict ss required =
     (if required = [] then
        if list_ex is_green ss then (CheckSuccess, [], [])
        else case List.find is_red ss of
            Some s \<Rightarrow> (CheckFailure, cs_Context s, cs_TargetUrl s)
          | None \<Rightarrow> (CheckWaiting, [], [])
      else case List.find is_red (List.map_filter (latest ss) required) of
          Some s \<Rightarrow> (CheckFailure, cs_Context s, cs_TargetUrl s)
        | None \<Rightarrow>
            if list_all (\<lambda>c. case latest ss c of None \<Rightarrow> False | Some s \<Rightarrow> is_green s) required then (CheckSuccess, [], [])
            else (CheckWaiting, [], []))"

lemma find_append: "List.find p (xs @ ys) = (case List.find p xs of None \<Rightarrow> List.find p ys | Some x \<Rightarrow> Some x)"
  by (induction xs) auto

lemma status_map_latest: "status_map ss = latest ss"
  by (induction ss) (auto simp: latest_def fun_eq_iff find_append split: option.splits)

lemma latest_context: "latest ss c = Some s \<Longrightarrow> cs_Context s = c"
  by (auto simp: latest_def find_Some_iff)

lemma red_is_red: "red (cs_State s) = is_red s"
  by (auto simp: red_def is_red_def)

lemma eval_any_verdict:
  "eval_any ss failed =
     (if list_ex is_green ss then (CheckSuccess, [], [])
      else case (case failed of None \<Rightarrow> List.find is_red ss | Some f \<Rightarrow> Some f) of
          Some s \<Rightarrow> (CheckFailure, cs_Context s, cs_TargetUrl s)
        | None \<Rightarrow> (CheckWaiting, [], []))"
  by (induction ss arbitrary: failed) (auto simp: is_green_def red_is_red split: option.splits)

lemma first_red_find:
  "first_red (latest ss) reqs =
     map_option (\<lambda>s. (cs_Context s, cs_TargetUrl s)) (List.find is_red (List.map_filter (latest ss) reqs))"
  by (induction reqs) (auto simp: red_is_red map_filter_simps dest: latest_context split: option.splits)

lemma all_green_all:
  "all_green (latest ss) reqs \<longleftrightarrow> list_all (\<lambda>c. case latest ss c of None \<Rightarrow> False | Some s \<Rightarrow> is_green s) reqs"
  by (induction reqs) (auto simp: is_green_def split: option.splits)

text \<open>C15. The verdict. The loops of \<open>EvaluateChecks\<close> compute the verdict as it is documented: without
  required checks one success suffices and, failing that, the first red status is reported; with
  required checks the first required check whose latest status is red decides, whatever is still
  pending, and success needs the latest status of every required check to be a success.\<close>

theorem evaluate_checks_verdict: "EvaluateChecks ss required = verdict ss required"
  unfolding EvaluateChecks_def verdict_def status_map_latest first_red_find all_green_all eval_any_verdict
  by (auto split: option.splits)

subsection \<open>JSONB\<close>

text \<open>A \<open>JSONB\<close> value as PostgreSQL prints it: with a blank after each comma.\<close>

definition jsonb_slice :: "int list \<Rightarrow> string" where
  "jsonb_slice s = CHR ''['' # join_with '', '' (map show_int s) @ '']''"

definition jsonb_text :: "pendingStack \<Rightarrow> string" where
  "jsonb_text p = CHR ''['' # join_with '', '' (map jsonb_slice p) @ '']''"

lemma lex_blank [simp]: "lex_json (CHR '' '' # cs) = lex_json cs"
  by (subst lex_json.simps(2)) (simp add: is_space_def)

lemma lex_jsonb_ints:
  "lex_json (join_with '', '' (map show_int ns) @ CHR '']'' # s) =
     map_option (\<lambda>ts. int_tokens ns @ RBr # ts) (lex_json s)"
  by (induction ns rule: int_tokens.induct)
    (simp_all add: lex_show_int option.map_comp comp_def)

lemma lex_jsonb_slices:
  "p \<noteq> [] \<Longrightarrow> lex_json (join_with '', '' (map jsonb_slice p) @ s) =
     map_option (\<lambda>ts. slice_tokens p @ ts) (lex_json s)"
proof (induction p rule: slice_tokens.induct)
  case (3 a b p)
  have "lex_json (join_with '', '' (map jsonb_slice (a # b # p)) @ s) =
      map_option (\<lambda>ts. LBr # int_tokens a @ RBr # Comma # ts)
        (lex_json (join_with '', '' (map jsonb_slice (b # p)) @ s))"
    by (simp add: jsonb_slice_def[of a] lex_jsonb_ints option.map_comp comp_def)
  with 3 show ?case by (cases "lex_json s") simp_all
qed (cases "lex_json s"; simp add: jsonb_slice_def lex_jsonb_ints)+

lemma jsonb_lex: "lex_json (jsonb_text p) = lex_json (bytes p)"
proof (cases "p = []")
  case False
  then show ?thesis by (simp add: jsonb_text_def bytes_def lex_slices lex_jsonb_slices)
qed (simp add: jsonb_text_def bytes_def)

text \<open>C35. The stack of pending slices survives the database. Reading returns what \<open>bytes\<close> wrote, and
  what PostgreSQL makes of it when it prints the \<open>JSONB\<close> value; a member dropped from the stored
  stack is gone from every slice and nothing else is.\<close>

theorem pending_roundtrip:
  "loadPending (bytes p) = p \<and> loadPending (jsonb_text p) = p \<and>
   mset (concat (loadPending (bytes (drop_id i p)))) = filter_mset (\<lambda>v. v \<noteq> i) (mset (concat p))"
proof -
  have "jsonb_text p \<noteq> []" "bytes p \<noteq> []" by (simp_all add: jsonb_text_def bytes_def)
  with load_bytes[of p] have "loadPending (jsonb_text p) = p" by (simp add: loadPending_def jsonb_lex)
  then show ?thesis by (simp add: mset_drop_id)
qed

subsection \<open>Merge branches\<close>

definition orphan :: "db \<Rightarrow> int \<Rightarrow> string list \<Rightarrow> string \<Rightarrow> bool" where
  "orphan d repoID spare b \<longleftrightarrow> has_prefix b BranchPrefix \<and> b \<notin> set spare \<and>
     \<not> list_ex (\<lambda>e. qe_RepoID e = repoID \<and> active e \<and> qe_MergeBranchName e = Some b) (d_entries d)"

lemma in_active_branches:
  "b \<noteq> [] \<Longrightarrow> b \<in> set (active_branches es spare) \<longleftrightarrow>
     b \<in> set spare \<or> (\<exists>e \<in> set es. qe_MergeBranchName e = Some b)"
  by (force simp: active_branches_def map_filter_def)

lemma for_each_delete:
  fixes w :: "'f world"
  shows "w_db (snd (run_state (for_each bs (\<lambda>b. if p b then warn_if_err (call_DeleteBranch f ow nm b) else ret ())) w)) = w_db w \<and>
     w_calls (snd (run_state (for_each bs (\<lambda>b. if p b then warn_if_err (call_DeleteBranch f ow nm b) else ret ())) w)) =
       w_calls w @ map (\<lambda>b. (ow, nm, CallDeleteBranch b)) (filter p bs)"
proof (induction bs arbitrary: w)
  case (Cons b bs)
  obtain x v where x: "run_state (warn_if_err (call_DeleteBranch f ow nm b)) w = (x, v)" by fastforce
  then have "w_db v = w_db w" "w_calls v = w_calls w @ [(ow, nm, CallDeleteBranch b)]"
    by (auto simp: warn_if_err_def call_DeleteBranch_def run_forge_do split: prod.splits sum.splits)
  with Cons.IH[of v] Cons.IH[of w] x show ?case by simp
qed simp

definition deletable :: "db \<Rightarrow> int \<Rightarrow> string list \<Rightarrow> error + string list \<Rightarrow> string list" where
  "deletable d repoID spare listing =
     (case listing of Inl _ \<Rightarrow> [] | Inr branches \<Rightarrow> filter (orphan d repoID spare) branches)"

text \<open>The test of the loop is \<open>orphan\<close>, and the loop deletes what is listed and passes it.\<close>

lemma stale_test:
  assumes "set es = set (filter (\<lambda>e. qe_RepoID e = repoID \<and> active e) (d_entries d))"
  shows "(if \<not> has_prefix b BranchPrefix then m else if b \<in> set (active_branches es spare) then m else k) =
    (if orphan d repoID spare b then k else m)"
proof (cases "has_prefix b BranchPrefix")
  case True
  then have "b \<noteq> []" by (auto simp: has_prefix_def BranchPrefix_def)
  with True assms show ?thesis by (auto simp: in_active_branches orphan_def list_ex_iff)
qed (simp add: orphan_def)

lemma delete_listed:
  fixes w :: "'f world"
  assumes "run_state (on_ok_map W (call_ListBranches f ow nm) (\<lambda>bs. do {
      for_each bs (\<lambda>b. if orphan d repoID spare b then warn_if_err (call_DeleteBranch f ow nm b) else ret ());
      ret (Inr ()) }) :: ('f, unit) go_err) w = (r, w')"
  shows "w_db w' = w_db w \<and> w_calls w' = w_calls w @ (ow, nm, CallListBranches) #
    map (\<lambda>b. (ow, nm, CallDeleteBranch b)) (deletable d repoID spare (fst (run_state (f_ListBranches f ow nm) (w_forge w))))"
proof -
  obtain l u where l: "run_state (call_ListBranches f ow nm) w = (l, u)" by fastforce
  then have u: "fst (run_state (f_ListBranches f ow nm) (w_forge w)) = l" "w_db u = w_db w"
      "w_calls u = w_calls w @ [(ow, nm, CallListBranches)]"
    by (auto simp: call_ListBranches_def run_forge_do)
  show ?thesis
  proof (cases l)
    case (Inl e)
    with assms l u show ?thesis by (auto simp: on_ok_map_def deletable_def)
  next
    case (Inr bs)
    let ?loop = "for_each bs (\<lambda>b. if orphan d repoID spare b then warn_if_err (call_DeleteBranch f ow nm b) else ret ())"
    have "w' = snd (run_state ?loop u)"
      using assms l Inr by (auto simp: on_ok_map_def split: prod.splits)
    with for_each_delete[of bs "orphan d repoID spare" f ow nm u] u Inr show ?thesis
      by (simp add: deletable_def)
  qed
qed

text \<open>C36. Cleaning up. Exactly those listed branches are deleted that are merge branches by name,
  are not the branch of a live batch and are not named by an active entry of the repository; when
  the database or the listing fails, none is. No table changes.\<close>

theorem cleanup_only_orphans:
  "case run_state (CleanupStaleBranches f ow nm repoID spare) w of
     (res, w') \<Rightarrow> w_db w' = w_db w \<and>
       (isl res \<and> w_calls w' = w_calls w \<or>
        w_calls w' = w_calls w @ (ow, nm, CallListBranches) # map (\<lambda>b. (ow, nm, CallDeleteBranch b))
          (deletable (w_db w) repoID spare (fst (run_state (f_ListBranches f ow nm) (w_forge w)))))"
proof -
  obtain x v where x: "run_state (exec_stmt (sql_ListActiveEntriesByRepo repoID)) w = (x, v)"
    by fastforce
  have ro: "snd (sql_ListActiveEntriesByRepo repoID now d) = d" for now d
    by (simp add: sql_ListActiveEntriesByRepo_def)
  note v = exec_read(1)[OF x ro, unfolded silent_def]
  show ?thesis
  proof (cases x)
    case (Inl e)
    then have "run_state (CleanupStaleBranches f ow nm repoID spare) w = (Inl (Wrap ''list active entries'' e), v)"
      using x by (simp add: CleanupStaleBranches_def ListActiveEntries_def on_ok_map_def)
    with v show ?thesis by simp
  next
    case (Inr es)
    from exec_read(2)[OF x ro Inr] have "es = sort_key (\<lambda>e. (qe_TargetBranch e, qe_EnqueuedAt e))
        (filter (\<lambda>e. qe_RepoID e = repoID \<and> active e) (d_entries (w_db w)))"
      by (simp add: sql_ListActiveEntriesByRepo_def)
    then have "set es = set (filter (\<lambda>e. qe_RepoID e = repoID \<and> active e) (d_entries (w_db w)))"
      by simp
    note test = stale_test[OF this]
    obtain r w' where run: "run_state (CleanupStaleBranches f ow nm repoID spare) w = (r, w')" by fastforce
    from run x Inr
    have "w_db w' = w_db v \<and> w_calls w' = w_calls v @ (ow, nm, CallListBranches) # map (\<lambda>b. (ow, nm, CallDeleteBranch b))
        (deletable (w_db w) repoID spare (fst (run_state (f_ListBranches f ow nm) (w_forge v))))"
      by (intro delete_listed[where W = "Wrap ''list branches''" and r = r])
        (simp add: CleanupStaleBranches_def Let_def ListActiveEntries_def on_ok_map_def test)
    with run v show ?thesis by simp
  qed
qed

subsection \<open>Order of checks\<close>







end
