(* ===== verification/BatchBuild.thy ===== *)
theory BatchBuild
  imports Invariants BatchForming
begin

text \<open>
  The recursion of \<open>Build\<close>: what the loops over the members compute, that fuel never runs
  out, and that \<open>Build\<close> satisfies the equation of the source.
\<close>

subsection \<open>What the loops return\<close>

lemma fst_eject [simp]:
  "fst (run_state (eject e st d c ent b) w) = b\<lparr>b_EjectedIds := b_EjectedIds b @ [qe_ID ent]\<rparr>"
  by (simp add: eject_def split: prod.splits)

lemma fst_ejects:
  "fst (run_state (for_acc es b (eject e st d c)) w) =
     b\<lparr>b_EjectedIds := b_EjectedIds b @ map qe_ID es\<rparr>"
proof (induction es arbitrary: b w)
  case (Cons x es)
  obtain b' w' where x: "run_state (eject e st d c x b) w = (b', w')" by fastforce
  then have "b' = b\<lparr>b_EjectedIds := b_EjectedIds b @ [qe_ID x]\<rparr>" using fst_eject by (metis fst_conv)
  with Cons[of b' w'] x show ?case by simp
qed simp

definition step_failed :: "queue_entry \<times> MergeStep \<Rightarrow> bool" where
  "step_failed x \<longleftrightarrow> ms_Conflict (snd x) \<or> ms_Err (snd x) \<noteq> None"

lemma fst_build_one:
  "\<exists>prev'. fst (run_state (build_one e x (b, surv, prev)) w) =
     (if step_failed x then (b\<lparr>b_EjectedIds := b_EjectedIds b @ [qe_ID (fst x)]\<rparr>, surv, prev')
      else (b, surv @ [fst x], prev'))"
  by (cases x)
    (auto simp: build_one_def step_failed_def Let_def split: prod.splits option.splits
      dest!: arg_cong[of _ _ fst])

lemma fst_build_loop:
  "\<exists>prev'. fst (run_state (for_acc xs (b, surv, prev) (build_one e)) w) =
     (b\<lparr>b_EjectedIds := b_EjectedIds b @ map (qe_ID \<circ> fst) (filter step_failed xs)\<rparr>,
      surv @ map fst (filter (\<lambda>x. \<not> step_failed x) xs), prev')"
proof (induction xs arbitrary: b surv prev w)
  case (Cons x xs)
  obtain b' s' p' w' where x: "run_state (build_one e x (b, surv, prev)) w = ((b', s', p'), w')"
    by (metis prod.exhaust)
  from fst_build_one[of e x b surv prev w] x
  have "(b', s') = (if step_failed x then (b\<lparr>b_EjectedIds := b_EjectedIds b @ [qe_ID (fst x)]\<rparr>, surv)
      else (b, surv @ [fst x]))" by (auto split: if_splits)
  with Cons[of b' s' p' w'] x show ?case by (auto split: if_splits)
qed simp

lemma SaveBatch_ok:
  assumes "run_state (SaveBatch b) w = (Inr b', w')"
  obtains row where "List.find (\<lambda>r. b_ID r = b_ID b) (d_batches (w_db w)) = Some row"
    "b' = save_cols (b\<lparr>b_Pending := (if b_Pending b = [] then ''[]'' else b_Pending b)\<rparr>) row"
    "d_batches (w_db w') = update_where (\<lambda>r. b_ID r = b_ID b)
       (save_cols (b\<lparr>b_Pending := (if b_Pending b = [] then ''[]'' else b_Pending b)\<rparr>))
       (d_batches (w_db w))"
    "d_entries (w_db w') = d_entries (w_db w)"
proof -
  have "(Inr b', w_db w') = sql_SaveBatch
      (b\<lparr>b_Pending := (if b_Pending b = [] then ''[]'' else b_Pending b)\<rparr>) (w_now w) (w_db w)"
    using assms unfolding SaveBatch_def
    by (cases rule: exec_stmt_cases) (auto simp: exec_stmt_def Let_def db_fault_def tx_aborted_def)
  then show ?thesis
    using that by (auto simp: sql_SaveBatch_def Let_def split: option.splits if_splits)
qed

lemma save_pending: "loadPending (if p = [] then ''[]'' else p) = loadPending p"
  by simp

lemma SaveBatch_pending:
  "run_state (SaveBatch b) w = (Inr b', w') \<Longrightarrow> loadPending (b_Pending b') = loadPending (b_Pending b)"
  by (erule SaveBatch_ok) (auto simp: save_cols_def)

subsection \<open>Enough fuel\<close>

lemma bind_cong_result:
  assumes "\<And>s. Q (fst (run_state m s))" "\<And>a. Q a \<Longrightarrow> f a = g a"
  shows "State_Monad.bind m f = State_Monad.bind m g"
proof (rule state_ext)
  fix s
  from assms(1)[of s] show "run_state (State_Monad.bind m f) s = run_state (State_Monad.bind m g) s"
    by (cases "run_state m s") (simp add: assms(2))
qed

lemma build_finish_cong:
  assumes "\<And>b'. b_Pending b' = b_Pending b \<Longrightarrow> nxt b' = nxt' b'"
  shows "build_finish nxt e branch tip (b, surv, prev) = build_finish nxt' e branch tip (b, surv, prev)"
  using assms by (simp add: build_finish_def Let_def)

lemma build_step_cong:
  assumes "\<And>b'. b_Pending b' = b_Pending b \<Longrightarrow> nxt b' = nxt' b'"
  shows "build_step nxt e b = build_step nxt' e b"
proof -
  let ?b = "b\<lparr>b_BranchName := Some (batch_branch b)\<rparr>"
  have "State_Monad.bind (for_acc xs (?b, [], 0) (build_one e)) (build_finish nxt e (batch_branch b) tip) =
      State_Monad.bind (for_acc xs (?b, [], 0) (build_one e)) (build_finish nxt' e (batch_branch b) tip)"
    for xs tip
  proof (rule bind_cong_result[where Q = "\<lambda>(b', _, _). b_Pending b' = b_Pending b"])
    fix w show "case fst (run_state (for_acc xs (?b, [], 0) (build_one e)) w) of
        (b', _, _) \<Rightarrow> b_Pending b' = b_Pending b"
      using fst_build_loop[of xs ?b "[]" 0 e w] by auto
  qed (use assms in \<open>auto intro!: build_finish_cong\<close>)
  then show ?thesis by (simp add: build_step_def Let_def)
qed

lemma rebuild_with_cong:
  assumes "\<And>b'. loadPending (b_Pending b') = loadPending (b_Pending b) \<Longrightarrow> bld b' = bld' b'"
  shows "rebuild_with bld b = rebuild_with bld' b"
  unfolding rebuild_with_def on_ok_def
proof (rule bind_cong_result[where Q = "\<lambda>r. case r of Inl _ \<Rightarrow> True | Inr b' \<Rightarrow>
      loadPending (b_Pending b') = loadPending (b_Pending b)"])
  fix w
  let ?b = "b\<lparr>b_State := BatchStateForming\<rparr>"
  show "case fst (run_state (SaveBatch ?b) w) of Inl _ \<Rightarrow> True
      | Inr b' \<Rightarrow> loadPending (b_Pending b') = loadPending (b_Pending b)"
    using SaveBatch_pending[of ?b w] by (cases "run_state (SaveBatch ?b) w") (auto split: sum.splits)
qed (use assms in \<open>auto split: sum.splits\<close>)

lemma next_with_cong:
  assumes "\<And>b'. Suc (length (loadPending (b_Pending b'))) = length (loadPending (b_Pending b)) \<Longrightarrow>
    bld b' = bld' b'"
  shows "next_with (rebuild_with bld) e b = next_with (rebuild_with bld') e b"
proof (cases "loadPending (b_Pending b) = []")
  case False
  let ?b = "b\<lparr>b_CurrentIds := last (loadPending (b_Pending b)),
    b_Pending := bytes (butlast (loadPending (b_Pending b)))\<rparr>"
  have "rebuild_with bld ?b = rebuild_with bld' ?b"
    using False by (intro rebuild_with_cong assms) simp
  then show ?thesis by (simp add: next_with_def Let_def)
qed (simp add: next_with_def Let_def)

lemma build_fuel_enough:
  "length (loadPending (b_Pending b)) < n \<Longrightarrow> length (loadPending (b_Pending b)) < m \<Longrightarrow>
     build_fuel n e b = build_fuel m e b"
proof (induction n arbitrary: m b)
  case (Suc n)
  then obtain m' where m: "m = Suc m'" by (cases m) auto
  have "next_with (rebuild_with (build_fuel n e)) e b' = next_with (rebuild_with (build_fuel m' e)) e b'"
    if "b_Pending b' = b_Pending b" for b'
    using Suc that m by (intro next_with_cong Suc.IH) auto
  then have "build_step (next_with (rebuild_with (build_fuel n e)) e) e b =
      build_step (next_with (rebuild_with (build_fuel m' e)) e) e b"
    by (rule build_step_cong)
  then show ?case by (simp add: m)
qed simp

lemma Build_fuel: "build_fuel (Suc (length (loadPending (b_Pending b)) + n)) e b = Build e b"
  unfolding Build_def by (rule build_fuel_enough) auto

lemma Build_eq: "Build e b = build_step (next_batch e) e b"
proof -
  have "next_with (rebuild_with (build_fuel (length (loadPending (b_Pending b))) e)) e b' =
      next_with (rebuild_with (Build e)) e b'" if "b_Pending b' = b_Pending b" for b'
    using that unfolding Build_def by (intro next_with_cong build_fuel_enough) auto
  then show ?thesis
    unfolding Build_def build_fuel.simps next_batch_def rebuild_def by (intro build_step_cong)
qed

end
