(* ===== verification/BatchLedger.thy ===== *)
theory BatchLedger
  imports BatchBuild
begin

text \<open>
  What the engine does to the ledger of a batch: its members and the four places an id can be
  in, landed, ejected, on the branch under test, or pending. The locale \<open>ledger_inv\<close> assumes
  of a predicate \<open>J\<close> on the ledger that it survives the elementary moves of the engine, and
  proves that every operation keeps \<open>J\<close> for every stored row. Its two interpretations are
  the exact accounting of members, kept by everything but \<open>OnMemberRemoved\<close>, and the
  disjointness of what is under test from what is finished, kept by everything.
\<close>

subsection \<open>Frame facts\<close>

definition same_batches :: "'f world \<Rightarrow> 'f world \<Rightarrow> bool" where
  "same_batches w w' \<longleftrightarrow> d_batches (w_db w') = d_batches (w_db w)"

definition keeps_batches :: "(int \<Rightarrow> db \<Rightarrow> db) \<Rightarrow> bool" where
  "keeps_batches g \<longleftrightarrow> (\<forall>now d. d_batches (g now d) = d_batches d)"

interpretation frame: entry_effects same_batches keeps_batches "\<lambda>_. True"
  by unfold_locales
    (auto simp: same_batches_def keeps_batches_def sql_ClearCheckStatuses_def
      sql_ClearEntryMergeBranch_def sql_DequeueAllByRepo_def sql_DequeuePR_def
      delete_entries_def sql_EnqueuePR_def sql_GetOrCreateRepo_def
      sql_SaveCheckStatus_def sql_UpdateEntryError_def
      sql_UpdateEntryMergeBranch_def sql_UpdateEntryState_def Let_def
      split: option.splits check_state.splits)

lemma hoare_frame:
  assumes "state_io_rel same_batches m" "\<And>w w'. same_batches w w' \<Longrightarrow> I w \<Longrightarrow> I w'"
  shows "hoare I m (\<lambda>_. I)"
  using assms by (intro hoareI) (metis state_io_relD)

lemma hoare_pre_pure: "(R \<Longrightarrow> hoare P m Q) \<Longrightarrow> hoare (\<lambda>w. R \<and> P w) m Q"
  by (auto simp: hoare_def)

lemma hoare_result:
  assumes "hoare I m (\<lambda>_. I)" "\<And>w. I w \<Longrightarrow> R (fst (run_state m w))"
  shows "hoare I m (\<lambda>a w. R a \<and> I w)"
  using assms unfolding hoare_def by (fastforce split: prod.splits)

lemma GetEntriesByIDs_subseq:
  assumes "run_state (GetEntriesByIDs ids) w = (Inr es, w')"
  shows "subseq (map qe_ID es) ids"
proof -
  have sub: "subseq (map qe_ID (List.map_filter f is)) is"
    if "\<And>i e. f i = Some e \<Longrightarrow> qe_ID e = i" for f and "is" :: "int list"
    using that by (induction "is") (auto simp: List.map_filter_simps split: option.splits)
  from assms consider "es = []" | rows where
      "es = List.map_filter (map_of (rev (map (\<lambda>r. (qe_ID r, r)) rows))) ids"
    by (auto simp: GetEntriesByIDs_def Let_def split: if_splits prod.splits sum.splits)
  then show ?thesis
    by cases (auto dest: map_of_SomeD intro!: sub)
qed

lemma mset_partition:
  "mset (map f (filter P xs) @ map f (filter (\<lambda>x. \<not> P x) xs)) = mset (map f xs)"
  by (induction xs) auto

lemma mset_zip: "mset (map (f \<circ> fst) (zip xs ys)) \<subseteq># mset (map f xs)"
proof (induction xs arbitrary: ys)
  case (Cons x xs)
  then show ?case by (cases ys) auto
qed simp

lemma mset_subseq: "subseq xs ys \<Longrightarrow> mset xs \<subseteq># mset ys"
proof (induction xs ys rule: list_emb.induct)
  case (list_emb_Cons xs ys y)
  then show ?case by (auto intro: subset_mset.order_trans)
qed (auto simp: list_emb.intros)

lemma entries_or_nil_subseq:
  "subseq (map qe_ID (fst (run_state (entries_or_nil ids) w))) ids"
  using GetEntriesByIDs_subseq[of ids w]
  by (cases "run_state (GetEntriesByIDs ids) w") (auto simp: entries_or_nil_def split: sum.splits)

lemma fst_ejectCurrent:
  "\<exists>gone. fst (run_state (ejectCurrent e st d c b) w) =
     b\<lparr>b_EjectedIds := b_EjectedIds b @ gone, b_CurrentIds := []\<rparr> \<and> subseq gone (b_CurrentIds b)"
proof -
  obtain es w1 where es: "run_state (entries_or_nil (b_CurrentIds b)) w = (es, w1)" by fastforce
  obtain b' w2 where ej: "run_state (for_acc es b (eject e st d c)) w1 = (b', w2)" by fastforce
  have "b' = b\<lparr>b_EjectedIds := b_EjectedIds b @ map qe_ID es\<rparr>"
    using fst_ejects[of es b e st d c w1] ej by simp
  with es ej entries_or_nil_subseq[of "b_CurrentIds b" w] show ?thesis
    by (auto simp: ejectCurrent_def)
qed

subsection \<open>The invariant\<close>

type_synonym ledger_pred =
  "int list \<Rightarrow> int list \<Rightarrow> int list \<Rightarrow> int list \<Rightarrow> pendingStack \<Rightarrow> bool"

text \<open>\<open>J\<close> of the ledger of a row: members, landed, ejected, current, pending.\<close>

definition ok_row :: "ledger_pred \<Rightarrow> batch \<Rightarrow> bool" where
  "ok_row J b \<longleftrightarrow> J (b_MemberIds b) (b_LandedIds b) (b_EjectedIds b) (b_CurrentIds b)
     (loadPending (b_Pending b))"

definition rows_ok :: "ledger_pred \<Rightarrow> 'f world \<Rightarrow> bool" where
  "rows_ok J w \<longleftrightarrow> distinct (map b_ID (d_batches (w_db w))) \<and>
     (\<forall>b \<in> set (d_batches (w_db w)). ok_row J b)"

definition known :: "ledger_pred \<Rightarrow> batch \<Rightarrow> 'f world \<Rightarrow> bool" where
  "known J b w \<longleftrightarrow> rows_ok J w \<and> (\<exists>row \<in> set (d_batches (w_db w)). same_batch row b)"

definition stored :: "ledger_pred \<Rightarrow> batch \<Rightarrow> 'f world \<Rightarrow> bool" where
  "stored J b w \<longleftrightarrow> rows_ok J w \<and> b \<in> set (d_batches (w_db w))"

definition good :: "ledger_pred \<Rightarrow> batch \<Rightarrow> error + batch \<Rightarrow> 'f world \<Rightarrow> bool" where
  "good J b r w \<longleftrightarrow> rows_ok J w \<and>
     (case r of Inl _ \<Rightarrow> True | Inr b' \<Rightarrow> same_batch b b' \<and> ok_row J b' \<and> stored J b' w)"

locale ledger_inv =
  fixes J :: ledger_pred
  assumes J_init: "distinct m \<Longrightarrow> J m [] [] m []"
    and J_build: "J m l e c p \<Longrightarrow> mset (gone @ c') \<subseteq># mset c \<Longrightarrow> J m l (e @ gone) c' p"
    and J_pop: "J m l e c p \<Longrightarrow> p \<noteq> [] \<Longrightarrow> J m l e (last p) (butlast p)"
    and J_land: "J m l e c p \<Longrightarrow> J m (l @ c) e [] p"
    and J_split: "J m l e c p \<Longrightarrow> J m l e (take n c) (p @ [drop n c])"
    and J_drain: "J m l e c p \<Longrightarrow> J m l e (c @ concat p) []"
begin

lemma rows_ok_frame: "same_batches w w' \<Longrightarrow> rows_ok J w \<Longrightarrow> rows_ok J w'"
  by (simp add: same_batches_def rows_ok_def)

lemma known_frame: "same_batches w w' \<Longrightarrow> known J b w \<Longrightarrow> known J b w'"
  by (auto simp: same_batches_def known_def rows_ok_def)

lemma stored_frame: "same_batches w w' \<Longrightarrow> stored J b w \<Longrightarrow> stored J b w'"
  by (auto simp: same_batches_def stored_def rows_ok_def)

lemma good_frame: "same_batches w w' \<Longrightarrow> good J b r w \<Longrightarrow> good J b r w'"
  by (auto simp: good_def rows_ok_frame stored_frame split: sum.splits)

lemma known_same: "same_batch b b' \<Longrightarrow> known J b w \<Longrightarrow> known J b' w"
  by (auto simp: known_def intro: same_batch_trans)

lemma stored_known: "stored J b w \<Longrightarrow> known J b w"
  by (auto simp: known_def stored_def intro: bexI[where x = b])

lemma good_same: "same_batch b b' \<Longrightarrow> good J b' r w \<Longrightarrow> good J b r w"
  by (auto simp: good_def intro: same_batch_trans split: sum.splits)

lemma good_rows: "good J b r w \<Longrightarrow> rows_ok J w"
  by (simp add: good_def)

lemma good_Inl: "known J b w \<Longrightarrow> good J b (Inl x) w"
  by (simp add: good_def known_def)

lemmas frames = hoare_frame[OF _ known_frame] hoare_frame[OF _ stored_frame]
  hoare_frame[OF _ rows_ok_frame]

text \<open>Saving a row of known J identity stores exactly that row.\<close>

lemma SaveBatch_good:
  assumes "ok_row J b"
  shows "hoare (known J b) (SaveBatch b) (good J b)"
proof (rule hoareI)
  fix w r w'
  assume known: "known J b w" and run: "run_state (SaveBatch b) w = (r, w')"
  show "good J b r w'"
  proof (cases r)
    case (Inl x)
    with run have "same_batches w w'"
      unfolding SaveBatch_def
      by (cases rule: exec_stmt_cases)
        (auto simp: same_batches_def sql_SaveBatch_def Let_def split: option.splits if_splits)
    with known Inl show ?thesis by (simp add: good_Inl known_frame)
  next
    case (Inr b')
    let ?b = "b\<lparr>b_Pending := (if b_Pending b = [] then ''[]'' else b_Pending b)\<rparr>"
    from run[unfolded Inr] obtain row where row: "List.find (\<lambda>r. b_ID r = b_ID b) (d_batches (w_db w)) = Some row"
      and b': "b' = save_cols ?b row"
      and upd: "d_batches (w_db w') = update_where (\<lambda>r. b_ID r = b_ID b) (save_cols ?b) (d_batches (w_db w))"
      by (rule SaveBatch_ok)
    from known obtain row' where "row' \<in> set (d_batches (w_db w))" "same_batch row' b"
      and dist: "distinct (map b_ID (d_batches (w_db w)))"
      and rows: "\<forall>x \<in> set (d_batches (w_db w)). ok_row J x"
      by (auto simp: known_def rows_ok_def)
    with find_SomeD[OF row] have same: "same_batch row b" and rowin: "row \<in> set (d_batches (w_db w))"
      using distinct_map_inj[OF dist, of row row'] by (auto simp: same_batch_def)
    then have eq: "b' = ?b" by (simp add: b' save_cols_def same_batch_def)
    have ok: "ok_row J b'" using assms by (cases "b_Pending b = []") (simp_all add: eq ok_row_def)
    have "x = row" if "x \<in> set (d_batches (w_db w))" "b_ID x = b_ID b" for x
      using distinct_map_inj[OF dist that(1) rowin] that(2) same by (simp add: same_batch_def)
    with ok rows have "\<forall>x \<in> set (d_batches (w_db w')). ok_row J x"
      by (auto simp: upd set_update_where b')
    moreover have "distinct (map b_ID (d_batches (w_db w')))" using dist by (simp add: upd)
    moreover have "b' \<in> set (d_batches (w_db w'))"
      using rowin same by (auto simp: upd set_update_where b' same_batch_def image_iff)
    ultimately show ?thesis
      by (auto simp: Inr good_def rows_ok_def stored_def ok) (simp add: eq same_batch_def)
  qed
qed

lemma J_drop: "J m l e c p \<Longrightarrow> J m l e [] p"
  using J_build[of m l e c p "[]" "[]"] by simp

lemma rebuild_with_good:
  assumes "ok_row J b" "\<And>b'. ok_row J b' \<Longrightarrow> same_batch b b' \<Longrightarrow>
    loadPending (b_Pending b') = loadPending (b_Pending b) \<Longrightarrow> hoare (known J b') (bld b') (good J b')"
  shows "hoare (known J b) (rebuild_with bld b) (good J b)"
proof (rule hoareI)
  fix w r w'
  let ?b = "b\<lparr>b_State := BatchStateForming\<rparr>"
  assume known: "known J b w" and run: "run_state (rebuild_with bld b) w = (r, w')"
  have kb: "known J ?b w" using known by (rule known_same[rotated]) (simp add: same_batch_def)
  have okb: "ok_row J ?b" using assms(1) by (simp add: ok_row_def)
  obtain s w1 where s: "run_state (SaveBatch ?b) w = (s, w1)" by fastforce
  have g: "good J ?b s w1" using hoareD[OF SaveBatch_good[OF okb] kb s] .
  show "good J b r w'"
  proof (cases s)
    case (Inl x)
    with run s g show ?thesis by (auto simp: rebuild_with_def good_def)
  next
    case (Inr b')
    with g have b': "same_batch b b'" "ok_row J b'" "known J b' w1"
      by (auto simp: good_def same_batch_def stored_known)
    have "loadPending (b_Pending b') = loadPending (b_Pending b)"
      using SaveBatch_pending[OF s[unfolded Inr]] by simp
    from hoareD[OF assms(2)[OF b'(2,1) this] b'(3)] run s Inr have "good J b' r w'"
      by (simp add: rebuild_with_def)
    with b'(1) show ?thesis by (rule good_same)
  qed
qed

lemma next_with_good:
  assumes "ok_row J b" "\<And>b'. ok_row J b' \<Longrightarrow> same_batch b b' \<Longrightarrow> hoare (known J b') (rb b') (good J b')"
  shows "hoare (known J b) (next_with rb e b) (good J b)"
proof (cases "loadPending (b_Pending b) = []")
  case False
  let ?b = "b\<lparr>b_CurrentIds := last (loadPending (b_Pending b)),
    b_Pending := bytes (butlast (loadPending (b_Pending b)))\<rparr>"
  have "ok_row J ?b" using assms(1) False by (simp add: ok_row_def J_pop)
  moreover have same: "same_batch b ?b" by (simp add: same_batch_def)
  ultimately have "hoare (known J ?b) (rb ?b) (good J ?b)" by (rule assms(2))
  then have "hoare (known J b) (rb ?b) (good J b)"
    by (rule hoare_weaken[OF hoare_post[OF _ good_same[OF same]] known_same[OF same]])
  with False show ?thesis by (simp add: next_with_def Let_def)
next
  case True
  let ?b = "b\<lparr>b_Flaky := (b_EjectedIds b = [] \<and> sint (b_Builds b) > 1 \<and>
      length (b_LandedIds b) = length (b_MemberIds b)),
    b_State := BatchStateDone, b_CurrentIds := []\<rparr>"
  have ok: "ok_row J ?b" using assms(1) by (simp add: ok_row_def J_drop)
  have same: "same_batch b ?b" by (simp add: same_batch_def)
  have "hoare (known J ?b) (next_with rb e b) (good J ?b)"
    unfolding next_with_def Let_def True if_False not_True_eq_False simp_thms(6)
  proof (rule hoare_on_ok[where R = "\<lambda>b' w. good J ?b (Inr b') w"])
    show "hoare (known J ?b) (SaveBatch ?b)
        (\<lambda>r w. case r of Inl x \<Rightarrow> good J ?b (Inl x) w | Inr b' \<Rightarrow> good J ?b (Inr b') w)"
      by (rule hoare_post[OF SaveBatch_good[OF ok]]) (auto split: sum.split)
    show "hoare (good J ?b (Inr b')) (do {
        warn_if_err (call_DeleteBranch (en_Forge e) (en_Owner e) (en_Repo e) (text_string (b_BranchName b')));
        (if en_Advance e then set_trigger (en_RepoID e) else ret ());
        ret (Inr b') }) (good J ?b)" for b'
      by (intro hoare_intros; (rule hoare_frame[OF _ good_frame], intro io_intros frame.po frame.io_calls
            frame.io_trigger)?; assumption?)
  qed
  then show ?thesis
    by (rule hoare_weaken[OF hoare_post[OF _ good_same[OF same]] known_same[OF same]])
qed

text \<open>The frame: entry-level operations keep everything the triples speak of.\<close>

lemma frame_known: "state_io_rel same_batches m \<Longrightarrow> hoare (known J b) m (\<lambda>_. known J b)"
  by (rule hoare_frame[OF _ known_frame])

lemma frame_good: "state_io_rel same_batches m \<Longrightarrow> hoare (good J b r) m (\<lambda>_. good J b r)"
  by (rule hoare_frame[OF _ good_frame])

lemma good_cases:
  "hoare P m (good J b) \<Longrightarrow>
     hoare P m (\<lambda>r w. case r of Inl x \<Rightarrow> good J b (Inl x) w | Inr b' \<Rightarrow> good J b (Inr b') w)"
  by (erule hoare_post) (auto split: sum.split)

lemma tail_good:
  "state_io_rel same_batches m \<Longrightarrow> state_io_rel same_batches n \<Longrightarrow>
     hoare (good J b (Inr v)) (do { m; n; ret (Inr v) }) (good J b)"
  by (rule hoare_bind[OF frame_good], assumption, rule hoare_bind[OF frame_good], assumption)
    (rule hoare_ret)

lemma build_finish_good:
  assumes "ok_row J (b\<lparr>b_CurrentIds := entry_ids surv\<rparr>)"
    "\<And>b'. ok_row J b' \<Longrightarrow> same_batch b b' \<Longrightarrow> b_Pending b' = b_Pending b \<Longrightarrow>
       hoare (known J b') (nxt b') (good J b')"
  shows "hoare (known J b) (build_finish nxt e br tip (b, surv, prev)) (good J b)"
proof (cases "surv = []")
  case True
  have same: "same_batch b (b\<lparr>b_CurrentIds := []\<rparr>)" by (simp add: same_batch_def)
  have "hoare (known J (b\<lparr>b_CurrentIds := []\<rparr>)) (nxt (b\<lparr>b_CurrentIds := []\<rparr>))
      (good J (b\<lparr>b_CurrentIds := []\<rparr>))"
    using assms(1) True same by (intro assms(2)) (simp_all add: entry_ids_def)
  then show ?thesis unfolding build_finish_def Let_def True entry_ids_def
    by simp (rule hoare_weaken[OF hoare_post[OF _ good_same[OF same]] known_same[OF same]])
next
  case False
  let ?b = "\<lambda>now. b\<lparr>b_CurrentIds := entry_ids surv, b_BranchSha := Some tip,
    b_State := BatchStateTesting, b_TestingStartedAt := Some now, b_Builds := b_Builds b + 1\<rparr>"
  have same: "same_batch b (?b now)" for now by (simp add: same_batch_def)
  have ok: "ok_row J (?b now)" for now using assms(1) by (simp add: ok_row_def)
  have save: "hoare (known J b) (SaveBatch (?b now)) (good J b)" for now
    by (rule hoare_weaken[OF hoare_post[OF SaveBatch_good[OF ok] good_same[OF same]] known_same[OF same]])
  have "hoare (known J b) (do {
      now \<leftarrow> go_now;
      on_ok (SaveBatch (?b now)) (\<lambda>b. do {
        for_each surv (route_entry e br tip first (desc b));
        warn_if_err (ClearCheckStatuses (b_CurrentIds b));
        ret (Inr b) }) }) (good J b)" for first desc
    by (rule hoare_bind[OF frame_known[OF frame.io_now]], rule hoare_on_ok[OF good_cases[OF save]],
        rule tail_good) (intro io_intros frame.po frame.io_eject frame.io_queue)+
  with False show ?thesis by (simp add: build_finish_def Let_def)
qed

lemma build_step_good:
  fixes nxt :: "batch \<Rightarrow> ('f, batch) go_err"
  assumes "ok_row J b" "\<And>b'. ok_row J b' \<Longrightarrow> same_batch b b' \<Longrightarrow> b_Pending b' = b_Pending b \<Longrightarrow>
    hoare (known J b') (nxt b') (good J b')"
  shows "hoare (known J b) (build_step nxt e b) (good J b)"
proof -
  let ?b = "b\<lparr>b_BranchName := Some (batch_branch b)\<rparr>"
  have loop: "hoare (known J b) (for_acc (zip es steps) (?b, [], 0) (build_one (e :: 'f engine)))
      (\<lambda>acc w. known J b w \<and> (\<exists>gone surv prev. acc = (?b\<lparr>b_EjectedIds := b_EjectedIds b @ gone\<rparr>, surv, prev) \<and>
         mset (gone @ map qe_ID surv) \<subseteq># mset (map qe_ID es)))" for es steps
  proof -
    let ?xs = "zip es steps"
    have sub: "mset (map (qe_ID \<circ> fst) (filter step_failed ?xs) @
        map qe_ID (map fst (filter (\<lambda>x. \<not> step_failed x) ?xs))) \<subseteq># mset (map qe_ID es)"
      using mset_zip[of qe_ID es steps]
      unfolding map_map mset_partition .
    show ?thesis
      by (rule hoare_post[OF hoare_result[where R = "\<lambda>acc. \<exists>gone surv prev.
          acc = (?b\<lparr>b_EjectedIds := b_EjectedIds b @ gone\<rparr>, surv, prev) \<and>
          mset (gone @ map qe_ID surv) \<subseteq># mset (map qe_ID es)", OF frame_known]])
        (use fst_build_loop[of ?xs ?b "[]" 0 e] sub in \<open>fastforce intro!: io_intros frame.io_eject frame.po\<close>)+
  qed
  have fin: "hoare (known J b) (State_Monad.bind (for_acc (zip es steps) (?b, [], 0) (build_one e))
      (build_finish nxt e (batch_branch b) tip)) (good J b)"
    if es: "subseq (map qe_ID es) (b_CurrentIds b)" for es steps tip
  proof (rule hoare_bind[OF loop], rule hoareI)
    fix acc :: "batch \<times> queue_entry list \<times> int" and w :: "'f world" and r w'
    assume "known J b w \<and> (\<exists>gone surv prev. acc = (?b\<lparr>b_EjectedIds := b_EjectedIds b @ gone\<rparr>, surv, prev) \<and>
        mset (gone @ map qe_ID surv) \<subseteq># mset (map qe_ID es))"
    then obtain gone surv prev where known: "known J b w"
      and acc: "acc = (?b\<lparr>b_EjectedIds := b_EjectedIds b @ gone\<rparr>, surv, prev)"
      and sub: "mset (gone @ map qe_ID surv) \<subseteq># mset (map qe_ID es)" by blast
    assume run: "run_state (build_finish nxt e (batch_branch b) tip acc) w = (r, w')"
    let ?b2 = "?b\<lparr>b_EjectedIds := b_EjectedIds b @ gone\<rparr>"
    have same: "same_batch b ?b2" by (simp add: same_batch_def)
    have "mset (gone @ map qe_ID surv) \<subseteq># mset (b_CurrentIds b)"
      using sub mset_subseq[OF es] by (rule subset_mset.order_trans)
    then have ok: "ok_row J (?b2\<lparr>b_CurrentIds := entry_ids surv\<rparr>)"
      using assms(1) by (simp add: ok_row_def entry_ids_def J_build)
    have "hoare (known J ?b2) (build_finish nxt e (batch_branch b) tip (?b2, surv, prev)) (good J ?b2)"
      using same by (intro build_finish_good[OF ok] assms(2)) (auto intro: same_batch_trans)
    from hoareD[OF this known_same[OF same known] run[unfolded acc]]
    show "good J b r w'" by (rule good_same[OF same])
  qed
  have ents: "hoare (known J b) (GetEntriesByIDs is :: ('f, queue_entry list) go_err)
      (\<lambda>r w. known J b w \<and> (\<forall>es. r = Inr es \<longrightarrow> subseq (map qe_ID es) is))" for "is"
    by (rule hoareI) (auto dest: GetEntriesByIDs_subseq hoareD[OF frame_known[OF frame.io_queue_reads(11)]])
  have stk: "hoare (known J b) (stack (e :: 'f engine) base heads br) (\<lambda>_. known J b)" for base heads br
    by (rule frame_known[OF frame.io_stack])
  have rest: "hoare (known J b)
      (on_ok_map (Wrap ''build batch branch'') (stack e (b_TargetBranch ?b) (map qe_PrHeadSha es) (batch_branch b))
        (\<lambda>(tip, steps). State_Monad.bind (for_acc (zip es steps) (?b, [], 0) (build_one e))
           (build_finish nxt e (batch_branch b) tip))) (good J b)"
    if es: "subseq (map qe_ID es) (b_CurrentIds b)" for es
    by (rule hoare_on_ok_map[where R = "\<lambda>_. known J b"], rule hoare_post[OF stk])
      (auto simp: good_Inl split: sum.split intro: fin[OF es])
  show ?thesis
    unfolding build_step_def Let_def
  proof (rule hoare_bind[OF frame_known], intro io_intros frame.io_calls frame.po,
      rule hoare_on_ok_map[where R = "\<lambda>es w. subseq (map qe_ID es) (b_CurrentIds b) \<and> known J b w"])
    show "hoare (known J b) (GetEntriesByIDs (b_CurrentIds ?b) :: ('f, queue_entry list) go_err)
        (\<lambda>r w. case r of Inl x \<Rightarrow> good J b (Inl (Wrap ''load batch members'' x)) w
           | Inr es \<Rightarrow> subseq (map qe_ID es) (b_CurrentIds b) \<and> known J b w)"
      using ents[of "b_CurrentIds b"] by (auto simp: good_Inl elim!: hoare_post split: sum.split)
  next
    fix es :: "queue_entry list"
    show "hoare (\<lambda>w. subseq (map qe_ID es) (b_CurrentIds b) \<and> known J b w)
        (on_ok_map (Wrap ''build batch branch'')
          (stack e (b_TargetBranch ?b) (map qe_PrHeadSha es) (batch_branch b))
          (\<lambda>(tip, steps). State_Monad.bind (for_acc (zip es steps) (?b, [], 0) (build_one e))
             (build_finish nxt e (batch_branch b) tip))) (good J b)"
      by (rule hoare_pre_pure) (rule rest)
  qed
qed

lemma build_fuel_good: "ok_row J b \<Longrightarrow> hoare (known J b) (build_fuel n e b) (good J b)"
proof (induction n arbitrary: b)
  case 0
  show ?case by (auto intro: hoare_ret good_Inl)
next
  case (Suc n)
  then show ?case
    by (auto intro!: build_step_good next_with_good rebuild_with_good)
qed

lemma Build_good: "ok_row J b \<Longrightarrow> hoare (known J b) (Build e b) (good J b)"
  unfolding Build_def by (rule build_fuel_good)

lemma rebuild_good: "ok_row J b \<Longrightarrow> hoare (known J b) (rebuild e b) (good J b)"
  unfolding rebuild_def by (rule rebuild_with_good) (auto intro: Build_good)

lemma next_good: "ok_row J b \<Longrightarrow> hoare (known J b) (next_batch e b) (good J b)"
  unfolding next_batch_def by (rule next_with_good) (auto intro: rebuild_good)

text \<open>The handlers change some columns of the row and hand it to \<open>rebuild\<close> or \<open>next\<close>.\<close>

lemma changed_good:
  assumes "hoare (known J b') m (good J b')" "same_batch b b'"
  shows "hoare (known J b) m (good J b)"
  by (rule hoare_weaken[OF hoare_post[OF assms(1) good_same[OF assms(2)]] known_same[OF assms(2)]])

lemma next_changed:
  "ok_row J b' \<Longrightarrow> same_batch b b' \<Longrightarrow> hoare (known J b) (next_batch e b') (good J b)"
  by (rule changed_good[OF next_good])

lemma rebuild_changed:
  "ok_row J b' \<Longrightarrow> same_batch b b' \<Longrightarrow> hoare (known J b) (rebuild e b') (good J b)"
  by (rule changed_good[OF rebuild_good])

lemma eject_next_good:
  assumes "ok_row J b'" "same_batch b b'"
  shows "hoare (known J b) (State_Monad.bind (ejectCurrent e st d c b') (next_batch e)) (good J b)"
proof (rule hoare_bind[OF hoare_result[where R = "\<lambda>x. \<exists>gone. x = b'\<lparr>b_EjectedIds := b_EjectedIds b' @ gone,
      b_CurrentIds := []\<rparr> \<and> subseq gone (b_CurrentIds b')"]])
  show "hoare (known J b) (ejectCurrent e st d c b') (\<lambda>_. known J b)"
    by (rule frame_known) (rule frame.io_eject)
  show "\<exists>gone. fst (run_state (ejectCurrent e st d c b') w) = b'\<lparr>b_EjectedIds := b_EjectedIds b' @ gone,
      b_CurrentIds := []\<rparr> \<and> subseq gone (b_CurrentIds b')" for w
    by (rule fst_ejectCurrent)
  show "hoare (\<lambda>w. (\<exists>gone. x = b'\<lparr>b_EjectedIds := b_EjectedIds b' @ gone, b_CurrentIds := []\<rparr> \<and>
      subseq gone (b_CurrentIds b')) \<and> known J b w) (next_batch e x) (good J b)" for x
  proof (rule hoare_pre_pure, elim exE conjE)
    fix gone
    assume x: "x = b'\<lparr>b_EjectedIds := b_EjectedIds b' @ gone, b_CurrentIds := []\<rparr>"
      and sub: "subseq gone (b_CurrentIds b')"
    have "ok_row J x"
      using assms(1) mset_subseq[OF sub] by (auto simp: x ok_row_def intro!: J_build)
    then show "hoare (known J b) (next_batch e x) (good J b)"
      using assms(2) by (intro next_changed) (auto simp: x same_batch_def)
  qed
qed

lemma HandleFail_good:
  assumes "ok_row J b"
  shows "hoare (stored J b) (HandleFail e b fc u) (good J b)"
proof -
  let ?p = "loadPending (b_Pending b)"
  have drained: "ok_row J (b\<lparr>b_CurrentIds := b_CurrentIds b @ concat ?p, b_Pending := []\<rparr>)"
    using assms by (simp add: ok_row_def J_drain)
  have split: "ok_row J (b\<lparr>b_Pending := bytes (?p @ [snd (split_ids (b_CurrentIds b))]),
      b_CurrentIds := fst (split_ids (b_CurrentIds b))\<rparr>)"
    using assms by (simp add: ok_row_def split_ids_def Let_def J_split)
  have single: "ok_row J (b\<lparr>b_EjectedIds := b_EjectedIds b @ map qe_ID es, b_CurrentIds := []\<rparr>)"
    if "subseq (map qe_ID es) (b_CurrentIds b)" for es
    using assms mset_subseq[OF that] by (auto simp: ok_row_def intro!: J_build)
  have one: "hoare (known J b) (do {
        entries \<leftarrow> entries_or_nil (b_CurrentIds b);
        b \<leftarrow> (case entries of [ent] \<Rightarrow> eject e st d c ent b | _ \<Rightarrow> ret b);
        next_batch e (b\<lparr>b_CurrentIds := []\<rparr>) }) (good J b)" for st d c
  proof (rule hoare_bind[OF hoare_result[where R = "\<lambda>es. subseq (map qe_ID es) (b_CurrentIds b)"]])
    fix es :: "queue_entry list"
    show "hoare (\<lambda>w. subseq (map qe_ID es) (b_CurrentIds b) \<and> known J b w)
      (do { b \<leftarrow> (case es of [ent] \<Rightarrow> eject e st d c ent b | _ \<Rightarrow> ret b);
            next_batch e (b\<lparr>b_CurrentIds := []\<rparr>) }) (good J b)"
    proof (rule hoare_pre_pure, rule hoare_bind[OF hoare_result[where R = "\<lambda>x. \<exists>gone.
          x = b\<lparr>b_EjectedIds := b_EjectedIds b @ gone\<rparr> \<and> subseq gone (b_CurrentIds b)"]])
      show "hoare (known J b) (case es of [ent] \<Rightarrow> eject e st d c ent b | _ \<Rightarrow> ret b) (\<lambda>_. known J b)"
        by (rule frame_known) (intro io_intros frame.po frame.io_eject)
      show "\<exists>gone. fst (run_state (case es of [ent] \<Rightarrow> eject e st d c ent b | _ \<Rightarrow> ret b) w) =
          b\<lparr>b_EjectedIds := b_EjectedIds b @ gone\<rparr> \<and> subseq gone (b_CurrentIds b)"
        if "subseq (map qe_ID es) (b_CurrentIds b)" for w
        using that by (auto split: list.splits intro: exI[of _ "[]"])
      show "hoare (\<lambda>w. (\<exists>gone. x = b\<lparr>b_EjectedIds := b_EjectedIds b @ gone\<rparr> \<and>
          subseq gone (b_CurrentIds b)) \<and> known J b w) (next_batch e (x\<lparr>b_CurrentIds := []\<rparr>)) (good J b)" for x
      proof (rule hoare_pre_pure, elim exE conjE)
        fix gone
        assume x: "x = b\<lparr>b_EjectedIds := b_EjectedIds b @ gone\<rparr>" and sub: "subseq gone (b_CurrentIds b)"
        have "ok_row J (x\<lparr>b_CurrentIds := []\<rparr>)"
          using assms mset_subseq[OF sub] by (auto simp: x ok_row_def intro!: J_build)
        then show "hoare (known J b) (next_batch e (x\<lparr>b_CurrentIds := []\<rparr>)) (good J b)"
          by (rule next_changed) (simp add: x same_batch_def)
      qed
    qed
  qed (auto intro: frame_known frame.io_eject entries_or_nil_subseq)
  have bisect: "hoare (known J b) (case split_ids (b_CurrentIds b) of (left, right) \<Rightarrow> do {
        warn_if_err (ClearMergeBranch right);
        rebuild e (b\<lparr>b_Pending := bytes (?p @ [right]), b_CurrentIds := left\<rparr>) }) (good J b)"
    using split by (auto simp: same_batch_def split: prod.split
        intro!: hoare_bind[OF frame_known] io_intros frame.po frame.io_queue rebuild_changed)
  have stop: "hoare (known J b) (State_Monad.bind (ejectCurrent e st d c
        (b\<lparr>b_CurrentIds := b_CurrentIds b @ concat ?p, b_Pending := []\<rparr>)) (next_batch e)) (good J b)" for st d c
    by (rule eject_next_good[OF drained]) (simp add: same_batch_def)
  have stay: "hoare (stored J b) (ret (Inr b)) (good J b)"
    using assms by (auto intro!: hoare_ret simp: good_def stored_def)
  show ?thesis
    unfolding HandleFail_def
    by (rule hoare_if[OF stay], rule hoare_weaken[OF _ stored_known], assumption?,
        rule hoare_if[OF one], rule hoare_if[OF stop bisect], assumption)
qed

lemma HandlePass_good:
  assumes "ok_row J b"
  shows "hoare (stored J b) (HandlePass e b) (good J b)"
proof -
  let ?f = "b\<lparr>b_FfRetries := b_FfRetries b + 1\<rparr>"
  let ?z = "b\<lparr>b_FfRetries := 0\<rparr>"
  have f: "ok_row J ?f" "same_batch b ?f" and z: "ok_row J ?z" "same_batch b ?z"
    using assms by (simp_all add: ok_row_def same_batch_def)
  have landed: "ok_row J (?z\<lparr>b_LandedIds := b_LandedIds b @ b_CurrentIds b, b_CurrentIds := []\<rparr>)"
    using assms by (simp add: ok_row_def J_land)
  have land: "hoare (known J b) (on_ok (GetEntriesByIDs (b_CurrentIds ?z)) (\<lambda>entries. do {
        for_each entries (land_entry e sha (b_ID ?z));
        next_batch e (?z\<lparr>b_LandedIds := b_LandedIds ?z @ b_CurrentIds ?z, b_CurrentIds := []\<rparr>) })) (good J b)" for sha
  proof (rule hoare_on_ok[where R = "\<lambda>_. known J b"])
    show "hoare (known J b) (GetEntriesByIDs (b_CurrentIds ?z))
        (\<lambda>r w. case r of Inl x \<Rightarrow> good J b (Inl x) w | Inr _ \<Rightarrow> known J b w)"
      by (rule hoare_post[OF frame_known]) (auto intro: frame.io_queue_reads simp: good_Inl split: sum.split)
    show "hoare (known J b) (do {
        for_each es (land_entry e sha (b_ID ?z));
        next_batch e (?z\<lparr>b_LandedIds := b_LandedIds ?z @ b_CurrentIds ?z, b_CurrentIds := []\<rparr>) }) (good J b)" for es
      using landed by (auto simp: same_batch_def intro!: hoare_bind[OF frame_known] io_intros frame.po
          frame.io_eject next_changed)
  qed
  have ff: "state_io_rel same_batches (call_FastForward (en_Forge e) (en_Owner e) (en_Repo e) tb sha)" for tb sha
    unfolding call_FastForward_def by (rule frame.io_forge_do) simp
  have stay: "hoare (stored J b) (ret (Inr b)) (good J b)"
    using assms by (auto intro!: hoare_ret simp: good_def stored_def)
  have err: "hoare (known J b) (ret (Inl x)) (good J b)" for x
    by (rule hoare_ret) (rule good_Inl)
  show ?thesis
    unfolding HandlePass_def Let_def
    apply (rule hoare_if[OF stay])
    apply (rule hoare_weaken[OF _ stored_known], rule hoare_bind[OF frame_known[OF ff]])
     apply (rule hoare_sum)
      apply (rule hoare_if, rule hoare_if, rule rebuild_changed[OF f], rule eject_next_good[OF f])
      apply (rule hoare_option[OF err], rule hoare_prod, rule eject_next_good[OF assms same_batch_refl])
    apply (rule land, assumption)
    done
qed

subsection \<open>Entry points\<close>

text \<open>Every entry point starts from rows it reads from the table.\<close>

lemma row_read:
  assumes "run_state (nil_if_no_rows (exec_stmt q)) w = (Inr (Some b), w')"
    "\<And>now d b d'. q now d = (Inr b, d') \<Longrightarrow> d' = d \<and> b \<in> set (d_batches d)" "rows_ok J w"
  shows "ok_row J b \<and> stored J b w'"
proof -
  from assms(1) have run: "run_state (exec_stmt q) w = (Inr b, w')"
    by (auto simp: nil_if_no_rows_def split: prod.splits sum.splits if_splits)
  then have "q (w_now w) (w_db w) = (Inr b, w_db w')"
    by (cases rule: exec_stmt_cases) auto
  with assms(2,3) show ?thesis by (fastforce simp: stored_def rows_ok_def)
qed

lemma frame_rows: "state_io_rel same_batches m \<Longrightarrow> hoare (rows_ok J) m (\<lambda>_. rows_ok J)"
  by (rule hoare_frame[OF _ rows_ok_frame])

definition from_table :: "error + batch option \<Rightarrow> 'f world \<Rightarrow> bool" where
  "from_table r w \<longleftrightarrow> rows_ok J w \<and> (\<forall>b. r = Inr (Some b) \<longrightarrow> ok_row J b \<and> stored J b w)"

lemma read_from_table:
  assumes "\<And>now d b d'. q now d = (Inr b, d') \<Longrightarrow> d' = d \<and> b \<in> set (d_batches d)"
    "state_io_rel same_batches (nil_if_no_rows (exec_stmt q) :: ('f, batch option) go_err)"
  shows "hoare (rows_ok J) (nil_if_no_rows (exec_stmt q) :: ('f, batch option) go_err) from_table"
proof (rule hoareI)
  fix w :: "'f world" and r w'
  assume "rows_ok J w" "run_state (nil_if_no_rows (exec_stmt q)) w = (r, w')"
  with hoareD[OF frame_rows[OF assms(2)] this] row_read[where q = q and w = w and w' = w', OF _ assms(1)]
  show "from_table r w'" by (auto simp: from_table_def)
qed

lemma GetBatch_row: "hoare (rows_ok J) (GetBatch i) from_table"
  unfolding GetBatch_def
  by (rule read_from_table)
    (auto simp: sql_GetBatch_def one_row_def split: list.splits dest!: filter_eq_ConsD
      intro: frame.io_queue_reads(9)[unfolded GetBatch_def])

lemma GetLiveBatch_row: "hoare (rows_ok J) (GetLiveBatch r tb) from_table"
  unfolding GetLiveBatch_def
  by (rule read_from_table)
    (auto simp: sql_GetLiveBatch_def one_row_def split: list.splits dest!: filter_eq_ConsD
      intro: frame.io_queue_reads(8)[unfolded GetLiveBatch_def])

lemma on_row:
  assumes "hoare (rows_ok J) m from_table" "hoare (rows_ok J) (f None) (\<lambda>_. rows_ok J)"
    "\<And>b. ok_row J b \<Longrightarrow> hoare (stored J b) (f (Some b)) (\<lambda>_. rows_ok J)"
  shows "hoare (rows_ok J) (on_ok m f) (\<lambda>_. rows_ok J)"
proof (rule hoare_on_ok[where R = "\<lambda>o' w. from_table (Inr o') w"])
  show "hoare (rows_ok J) m (\<lambda>r w. case r of Inl _ \<Rightarrow> rows_ok J w | Inr o' \<Rightarrow> from_table (Inr o') w)"
    by (rule hoare_post[OF assms(1)]) (auto simp: from_table_def split: sum.split)
  show "hoare (from_table (Inr o')) (f o') (\<lambda>_. rows_ok J)" for o'
  proof (cases o')
    case None
    then show ?thesis using assms(2) by (auto simp: from_table_def intro: hoare_weaken)
  next
    case (Some b)
    show ?thesis
    proof (cases "ok_row J b")
      case True
      then show ?thesis using assms(3)[OF True] Some by (auto simp: from_table_def intro: hoare_weaken)
    qed (auto simp: hoare_def from_table_def Some)
  qed
qed

lemma rows_after:
  assumes "hoare (stored J b) m (good J b)"
  shows "hoare (stored J b) (on_ok m (\<lambda>_. ret (Inr x))) (\<lambda>_. rows_ok J)"
  by (rule hoare_on_ok[where R = "\<lambda>_. rows_ok J"], rule hoare_post[OF assms])
    (auto simp: good_rows split: sum.split intro: hoare_ret)

lemma stored_rows: "stored J b w \<Longrightarrow> rows_ok J w"
  by (simp add: stored_def)

lemma ret_rows: "hoare (stored J b) (ret x) (\<lambda>_. rows_ok J)"
  by (rule hoare_ret) (rule stored_rows)

lemma batch_HandleTimeout_rows: "hoare (rows_ok J) (batch_HandleTimeout e i) (\<lambda>_. rows_ok J)"
  unfolding batch_HandleTimeout_def
proof (rule on_row[OF GetBatch_row])
  fix b
  assume "ok_row J b"
  then show "hoare (stored J b) (do {
      now \<leftarrow> go_now;
      (case Some b of None \<Rightarrow> ret (Inr ())
       | Some b \<Rightarrow> if b_State b \<noteq> BatchStateTesting \<or> \<not> TimedOut now b (en_CheckTimeout e) then ret (Inr ())
                    else on_ok (HandleFail e b ''timeout'' []) (\<lambda>_. ret (Inr ()))) }) (\<lambda>_. rows_ok J)"
    by (auto intro!: hoare_bind[OF hoare_frame[OF frame.io_now stored_frame]] ret_rows rows_after HandleFail_good)
qed (auto intro!: hoare_bind[OF frame_rows] frame.io_now hoare_ret)

lemma stored_step:
  assumes "state_io_rel same_batches m" "\<And>v. hoare (stored J b) (f v) (\<lambda>_. rows_ok J)"
  shows "hoare (stored J b) (on_ok m f) (\<lambda>_. rows_ok J)"
  by (rule hoare_on_ok[where R = "\<lambda>_. stored J b"], rule hoare_post[OF hoare_frame[OF assms(1) stored_frame]])
    (auto simp: stored_rows split: sum.split intro: assms(2))

lemma HandleCheck_rows: "hoare (rows_ok J) (HandleCheck e ent ctx st u) (\<lambda>_. rows_ok J)"
  unfolding HandleCheck_def
proof (rule on_row[OF GetBatch_row])
  fix b
  assume ok: "ok_row J b"
  show "hoare (stored J b) (case Some b of None \<Rightarrow> ret (Inr ())
    | Some b \<Rightarrow>
        if b_State b \<noteq> BatchStateTesting then ret (Inr ())
        else if qe_MergeBranchSha ent = None \<or>
            text_string (qe_MergeBranchSha ent) \<noteq> text_string (b_BranchSha b)
        then ret (Inr ())
        else on_ok (SaveCheckStatus (qe_ID ent) ctx st u)
          (\<lambda>_. on_ok (ResolveRequiredChecks (en_Forge e) (en_Owner e) (en_Repo e)
              (b_TargetBranch b) (en_FallbackChecks e))
            (\<lambda>required. on_ok (GetCheckStatuses (qe_ID ent))
              (\<lambda>statuses. case EvaluateChecks statuses required of
                 (CheckSuccess, _, _) \<Rightarrow> on_ok (HandlePass e b) (\<lambda>_. ret (Inr ()))
               | (CheckFailure, fc, fu) \<Rightarrow> on_ok (HandleFail e b fc fu) (\<lambda>_. ret (Inr ()))
               | (CheckWaiting, _, _) \<Rightarrow> do {
                   now \<leftarrow> go_now;
                   if TimedOut now b (en_CheckTimeout e)
                   then on_ok (HandleFail e b ''timeout'' []) (\<lambda>_. ret (Inr ()))
                   else ret (Inr ()) })))) (\<lambda>_. rows_ok J)"
    by (auto split: prod.split CheckResult.split
        intro!: stored_step ret_rows rows_after HandlePass_good[OF ok] HandleFail_good[OF ok]
          frame.io_queue frame.io_ResolveRequiredChecks frame.io_queue_reads
          hoare_bind[OF hoare_frame[OF frame.io_now stored_frame]])
qed (auto intro: hoare_ret)

lemma FormBatch_row:
  "hoare (\<lambda>w. rows_ok J w \<and> db_wf (w_db w)) (FormBatch r tb n :: ('f, batch option) go_err) from_table"
proof (rule hoareI)
  fix w :: "'f world" and res w'
  assume I: "rows_ok J w \<and> db_wf (w_db w)" and run: "run_state (FormBatch r tb n) w = (res, w')"
  define limit where "limit = (if n \<le> 0 then 2 ^ 30 else n)"
  obtain res1 w1 where tx: "run_state (withTx (formbatch_tx r tb limit)) w = (res1, w1)" by fastforce
  from run tx have w': "w' = w1" and res: "\<And>y. res = Inr (Some y) \<Longrightarrow> res1 = Inr (Some y)"
    by (auto simp: FormBatch_def Let_def limit_def[symmetric] split: sum.splits option.splits if_splits)
  show "from_table res w'"
  proof (cases res1)
    case (Inl x)
    with withTx_Inl[of _ w x w1] tx have "same_tables (w_db w) (w_db w1)" by blast
    then have "rows_ok J w'" using I w' by (simp add: rows_ok_def same_tables_def)
    moreover have "res \<noteq> Inr (Some y)" for y using res[of y] Inl by auto
    ultimately show ?thesis by (auto simp: from_table_def)
  next
    case (Inr y)
    let ?ids = "map qe_ID (take (nat (sint (int32 limit))) (queued_rows (w_db w) r tb))"
    let ?x = "fresh_batch (w_db w) (w_now w) r tb ?ids"
    note spec = formbatch_tx_result[OF tx[unfolded Inr]]
    show ?thesis
    proof (cases "?ids = []")
      case True
      with spec have "y = None" "w_db w1 = w_db w" by (auto split: if_splits)
      then show ?thesis using I w' res Inr by (auto simp: from_table_def rows_ok_def)
    next
      case False
      with spec have y: "y = Some ?x" and d: "d_batches (w_db w1) = d_batches (w_db w) @ [?x]"
        by (auto split: if_splits)
      have "distinct (map qe_ID (d_entries (w_db w)))"
        using I by (simp add: db_wf_def entries_wf_def)
      then have "distinct (map qe_ID (queued_rows (w_db w) r tb))"
        by (simp add: queued_rows_def queue_rows_def filter_sort distinct_map_filter distinct_map
            inj_on_def)
      then have "distinct ?ids" by (simp add: distinct_map inj_on_def) (meson distinct_take in_set_takeD)
      then have ok: "ok_row J ?x" using J_init by (simp add: ok_row_def fresh_batch_def)
      moreover have "b_ID ?x \<notin> b_ID ` set (d_batches (w_db w))"
        using I by (auto simp: fresh_batch_def db_wf_def batches_wf_def)
      ultimately have "stored J ?x w'" "rows_ok J w'"
        using I d w' by (auto simp: stored_def rows_ok_def)
      with ok show ?thesis using res Inr y by (auto simp: from_table_def)
    qed
  qed
qed

lemma FormAndBuild_rows:
  "hoare (\<lambda>w. rows_ok J w \<and> db_wf (w_db w)) (FormAndBuild (e :: 'f engine) tb) (\<lambda>_. rows_ok J)"
  unfolding FormAndBuild_def
proof (rule hoare_on_ok[where R = "\<lambda>lv w. from_table (Inr lv) w \<and> db_wf (w_db w)"])
  show "hoare (\<lambda>w. rows_ok J w \<and> db_wf (w_db w))
      (GetLiveBatch (en_RepoID e) tb :: ('f, batch option) go_err)
      (\<lambda>r w. case r of Inl x \<Rightarrow> rows_ok J w | Inr lv \<Rightarrow> from_table (Inr lv) w \<and> db_wf (w_db w))"
  proof (rule hoareI)
    fix w :: "'f world" and r w'
    assume I: "rows_ok J w \<and> db_wf (w_db w)"
      and run: "run_state (GetLiveBatch (en_RepoID e) tb) w = (r, w')"
    have "from_table r w'" using hoareD[OF GetLiveBatch_row _ run] I by blast
    moreover have "db_wf (w_db w')"
      using wf_kept[OF wf.io_queue_reads(8), of w "en_RepoID e" tb] I run by simp
    ultimately show "case r of Inl x \<Rightarrow> rows_ok J w' | Inr lv \<Rightarrow> from_table (Inr lv) w' \<and> db_wf (w_db w')"
      by (auto simp: from_table_def split: sum.split)
  qed
  have build: "hoare (from_table (Inr (Some b))) (on_ok (Build e b) (\<lambda>b. ret (Inr (Some b)))) (\<lambda>_. rows_ok J)"
    for b
  proof (cases "ok_row J b")
    case True
    have "hoare (stored J b) (Build e b) (good J b)"
      by (rule hoare_weaken[OF Build_good[OF True] stored_known])
    then have "hoare (stored J b) (on_ok (Build e b) (\<lambda>b. ret (Inr (Some b)))) (\<lambda>_. rows_ok J)"
      by (intro hoare_on_ok[where R = "\<lambda>_. rows_ok J"], elim hoare_post)
        (auto simp: good_rows split: sum.split intro: hoare_ret)
    then show ?thesis by (rule hoare_weaken) (simp add: from_table_def)
  qed (auto simp: hoare_def from_table_def)
  show "hoare (\<lambda>w. from_table (Inr lv) w \<and> db_wf (w_db w))
      (case lv of
         Some b \<Rightarrow> if b_State b = BatchStateForming then on_ok (Build e b) (\<lambda>b. ret (Inr (Some b)))
                   else ret (Inr None)
       | None \<Rightarrow> on_ok (FormBatch (en_RepoID e) tb (en_BatchMax e))
           (\<lambda>formed. case formed of None \<Rightarrow> ret (Inr None)
              | Some b \<Rightarrow> on_ok (Build e b) (\<lambda>b. ret (Inr (Some b))))) (\<lambda>_. rows_ok J)" for lv
  proof (cases lv)
    case (Some b)
    then show ?thesis
      by (auto intro!: hoare_if hoare_ret hoare_weaken[OF build] simp: from_table_def)
  next
    case None
    have "hoare (\<lambda>w. rows_ok J w \<and> db_wf (w_db w)) (FormBatch (en_RepoID e) tb (en_BatchMax e))
        (\<lambda>r w. case r of Inl x \<Rightarrow> rows_ok J w | Inr f \<Rightarrow> from_table (Inr f) w)"
      by (rule hoare_post[OF FormBatch_row]) (auto simp: from_table_def split: sum.split)
    then have "hoare (\<lambda>w. rows_ok J w \<and> db_wf (w_db w))
        (on_ok (FormBatch (en_RepoID e) tb (en_BatchMax e))
           (\<lambda>formed. case formed of None \<Rightarrow> ret (Inr None)
              | Some b \<Rightarrow> on_ok (Build e b) (\<lambda>b. ret (Inr (Some b))))) (\<lambda>_. rows_ok J)"
    proof (rule hoare_on_ok)
      fix formed
      show "hoare (from_table (Inr formed)) (case formed of None \<Rightarrow> ret (Inr None)
              | Some b \<Rightarrow> on_ok (Build e b) (\<lambda>b. ret (Inr (Some b)))) (\<lambda>_. rows_ok J)"
        by (cases formed) (auto simp: build from_table_def[of "Inr None"] intro: hoare_ret)
    qed
    then show ?thesis unfolding None by (auto elim!: hoare_weaken simp: from_table_def)
  qed
qed

lemma known_rows:
  assumes "known J b w" "batch_rows_step w w'" "rows_ok J w'"
  shows "known J b w'"
proof -
  from assms(1) obtain row where row: "row \<in> set (d_batches (w_db w))" "same_batch row b"
    by (auto simp: known_def)
  from assms(2) have "list_all2 same_batch (d_batches (w_db w))
      (take (length (d_batches (w_db w))) (d_batches (w_db w')))"
    by (simp add: batch_rows_step_def rows_kept_def)
  with row(1) obtain row' where "row' \<in> set (d_batches (w_db w'))" "same_batch row row'"
    by (metis in_set_conv_nth in_set_takeD list_all2_conv_all_nth)
  with row(2) have "same_batch row' b" by (simp add: same_batch_def)
  with \<open>row' \<in> _\<close> assms(3) show ?thesis by (auto simp: known_def)
qed

lemma ReconcileLive_rows: "hoare (rows_ok J) (ReconcileLive (e :: 'f engine)) (\<lambda>_. rows_ok J)"
  unfolding ReconcileLive_def
proof (rule hoare_on_ok[where R = "\<lambda>bs w. rows_ok J w \<and> (\<forall>b \<in> set bs. known J b w \<and> ok_row J b)"])
  show "hoare (rows_ok J) (ListLiveBatches (en_RepoID e) :: ('f, batch list) go_err)
      (\<lambda>r w. case r of Inl x \<Rightarrow> rows_ok J w
        | Inr bs \<Rightarrow> rows_ok J w \<and> (\<forall>b \<in> set bs. known J b w \<and> ok_row J b))"
  proof (rule hoareI)
    fix w :: "'f world" and r w'
    assume ok: "rows_ok J w" and run: "run_state (ListLiveBatches (en_RepoID e)) w = (r, w')"
    have ok': "rows_ok J w'" using hoareD[OF frame_rows[OF frame.io_queue_reads(10)] ok run] .
    have "b \<in> set (d_batches (w_db w'))" if "r = Inr bs" "b \<in> set bs" for bs b
      using run[unfolded ListLiveBatches_def] that
      by (cases rule: exec_stmt_cases) (auto simp: sql_ListLiveBatchesByRepo_def)
    with ok' show "case r of Inl x \<Rightarrow> rows_ok J w'
        | Inr bs \<Rightarrow> rows_ok J w' \<and> (\<forall>b \<in> set bs. known J b w' \<and> ok_row J b)"
      by (auto simp: rows_ok_def stored_def intro: stored_known split: sum.split)
  qed
  fix bs
  let ?I = "\<lambda>w :: 'f world. rows_ok J w \<and> (\<forall>b \<in> set bs. known J b w \<and> ok_row J b)"
  have frm: "hoare ?I m (\<lambda>_. ?I)" if "state_io_rel same_batches m" for m :: "('f, 'a) go"
    using that by (rule hoare_frame) (auto intro: rows_ok_frame known_frame)
  have bld: "hoare ?I (warn_if_err (Build e b)) (\<lambda>_. ?I)" if b: "b \<in> set bs" for b
  proof (rule hoareI)
    fix w :: "'f world" and a w'
    assume I: "?I w" and run: "run_state (warn_if_err (Build e b)) w = (a, w')"
    from run obtain r where build: "run_state (Build e b) w = (r, w')"
      by (cases "run_state (Build e b) w") auto
    from I b have "ok_row J b" "known J b w" by auto
    from hoareD[OF Build_good[OF this(1)] this(2) build] have "rows_ok J w'" by (rule good_rows)
    moreover have "batch_rows_step w w'" using build rows.io_build(1) by (metis state_io_relD)
    ultimately show "?I w'" using I by (auto intro: known_rows)
  qed
  show "hoare ?I (do {
      for_each bs (\<lambda>b. case b_State b of
          BatchStateForming \<Rightarrow> warn_if_err (Build e b)
        | BatchStateTesting \<Rightarrow> do {
            entries \<leftarrow> entries_or_nil (b_CurrentIds b);
            for_each entries (\<lambda>ent. warn_if_err (SetMergeBranch (en_RepoID e) (qe_PrNumber ent)
              (text_string (b_BranchName b)) (text_string (b_BranchSha b)))) }
        | _ \<Rightarrow> ret ());
      ret (Inr ()) }) (\<lambda>_. rows_ok J)"
  proof (rule hoare_bind[OF hoare_for_each])
    fix b
    assume "b \<in> set bs"
    moreover have "hoare ?I (do {
            entries \<leftarrow> entries_or_nil (b_CurrentIds b);
            for_each entries (\<lambda>ent. warn_if_err (SetMergeBranch (en_RepoID e) (qe_PrNumber ent)
              (text_string (b_BranchName b)) (text_string (b_BranchSha b)))) }) (\<lambda>_. ?I)"
      by (rule hoare_frame) (auto intro!: io_intros frame.po frame.io_eject frame.io_queue
          intro: rows_ok_frame known_frame)
    ultimately show "hoare ?I (case b_State b of
          BatchStateForming \<Rightarrow> warn_if_err (Build e b)
        | BatchStateTesting \<Rightarrow> do {
            entries \<leftarrow> entries_or_nil (b_CurrentIds b);
            for_each entries (\<lambda>ent. warn_if_err (SetMergeBranch (en_RepoID e) (qe_PrNumber ent)
              (text_string (b_BranchName b)) (text_string (b_BranchSha b)))) }
        | _ \<Rightarrow> ret ()) (\<lambda>_. ?I)"
      by (cases "b_State b") (auto intro: bld hoare_ret)
  qed (auto intro: hoare_ret)
qed

end

subsection \<open>Removal of members, and the poll cycle\<close>

definition ledger_step :: "ledger_pred \<Rightarrow> 'f world \<Rightarrow> 'f world \<Rightarrow> bool" where
  "ledger_step J w w' \<longleftrightarrow> db_step w w' \<and> (rows_ok J w \<and> db_wf (w_db w) \<longrightarrow> rows_ok J w')"

definition keeps_ledger :: "(int \<Rightarrow> db \<Rightarrow> db) \<Rightarrow> bool" where
  "keeps_ledger g \<longleftrightarrow> keeps_batches g \<and> keeps_db g"

locale ledger_removal = ledger_inv +
  assumes J_remove: "J m l e c p \<Longrightarrow> J m l (e @ [i]) (filter (\<lambda>v. v \<noteq> i) c) (drop_id i p)"
begin

lemma OnMemberRemoved_rows: "hoare (rows_ok J) (OnMemberRemoved e i j) (\<lambda>_. rows_ok J)"
  unfolding OnMemberRemoved_def
proof (rule on_row[OF GetBatch_row])
  fix b
  assume "ok_row J b"
  then have ok: "ok_row J (remove_member j b)"
    by (simp add: ok_row_def remove_member_def J_remove)
  have same: "same_batch b (remove_member j b)" by (simp add: remove_member_def same_batch_def)
  have save: "hoare (stored J b) (SaveBatch (remove_member j b)) (good J b)"
    by (rule hoare_weaken[OF changed_good[OF SaveBatch_good[OF ok] same] stored_known])
  have nxt: "hoare (stored J b) (next_batch e (remove_member j b)) (good J b)"
    by (rule hoare_weaken[OF next_changed[OF ok same] stored_known])
  have rbd: "hoare (stored J b) (rebuild e (remove_member j b)) (good J b)"
    by (rule hoare_weaken[OF rebuild_changed[OF ok same] stored_known])
  show "hoare (stored J b) (case Some b of None \<Rightarrow> ret (Inr ())
      | Some b0 \<Rightarrow>
          if \<not> live b0 then ret (Inr ())
          else let wasCurrent = j \<in> set (b_CurrentIds b0); b = remove_member j b0 in
            if \<not> wasCurrent then on_ok (SaveBatch b) (\<lambda>_. ret (Inr ()))
            else if b_CurrentIds b = [] then on_ok (next_batch e b) (\<lambda>_. ret (Inr ()))
            else on_ok (rebuild e b) (\<lambda>_. ret (Inr ()))) (\<lambda>_. rows_ok J)"
    unfolding Let_def option.case
    by (intro hoare_if rows_after save nxt rbd ret_rows)
qed (auto intro: hoare_ret)

lemma ledger_stepI:
  assumes "state_io_rel db_step m" "hoare (\<lambda>w. rows_ok J w \<and> db_wf (w_db w)) m (\<lambda>_. rows_ok J)"
  shows "state_io_rel (ledger_step J) m"
proof (rule state_io_relI)
  fix w a w'
  assume "run_state m w = (a, w')"
  with assms show "ledger_step J w w'"
    by (auto simp: ledger_step_def dest: hoareD state_io_relD)
qed

lemma rows_weaken: "hoare (rows_ok J) m (\<lambda>_. rows_ok J) \<Longrightarrow>
    hoare (\<lambda>w. rows_ok J w \<and> db_wf (w_db w)) m (\<lambda>_. rows_ok J)"
  by (erule hoare_weaken) simp

lemma ledger_step_db: "keeps_ledger g \<Longrightarrow> ledger_step J w (w\<lparr>w_db := g (w_now w) (w_db w)\<rparr>)"
  using wf.P_db[of g w] by (auto simp: ledger_step_def keeps_ledger_def keeps_batches_def rows_ok_def)

end

sublocale ledger_removal \<subseteq> poll: check_effects "ledger_step J" keeps_ledger "\<lambda>_. True"
proof unfold_locales
  fix w w' :: "'a world"
  assume "ledger_step J w w'"
  then show "ledger_step J w (w'\<lparr>w_db := restore_tables (w_db w) (w_db w')\<rparr>)"
    using wf.P_rollback[of w w'] by (simp add: ledger_step_def rows_ok_def)
next
  fix e :: "'a engine" and tb
  show "state_io_rel (ledger_step J) (FormAndBuild e tb)"
    by (rule ledger_stepI[OF wf.io_engine(1) FormAndBuild_rows])
next
  fix e :: "'a engine" and i j
  show "state_io_rel (ledger_step J) (OnMemberRemoved e i j)"
    by (rule ledger_stepI[OF wf.io_engine_entry(2) rows_weaken[OF OnMemberRemoved_rows]])
next
  fix e :: "'a engine" and i
  show "state_io_rel (ledger_step J) (batch_HandleTimeout e i)"
    by (rule ledger_stepI[OF wf.io_engine_entry(1) rows_weaken[OF batch_HandleTimeout_rows]])
next
  fix e :: "'a engine" and ent ctx st u
  show "state_io_rel (ledger_step J) (HandleCheck e ent ctx st u)"
    by (rule ledger_stepI[OF wf.io_HandleCheck rows_weaken[OF HandleCheck_rows]])
next
  fix u v w :: "'a world"
  assume "ledger_step J u v" "ledger_step J v w"
  then show "ledger_step J u w" unfolding ledger_step_def using wf.P_trans[of u v w]
    by (auto simp: db_step_def)
qed (auto simp: keeps_ledger_def ledger_step_db
  intro: wf.ok_ClearChecks wf.ok_ClearMergeBranch wf.ok_DequeueAll wf.ok_DequeuePR wf.ok_EnqueuePR
    wf.ok_GetOrCreateRepo wf.ok_SaveCheckStatus wf.ok_UpdateEntryError wf.ok_UpdateEntryMergeBranch
    wf.ok_UpdateEntryState frame.ok_ClearChecks frame.ok_ClearMergeBranch frame.ok_DequeueAll
    frame.ok_DequeuePR frame.ok_EnqueuePR frame.ok_GetOrCreateRepo frame.ok_SaveCheckStatus
    frame.ok_UpdateEntryError frame.ok_UpdateEntryMergeBranch frame.ok_UpdateEntryState,
  auto simp: ledger_step_def rows_ok_def db_step_def)

subsection \<open>The two ledgers\<close>

text \<open>Exact accounting: no id is in two places, nor in one place twice.\<close>

definition exact_ledger :: ledger_pred where
  "exact_ledger m l e c p \<longleftrightarrow> distinct m \<and> mset (l @ e @ c @ concat p) \<subseteq># mset m"

text \<open>Disjointness: what is under test or pending is a distinct selection of the members that
  are neither landed nor ejected, and nothing lands twice.\<close>

definition disjoint_ledger :: ledger_pred where
  "disjoint_ledger m l e c p \<longleftrightarrow> distinct m \<and> mset (l @ c @ concat p) \<subseteq># mset m \<and>
     set (c @ concat p) \<inter> set e = {}"

lemma concat_butlast_last: "p \<noteq> [] \<Longrightarrow> mset (concat p) = mset (last p) + mset (concat (butlast p))"
  by (induction p) auto

lemma set_butlast_last: "p \<noteq> [] \<Longrightarrow> set (last p @ concat (butlast p)) = set (concat p)"
  by (induction p) auto

interpretation exact: ledger_inv exact_ledger
proof
  fix m l e c p gone c'
  assume "exact_ledger m l e c p" "mset (gone @ c') \<subseteq># mset c"
  then show "exact_ledger m l (e @ gone) c' p"
    by (auto simp: exact_ledger_def intro: subset_mset.order_trans[rotated]
        dest: subset_mset.add_left_mono[where c = "mset (l @ e @ concat p)"] simp: ac_simps)
next
  fix m l e c p n
  assume "exact_ledger m l e c p"
  moreover have "mset (take n c) + mset (drop n c) = mset c"
    by (metis append_take_drop_id mset_append)
  ultimately show "exact_ledger m l e (take n c) (p @ [drop n c])"
    by (simp add: exact_ledger_def ac_simps)
qed (auto simp: exact_ledger_def concat_butlast_last ac_simps
  intro: subset_mset.order_trans[rotated])

lemma distinct_sub: "mset xs \<subseteq># mset ys \<Longrightarrow> distinct ys \<Longrightarrow> distinct xs"
proof (rule distinct_count_atmost_1[THEN iffD2], intro allI)
  fix a
  assume sub: "mset xs \<subseteq># mset ys" and dist: "distinct ys"
  have "count (mset ys) a \<le> 1" using dist by (simp add: distinct_count_atmost_1)
  moreover have "count (mset xs) a \<le> count (mset ys) a" using sub by (rule mset_subset_eq_count)
  ultimately have "count (mset xs) a \<le> 1" by (rule order_trans[rotated])
  moreover have "count (mset xs) a = 0 \<longleftrightarrow> a \<notin> set xs" by (simp add: count_eq_zero_iff)
  ultimately show "count (mset xs) a = (if a \<in> set xs then 1 else 0)"
    by (cases "count (mset xs) a") auto
qed

lemma set_sub: "mset xs \<subseteq># mset ys \<Longrightarrow> set xs \<subseteq> set ys"
  by (metis set_mset_mono set_mset_mset)

lemma disjoint_build:
  assumes J: "disjoint_ledger m l e c p" and sub: "mset (gone @ c') \<subseteq># mset c"
  shows "disjoint_ledger m l (e @ gone) c' p"
proof -
  from J have all: "mset (l @ c @ concat p) \<subseteq># mset m" and m: "distinct m"
    and ce: "set (c @ concat p) \<inter> set e = {}" by (auto simp: disjoint_ledger_def)
  have dist: "distinct (l @ c @ concat p)" by (rule distinct_sub[OF all m])
  then have "distinct (gone @ c')" using distinct_sub[OF sub] by simp
  moreover have "set gone \<subseteq> set c" "set c' \<subseteq> set c" using set_sub[OF sub] by auto
  ultimately have "set (c' @ concat p) \<inter> set (e @ gone) = {}" using dist ce by auto
  moreover have "mset c' \<subseteq># mset c" using sub by (auto dest: mset_subset_eq_add_right[THEN subset_mset.order_trans])
  then have "mset (l @ c' @ concat p) \<subseteq># mset (l @ c @ concat p)" by simp
  then have "mset (l @ c' @ concat p) \<subseteq># mset m" using all by (rule subset_mset.order_trans)
  ultimately show ?thesis using m by (simp add: disjoint_ledger_def)
qed

lemma disjoint_remove:
  assumes J: "disjoint_ledger m l e c p"
  shows "disjoint_ledger m l (e @ [i]) (filter (\<lambda>v. v \<noteq> i) c) (drop_id i p)"
proof -
  have "mset (l @ filter (\<lambda>v. v \<noteq> i) c @ concat (drop_id i p)) \<subseteq># mset (l @ c @ concat p)"
    by (simp add: mset_drop_id subset_mset.add_mono)
  moreover have "mset (l @ c @ concat p) \<subseteq># mset m" using J by (simp add: disjoint_ledger_def)
  ultimately have "mset (l @ filter (\<lambda>v. v \<noteq> i) c @ concat (drop_id i p)) \<subseteq># mset m"
    by (rule subset_mset.order_trans)
  moreover have "set (concat (drop_id i p)) \<subseteq> set (concat p)"
    by (auto simp: drop_id_def)
  ultimately show ?thesis
    using J drop_id_notin[of i p] by (auto simp: disjoint_ledger_def)
qed

interpretation disjoint: ledger_removal disjoint_ledger
proof
  fix m l e c p n
  assume J: "disjoint_ledger m l e c p"
  have "mset (take n c) + mset (drop n c) = mset c"
    by (metis append_take_drop_id mset_append)
  moreover have "set (take n c) \<union> set (drop n c) = set c"
    by (metis append_take_drop_id set_append)
  ultimately show "disjoint_ledger m l e (take n c) (p @ [drop n c])"
    using J by (auto simp: disjoint_ledger_def ac_simps)
next
  fix m l e c p
  assume J: "disjoint_ledger m l e c p" and p: "p \<noteq> []"
  have "mset (l @ last p @ concat (butlast p)) \<subseteq># mset (l @ c @ concat p)"
    by (simp add: concat_butlast_last[OF p])
  moreover have "mset (l @ c @ concat p) \<subseteq># mset m" using J by (simp add: disjoint_ledger_def)
  ultimately have "mset (l @ last p @ concat (butlast p)) \<subseteq># mset m"
    by (rule subset_mset.order_trans)
  then show "disjoint_ledger m l e (last p) (butlast p)"
    using J set_butlast_last[OF p] by (auto simp: disjoint_ledger_def)
next
  fix m l e c p
  assume "disjoint_ledger m l e c p"
  then show "disjoint_ledger m (l @ c) e [] p" by (auto simp: disjoint_ledger_def ac_simps)
next
  fix m l e c p gone c'
  assume "disjoint_ledger m l e c p" "mset (gone @ c') \<subseteq># mset c"
  then show "disjoint_ledger m l (e @ gone) c' p" by (rule disjoint_build)
next
  fix m l e c p i
  assume "disjoint_ledger m l e c p"
  then show "disjoint_ledger m l (e @ [i]) (filter (\<lambda>v. v \<noteq> i) c) (drop_id i p)"
    by (rule disjoint_remove)
qed (auto simp: disjoint_ledger_def ac_simps)

end
