(* ===== verification/BatchProgress.thy ===== *)
theory BatchProgress
  imports BatchLedger
begin

text \<open>
  Why a batch ends: every verdict, a pass or a failure of the branch under test, makes the
  batch smaller. The potential counts \<open>2 n - 1\<close> for a slice of \<open>n\<close> ids, the number of builds
  it can still cause by bisection; a lost fast-forward race leaves it but uses up one of the
  retries. \<open>yields m R\<close> says that every row \<open>m\<close> returns satisfies \<open>R\<close>.
\<close>

definition weight :: "int list \<Rightarrow> nat" where
  "weight s = 2 * length s - 1"

definition pending_weight :: "string \<Rightarrow> nat" where
  "pending_weight p = sum_list (map weight (loadPending p))"

definition potential :: "batch \<Rightarrow> nat" where
  "potential b = weight (b_CurrentIds b) + pending_weight (b_Pending b)"

definition yields :: "('f, 'a) go_err \<Rightarrow> ('a \<Rightarrow> bool) \<Rightarrow> bool" where
  "yields m R \<longleftrightarrow> (\<forall>w. case fst (run_state m w) of Inl _ \<Rightarrow> True | Inr a \<Rightarrow> R a)"

named_theorems yields_intros

lemma yieldsD: "yields m R \<Longrightarrow> run_state m w = (Inr a, w') \<Longrightarrow> R a"
  unfolding yields_def by (metis fst_conv sum.simps(6))

lemma yields_weaken: "yields m R \<Longrightarrow> (\<And>a. R a \<Longrightarrow> R' a) \<Longrightarrow> yields m R'"
  by (fastforce simp: yields_def split: sum.splits)

lemma yields_ret [yields_intros]: "R a \<Longrightarrow> yields (ret (Inr a)) R"
  by (simp add: yields_def)

lemma yields_err [yields_intros]: "yields (ret (Inl x)) R"
  by (simp add: yields_def)

lemma yields_bind [yields_intros]: "(\<And>a. yields (f a) R) \<Longrightarrow> yields (State_Monad.bind m f) R"
  by (auto simp: yields_def split: prod.split)

lemma yields_bind_result:
  assumes "\<And>w. Q (fst (run_state m w))" "\<And>a. Q a \<Longrightarrow> yields (f a) R"
  shows "yields (State_Monad.bind m f) R"
  unfolding yields_def
proof
  fix w
  from assms(1)[of w] assms(2)[of "fst (run_state m w)"]
  show "case fst (run_state (State_Monad.bind m f) w) of Inl x \<Rightarrow> True | Inr a \<Rightarrow> R a"
    by (cases "run_state m w") (auto simp: yields_def)
qed

lemma yields_on_ok:
  assumes "yields m Q" "\<And>v. Q v \<Longrightarrow> yields (f v) R"
  shows "yields (on_ok m f) R"
  unfolding yields_def
proof
  fix w
  obtain r w' where run: "run_state m w = (r, w')" by fastforce
  show "case fst (run_state (on_ok m f) w) of Inl x \<Rightarrow> True | Inr a \<Rightarrow> R a"
  proof (cases r)
    case (Inr v)
    with run assms(1) have "yields (f v) R" by (auto intro: assms(2) dest: yieldsD)
    with run Inr show ?thesis by (simp add: yields_def)
  qed (simp add: run)
qed

lemma yields_on_ok_map:
  assumes "yields m Q" "\<And>v. Q v \<Longrightarrow> yields (f v) R"
  shows "yields (on_ok_map h m f) R"
  unfolding yields_def
proof
  fix w
  obtain r w' where run: "run_state m w = (r, w')" by fastforce
  show "case fst (run_state (on_ok_map h m f) w) of Inl x \<Rightarrow> True | Inr a \<Rightarrow> R a"
  proof (cases r)
    case (Inr v)
    with run assms(1) have "yields (f v) R" by (auto intro: assms(2) dest: yieldsD)
    with run Inr show ?thesis by (simp add: yields_def)
  qed (simp add: run)
qed

lemma yields_any: "yields m (\<lambda>_. True)"
  by (simp add: yields_def split: sum.split)

lemma yields_if [yields_intros]:
  "(c \<Longrightarrow> yields m R) \<Longrightarrow> (\<not> c \<Longrightarrow> yields n R) \<Longrightarrow> yields (if c then m else n) R"
  by simp

subsection \<open>Weights\<close>

lemma weight_Nil [simp]: "weight [] = 0"
  by (simp add: weight_def)

lemma weight_pos: "s \<noteq> [] \<Longrightarrow> 0 < weight s"
  by (cases s) (auto simp: weight_def)

lemma weight_mono: "length s \<le> length t \<Longrightarrow> weight s \<le> weight t"
  by (auto simp: weight_def)

lemma weight_split:
  assumes "length s \<noteq> 1" "s \<noteq> []"
  shows "weight (take (length s div 2) s) + weight (drop (length s div 2) s) < weight s"
proof -
  have "2 \<le> length s" using assms by (cases s) (auto simp: neq_Nil_conv Suc_le_eq)
  then have "1 \<le> length s div 2" "length s div 2 < length s" by auto
  then show ?thesis by (simp add: weight_def min_def)
qed

lemma pending_weight_bytes [simp]: "pending_weight (bytes p) = sum_list (map weight p)"
  by (simp add: pending_weight_def)

lemma pending_weight_Nil [simp]: "pending_weight [] = 0"
  by (simp add: pending_weight_def)

lemma pending_weight_pop:
  "loadPending q \<noteq> [] \<Longrightarrow> weight (last (loadPending q)) +
     sum_list (map weight (butlast (loadPending q))) = pending_weight q"
  by (cases "loadPending q" rule: rev_cases) (auto simp: pending_weight_def)

subsection \<open>Potential of the rows returned\<close>

text \<open>A row the engine hands back is under test with members, or finished with none left.\<close>

definition settled :: "batch \<Rightarrow> bool" where
  "settled b \<longleftrightarrow> (b_State b = BatchStateTesting \<and> b_CurrentIds b \<noteq> []) \<or>
     (b_State b = BatchStateDone \<and> b_CurrentIds b = [] \<and> loadPending (b_Pending b) = [])"

text \<open>The columns only \<open>HandlePass\<close> changes.\<close>

definition progress :: "batch \<Rightarrow> 32 word \<times> int list" where
  "progress b = (b_FfRetries b, b_LandedIds b)"

lemma progress_update [simp]:
  "progress (b\<lparr>b_CurrentIds := c\<rparr>) = progress b" "progress (b\<lparr>b_Pending := p\<rparr>) = progress b"
  "progress (b\<lparr>b_State := st\<rparr>) = progress b" "progress (b\<lparr>b_EjectedIds := x\<rparr>) = progress b"
  "progress (b\<lparr>b_BranchName := n\<rparr>) = progress b"
  "progress (b\<lparr>b_CurrentIds := c, b_Pending := p\<rparr>) = progress b"
  by (simp_all add: progress_def)

definition shrinks :: "nat \<Rightarrow> 32 word \<times> int list \<Rightarrow> batch \<Rightarrow> bool" where
  "shrinks n k b \<longleftrightarrow> potential b \<le> n \<and> progress b = k \<and> settled b"

lemma SaveBatch_yields:
  "yields (SaveBatch b) (\<lambda>b'. b_CurrentIds b' = b_CurrentIds b \<and>
     loadPending (b_Pending b') = loadPending (b_Pending b) \<and> progress b' = progress b \<and>
     b_State b' = b_State b)"
  unfolding yields_def
proof
  fix w
  obtain r w' where run: "run_state (SaveBatch b) w = (r, w')" by fastforce
  show "case fst (run_state (SaveBatch b) w) of Inl _ \<Rightarrow> True
      | Inr b' \<Rightarrow> b_CurrentIds b' = b_CurrentIds b \<and>
          loadPending (b_Pending b') = loadPending (b_Pending b) \<and> progress b' = progress b \<and>
          b_State b' = b_State b"
  proof (cases r)
    case (Inr b')
    from run[unfolded Inr] show ?thesis
      by (rule SaveBatch_ok) (use run Inr in \<open>auto simp: save_cols_def progress_def\<close>)
  qed (simp add: run)
qed

lemma shrinks_le: "shrinks m ff b \<Longrightarrow> m \<le> n \<Longrightarrow> shrinks n ff b"
  by (simp add: shrinks_def)

lemma rebuild_with_shrinks:
  assumes "\<And>b'. yields (bld b') (shrinks (potential b') (progress b'))"
  shows "yields (rebuild_with bld b) (shrinks (potential b) (progress b))"
  unfolding rebuild_with_def
proof (rule yields_on_ok[OF SaveBatch_yields])
  fix b' :: batch
  assume "b_CurrentIds b' = b_CurrentIds (b\<lparr>b_State := BatchStateForming\<rparr>) \<and>
    loadPending (b_Pending b') = loadPending (b_Pending (b\<lparr>b_State := BatchStateForming\<rparr>)) \<and>
    progress b' = progress (b\<lparr>b_State := BatchStateForming\<rparr>) \<and>
    b_State b' = b_State (b\<lparr>b_State := BatchStateForming\<rparr>)"
  then have "potential b' = potential b" "progress b' = progress b"
    by (simp_all add: potential_def pending_weight_def)
  with assms[of b'] show "yields (bld b') (shrinks (potential b) (progress b))" by simp
qed

lemma next_with_shrinks:
  assumes "\<And>b'. yields (rb b') (shrinks (potential b') (progress b'))"
  shows "yields (next_with rb e b) (shrinks (pending_weight (b_Pending b)) (progress b))"
proof (cases "loadPending (b_Pending b) = []")
  case False
  let ?b = "b\<lparr>b_CurrentIds := last (loadPending (b_Pending b)),
    b_Pending := bytes (butlast (loadPending (b_Pending b)))\<rparr>"
  have "potential ?b = pending_weight (b_Pending b)" "progress ?b = progress b"
    using pending_weight_pop[OF False] by (simp_all add: potential_def)
  with assms[of ?b] False show ?thesis by (simp add: next_with_def Let_def)
next
  case True
  then have zero: "pending_weight (b_Pending b) = 0" by (simp add: pending_weight_def)
  show ?thesis
    unfolding next_with_def Let_def
    using True zero
    by (auto intro!: yields_on_ok[OF SaveBatch_yields] yields_intros
        simp: shrinks_def settled_def progress_def potential_def pending_weight_def)
qed

lemma build_finish_shrinks:
  assumes "\<And>b'. yields (nxt b') (shrinks (pending_weight (b_Pending b')) (progress b'))"
    "length surv \<le> length (b_CurrentIds b)"
  shows "yields (build_finish nxt e br tip (b, surv, prev)) (shrinks (potential b) (progress b))"
proof (cases "surv = []")
  case True
  have "yields (nxt (b\<lparr>b_CurrentIds := []\<rparr>)) (shrinks (potential b) (progress b))"
    by (rule yields_weaken[OF assms(1)]) (auto simp: potential_def elim!: shrinks_le)
  with True show ?thesis by (simp add: build_finish_def Let_def entry_ids_def)
next
  case False
  have "weight (entry_ids surv) \<le> weight (b_CurrentIds b)"
    using assms(2) by (intro weight_mono) (simp add: entry_ids_def)
  with False show ?thesis
    by (auto simp: build_finish_def Let_def entry_ids_def shrinks_def settled_def progress_def potential_def pending_weight_def
        intro!: yields_bind yields_on_ok[OF SaveBatch_yields] yields_ret)
qed

lemma entries_yields: "yields (GetEntriesByIDs is) (\<lambda>es. length es \<le> length is)"
  unfolding yields_def
proof
  fix w
  obtain r w' where run: "run_state (GetEntriesByIDs is) w = (r, w')" by fastforce
  show "case fst (run_state (GetEntriesByIDs is) w) of Inl x \<Rightarrow> True | Inr es \<Rightarrow> length es \<le> length is"
  proof (cases r)
    case (Inr es)
    from GetEntriesByIDs_subseq[OF run[unfolded Inr]] have "length es \<le> length is"
      using list_emb_length by fastforce
    with run Inr show ?thesis by simp
  qed (simp add: run)
qed

lemma build_step_shrinks:
  assumes "\<And>b'. yields (nxt b') (shrinks (pending_weight (b_Pending b')) (progress b'))"
  shows "yields (build_step nxt e b) (shrinks (potential b) (progress b))"
proof -
  let ?b = "b\<lparr>b_BranchName := Some (batch_branch b)\<rparr>"
  have fin: "yields (State_Monad.bind (for_acc (zip es steps) (?b, [], 0) (build_one e))
      (build_finish nxt e (batch_branch b) tip)) (shrinks (potential b) (progress b))"
    if es: "length es \<le> length (b_CurrentIds b)" for es steps tip
  proof (rule yields_bind_result[where Q = "\<lambda>acc. \<exists>gone surv prev.
        acc = (?b\<lparr>b_EjectedIds := b_EjectedIds b @ gone\<rparr>, surv, prev) \<and> length surv \<le> length es"])
    fix w
    let ?xs = "zip es steps"
    have "length (filter (\<lambda>x. \<not> step_failed x) ?xs) \<le> length es"
      by (rule order_trans[OF length_filter_le]) simp
    then show "\<exists>gone surv prev. fst (run_state (for_acc ?xs (?b, [], 0) (build_one e)) w) =
        (?b\<lparr>b_EjectedIds := b_EjectedIds b @ gone\<rparr>, surv, prev) \<and> length surv \<le> length es"
      using fst_build_loop[of ?xs ?b "[]" 0 e w] by fastforce
  next
    fix acc
    assume "\<exists>gone (surv :: queue_entry list) (prev :: int). acc = (?b\<lparr>b_EjectedIds := b_EjectedIds b @ gone\<rparr>, surv, prev) \<and>
      length surv \<le> length es"
    then obtain gone and surv :: "queue_entry list" and prev :: int where acc: "acc = (?b\<lparr>b_EjectedIds := b_EjectedIds b @ gone\<rparr>, surv, prev)"
      and len: "length surv \<le> length es" by blast
    have "yields (build_finish nxt e (batch_branch b) tip (?b\<lparr>b_EjectedIds := b_EjectedIds b @ gone\<rparr>, surv, prev))
      (shrinks (potential (?b\<lparr>b_EjectedIds := b_EjectedIds b @ gone\<rparr>))
        (progress (?b\<lparr>b_EjectedIds := b_EjectedIds b @ gone\<rparr>)))"
      using len es by (intro build_finish_shrinks assms) simp
    then show "yields (build_finish nxt e (batch_branch b) tip acc) (shrinks (potential b) (progress b))"
      by (simp add: acc potential_def)
  qed
  show ?thesis
    unfolding build_step_def Let_def
    by (intro yields_bind yields_on_ok_map[OF entries_yields] yields_on_ok_map[OF yields_any])
      (auto intro: fin split: prod.split)
qed

lemma build_fuel_shrinks: "yields (build_fuel n e b) (shrinks (potential b) (progress b))"
proof (induction n arbitrary: b)
  case 0
  show ?case by (simp add: yields_err)
next
  case (Suc n)
  show ?case
    by simp (intro build_step_shrinks next_with_shrinks rebuild_with_shrinks Suc)
qed

lemma Build_shrinks: "yields (Build e b) (shrinks (potential b) (progress b))"
  unfolding Build_def by (rule build_fuel_shrinks)

lemma rebuild_shrinks: "yields (rebuild e b) (shrinks (potential b) (progress b))"
  unfolding rebuild_def by (rule rebuild_with_shrinks) (rule Build_shrinks)

lemma next_shrinks: "yields (next_batch e b) (shrinks (pending_weight (b_Pending b)) (progress b))"
  unfolding next_batch_def by (rule next_with_shrinks) (rule rebuild_shrinks)

subsection \<open>Verdicts\<close>

lemma pending_lt: "b_CurrentIds b \<noteq> [] \<Longrightarrow> pending_weight (b_Pending b) < potential b"
  by (simp add: potential_def weight_pos)

definition smaller :: "nat \<Rightarrow> 32 word \<times> int list \<Rightarrow> batch \<Rightarrow> bool" where
  "smaller n k b \<longleftrightarrow> potential b < n \<and> progress b = k \<and> settled b"

lemma next_smaller:
  assumes "pending_weight (b_Pending b) < n" "progress b = k"
  shows "yields (next_batch e b) (smaller n k)"
  by (rule yields_weaken[OF next_shrinks]) (use assms in \<open>auto simp: smaller_def shrinks_def\<close>)

lemma ejectCurrent_yields:
  assumes "\<And>gone. yields (f (b\<lparr>b_EjectedIds := gone, b_CurrentIds := []\<rparr>)) R"
  shows "yields (State_Monad.bind (ejectCurrent e st d c b) f) R"
  by (rule yields_bind_result[where
        Q = "\<lambda>b'. \<exists>gone. b' = b\<lparr>b_EjectedIds := gone, b_CurrentIds := []\<rparr>"])
    (use fst_ejectCurrent[of e st d c b] assms in blast)+

lemma HandleFail_smaller:
  assumes "b_State b = BatchStateTesting" "b_CurrentIds b \<noteq> []"
  shows "yields (HandleFail e b fc u) (smaller (potential b) (progress b))"
proof -
  let ?R = "smaller (potential b) (progress b)"
  note lt = pending_lt[OF assms(2)]
  have single: "yields (do {
        b \<leftarrow> (case es of [ent] \<Rightarrow> eject e CheckStateFailure d c ent b | _ \<Rightarrow> ret b);
        next_batch e (b\<lparr>b_CurrentIds := []\<rparr>) }) ?R" for es d c
  proof (rule yields_bind_result[where
        Q = "\<lambda>b'. b_Pending b' = b_Pending b \<and> progress b' = progress b"])
    fix w
    show "b_Pending (fst (run_state (case es of [ent] \<Rightarrow> eject e CheckStateFailure d c ent b | _ \<Rightarrow> ret b) w)) =
        b_Pending b \<and> progress (fst (run_state (case es of [ent] \<Rightarrow> eject e CheckStateFailure d c ent b
          | _ \<Rightarrow> ret b) w)) = progress b"
      by (simp add: progress_def split: list.split)
  qed (use lt in \<open>auto intro: next_smaller\<close>)
  have cap: "yields (State_Monad.bind (ejectCurrent e st d c
      (b\<lparr>b_CurrentIds := cur, b_Pending := []\<rparr>)) (next_batch e)) ?R" for st d c cur
    by (rule ejectCurrent_yields, rule next_smaller) (use lt in auto)
  have split: "yields (rebuild e (b\<lparr>b_Pending := bytes (loadPending (b_Pending b) @
      [drop (length (b_CurrentIds b) div 2) (b_CurrentIds b)]),
      b_CurrentIds := take (length (b_CurrentIds b) div 2) (b_CurrentIds b)\<rparr>)) ?R"
    if "length (b_CurrentIds b) \<noteq> 1"
    by (rule yields_weaken[OF rebuild_shrinks])
      (use weight_split[OF that assms(2)] in
        \<open>auto simp: smaller_def shrinks_def potential_def pending_weight_def[of "b_Pending b"]\<close>)
  show ?thesis
  proof (cases "length (b_CurrentIds b) = 1")
    case True
    with assms(1) show ?thesis by (simp add: HandleFail_def yields_bind single)
  next
    case False
    then show ?thesis
      using assms(1) cap split[OF False]
      by (auto simp: HandleFail_def split_ids_def Let_def intro!: yields_bind[where m = "warn_if_err _"])
  qed
qed

text \<open>What a verdict of success leads to, by the outcome \<open>pushed\<close> of the fast-forward.\<close>

definition pass_result :: "batch \<Rightarrow> error + unit \<Rightarrow> batch \<Rightarrow> bool" where
  "pass_result b pushed b' \<longleftrightarrow>
     (case pushed of
        Inr _ \<Rightarrow> smaller (potential b) (0, b_LandedIds b @ b_CurrentIds b) b'
      | Inl err \<Rightarrow>
          if errors_is err ErrNotFastForward then
            (if sint (b_FfRetries b + 1) < MaxFFRetries
             then shrinks (potential b) (b_FfRetries b + 1, b_LandedIds b) b'
             else smaller (potential b) (b_FfRetries b + 1, b_LandedIds b) b')
          else errors_as as_push_denied err \<noteq> None \<and> smaller (potential b) (progress b) b')"

definition pushed_result :: "'f engine \<Rightarrow> batch \<Rightarrow> 'f world \<Rightarrow> error + unit" where
  "pushed_result e b w = fst (run_state (f_FastForward (en_Forge e) (en_Owner e) (en_Repo e)
     (b_TargetBranch b) (text_string (b_BranchSha b))) (w_forge w))"

lemma forge_bind_result:
  assumes "run_state (State_Monad.bind (forge_do ow nm c m) k) w = (Inr a, w')"
    "\<And>r. yields (k r) (R r)"
  shows "R (fst (run_state m (w_forge w))) a"
  using assms(1) yieldsD[OF assms(2)] by (auto simp: run_forge_do)

lemma forge_bind_calls:
  assumes "run_state (State_Monad.bind (forge_do ow nm c m) k) w = (r, w')"
    "\<And>v. state_io_rel quiet_step (k v)"
  shows "\<exists>rest. w_calls w' = w_calls w @ (ow, nm, c) # rest \<and> (\<forall>c \<in> set rest. \<not> is_ff (snd (snd c)))"
  using assms(1) state_io_relD[OF assms(2)] by (fastforce simp: run_forge_do quiet_step_def)

lemma HandlePass_result:
  assumes "b_State b = BatchStateTesting" "b_CurrentIds b \<noteq> []"
    "run_state (HandlePass e b) w = (Inr b', w')"
  shows "pass_result b (pushed_result e b w) b'"
proof -
  note lt = pending_lt[OF assms(2)]
  have landed: "yields (next_batch e (b\<lparr>b_FfRetries := 0, b_LandedIds := b_LandedIds b @ b_CurrentIds b,
      b_CurrentIds := []\<rparr>)) (smaller (potential b) (0, b_LandedIds b @ b_CurrentIds b))"
    by (rule next_smaller) (use lt in \<open>auto simp: progress_def\<close>)
  have retry: "yields (rebuild e (b\<lparr>b_FfRetries := b_FfRetries b + 1\<rparr>))
      (shrinks (potential b) (b_FfRetries b + 1, b_LandedIds b))"
    by (rule yields_weaken[OF rebuild_shrinks]) (auto simp: potential_def progress_def)
  have raced: "yields (State_Monad.bind (ejectCurrent e st d c (b\<lparr>b_FfRetries := b_FfRetries b + 1\<rparr>))
      (next_batch e)) (smaller (potential b) (b_FfRetries b + 1, b_LandedIds b))" for st d c
    by (rule ejectCurrent_yields, rule next_smaller) (use lt in \<open>auto simp: progress_def\<close>)
  have denied: "yields (State_Monad.bind (ejectCurrent e st d c b) (next_batch e))
      (smaller (potential b) (progress b))" for st d c
    by (rule ejectCurrent_yields, rule next_smaller) (use lt in \<open>auto simp: progress_def\<close>)
  from assms(3) show ?thesis
    unfolding HandlePass_def Let_def assms(1) call_FastForward_def pushed_result_def
      simp_thms(6) not_True_eq_False if_False
    by (rule forge_bind_result)
      (use landed retry raced denied in \<open>auto simp: pass_result_def yields_err
        intro!: yields_bind[where m = "for_each _ _"] yields_on_ok[OF yields_any]
        split: sum.split option.split\<close>)
qed

subsection \<open>How many verdicts a batch takes\<close>

text \<open>
  One verdict on a row under test, in whatever state the database and the forge are: the
  measure \<open>verdicts_left\<close> decreases, so the number of verdicts is bounded by the size of the batch.
\<close>

inductive verdict :: "'f engine \<Rightarrow> batch \<Rightarrow> batch \<Rightarrow> bool" for e where
  pass: "b_State b = BatchStateTesting \<Longrightarrow> run_state (HandlePass e b) w = (Inr b', w') \<Longrightarrow> verdict e b b'"
| fail: "b_State b = BatchStateTesting \<Longrightarrow> run_state (HandleFail e b fc u) w = (Inr b', w') \<Longrightarrow>
    verdict e b b'"

inductive verdicts :: "'f engine \<Rightarrow> nat \<Rightarrow> batch \<Rightarrow> batch \<Rightarrow> bool" for e where
  none: "verdicts e 0 b b"
| more: "verdicts e n b b' \<Longrightarrow> verdict e b' b'' \<Longrightarrow> verdicts e (Suc n) b b''"

definition verdicts_left :: "batch \<Rightarrow> nat" where
  "verdicts_left b = 3 * potential b + nat (2 - sint (b_FfRetries b))"

text \<open>The retry counter has room: it never wraps around.\<close>

definition ff_room :: "batch \<Rightarrow> bool" where
  "ff_room b \<longleftrightarrow> 0 \<le> sint (b_FfRetries b) \<and> max 2 (sint (b_FfRetries b)) + int (potential b) < 2 ^ 31"

lemma sint_succ: "0 \<le> sint w \<Longrightarrow> sint w + 1 < 2 ^ 31 \<Longrightarrow> sint (w + 1) = sint (w :: 32 word) + 1"
  by (simp add: sint_word_ariths signed_take_bit_int_eq_self)

lemma pass_result_cases:
  "pass_result b pushed b' \<Longrightarrow> settled b' \<and>
     (potential b' < potential b \<and>
        (b_FfRetries b' = 0 \<or> b_FfRetries b' = b_FfRetries b \<or> b_FfRetries b' = b_FfRetries b + 1) \<or>
      potential b' \<le> potential b \<and> b_FfRetries b' = b_FfRetries b + 1 \<and>
        sint (b_FfRetries b + 1) < MaxFFRetries)"
  by (cases pushed)
    (auto simp: pass_result_def smaller_def shrinks_def progress_def split: if_splits)

lemma verdict_step:
  assumes "verdict e b b'" "settled b" "ff_room b"
  shows "settled b'" "ff_room b'" "verdicts_left b' < verdicts_left b"
proof -
  have cur: "b_CurrentIds b \<noteq> []" and test: "b_State b = BatchStateTesting"
    using assms(1,2) by (auto simp: settled_def elim: verdict.cases)
  have pos: "0 < potential b" using pending_lt[OF cur] by simp
  have succ: "sint (b_FfRetries b + 1) = sint (b_FfRetries b) + 1"
    by (rule sint_succ) (use assms(3) pos in \<open>auto simp: ff_room_def\<close>)
  from assms(1) have "settled b' \<and>
     (potential b' < potential b \<and>
        (b_FfRetries b' = 0 \<or> b_FfRetries b' = b_FfRetries b \<or> b_FfRetries b' = b_FfRetries b + 1) \<or>
      potential b' \<le> potential b \<and> b_FfRetries b' = b_FfRetries b + 1 \<and>
        sint (b_FfRetries b + 1) < MaxFFRetries)"
  proof cases
    case (pass w w')
    from pass_result_cases[OF HandlePass_result[OF test cur pass(2)]] show ?thesis .
  next
    case (fail w fc u w')
    from yieldsD[OF HandleFail_smaller[OF test cur] fail(2)] show ?thesis
      by (auto simp: smaller_def progress_def)
  qed
  then show "settled b'" "ff_room b'" "verdicts_left b' < verdicts_left b"
    using assms(3) succ by (auto simp: ff_room_def verdicts_left_def MaxFFRetries_def)
qed

lemma verdicts_steps:
  assumes "verdicts e n b b'" "settled b" "ff_room b"
  shows "settled b' \<and> ff_room b' \<and> n + verdicts_left b' \<le> verdicts_left b"
  using assms
proof (induction rule: verdicts.induct)
  case (more n b b' b'')
  then show ?case using verdict_step[OF more(2)] by fastforce
qed simp

end
