(* ===== verification/BatchTested.thy ===== *)
theory BatchTested
  imports BatchLedger
begin

text \<open>
  What a batch that \<open>Build\<close> leaves under test consists of: the commit that was stacked for its
  current slice, on its own target branch, and exactly the members whose merge succeeded.
\<close>

definition stacked_for :: "'f engine \<Rightarrow> batch \<Rightarrow> bool" where
  "stacked_for e b \<longleftrightarrow> (\<exists>ids es branch sha steps. \<exists>(v0 :: 'f world) v1 w0 w1.
     run_state (GetEntriesByIDs ids) v0 = (Inr es, v1) \<and>
     run_state (stack e (b_TargetBranch b) (map qe_PrHeadSha es) branch) w0 = (Inr (sha, steps), w1) \<and>
     b_BranchName b = Some branch \<and> b_BranchSha b = Some sha \<and> b_CurrentIds b \<noteq> [] \<and>
     b_CurrentIds b = map (qe_ID \<circ> fst) (filter (\<lambda>x. \<not> step_failed x) (zip es steps)))"

definition target_known :: "int \<Rightarrow> string \<Rightarrow> 'f world \<Rightarrow> bool" where
  "target_known i tb w \<longleftrightarrow> (\<forall>row \<in> set (d_batches (w_db w)). b_ID row = i \<longrightarrow> b_TargetBranch row = tb)"

definition tested :: "'f engine \<Rightarrow> int \<Rightarrow> string \<Rightarrow> error + batch \<Rightarrow> 'f world \<Rightarrow> bool" where
  "tested e i tb r w \<longleftrightarrow> target_known i tb w \<and> (case r of Inl _ \<Rightarrow> True | Inr b \<Rightarrow>
     b_ID b = i \<and> b_TargetBranch b = tb \<and> (b_State b = BatchStateTesting \<longrightarrow> stacked_for e b))"

lemma frame_target: "state_io_rel same_batches m \<Longrightarrow> hoare (target_known i tb) m (\<lambda>_. target_known i tb)"
  by (rule hoare_frame) (auto simp: target_known_def same_batches_def)

lemma frame_tested: "state_io_rel same_batches m \<Longrightarrow> hoare (tested e i tb r) m (\<lambda>_. tested e i tb r)"
  by (rule hoare_frame) (auto simp: tested_def target_known_def same_batches_def)

lemma tested_Inl: "target_known i tb w \<Longrightarrow> tested e i tb (Inl x) w"
  by (simp add: tested_def)

lemma tested_cases:
  "hoare P m (tested e i tb) \<Longrightarrow>
     hoare P m (\<lambda>r w. case r of Inl x \<Rightarrow> tested e i tb (Inl x) w | Inr b' \<Rightarrow> tested e i tb (Inr b') w)"
  by (erule hoare_post) (auto split: sum.split)

text \<open>Saving keeps the id and the target branch of a row; the saved batch is what was stacked if
  the batch handed in is, which is all that matters of one saved as under test.\<close>

lemma SaveBatch_tested:
  fixes e :: "'f engine"
  assumes b: "b_ID b = i" "b_TargetBranch b = tb" "b_State b = BatchStateTesting \<Longrightarrow> stacked_for e b"
  shows "hoare (target_known i tb) (SaveBatch b) (tested e i tb)"
proof (rule hoareI)
  fix w :: "'f world" and r w'
  assume known: "target_known i tb w" and run: "run_state (SaveBatch b) w = (r, w')"
  show "tested e i tb r w'"
  proof (cases r)
    case (Inl x)
    with run have "same_batches w w'"
      unfolding SaveBatch_def
      by (cases rule: exec_stmt_cases)
        (auto simp: same_batches_def sql_SaveBatch_def Let_def split: option.splits if_splits)
    with known Inl show ?thesis by (simp add: tested_def target_known_def same_batches_def)
  next
    case (Inr b')
    let ?b = "b\<lparr>b_Pending := (if b_Pending b = [] then ''[]'' else b_Pending b)\<rparr>"
    from run[unfolded Inr] obtain row where row: "List.find (\<lambda>r. b_ID r = b_ID b) (d_batches (w_db w)) = Some row"
      and b': "b' = save_cols ?b row"
      and upd: "d_batches (w_db w') = update_where (\<lambda>r. b_ID r = b_ID b) (save_cols ?b) (d_batches (w_db w))"
      by (rule SaveBatch_ok)
    from find_SomeD[OF row] have "row \<in> set (d_batches (w_db w))" "b_ID row = i" using b(1) by auto
    with known have "b_TargetBranch row = tb" by (simp add: target_known_def)
    with \<open>b_ID row = i\<close> have f: "b_ID b' = i" "b_TargetBranch b' = tb" "b_State b' = b_State b"
      "b_BranchName b' = b_BranchName b" "b_BranchSha b' = b_BranchSha b" "b_CurrentIds b' = b_CurrentIds b"
      by (simp_all add: b' save_cols_def)
    have "b_State b' = BatchStateTesting \<Longrightarrow> stacked_for e b'"
      using b f unfolding stacked_for_def by metis
    moreover have "target_known i tb w'"
      using known by (auto simp: target_known_def upd set_update_where save_cols_def split: if_splits)
    ultimately show ?thesis using Inr f by (simp add: tested_def)
  qed
qed

lemma rebuild_with_tested:
  assumes b: "b_ID b = i" "b_TargetBranch b = tb"
    and bld: "\<And>b'. b_ID b' = i \<Longrightarrow> b_TargetBranch b' = tb \<Longrightarrow> hoare (target_known i tb) (bld b') (tested e i tb)"
  shows "hoare (target_known i tb) (rebuild_with bld b) (tested e i tb)"
  unfolding rebuild_with_def
proof (rule hoare_on_ok[where R = "tested e i tb \<circ> Inr"])
  show "hoare (target_known i tb) (SaveBatch (b\<lparr>b_State := BatchStateForming\<rparr>))
      (\<lambda>r w. case r of Inl x \<Rightarrow> tested e i tb (Inl x) w | Inr b' \<Rightarrow> (tested e i tb \<circ> Inr) b' w)"
    unfolding comp_def using b by (intro tested_cases SaveBatch_tested) auto
  show "hoare ((tested e i tb \<circ> Inr) b') (bld b') (tested e i tb)" for b'
  proof (cases "b_ID b' = i \<and> b_TargetBranch b' = tb")
    case True
    then show ?thesis by (intro hoare_weaken[OF bld]) (auto simp: tested_def)
  next
    case False
    then show ?thesis by (auto simp: hoare_def tested_def)
  qed
qed

lemma next_with_tested:
  assumes b: "b_ID b = i" "b_TargetBranch b = tb"
    and rb: "\<And>b'. b_ID b' = i \<Longrightarrow> b_TargetBranch b' = tb \<Longrightarrow> hoare (target_known i tb) (rb b') (tested e i tb)"
  shows "hoare (target_known i tb) (next_with rb e b) (tested e i tb)"
proof (cases "loadPending (b_Pending b) = []")
  case False
  with b rb show ?thesis by (simp add: next_with_def Let_def)
next
  case True
  let ?b = "b\<lparr>b_Flaky := (b_EjectedIds b = [] \<and> sint (b_Builds b) > 1 \<and>
      length (b_LandedIds b) = length (b_MemberIds b)),
    b_State := BatchStateDone, b_CurrentIds := []\<rparr>"
  show ?thesis
    unfolding next_with_def Let_def True if_False not_True_eq_False simp_thms(6)
  proof (rule hoare_on_ok[where R = "\<lambda>b' w. tested e i tb (Inr b') w"])
    show "hoare (target_known i tb) (SaveBatch ?b)
        (\<lambda>r w. case r of Inl x \<Rightarrow> tested e i tb (Inl x) w | Inr b' \<Rightarrow> tested e i tb (Inr b') w)"
      using b by (intro tested_cases SaveBatch_tested) auto
    show "hoare (tested e i tb (Inr b')) (do {
        warn_if_err (call_DeleteBranch (en_Forge e) (en_Owner e) (en_Repo e) (text_string (b_BranchName b')));
        (if en_Advance e then set_trigger (en_RepoID e) else ret ());
        ret (Inr b') }) (tested e i tb)" for b'
      by (intro hoare_intros; (rule frame_tested, intro io_intros frame.po frame.io_calls
            frame.io_trigger)?; assumption?)
  qed
qed

lemma build_finish_tested:
  fixes e :: "'f engine" and v0 v1 w0 w1 :: "'f world"
  assumes b: "b_ID b = i" "b_TargetBranch b = tb" "b_BranchName b = Some br"
    and stk: "run_state (GetEntriesByIDs ids) v0 = (Inr es, v1)"
      "run_state (stack e tb (map qe_PrHeadSha es) br) w0 = (Inr (sha, steps), w1)"
      "surv = map fst (filter (\<lambda>x. \<not> step_failed x) (zip es steps))"
    and nxt: "\<And>b'. b_ID b' = i \<Longrightarrow> b_TargetBranch b' = tb \<Longrightarrow> hoare (target_known i tb) (nxt b') (tested e i tb)"
  shows "hoare (target_known i tb) (build_finish nxt e br sha (b, surv, prev)) (tested e i tb)"
proof (cases "surv = []")
  case True
  with b nxt show ?thesis by (simp add: build_finish_def Let_def)
next
  case False
  let ?b = "\<lambda>now. b\<lparr>b_CurrentIds := entry_ids surv, b_BranchSha := Some sha,
    b_State := BatchStateTesting, b_TestingStartedAt := Some now, b_Builds := b_Builds b + 1\<rparr>"
  have "entry_ids surv = map (qe_ID \<circ> fst) (filter (\<lambda>x. \<not> step_failed x) (zip es steps))" "entry_ids surv \<noteq> []"
    using False by (simp_all add: stk(3) entry_ids_def)
  then have "stacked_for e (?b now)" for now
    unfolding stacked_for_def using stk(1,2) b by simp blast
  then have save: "hoare (target_known i tb) (SaveBatch (?b now)) (tested e i tb)" for now
    using b by (intro SaveBatch_tested) auto
  have "hoare (target_known i tb) (do {
      now \<leftarrow> go_now;
      on_ok (SaveBatch (?b now)) (\<lambda>b. do {
        for_each surv (route_entry e br sha first (desc b));
        warn_if_err (ClearCheckStatuses (b_CurrentIds b));
        ret (Inr b) }) }) (tested e i tb)" for first desc
    by (rule hoare_bind[OF frame_target[OF frame.io_now]], rule hoare_on_ok[OF tested_cases[OF save]],
        rule hoare_bind[OF frame_tested], intro io_intros frame.po frame.io_eject frame.io_queue,
        rule hoare_bind[OF frame_tested], intro io_intros frame.po frame.io_eject frame.io_queue,
        rule hoare_ret)
  with False show ?thesis by (simp add: build_finish_def Let_def)
qed

lemma build_step_tested:
  fixes nxt :: "batch \<Rightarrow> ('f, batch) go_err"
  assumes b: "b_ID b = i" "b_TargetBranch b = tb"
    and nxt: "\<And>b'. b_ID b' = i \<Longrightarrow> b_TargetBranch b' = tb \<Longrightarrow> hoare (target_known i tb) (nxt b') (tested e i tb)"
  shows "hoare (target_known i tb) (build_step nxt e b) (tested e i tb)"
proof -
  let ?br = "batch_branch b" and ?K = "target_known i tb"
  let ?b = "b\<lparr>b_BranchName := Some ?br\<rparr>"
  have fin: "hoare ?K (State_Monad.bind (for_acc (zip es steps) (?b, [], 0) (build_one e)) (build_finish nxt e ?br sha))
      (tested e i tb)"
    if stk: "run_state (GetEntriesByIDs ids) v0 = (Inr es, v1)"
      "run_state (stack e tb (map qe_PrHeadSha es) ?br) w0 = (Inr (sha, steps), w1)"
    for ids es sha steps and v0 v1 w0 w1 :: "'f world"
  proof (rule hoareI)
    fix w :: "'f world" and r w'
    assume K: "?K w" and run: "run_state (State_Monad.bind (for_acc (zip es steps) (?b, [], 0) (build_one e))
        (build_finish nxt e ?br sha)) w = (r, w')"
    obtain acc v where loop: "run_state (for_acc (zip es steps) (?b, [], 0) (build_one e)) w = (acc, v)" by fastforce
    with fst_build_loop[of "zip es steps" ?b "[]" 0 e w] obtain gone prev where acc:
      "acc = (?b\<lparr>b_EjectedIds := b_EjectedIds b @ gone\<rparr>, map fst (filter (\<lambda>x. \<not> step_failed x) (zip es steps)), prev)"
      by auto
    have "hoare ?K (for_acc (zip es steps) (?b, [], 0) (build_one e)) (\<lambda>_. ?K)"
      by (rule frame_target) (intro io_intros frame.po frame.io_eject)
    from hoareD[OF this K loop] have "?K v" .
    moreover from run loop have "run_state (build_finish nxt e ?br sha acc) v = (r, w')" by simp
    moreover have "hoare ?K (build_finish nxt e ?br sha acc) (tested e i tb)"
      unfolding acc by (rule build_finish_tested[OF _ _ _ stk refl nxt]) (use b in auto)
    ultimately show "tested e i tb r w'" by (blast dest: hoareD)
  qed
  have rest: "hoare ?K (on_ok_map (Wrap ''build batch branch'')
      (stack e (b_TargetBranch ?b) (map qe_PrHeadSha es) ?br)
      (\<lambda>(sha, steps). State_Monad.bind (for_acc (zip es steps) (?b, [], 0) (build_one e))
         (build_finish nxt e ?br sha))) (tested e i tb)"
    if "run_state (GetEntriesByIDs ids) v0 = (Inr es, v1)" for ids es and v0 v1 :: "'f world"
  proof (rule hoareI)
    fix w :: "'f world" and r w'
    assume K: "?K w" and run: "run_state (on_ok_map (Wrap ''build batch branch'')
      (stack e (b_TargetBranch ?b) (map qe_PrHeadSha es) ?br)
      (\<lambda>(sha, steps). State_Monad.bind (for_acc (zip es steps) (?b, [], 0) (build_one e))
         (build_finish nxt e ?br sha))) w = (r, w')"
    obtain a v where stk: "run_state (stack e tb (map qe_PrHeadSha es) ?br) w = (a, v)" by fastforce
    have K': "?K v" using hoareD[OF frame_target[OF frame.io_stack] K stk] .
    show "tested e i tb r w'"
    proof (cases a)
      case (Inl x)
      with run stk b K' show ?thesis by (auto simp: tested_Inl)
    next
      case (Inr y)
      obtain sha steps where "a = Inr (sha, steps)" using Inr by (cases y) auto
      with run stk b hoareD[OF fin[OF that stk[unfolded this]] K'] show ?thesis by auto
    qed
  qed
  show ?thesis
    unfolding build_step_def Let_def
  proof (rule hoare_bind[OF frame_target], intro io_intros frame.io_calls frame.po, rule hoareI)
    fix w :: "'f world" and r w'
    assume K: "?K w" and run: "run_state (on_ok_map (Wrap ''load batch members'') (GetEntriesByIDs (b_CurrentIds ?b))
        (\<lambda>es. on_ok_map (Wrap ''build batch branch'') (stack e (b_TargetBranch ?b) (map qe_PrHeadSha es) ?br)
          (\<lambda>(sha, steps). State_Monad.bind (for_acc (zip es steps) (?b, [], 0) (build_one e))
             (build_finish nxt e ?br sha)))) w = (r, w')"
    obtain a v where get: "run_state (GetEntriesByIDs (b_CurrentIds ?b)) w = (a, v)" by fastforce
    have K': "?K v" using hoareD[OF frame_target[OF frame.io_queue_reads(11)] K get] .
    show "tested e i tb r w'"
    proof (cases a)
      case (Inl x)
      with run get K' show ?thesis by (auto simp: tested_Inl)
    next
      case (Inr es)
      from run get Inr show ?thesis using hoareD[OF rest[OF get[unfolded Inr]] K'] by simp
    qed
  qed
qed

lemma build_fuel_tested:
  "b_ID b = i \<Longrightarrow> b_TargetBranch b = tb \<Longrightarrow> hoare (target_known i tb) (build_fuel n e b) (tested e i tb)"
proof (induction n arbitrary: b)
  case 0
  show ?case by (auto intro: hoare_ret tested_Inl)
next
  case (Suc n)
  show ?case
    unfolding build_fuel.simps
    by (intro build_step_tested Suc.prems next_with_tested rebuild_with_tested Suc.IH)
qed

lemmas Build_tested = build_fuel_tested[where n = "Suc (length (loadPending (b_Pending b)))" and b = b for b,
  folded Build_def]

end
