(* ===== verification/BatchProps.thy ===== *)
theory BatchProps
  imports BatchProgress BatchTested Fixtures
begin

text \<open>
  The properties of the batch engine. The concrete batch of the witnesses is the one the
  engine forms of the two queued pull requests of \<open>demo_world\<close>.
\<close>

definition demo_testing :: "unit world" where
  "demo_testing = snd (run_state (FormAndBuild demo_engine ''main'') demo_world)"

definition demo_batch :: batch where
  "demo_batch = hd (d_batches (w_db demo_testing))"



subsection \<open>Building\<close>

text \<open>C22. The recursion of Build, next and rebuild terminates, and the fuel of the model is no
  bound of the program: Build satisfies the recursive equation of the source, and every larger
  fuel computes the same.\<close>

theorem build_equation:
  "Build e b = build_step (next_batch e) e b \<and>
   (\<forall>n. build_fuel (Suc (length (loadPending (b_Pending b)) + n)) e b = Build e b)"
  using Build_eq Build_fuel by blast




lemma demo_pass: "\<not> isl (fst (run_state (HandlePass demo_engine demo_batch) demo_testing))"
  by code_simp


subsection \<open>Verdicts\<close>

lemma HandlePass_calls:
  fixes e :: "'f engine"
  assumes "b_State b = BatchStateTesting" "run_state (HandlePass e b) w = (r, w')"
  shows "\<exists>rest. w_calls w' = w_calls w @ (en_Owner e, en_Repo e,
       CallFastForward (b_TargetBranch b) (text_string (b_BranchSha b))) # rest \<and>
       (\<forall>c \<in> set rest. \<not> is_ff (snd (snd c)))"
proof -
  have quiet: "state_io_rel quiet_step (ejectCurrent e st d c x)"
    "state_io_rel quiet_step (land_entry e sha i ent)" "state_io_rel quiet_step (rebuild e x)"
    "state_io_rel quiet_step (next_batch e x)" "state_io_rel quiet_step (GetEntriesByIDs is :: ('f, queue_entry list) go_err)"
    for st d c x sha i ent "is"
    by (rule quiet.io_eject quiet.io_build quiet.io_queue_reads)+
  show "\<exists>rest. w_calls w' = w_calls w @ (en_Owner e, en_Repo e,
       CallFastForward (b_TargetBranch b) (text_string (b_BranchSha b))) # rest \<and>
       (\<forall>c \<in> set rest. \<not> is_ff (snd (snd c)))"
    using assms(2) unfolding HandlePass_def Let_def assms(1) call_FastForward_def
      simp_thms(6) not_True_eq_False if_False
    by (rule forge_bind_calls) (intro io_intros quiet.po quiet)
qed

text \<open>C6. A verdict of success. The first thing that happens is one fast-forward of the target
  branch to the commit under test, and no other fast-forward follows. If the push succeeds,
  exactly the slice under test is added to the landed members and the retry counter is reset;
  if the target moved, nothing lands, the counter is incremented, and the slice is rebuilt
  until the third time, when it is dropped; if the push is denied it is dropped at once. Every
  row returned is under test or done, and smaller unless it is the rebuilt one.\<close>

theorem handle_pass_spec:
  assumes "b_State b = BatchStateTesting" "b_CurrentIds b \<noteq> []"
    "run_state (HandlePass e b) w = (r, w')"
  shows "(\<exists>rest. w_calls w' = w_calls w @ (en_Owner e, en_Repo e,
       CallFastForward (b_TargetBranch b) (text_string (b_BranchSha b))) # rest \<and>
       (\<forall>c \<in> set rest. \<not> is_ff (snd (snd c)))) \<and>
    (case r of Inl _ \<Rightarrow> True | Inr b' \<Rightarrow> settled b' \<and>
      (case pushed_result e b w of
         Inr _ \<Rightarrow> b_LandedIds b' = b_LandedIds b @ b_CurrentIds b \<and> b_FfRetries b' = 0 \<and>
           potential b' < potential b
       | Inl err \<Rightarrow> b_LandedIds b' = b_LandedIds b \<and>
           (if errors_is err ErrNotFastForward then b_FfRetries b' = b_FfRetries b + 1 \<and>
              (if sint (b_FfRetries b + 1) < MaxFFRetries then potential b' \<le> potential b
               else potential b' < potential b)
            else errors_as as_push_denied err \<noteq> None \<and> b_FfRetries b' = b_FfRetries b \<and>
              potential b' < potential b)))"
proof -
  note calls = HandlePass_calls[OF assms(1,3)]
  show ?thesis
  proof (cases r)
    case (Inr b')
    from HandlePass_result[OF assms(1,2) assms(3)[unfolded Inr]] calls Inr show ?thesis
      by (auto simp: pass_result_def smaller_def shrinks_def progress_def split: sum.splits if_splits)
  qed (simp add: calls)
qed

theorem handle_pass_spec_witness:
  "\<exists>b' w'. run_state (HandlePass demo_engine demo_batch) demo_testing = (Inr b', w') \<and>
     b_LandedIds b' = [1, 2] \<and> settled b'"
proof -
  obtain b' w' where pass: "run_state (HandlePass demo_engine demo_batch) demo_testing = (Inr b', w')"
    using demo_pass by (rule run_Inr)
  have "b_State demo_batch = BatchStateTesting" "b_CurrentIds demo_batch = [1, 2]"
    "b_LandedIds demo_batch = []" "pushed_result demo_engine demo_batch demo_testing = Inr ()"
    by code_simp+
  with handle_pass_spec[OF _ _ pass] pass show ?thesis by auto
qed

text \<open>C7. A verdict of failure never pushes and never counts a member as landed; the row it
  returns is under test or done and strictly smaller than before, so every failure makes
  progress: the single member is ejected, the limit of builds ejects the rest, and any other
  slice is split.\<close>

theorem handle_fail_spec:
  assumes "b_State b = BatchStateTesting" "b_CurrentIds b \<noteq> []"
    "run_state (HandleFail e b check url) w = (r, w')"
  shows "(\<exists>rest. w_calls w' = w_calls w @ rest \<and> (\<forall>c \<in> set rest. \<not> is_ff (snd (snd c)))) \<and>
    (case r of Inl _ \<Rightarrow> True | Inr b' \<Rightarrow> settled b' \<and> potential b' < potential b \<and>
       b_LandedIds b' = b_LandedIds b \<and> b_FfRetries b' = b_FfRetries b)"
proof -
  have "quiet_step w w'" using quiet.io_engine(2) assms(3) by (rule state_io_relD)
  moreover have "smaller (potential b) (progress b) b'" if "r = Inr b'" for b'
    using yieldsD[OF HandleFail_smaller[OF assms(1,2)]] assms(3) that by blast
  ultimately show ?thesis by (auto simp: quiet_step_def smaller_def progress_def split: sum.split)
qed

theorem handle_fail_spec_witness:
  "\<exists>b' w'. run_state (HandleFail demo_engine demo_batch ''ci'' []) demo_testing = (Inr b', w') \<and>
     settled b' \<and> potential b' < 3 \<and> b_LandedIds b' = []"
proof -
  have "\<not> isl (fst (run_state (HandleFail demo_engine demo_batch ''ci'' []) demo_testing))" by code_simp
  then obtain b' w' where run: "run_state (HandleFail demo_engine demo_batch ''ci'' []) demo_testing = (Inr b', w')"
    by (rule run_Inr)
  have "b_State demo_batch = BatchStateTesting" "b_CurrentIds demo_batch = [1, 2]"
    "b_LandedIds demo_batch = []" "potential demo_batch = 3"
    by code_simp+
  with handle_fail_spec[OF _ _ run] run show ?thesis by auto
qed

subsection \<open>Check reports\<close>

lemma GetBatch_some:
  assumes "run_state (GetBatch i) w = (Inr (Some b), w')"
  shows "b \<in> set (d_batches (w_db w)) \<and> b_ID b = i \<and> w_db w' = w_db w \<and> w_calls w' = w_calls w \<and>
    w_now w' = w_now w \<and> w_forge w' = w_forge w"
proof -
  from assms have run: "run_state (exec_stmt (sql_GetBatch i)) w = (Inr b, w')"
    by (auto simp: GetBatch_def nil_if_no_rows_def split: prod.splits sum.splits if_splits)
  then show ?thesis
    by (cases rule: exec_stmt_cases)
      (auto simp: sql_GetBatch_def one_row_def split: list.splits dest!: filter_eq_ConsD)
qed

text \<open>The table of check statuses once the report has been recorded.\<close>

definition recorded :: "'f world \<Rightarrow> queue_entry \<Rightarrow> string \<Rightarrow> check_state \<Rightarrow> string \<Rightarrow> check_status list" where
  "recorded w ent ctx st url = filter (\<lambda>c. cs_QueueEntryID c = qe_ID ent)
     (d_checks (snd (sql_SaveCheckStatus (qe_ID ent) ctx st url (w_now w) (w_db w))))"

text \<open>The required checks of the target branch of a batch, as \<open>ResolveRequiredChecks\<close> finds
  them in the world \<open>w\<close>.\<close>

definition required_at :: "'f engine \<Rightarrow> batch \<Rightarrow> 'f world \<Rightarrow> error + string list" where
  "required_at e b w = fst (run_state (ResolveRequiredChecks (en_Forge e) (en_Owner e) (en_Repo e)
     (b_TargetBranch b) (en_FallbackChecks e)) w)"

lemma required_at_forge: "w_forge v = w_forge w \<Longrightarrow> required_at e b v = required_at e b w"
  by (simp add: required_at_def ResolveRequiredChecks_def call_GetRequiredChecks_def run_forge_do
      split: sum.splits)

lemma check_tail:
  fixes e :: "'f engine"
  assumes "run_state (on_ok (SaveCheckStatus (qe_ID ent) ctx st url)
      (\<lambda>_. on_ok (ResolveRequiredChecks (en_Forge e) (en_Owner e) (en_Repo e)
          (b_TargetBranch b) (en_FallbackChecks e))
        (\<lambda>required. on_ok (GetCheckStatuses (qe_ID ent)) (\<lambda>statuses. k statuses required)))) w = (r, w')"
  shows "quiet_step w w' \<or> (\<exists>required w2 :: 'f world. quiet_step w w2 \<and> required_at e b w = Inr required \<and>
    run_state (k (recorded w ent ctx st url) required) w2 = (r, w'))"
proof -
  obtain r1 w1 where save: "run_state (SaveCheckStatus (qe_ID ent) ctx st url) w = (r1, w1)" by fastforce
  have q1: "quiet_step w w1" using quiet.io_queue(7) save by (metis state_io_relD)
  show ?thesis
  proof (cases r1)
    case (Inl x)
    with save assms q1 show ?thesis by simp
  next
    case (Inr u)
    from save[unfolded Inr SaveCheckStatus_def]
    have db1: "w_db w1 = snd (sql_SaveCheckStatus (qe_ID ent) ctx st url (w_now w) (w_db w))"
      and forge1: "w_forge w1 = w_forge w"
      by (cases rule: exec_stmt_cases; auto)+
    obtain r2 w2 where res: "run_state (ResolveRequiredChecks (en_Forge e) (en_Owner e) (en_Repo e)
        (b_TargetBranch b) (en_FallbackChecks e)) w1 = (r2, w2)" by fastforce
    then have "required_at e b w1 = r2" by (simp add: required_at_def)
    then have r2: "required_at e b w = r2" using required_at_forge[OF forge1, of e b] by simp
    have q2: "quiet_step w w2"
      using quiet.io_ResolveRequiredChecks res q1 by (metis state_io_relD quiet_trans)
    have db2: "w_db w2 = w_db w1"
      using res by (auto simp: ResolveRequiredChecks_def call_GetRequiredChecks_def run_forge_do
          split: sum.splits)
    show ?thesis
    proof (cases r2)
      case (Inl x)
      with save assms res Inr q2 show ?thesis by simp
    next
      case (Inr required)
      obtain r3 w3 where get: "run_state (GetCheckStatuses (qe_ID ent) :: ('f, check_status list) go_err) w2 = (r3, w3)"
        by fastforce
      have q3: "quiet_step w w3"
        using quiet.io_queue_reads(5) get q2 by (metis state_io_relD quiet_trans)
      show ?thesis
      proof (cases r3)
        case (Inl x)
        with save assms res Inr \<open>r1 = Inr u\<close> get q3 show ?thesis by simp
      next
        case (Inr statuses)
        from get[unfolded Inr GetCheckStatuses_def]
        have "statuses = recorded w ent ctx st url"
          by (cases rule: exec_stmt_cases) (auto simp: sql_GetCheckStatuses_def recorded_def db2 db1)
        with save assms res \<open>r2 = Inr required\<close> \<open>r1 = Inr u\<close> get Inr q3 r2 show ?thesis by auto
      qed
    qed
  qed
qed

text \<open>What follows the evaluation: only a success lands something, the commit under test.\<close>

definition on_verdict ::
  "'f engine \<Rightarrow> batch \<Rightarrow> check_status list \<Rightarrow> string list \<Rightarrow> ('f, unit) go_err" where
  "on_verdict e b statuses required = (case EvaluateChecks statuses required of
       (CheckSuccess, _, _) \<Rightarrow> on_ok (HandlePass e b) (\<lambda>_. ret (Inr ()))
     | (CheckFailure, fc, fu) \<Rightarrow> on_ok (HandleFail e b fc fu) (\<lambda>_. ret (Inr ()))
     | (CheckWaiting, _, _) \<Rightarrow> do {
         now \<leftarrow> go_now;
         if TimedOut now b (en_CheckTimeout e)
         then on_ok (HandleFail e b ''timeout'' []) (\<lambda>_. ret (Inr ()))
         else ret (Inr ()) })"

abbreviation lands_commit :: "'f engine \<Rightarrow> batch \<Rightarrow> string \<times> string \<times> forge_call" where
  "lands_commit e b \<equiv>
     (en_Owner e, en_Repo e, CallFastForward (b_TargetBranch b) (text_string (b_BranchSha b)))"

lemma on_verdict_lands:
  fixes e :: "'f engine"
  assumes "run_state (on_verdict e b statuses required) w = (r, w')" "b_State b = BatchStateTesting"
  shows "quiet_step w w' \<or> fst (EvaluateChecks statuses required) = CheckSuccess \<and>
    (\<exists>post. w_calls w' = w_calls w @ lands_commit e b # post \<and>
       (\<forall>c \<in> set post. \<not> is_ff (snd (snd c))))"
proof -
  obtain res fc fu where ev: "EvaluateChecks statuses required = (res, fc, fu)"
    by (metis prod.exhaust)
  show ?thesis
  proof (cases "res = CheckSuccess")
    case True
    with assms(1) ev obtain r2 where "run_state (HandlePass e b) w = (r2, w')"
      by (auto simp: on_verdict_def split: prod.splits sum.splits)
    from HandlePass_calls[OF assms(2) this] ev True show ?thesis by auto
  next
    case False
    have fail: "state_io_rel quiet_step (on_ok (HandleFail e b c u) (\<lambda>_. ret (Inr ()) :: ('f, unit) go_err))" for c u
      by (intro io_intros quiet.po quiet.io_engine)
    have "state_io_rel quiet_step (on_verdict e b statuses required)"
      using False ev
      by (cases res) (auto simp: on_verdict_def intro!: io_intros fail quiet.po quiet.io_now)
    with assms(1) show ?thesis by (blast dest: state_io_relD)
  qed
qed

text \<open>The way to an evaluation: the batch of the entry is stored and under test, at the commit of
  the entry.\<close>

lemma HandleCheck_cases:
  fixes e :: "'f engine"
  assumes run: "run_state (HandleCheck e ent ctx st url) w = (r, w')"
  obtains "quiet_step w w'"
  | b required and v :: "'f world" where
      "b \<in> set (d_batches (w_db w))" "b_ID b = int8_int64 (qe_ActiveBatchID ent)"
      "b_State b = BatchStateTesting" "qe_MergeBranchSha ent = Some (text_string (b_BranchSha b))"
      "required_at e b w = Inr required" "quiet_step w v"
      "run_state (on_verdict e b (recorded w ent ctx st url) required) v = (r, w')"
proof -
  obtain got w1 where get: "run_state (GetBatch (int8_int64 (qe_ActiveBatchID ent)) :: ('f, batch option) go_err) w = (got, w1)"
    by fastforce
  have q1: "quiet_step w w1" using quiet.io_queue_reads(9) get by (metis state_io_relD)
  define fits where "fits b \<longleftrightarrow> b_State b = BatchStateTesting \<and> qe_MergeBranchSha ent \<noteq> None \<and>
    text_string (qe_MergeBranchSha ent) = text_string (b_BranchSha b)" for b :: batch
  show thesis
  proof (cases "\<exists>b. got = Inr (Some b) \<and> fits b")
    case False
    have "quiet_step w w'"
      using False run get q1
      by (cases got) (auto simp: HandleCheck_def fits_def split: option.splits if_splits)
    then show thesis by (rule that(1))
  next
    case True
    then obtain b where b: "got = Inr (Some b)" "fits b" by blast
    note got = GetBatch_some[OF get[unfolded b(1)]]
    have tail: "run_state (on_ok (SaveCheckStatus (qe_ID ent) ctx st url)
      (\<lambda>_. on_ok (ResolveRequiredChecks (en_Forge e) (en_Owner e) (en_Repo e)
          (b_TargetBranch b) (en_FallbackChecks e))
        (\<lambda>required. on_ok (GetCheckStatuses (qe_ID ent)) (\<lambda>statuses. on_verdict e b statuses required)))) w1 = (r, w')"
      using run get b
      by (auto simp: HandleCheck_def on_verdict_def fits_def run_on_ok[where m = "GetBatch i" for i] simp del: run_on_ok)
    have rec: "recorded w1 ent ctx st url = recorded w ent ctx st url"
      using got by (simp add: recorded_def)
    have req: "required_at e b w1 = required_at e b w" by (rule required_at_forge) (use got in simp)
    have sha: "qe_MergeBranchSha ent = Some (text_string (b_BranchSha b))" "b_State b = BatchStateTesting"
      using b(2) by (auto simp: fits_def text_string_def split: option.splits)
    from check_tail[OF tail] consider "quiet_step w1 w'" | required and w2 :: "'f world" where
      "quiet_step w1 w2" "run_state (on_verdict e b (recorded w ent ctx st url) required) w2 = (r, w')"
      "required_at e b w = Inr required"
      unfolding rec req by blast
    then show thesis
    proof cases
      case 1
      show thesis by (rule that(1)[OF quiet_trans[OF q1 1]])
    next
      case 2
      show thesis
        by (rule that(2)[OF _ _ sha(2,1) 2(3) quiet_trans[OF q1 2(1)] 2(2)]) (simp_all add: got)
    qed
  qed
qed

text \<open>C1. What a check report can do to the target branch. It lands nothing, or it lands, with
  a single fast-forward, the commit of a stored batch that is under test, whose commit is the
  one the report is about, and only if the checks required of its target branch (those the forge
  answers at that moment, or the configured ones when it requires none) evaluate to success on the
  statuses recorded for the representative entry including this report.\<close>

theorem check_lands_only_tested:
  fixes e :: "'f engine"
  shows "case run_state (HandleCheck e ent ctx st url) w of (r, w') \<Rightarrow>
    quiet_step w w' \<or>
    (\<exists>b \<in> set (d_batches (w_db w)). \<exists>required pre post.
       b_ID b = int8_int64 (qe_ActiveBatchID ent) \<and> b_State b = BatchStateTesting \<and>
       qe_MergeBranchSha ent = Some (text_string (b_BranchSha b)) \<and>
       required_at e b w = Inr required \<and>
       fst (EvaluateChecks (recorded w ent ctx st url) required) = CheckSuccess \<and>
       w_calls w' = w_calls w @ pre @ (en_Owner e, en_Repo e,
         CallFastForward (b_TargetBranch b) (text_string (b_BranchSha b))) # post \<and>
       (\<forall>c \<in> set (pre @ post). \<not> is_ff (snd (snd c))))"
proof -
  obtain r w' where run: "run_state (HandleCheck e ent ctx st url) w = (r, w')" by fastforce
  then show ?thesis
  proof (cases rule: HandleCheck_cases)
    case 1
    with run show ?thesis by simp
  next
    case (2 b required v)
    from on_verdict_lands[OF 2(7,3)] show ?thesis
    proof (elim disjE conjE exE)
      assume "quiet_step v w'"
      with 2(6) run show ?thesis by (auto intro: quiet_trans)
    next
      fix post
      assume post: "fst (EvaluateChecks (recorded w ent ctx st url) required) = CheckSuccess"
        "w_calls w' = w_calls v @ lands_commit e b # post" "\<forall>c \<in> set post. \<not> is_ff (snd (snd c))"
      from 2(6) obtain pre where "w_calls v = w_calls w @ pre" "\<forall>c \<in> set pre. \<not> is_ff (snd (snd c))"
        by (auto simp: quiet_step_def)
      with post have "w_calls w' = w_calls w @ pre @ lands_commit e b # post"
        "\<forall>c \<in> set (pre @ post). \<not> is_ff (snd (snd c))" by auto
      with 2(1-5) post(1) run show ?thesis by (simp only: prod.case) blast
    qed
  qed
qed

definition demo_member :: queue_entry where
  "demo_member = hd (d_entries (w_db demo_testing))"

definition demo_reported :: "unit world" where
  "demo_reported = snd (run_state (HandleCheck demo_engine demo_member ''ci'' CheckStateSuccess []) demo_testing)"

lemma quiet_filter: "quiet_step w w' \<Longrightarrow> filter (\<lambda>c. is_ff (snd (snd c))) (w_calls w) = [] \<Longrightarrow>
    filter (\<lambda>c. is_ff (snd (snd c))) (w_calls w') = []"
  unfolding quiet_step_def filter_empty_conv by fastforce

theorem check_lands_only_tested_witness:
  "\<exists>b \<in> set (d_batches (w_db demo_testing)). b_State b = BatchStateTesting \<and>
     (''org'', ''app'', CallFastForward (b_TargetBranch b) (text_string (b_BranchSha b)))
       \<in> set (w_calls demo_reported)"
proof -
  have names: "en_Owner demo_engine = ''org''" "en_Repo demo_engine = ''app''"
    by (simp_all add: demo_engine_def)
  have "filter (\<lambda>c. is_ff (snd (snd c))) (w_calls demo_testing) = []"
    "filter (\<lambda>c. is_ff (snd (snd c))) (w_calls demo_reported) \<noteq> []"
    by code_simp+
  then have "\<not> quiet_step demo_testing demo_reported" using quiet_filter by blast
  with check_lands_only_tested[where e = demo_engine and ent = demo_member and ctx = "''ci''" and
      st = CheckStateSuccess and url = "[]" and w = demo_testing]
  show ?thesis
    unfolding names by (auto simp: demo_reported_def split: prod.splits)
qed

end
