(* ===== verification/Json.thy ===== *)
theory Json
  imports GoStrings
begin

text \<open>
  \<open>encoding/json\<close> as far as the program uses it: the values, \<open>Marshal\<close>, and the reader behind
  \<open>Unmarshal\<close> and \<open>Decoder.Decode\<close>, a push-down machine that consumes one token per step
  and refuses more than 10000 open brackets, like Go's scanner. \<open>field\<close>s give the decoding of
  a struct. Input bytes from 0x80 on are passed through; Go replaces invalid UTF-8 by U+FFFD,
  and its case folding of field names also knows two non-ASCII letters.
\<close>

datatype json =
    JNull
  | JBool bool
  | JNum string
  | JStr string
  | JArr "json list"
  | JObj "(string \<times> json) list"

subsection \<open>Strings\<close>

abbreviation (input) quote_mark :: char where
  "quote_mark \<equiv> CHR 0x22"

abbreviation (input) backslash :: char where
  "backslash \<equiv> CHR 0x5C"

abbreviation byte :: "char \<Rightarrow> nat" where
  "byte c \<equiv> of_char c"

definition hex_char :: "nat \<Rightarrow> char" where
  "hex_char n = (if n < 10 then char_of (48 + n) else char_of (87 + n))"

definition hex_val :: "char \<Rightarrow> nat option" where
  "hex_val c =
     (if 48 \<le> byte c \<and> byte c \<le> 57 then Some (byte c - 48)
      else if 97 \<le> byte c \<and> byte c \<le> 102 then Some (byte c - 87)
      else if 65 \<le> byte c \<and> byte c \<le> 70 then Some (byte c - 55)
      else None)"

fun hex4 :: "string \<Rightarrow> (nat \<times> string) option" where
  "hex4 (a # b # c # d # r) =
     (case (hex_val a, hex_val b, hex_val c, hex_val d) of
        (Some x, Some y, Some z, Some w) \<Rightarrow> Some (((x * 16 + y) * 16 + z) * 16 + w, r)
      | _ \<Rightarrow> None)"
| "hex4 _ = None"

definition utf8 :: "nat \<Rightarrow> string" where
  "utf8 u =
     (if u < 0x80 then [char_of u]
      else if u < 0x800 then [char_of (0xC0 + u div 64), char_of (0x80 + u mod 64)]
      else if u < 0x10000 then
        [char_of (0xE0 + u div 4096), char_of (0x80 + u div 64 mod 64), char_of (0x80 + u mod 64)]
      else [char_of (0xF0 + u div 262144), char_of (0x80 + u div 4096 mod 64),
            char_of (0x80 + u div 64 mod 64), char_of (0x80 + u mod 64)])"

text \<open>What follows \<open>\u\<close>: a surrogate pair is one rune, a lone surrogate U+FFFD.\<close>

definition unescape_u :: "string \<Rightarrow> (string \<times> string) option" where
  "unescape_u s =
     (case hex4 s of
        None \<Rightarrow> None
      | Some (u, r) \<Rightarrow>
          if 0xD800 \<le> u \<and> u < 0xE000 then
            (case (if prefix [backslash, CHR ''u''] r then hex4 (drop 2 r) else None) of
               Some (v, r') \<Rightarrow>
                 if u < 0xDC00 \<and> 0xDC00 \<le> v \<and> v < 0xE000
                 then Some (utf8 (0x10000 + (u - 0xD800) * 1024 + (v - 0xDC00)), r')
                 else Some (utf8 0xFFFD, r)
             | None \<Rightarrow> Some (utf8 0xFFFD, r))
          else Some (utf8 u, r))"

fun unescape :: "string \<Rightarrow> (string \<times> string) option" where
  "unescape [] = None"
| "unescape (c # cs) =
     (if c \<in> {quote_mark, backslash, CHR ''/''} then Some ([c], cs)
      else if c = CHR ''b'' then Some ([CHR 0x08], cs)
      else if c = CHR ''f'' then Some ([CHR 0x0C], cs)
      else if c = CHR ''n'' then Some ([CHR 0x0A], cs)
      else if c = CHR ''r'' then Some ([CHR 0x0D], cs)
      else if c = CHR ''t'' then Some ([CHR 0x09], cs)
      else if c = CHR ''u'' then unescape_u cs
      else None)"

lemma hex4_shorter: "hex4 s = Some (u, r) \<Longrightarrow> length r < length s"
  by (induction s rule: hex4.induct) (auto split: option.splits)

lemma unescape_u_shorter: "unescape_u s = Some (b, r) \<Longrightarrow> length r < length s"
  by (auto simp: unescape_u_def dest!: hex4_shorter split: option.splits if_splits prod.splits)

lemma unescape_shorter: "unescape s = Some (b, r) \<Longrightarrow> length r < length s"
  by (cases s) (auto dest: unescape_u_shorter split: if_splits)

text \<open>The rest of a string literal after the opening quote.\<close>

function lex_str :: "string \<Rightarrow> (string \<times> string) option" where
  "lex_str [] = None"
| "lex_str (c # cs) =
     (if c = quote_mark then Some ([], cs)
      else if byte c < 32 then None
      else if c = backslash then
        (case unescape cs of
           None \<Rightarrow> None
         | Some (b, r) \<Rightarrow> map_option (\<lambda>(t, r'). (b @ t, r')) (lex_str r))
      else map_option (\<lambda>(t, r). (c # t, r)) (lex_str cs))"
  by pat_completeness auto
termination
  by (relation "measure length") (auto dest: unescape_shorter)

declare lex_str.simps(2) [simp del]

lemma lex_str_shorter: "lex_str s = Some (t, r) \<Longrightarrow> length r < length s"
proof (induction s arbitrary: t r rule: lex_str.induct)
  case (2 c cs)
  have esc: "length r < length (c # cs)" if "unescape cs = Some (b, q)" "lex_str q = Some (u, r)"
    "c \<noteq> quote_mark" "\<not> byte c < 32" "c = backslash" for b q u
    using 2(1)[OF that(3,4,5,1) refl that(2)] unescape_shorter[OF that(1)] by simp
  have plain: "length r < length (c # cs)" if "lex_str cs = Some (u, r)"
    "c \<noteq> quote_mark" "\<not> byte c < 32" "c \<noteq> backslash" for u
    using 2(2)[OF that(2,3,4,1)] by simp
  from 2(3) consider "r = cs" | u where "lex_str cs = Some (u, r)" "c \<noteq> quote_mark"
      "\<not> byte c < 32" "c \<noteq> backslash"
    | b q u where "unescape cs = Some (b, q)" "lex_str q = Some (u, r)"
      "c \<noteq> quote_mark" "\<not> byte c < 32" "c = backslash"
    unfolding lex_str.simps(2) by (auto split: if_splits option.splits)
  then show ?case by cases (simp, rule plain, assumption+, rule esc, assumption+)
qed simp

subsection \<open>Tokens\<close>

datatype jtoken = TLBrace | TRBrace | TLBrack | TRBrack | TComma | TColon | TScalar json

definition json_space :: "char \<Rightarrow> bool" where
  "json_space c \<longleftrightarrow> c \<in> {CHR '' '', CHR 0x09, CHR 0x0A, CHR 0x0D}"

definition is_digit :: "char \<Rightarrow> bool" where
  "is_digit c \<longleftrightarrow> 48 \<le> byte c \<and> byte c \<le> 57"

definition digits :: "string \<Rightarrow> bool" where
  "digits s \<longleftrightarrow> s \<noteq> [] \<and> (\<forall>c \<in> set s. is_digit c)"

text \<open>\<open>-? (0 | [1-9][0-9]* ) (. [0-9]+)? ([eE] [+-]? [0-9]+)?\<close>\<close>

definition exp_ok :: "string \<Rightarrow> bool" where
  "exp_ok s = (case s of [] \<Rightarrow> True
     | c # r \<Rightarrow> c \<in> {CHR ''e'', CHR ''E''} \<and>
         (case r of d # r' \<Rightarrow> if d \<in> {CHR ''+'', CHR ''-''} then digits r' else digits r | [] \<Rightarrow> False))"

definition frac_ok :: "string \<Rightarrow> bool" where
  "frac_ok s = (case s of
       [] \<Rightarrow> True
     | c # r \<Rightarrow> if c = CHR ''.'' then takeWhile is_digit r \<noteq> [] \<and> exp_ok (dropWhile is_digit r)
                else exp_ok s)"

definition num_ok :: "string \<Rightarrow> bool" where
  "num_ok s =
     (let t = (if prefix ''-'' s then tl s else s); i = takeWhile is_digit t in
      i \<noteq> [] \<and> (hd i = CHR ''0'' \<longrightarrow> i = ''0'') \<and> frac_ok (dropWhile is_digit t))"

definition number_char :: "char \<Rightarrow> bool" where
  "number_char c \<longleftrightarrow> is_digit c \<or> c \<in> {CHR ''-'', CHR ''+'', CHR ''.'', CHR ''e'', CHR ''E''}"

definition lex_num :: "string \<Rightarrow> (jtoken \<times> string) option" where
  "lex_num s = (let n = takeWhile number_char s in
     if num_ok n then Some (TScalar (JNum n), dropWhile number_char s) else None)"

definition punct :: "char \<Rightarrow> jtoken option" where
  "punct c =
     (if c = CHR ''{'' then Some TLBrace else if c = CHR ''}'' then Some TRBrace
      else if c = CHR ''['' then Some TLBrack else if c = CHR '']'' then Some TRBrack
      else if c = CHR '','' then Some TComma else if c = CHR '':'' then Some TColon else None)"

fun next_token :: "string \<Rightarrow> (jtoken \<times> string) option" where
  "next_token [] = None"
| "next_token (c # cs) =
     (if json_space c then next_token cs
      else case punct c of
        Some t \<Rightarrow> Some (t, cs)
      | None \<Rightarrow>
          if c = quote_mark then map_option (\<lambda>(t, r). (TScalar (JStr t), r)) (lex_str cs)
          else if prefix ''true'' (c # cs) then Some (TScalar (JBool True), drop 4 (c # cs))
          else if prefix ''false'' (c # cs) then Some (TScalar (JBool False), drop 5 (c # cs))
          else if prefix ''null'' (c # cs) then Some (TScalar JNull, drop 4 (c # cs))
          else lex_num (c # cs))"

lemma num_ok_nonempty: "num_ok n \<Longrightarrow> n \<noteq> []"
  by (auto simp: num_ok_def Let_def prefix_def)

lemma next_token_shorter: "next_token s = Some (t, r) \<Longrightarrow> length r < length s"
proof (induction s)
  case (Cons c cs)
  have "length r < length (c # cs)" if "lex_num (c # cs) = Some (t, r)"
  proof -
    from that have "num_ok (takeWhile number_char (c # cs))" and r: "r = dropWhile number_char (c # cs)"
      by (auto simp: lex_num_def Let_def split: if_splits)
    then have "number_char c" using num_ok_nonempty by (auto split: if_splits)
    then show ?thesis using length_dropWhile_le[of number_char cs] by (simp add: r)
  qed
  with Cons show ?case
    by (auto split: if_splits option.splits dest: lex_str_shorter)
qed simp

subsection \<open>Reading\<close>

datatype frame = FArr "json list" | FObj "(string \<times> json) list" | FKey "(string \<times> json) list" string

datatype mode = Value | ValueOrEnd | KeyOrEnd | Key | Colon string | After json

definition max_depth :: nat where
  "max_depth = 10000"

text \<open>One step of the machine: the next token, the mode and the open brackets.\<close>

definition machine :: "mode \<Rightarrow> frame list \<Rightarrow> jtoken \<Rightarrow> (mode \<times> frame list) option" where
  "machine m st t =
     (let value = (case t of
          TScalar v \<Rightarrow> Some (After v, st)
        | TLBrack \<Rightarrow> if length st < max_depth then Some (ValueOrEnd, FArr [] # st) else None
        | TLBrace \<Rightarrow> if length st < max_depth then Some (KeyOrEnd, FObj [] # st) else None
        | _ \<Rightarrow> None);
        key = (case t of TScalar (JStr k) \<Rightarrow> Some (Colon k, st) | _ \<Rightarrow> None)
      in case m of
        Value \<Rightarrow> value
      | ValueOrEnd \<Rightarrow> (case (t, st) of (TRBrack, FArr vs # st') \<Rightarrow> Some (After (JArr vs), st') | _ \<Rightarrow> value)
      | KeyOrEnd \<Rightarrow> (case (t, st) of (TRBrace, FObj kvs # st') \<Rightarrow> Some (After (JObj kvs), st') | _ \<Rightarrow> key)
      | Key \<Rightarrow> key
      | Colon k \<Rightarrow> (case (t, st) of (TColon, FObj kvs # st') \<Rightarrow> Some (Value, FKey kvs k # st') | _ \<Rightarrow> None)
      | After v \<Rightarrow> (case (t, st) of
            (TComma, FArr vs # st') \<Rightarrow> Some (Value, FArr (vs @ [v]) # st')
          | (TRBrack, FArr vs # st') \<Rightarrow> Some (After (JArr (vs @ [v])), st')
          | (TComma, FKey kvs k # st') \<Rightarrow> Some (Key, FObj (kvs @ [(k, v)]) # st')
          | (TRBrace, FKey kvs k # st') \<Rightarrow> Some (After (JObj (kvs @ [(k, v)])), st')
          | _ \<Rightarrow> None))"

function read_value :: "mode \<Rightarrow> frame list \<Rightarrow> string \<Rightarrow> (json \<times> string) option" where
  "read_value m st s =
     (case (m, st) of
        (After v, []) \<Rightarrow> Some (v, s)
      | _ \<Rightarrow> (case next_token s of
            None \<Rightarrow> None
          | Some (t, r) \<Rightarrow> (case machine m st t of None \<Rightarrow> None | Some (m', st') \<Rightarrow> read_value m' st' r)))"
  by pat_completeness auto
termination
  by (relation "measure (\<lambda>(_, _, s). length s)") (auto dest: next_token_shorter)

declare read_value.simps [simp del]

text \<open>\<open>Decoder.Decode\<close> reads one value and ignores what follows, \<open>Unmarshal\<close> allows only space.\<close>

definition json_decode :: "string \<Rightarrow> json option" where
  "json_decode s = map_option fst (read_value Value [] s)"

definition json_parse :: "string \<Rightarrow> json option" where
  "json_parse s = (case read_value Value [] s of
     Some (v, r) \<Rightarrow> if list_all json_space r then Some v else None | None \<Rightarrow> None)"

subsection \<open>Decoding structs\<close>

text \<open>
  A decoder takes the JSON value and the Go value it is decoded into, and returns the new value
  and whether it met a value of a wrong type. \<open>null\<close> leaves strings, numbers, booleans and
  structs as they are.
\<close>

type_synonym 'a decoder = "json \<Rightarrow> 'a \<Rightarrow> 'a \<times> bool"

definition dec_string :: "string decoder" where
  "dec_string v x = (case v of JStr s \<Rightarrow> (s, True) | JNull \<Rightarrow> (x, True) | _ \<Rightarrow> (x, False))"

definition dec_bool :: "bool decoder" where
  "dec_bool v x = (case v of JBool b \<Rightarrow> (b, True) | JNull \<Rightarrow> (x, True) | _ \<Rightarrow> (x, False))"

definition dec_int64 :: "int decoder" where
  "dec_int64 v x = (case v of
      JNum n \<Rightarrow> (case parse_int64 n of Some i \<Rightarrow> (i, True) | None \<Rightarrow> (x, False))
    | JNull \<Rightarrow> (x, True) | _ \<Rightarrow> (x, False))"

definition dec_list :: "'a decoder \<Rightarrow> 'a \<Rightarrow> 'a list decoder" where
  "dec_list d zero v x = (case v of
      JArr vs \<Rightarrow> (map (\<lambda>v. fst (d v zero)) vs, list_all (\<lambda>v. snd (d v zero)) vs)
    | JNull \<Rightarrow> ([], True) | _ \<Rightarrow> (x, False))"

definition dec_pointer :: "'a decoder \<Rightarrow> 'a \<Rightarrow> 'a option decoder" where
  "dec_pointer d zero v x = (case v of
      JNull \<Rightarrow> (None, True)
    | _ \<Rightarrow> (case d v (case x of None \<Rightarrow> zero | Some y \<Rightarrow> y) of (y, ok) \<Rightarrow> (Some y, ok)))"

definition dec_string_map :: "(string \<times> string) list decoder" where
  "dec_string_map v x = (case v of
      JObj kvs \<Rightarrow> (x @ map (\<lambda>(k, v). (k, fst (dec_string v []))) kvs,
                   list_all (\<lambda>(k, v). snd (dec_string v [])) kvs)
    | JNull \<Rightarrow> ([], True) | _ \<Rightarrow> (x, False))"

type_synonym 'a fields = "(string \<times> 'a decoder) list"

definition json_field :: "string \<Rightarrow> 'b decoder \<Rightarrow> ('a \<Rightarrow> 'b) \<Rightarrow> (('b \<Rightarrow> 'b) \<Rightarrow> 'a \<Rightarrow> 'a) \<Rightarrow>
    string \<times> 'a decoder" where
  "json_field name d get upd =
     (name, \<lambda>v x. case d v (get x) of (y, ok) \<Rightarrow> (upd (\<lambda>_. y) x, ok))"

definition lookup_field :: "'a fields \<Rightarrow> string \<Rightarrow> 'a decoder option" where
  "lookup_field fs k = (case map_of fs k of
      Some d \<Rightarrow> Some d
    | None \<Rightarrow> map_option snd (List.find (\<lambda>(n, _). to_lower n = to_lower k) fs))"

definition dec_struct :: "'a fields \<Rightarrow> 'a decoder" where
  "dec_struct fs v x = (case v of
      JObj kvs \<Rightarrow> fold (\<lambda>(k, v) (x, ok). case lookup_field fs k of
          None \<Rightarrow> (x, ok) | Some d \<Rightarrow> (case d v x of (x', ok') \<Rightarrow> (x', ok \<and> ok'))) kvs (x, True)
    | JNull \<Rightarrow> (x, True) | _ \<Rightarrow> (x, False))"

definition decoded :: "'a decoder \<Rightarrow> 'a \<Rightarrow> json option \<Rightarrow> 'a option" where
  "decoded d zero j = (case j of None \<Rightarrow> None
     | Some v \<Rightarrow> (case d v zero of (x, ok) \<Rightarrow> if ok then Some x else None))"

subsection \<open>Writing\<close>

definition escape_char :: "char \<Rightarrow> string" where
  "escape_char c =
     (if c = quote_mark \<or> c = backslash then [backslash, c]
      else if c = CHR 0x08 then [backslash, CHR ''b'']
      else if c = CHR 0x0C then [backslash, CHR ''f'']
      else if c = CHR 0x0A then [backslash, CHR ''n'']
      else if c = CHR 0x0D then [backslash, CHR ''r'']
      else if c = CHR 0x09 then [backslash, CHR ''t'']
      else if byte c < 32 \<or> c \<in> {CHR ''<'', CHR ''>'', CHR ''&''}
      then [backslash, CHR ''u'', CHR ''0'', CHR ''0'', hex_char (byte c div 16), hex_char (byte c mod 16)]
      else [c])"

text \<open>U+2028 and U+2029 are escaped too, the other bytes above 0x7F are copied.\<close>

function escape :: "string \<Rightarrow> string" where
  "escape s =
     (if take 3 s = [CHR 0xE2, CHR 0x80, CHR 0xA8] then backslash # ''u2028'' @ escape (drop 3 s)
      else if take 3 s = [CHR 0xE2, CHR 0x80, CHR 0xA9] then backslash # ''u2029'' @ escape (drop 3 s)
      else case s of [] \<Rightarrow> [] | c # cs \<Rightarrow> escape_char c @ escape cs)"
  by pat_completeness auto
termination
  by (relation "measure length") (auto simp: take_eq_Nil dest: arg_cong[where f = length])

declare escape.simps [simp del]

definition quoted :: "string \<Rightarrow> string" where
  "quoted s = quote_mark # escape s @ [quote_mark]"

fun json_print :: "json \<Rightarrow> string" where
  "json_print JNull = ''null''"
| "json_print (JBool b) = (if b then ''true'' else ''false'')"
| "json_print (JNum n) = n"
| "json_print (JStr s) = quoted s"
| "json_print (JArr vs) = CHR ''['' # join_with '','' (map json_print vs) @ '']''"
| "json_print (JObj kvs) =
     CHR ''{'' # join_with '','' (map (\<lambda>(k, v). quoted k @ CHR '':'' # json_print v) kvs) @ ''}''"

text \<open>Values \<open>Marshal\<close> can produce that the reader accepts: brackets at most \<open>n\<close> deep, numbers
  of the JSON grammar.\<close>

fun json_ok :: "nat \<Rightarrow> json \<Rightarrow> bool" where
  "json_ok n (JNum d) \<longleftrightarrow> num_ok d \<and> list_all number_char d"
| "json_ok n (JArr vs) \<longleftrightarrow> 0 < n \<and> list_all (json_ok (n - 1)) vs"
| "json_ok n (JObj kvs) \<longleftrightarrow> 0 < n \<and> list_all (\<lambda>(_, v). json_ok (n - 1) v) kvs"
| "json_ok n _ \<longleftrightarrow> True"

subsection \<open>Round trip\<close>

lemma hex_val_char: "n < 16 \<Longrightarrow> hex_val (hex_char n) = Some n"
  by (auto simp: hex_val_def hex_char_def)

lemma utf8_ascii: "byte c < 0x80 \<Longrightarrow> utf8 (byte c) = [c]"
  by (simp add: utf8_def)

lemma hex_val_zero: "hex_val (CHR ''0'') = Some 0"
  by (simp add: hex_val_def)

lemma lex_escape_char:
  "lex_str (escape_char c @ t) = map_option (\<lambda>(u, r). (c # u, r)) (lex_str t)"
proof -
  consider (short) "c \<in> {quote_mark, backslash, CHR 0x08, CHR 0x0C, CHR 0x0A, CHR 0x0D, CHR 0x09}"
    | (hex) "escape_char c = [backslash, CHR ''u'', CHR ''0'', CHR ''0'', hex_char (byte c div 16),
        hex_char (byte c mod 16)]" "byte c < 128"
    | (plain) "escape_char c = [c]" "c \<noteq> quote_mark" "c \<noteq> backslash" "\<not> byte c < 32"
  proof (cases "c \<in> {quote_mark, backslash, CHR 0x08, CHR 0x0C, CHR 0x0A, CHR 0x0D, CHR 0x09}")
    case True
    then show ?thesis by (rule short)
  next
    case other: False
    show ?thesis
    proof (cases "byte c < 32 \<or> c \<in> {CHR ''<'', CHR ''>'', CHR ''&''}")
      case True
      with other have "escape_char c = [backslash, CHR ''u'', CHR ''0'', CHR ''0'',
          hex_char (byte c div 16), hex_char (byte c mod 16)]" by (simp add: escape_char_def)
      moreover from True have "byte c < 128" by auto
      ultimately show ?thesis by (rule hex)
    next
      case False
      with other have "escape_char c = [c]" by (simp add: escape_char_def)
      then show ?thesis using other False plain by simp
    qed
  qed
  then show ?thesis
  proof cases
    case short
    then show ?thesis by (elim insertE emptyE) (simp_all add: escape_char_def lex_str.simps(2))
  next
    case hex
    have "unescape (CHR ''u'' # CHR ''0'' # CHR ''0'' # hex_char (byte c div 16) # hex_char (byte c mod 16) # t) =
        Some ([c], t)"
      using hex(2) hex_val_char[of "byte c div 16"] hex_val_char[of "byte c mod 16"]
      using utf8_ascii[OF hex(2)] div_mult_mod_eq[of "byte c" 16]
      by (simp add: unescape_u_def hex_val_zero del: of_char_of)
    then show ?thesis by (simp add: hex(1) lex_str.simps(2))
  next
    case plain
    have "lex_str (c # t) = map_option (\<lambda>(u, r). (c # u, r)) (lex_str t)"
      unfolding lex_str.simps(2) using plain(2-4) by simp
    then show ?thesis by (simp add: plain(1))
  qed
qed

lemma char_of_eq: "n < 256 \<Longrightarrow> char_of n = c \<longleftrightarrow> n = byte c"
  by auto

lemma separators:
  "utf8 0x2028 = [CHR 0xE2, CHR 0x80, CHR 0xA8]" "utf8 0x2029 = [CHR 0xE2, CHR 0x80, CHR 0xA9]"
  by (simp_all add: utf8_def char_of_eq)

lemma take3_drop: "take 3 s = [a, b, c] \<Longrightarrow> s = a # b # c # drop 3 s"
  by (metis append_Cons append_Nil append_take_drop_id)

lemma lex_escape: "lex_str (escape s @ quote_mark # r) = Some (s, r)"
proof (induction s rule: escape.induct)
  case (1 s)
  consider (ls) "take 3 s = [CHR 0xE2, CHR 0x80, CHR 0xA8]" | (ps) "take 3 s = [CHR 0xE2, CHR 0x80, CHR 0xA9]"
    | (plain) "take 3 s \<noteq> [CHR 0xE2, CHR 0x80, CHR 0xA8]" "take 3 s \<noteq> [CHR 0xE2, CHR 0x80, CHR 0xA9]"
    by blast
  then show ?case
  proof cases
    case ls
    have u: "unescape (''u2028'' @ escape (drop 3 s) @ quote_mark # r) =
        Some ([CHR 0xE2, CHR 0x80, CHR 0xA8], escape (drop 3 s) @ quote_mark # r)"
      by (simp add: unescape_u_def hex_val_def separators)
    show ?thesis
      using 1(1)[OF ls] take3_drop[OF ls] ls u
      by (subst escape.simps) (simp add: lex_str.simps(2))
  next
    case ps
    have u: "unescape (''u2029'' @ escape (drop 3 s) @ quote_mark # r) =
        Some ([CHR 0xE2, CHR 0x80, CHR 0xA9], escape (drop 3 s) @ quote_mark # r)"
      by (simp add: unescape_u_def hex_val_def separators)
    show ?thesis
      using 1(2)[OF _ ps] take3_drop[OF ps] ps u
      by (subst escape.simps) (simp add: lex_str.simps(2))
  next
    case plain
    show ?thesis
    proof (cases s)
      case Nil
      then show ?thesis by (subst escape.simps) (simp add: lex_str.simps(2))
    next
      case (Cons c cs)
      have "escape s = escape_char c @ escape cs"
        unfolding escape.simps[of s] if_not_P[OF plain(1)] if_not_P[OF plain(2)] by (simp add: Cons)
      with 1(3)[OF plain Cons] Cons show ?thesis by (simp add: lex_escape_char)
    qed
  qed
qed

lemma next_quoted: "next_token (quoted s @ r) = Some (TScalar (JStr s), r)"
  using lex_escape[of s r] by (simp add: quoted_def json_space_def punct_def)

lemma next_num:
  assumes "num_ok d" "list_all number_char d" "\<And>c cs. r = c # cs \<Longrightarrow> \<not> number_char c"
  shows "next_token (d @ r) = Some (TScalar (JNum d), r)"
proof -
  have tw: "takeWhile number_char (d @ r) = d" "dropWhile number_char (d @ r) = r"
    using assms(2,3) by (cases r; force simp: list_all_iff takeWhile_append2 dropWhile_append2)+
  obtain c cs where d: "d = c # cs" using num_ok_nonempty[OF assms(1)] by (cases d) auto
  have c: "number_char c" using assms(2) d by simp
  then have "\<not> json_space c" "punct c = None" "c \<noteq> quote_mark" "CHR ''t'' \<noteq> c" "CHR ''f'' \<noteq> c" "CHR ''n'' \<noteq> c"
    by (auto simp: number_char_def is_digit_def json_space_def punct_def)
  then have "next_token (c # cs @ r) = lex_num (c # cs @ r)" by simp
  also have "\<dots> = Some (TScalar (JNum d), r)" using tw assms(1) by (simp add: lex_num_def d)
  finally show ?thesis by (simp add: d)
qed

lemma machine_scalar [simp]:
  "m = Value \<or> m = ValueOrEnd \<Longrightarrow> machine m st (TScalar v) = Some (After v, st)"
  by (auto simp: machine_def)

lemma read_token:
  assumes "next_token s = Some (t, r)" "machine m st t = Some (m', st')" "st \<noteq> [] \<or> (\<forall>v. m \<noteq> After v)"
  shows "read_value m st s = read_value m' st' r"
  using assms by (subst read_value.simps) (auto split: mode.splits list.splits)

definition follows :: "string \<Rightarrow> bool" where
  "follows r \<longleftrightarrow> (case r of [] \<Rightarrow> True | c # _ \<Rightarrow> \<not> number_char c)"

lemma follows_punct [simp]: "punct c \<noteq> None \<Longrightarrow> follows (c # r)"
  by (auto simp: follows_def punct_def number_char_def is_digit_def split: if_splits)

lemma next_punct: "punct c = Some t \<Longrightarrow> next_token (c # r) = Some (t, r)"
  by (auto simp: punct_def json_space_def split: if_splits)

text \<open>The list of elements that closes an array, and of members that closes an object.\<close>

lemma read_elements:
  assumes "\<And>v m st r. v \<in> set vs \<Longrightarrow> m = Value \<or> m = ValueOrEnd \<Longrightarrow> length st = d \<Longrightarrow> follows r \<Longrightarrow>
      read_value m st (json_print v @ r) = read_value (After v) st r"
    "vs \<noteq> []" "m = Value \<or> m = ValueOrEnd" "Suc (length st) = d"
  shows "read_value m (FArr pre # st) (join_with '','' (map json_print vs) @ CHR '']'' # r) =
    read_value (After (JArr (pre @ vs))) st r"
  using assms
proof (induction vs arbitrary: pre m)
  case (Cons v vs)
  have v: "read_value m (FArr pre # st) (json_print v @ q) = read_value (After v) (FArr pre # st) q"
    if "follows q" for q
    using Cons.prems that by auto
  show ?case
  proof (cases vs)
    case Nil
    have "read_value (After v) (FArr pre # st) (CHR '']'' # r) = read_value (After (JArr (pre @ [v]))) st r"
      by (rule read_token[OF next_punct]) (auto simp: punct_def machine_def)
    with v[of "CHR '']'' # r"] Nil show ?thesis by (simp add: punct_def)
  next
    case (Cons w ws)
    let ?rest = "join_with '','' (map json_print vs) @ CHR '']'' # r"
    have "read_value (After v) (FArr pre # st) (CHR '','' # ?rest) = read_value Value (FArr (pre @ [v]) # st) ?rest"
      by (rule read_token[OF next_punct]) (auto simp: punct_def machine_def)
    also have "\<dots> = read_value (After (JArr ((pre @ [v]) @ vs))) st r"
      using Cons.IH Cons.prems Cons by auto
    finally show ?thesis using v[of "CHR '','' # ?rest"] Cons by (simp add: punct_def)
  qed
qed simp

definition print_member :: "string \<times> json \<Rightarrow> string" where
  "print_member kv = quoted (fst kv) @ CHR '':'' # json_print (snd kv)"

lemma print_member_eq: "(\<lambda>(k, v). quoted k @ CHR '':'' # json_print v) = print_member"
  by (auto simp: print_member_def)

lemma read_member:
  assumes "\<And>m st r. m = Value \<or> m = ValueOrEnd \<Longrightarrow> length st = d \<Longrightarrow> follows r \<Longrightarrow>
      read_value m st (json_print v @ r) = read_value (After v) st r"
    "m = Key \<or> m = KeyOrEnd" "Suc (length st) = d" "follows r"
  shows "read_value m (FObj pre # st) (print_member (k, v) @ r) = read_value (After v) (FKey pre k # st) r"
proof -
  have "read_value m (FObj pre # st) (quoted k @ CHR '':'' # json_print v @ r) =
      read_value (Colon k) (FObj pre # st) (CHR '':'' # json_print v @ r)"
    by (rule read_token[OF next_quoted]) (use assms(2) in \<open>auto simp: machine_def\<close>)
  also have "\<dots> = read_value Value (FKey pre k # st) (json_print v @ r)"
    by (rule read_token[OF next_punct]) (auto simp: punct_def machine_def)
  also have "\<dots> = read_value (After v) (FKey pre k # st) r"
    using assms by simp
  finally show ?thesis by (simp add: print_member_def)
qed

lemma read_members:
  assumes "\<And>v m st r. v \<in> snd ` set kvs \<Longrightarrow> m = Value \<or> m = ValueOrEnd \<Longrightarrow> length st = d \<Longrightarrow> follows r \<Longrightarrow>
      read_value m st (json_print v @ r) = read_value (After v) st r"
    "kvs \<noteq> []" "m = Key \<or> m = KeyOrEnd" "Suc (length st) = d"
  shows "read_value m (FObj pre # st) (join_with '','' (map print_member kvs) @ CHR ''}'' # r) =
    read_value (After (JObj (pre @ kvs))) st r"
  using assms
proof (induction kvs arbitrary: pre m)
  case (Cons kv kvs)
  obtain k v where kv: "kv = (k, v)" by (cases kv)
  have v: "read_value m (FObj pre # st) (print_member kv @ q) = read_value (After v) (FKey pre k # st) q"
    if "follows q" for q
    unfolding kv by (rule read_member) (use Cons.prems that kv in auto)
  show ?case
  proof (cases kvs)
    case Nil
    have "read_value (After v) (FKey pre k # st) (CHR ''}'' # r) = read_value (After (JObj (pre @ [kv]))) st r"
      by (rule read_token[OF next_punct]) (auto simp: punct_def machine_def kv)
    with v[of "CHR ''}'' # r"] Nil show ?thesis by (simp add: punct_def)
  next
    case (Cons w ws)
    let ?rest = "join_with '','' (map print_member kvs) @ CHR ''}'' # r"
    have "read_value (After v) (FKey pre k # st) (CHR '','' # ?rest) = read_value Key (FObj (pre @ [kv]) # st) ?rest"
      by (rule read_token[OF next_punct]) (auto simp: punct_def machine_def kv)
    also have "\<dots> = read_value (After (JObj ((pre @ [kv]) @ kvs))) st r"
      using Cons.IH Cons.prems Cons by auto
    finally show ?thesis using v[of "CHR '','' # ?rest"] Cons by (simp add: punct_def)
  qed
qed simp

lemma read_print:
  assumes "json_ok n v" "m = Value \<or> m = ValueOrEnd" "length st + n \<le> max_depth" "follows r"
  shows "read_value m st (json_print v @ r) = read_value (After v) st r"
  using assms
proof (induction v arbitrary: n m st r)
  case (JArr vs)
  have open': "read_value m st (CHR ''['' # s) = read_value ValueOrEnd (FArr [] # st) s" for s
    by (rule read_token[OF next_punct]) (use JArr.prems in \<open>auto simp: punct_def machine_def\<close>)
  show ?case
  proof (cases "vs = []")
    case True
    have "read_value ValueOrEnd (FArr [] # st) (CHR '']'' # r) = read_value (After (JArr [])) st r"
      by (rule read_token[OF next_punct]) (auto simp: punct_def machine_def)
    with True open' show ?thesis by simp
  next
    case False
    have "read_value ValueOrEnd (FArr [] # st) (join_with '','' (map json_print vs) @ CHR '']'' # r) =
        read_value (After (JArr ([] @ vs))) st r"
      by (rule read_elements[where d = "Suc (length st)"])
        (use JArr False in \<open>auto simp: list_all_iff intro!: JArr.IH[where n = "n - 1"]\<close>)
    then show ?thesis by (simp add: open')
  qed
next
  case (JObj kvs)
  have open': "read_value m st (CHR ''{'' # s) = read_value KeyOrEnd (FObj [] # st) s" for s
    by (rule read_token[OF next_punct]) (use JObj.prems in \<open>auto simp: punct_def machine_def\<close>)
  show ?case
  proof (cases "kvs = []")
    case True
    have "read_value KeyOrEnd (FObj [] # st) (CHR ''}'' # r) = read_value (After (JObj [])) st r"
      by (rule read_token[OF next_punct]) (auto simp: punct_def machine_def)
    with True open' show ?thesis by simp
  next
    case False
    have "read_value KeyOrEnd (FObj [] # st) (join_with '','' (map print_member kvs) @ CHR ''}'' # r) =
        read_value (After (JObj ([] @ kvs))) st r"
      by (rule read_members[where d = "Suc (length st)"])
        (use JObj False in \<open>auto simp: list_all_iff intro!: JObj.IH[where n = "n - 1"]\<close>)
    then show ?thesis using open' by (simp add: print_member_eq)
  qed
next
  case (JNum d)
  then have "next_token (d @ r) = Some (TScalar (JNum d), r)"
    by (intro next_num) (auto simp: follows_def)
  from read_token[OF this, of m st "After (JNum d)" st] JNum show ?case by auto
next
  case (JStr x)
  from read_token[OF next_quoted[of x r], of m st "After (JStr x)" st] JStr show ?case by auto
next
  case (JBool b)
  have "next_token (json_print (JBool b) @ r) = Some (TScalar (JBool b), r)"
    by (simp add: json_space_def punct_def)
  from read_token[OF this, of m st "After (JBool b)" st] JBool show ?case by auto
next
  case JNull
  have "next_token (json_print JNull @ r) = Some (TScalar JNull, r)"
    by (simp add: json_space_def punct_def)
  from read_token[OF this, of m st "After JNull" st] JNull show ?case by auto
qed

lemma read_done [simp]: "read_value (After v) [] s = Some (v, s)"
  by (subst read_value.simps) simp

lemma parse_print: "json_ok max_depth v \<Longrightarrow> json_parse (json_print v) = Some v"
  using read_print[of max_depth v Value "[]" "[]"]
  by (simp add: json_parse_def follows_def)

lemma decode_print: "json_ok max_depth v \<Longrightarrow> follows r \<Longrightarrow> json_decode (json_print v @ r) = Some v"
  using read_print[of max_depth v Value "[]" r] by (simp add: json_decode_def)

end
