(* ===== verification/Sha256.thy ===== *)
theory Sha256
  imports GoStrings "HOL-Library.Word"
begin

text \<open>
  \<open>crypto/sha256\<close>, \<open>crypto/hmac\<close> and \<open>hex.EncodeToString\<close>, as the webhook signature uses
  them: SHA-256 on the bytes of a string with 32-bit words, and HMAC over its 64-byte blocks.
\<close>

unbundle bit_operations_syntax

definition ror :: "nat \<Rightarrow> 32 word \<Rightarrow> 32 word" where
  "ror n w = drop_bit n w OR push_bit (32 - n) w"

text \<open>The constants of the standard: the first 32 bits of the fractional parts of the cube roots
  of the first 64 primes, and of the square roots of the first 8.\<close>

fun root_floor :: "nat \<Rightarrow> nat \<Rightarrow> nat \<Rightarrow> nat \<Rightarrow> nat" where
  "root_floor k n 0 r = r"
| "root_floor k n (Suc i) r = root_floor k n i (if (r + 2 ^ i) ^ k \<le> n then r + 2 ^ i else r)"

definition root_fraction :: "nat \<Rightarrow> nat \<Rightarrow> 32 word" where
  "root_fraction k p = of_nat (root_floor k (p * 2 ^ (32 * k)) 40 0)"

definition primes_below :: "nat \<Rightarrow> nat list" where
  "primes_below n = filter (\<lambda>p. \<forall>d \<in> set [2 ..< p]. p mod d \<noteq> 0) [2 ..< n]"

definition round_constants :: "32 word list" where
  "round_constants = map (root_fraction 3) (primes_below 312)"

definition initial_state :: "32 word list" where
  "initial_state = map (root_fraction 2) (primes_below 20)"

definition be_word :: "nat list \<Rightarrow> 32 word" where
  "be_word bs = of_nat (fold (\<lambda>b acc. 256 * acc + b) bs 0)"

fun chunks :: "nat \<Rightarrow> nat \<Rightarrow> 'a list \<Rightarrow> 'a list list" where
  "chunks 0 k xs = []"
| "chunks (Suc n) k xs = take k xs # chunks n k (drop k xs)"

definition be_bytes :: "nat \<Rightarrow> nat \<Rightarrow> nat list" where
  "be_bytes k n = rev (map (\<lambda>i. n div 256 ^ i mod 256) [0 ..< k])"

text \<open>The message, a one bit, zeros up to 56 modulo 64, and its length in bits.\<close>

definition padded :: "nat list \<Rightarrow> nat list" where
  "padded m = m @ 128 # replicate ((119 - length m mod 64) mod 64) 0 @ be_bytes 8 (8 * length m)"

text \<open>The message schedule, the latest word first.\<close>

fun schedule :: "nat \<Rightarrow> 32 word list \<Rightarrow> 32 word list" where
  "schedule 0 ws = ws"
| "schedule (Suc n) ws =
     (let w2 = ws ! 1; w15 = ws ! 14;
          s0 = ror 7 w15 XOR ror 18 w15 XOR drop_bit 3 w15;
          s1 = ror 17 w2 XOR ror 19 w2 XOR drop_bit 10 w2
      in schedule n ((ws ! 15 + s0 + ws ! 6 + s1) # ws))"

fun sha_round :: "32 word \<times> 32 word \<Rightarrow> 32 word list \<Rightarrow> 32 word list" where
  "sha_round (k, w) [a, b, c, d, e, f, g, h] =
     (let s1 = ror 6 e XOR ror 11 e XOR ror 25 e;
          ch = (e AND f) XOR (NOT e AND g);
          t1 = h + s1 + ch + k + w;
          s0 = ror 2 a XOR ror 13 a XOR ror 22 a;
          maj = (a AND b) XOR (a AND c) XOR (b AND c)
      in [t1 + s0 + maj, a, b, c, d + t1, e, f, g])"
| "sha_round _ st = st"

definition sha_block :: "nat list \<Rightarrow> 32 word list \<Rightarrow> 32 word list" where
  "sha_block bs st =
     (let ws = rev (schedule 48 (rev (map be_word (chunks 16 4 bs))))
      in map2 (+) st (fold sha_round (zip round_constants ws) st))"

definition sha256 :: "nat list \<Rightarrow> nat list" where
  "sha256 m =
     (let p = padded m; st = fold sha_block (chunks (length p div 64) 64 p) initial_state
      in concat (map (\<lambda>w. be_bytes 4 (unat w)) st))"

definition hmac_key :: "nat list \<Rightarrow> nat list" where
  "hmac_key k = (let k' = (if length k > 64 then sha256 k else k)
     in k' @ replicate (64 - length k') 0)"

definition hmac_sha256 :: "nat list \<Rightarrow> nat list \<Rightarrow> nat list" where
  "hmac_sha256 key m =
     (let k = hmac_key key
      in sha256 (map (\<lambda>b. b XOR 92) k @ sha256 (map (\<lambda>b. b XOR 54) k @ m)))"

definition nibble :: "nat \<Rightarrow> char" where
  "nibble n = (if n < 10 then char_of (48 + n) else char_of (87 + n))"

definition hex_encode :: "nat list \<Rightarrow> string" where
  "hex_encode bs = concat (map (\<lambda>b. [nibble (b div 16), nibble (b mod 16)]) bs)"

end
