(* ===== verification/CheckRun.thy ===== *)
theory CheckRun
  imports Forge
begin

text \<open>
  The two translations of \<open>github/checkrun.go\<close> between check states and the status and
  conclusion of a GitHub check run.
\<close>

text \<open>The Go value of the enumeration, a string.\<close>

fun check_state_string :: "check_state \<Rightarrow> string" where
  "check_state_string CheckStatePending = ''pending''"
| "check_state_string CheckStateSuccess = ''success''"
| "check_state_string CheckStateFailure = ''failure''"
| "check_state_string CheckStateError = ''error''"
| "check_state_string (CheckStateOther s) = s"

definition checkRunFields :: "string \<Rightarrow> string \<times> string" where
  "checkRunFields s =
     (if s = ''pending'' then (''in_progress'', [])
      else if s = ''success'' then (''completed'', ''success'')
      else if s = ''failure'' then (''completed'', ''failure'')
      else if s = ''error'' then (''completed'', ''cancelled'')
      else if s = ''skipped'' then (''completed'', ''skipped'')
      else (''queued'', []))"

definition CheckRunToState :: "string \<Rightarrow> string \<Rightarrow> check_state" where
  "CheckRunToState status conclusion =
     (if status \<noteq> ''completed'' then CheckStatePending
      else if conclusion \<in> {''success'', ''neutral'', ''skipped''} then CheckStateSuccess
      else if conclusion \<in> {''failure'', ''timed_out'', ''action_required''} then CheckStateFailure
      else CheckStateError)"

lemma check_run_state:
  "CheckRunToState (fst (checkRunFields (check_state_string st))) (snd (checkRunFields (check_state_string st))) =
     (case st of CheckStateOther s \<Rightarrow> ParseCheckState s | _ \<Rightarrow> st) \<or>
   (\<exists>s. st = CheckStateOther s \<and> s = ''warning'')"
  by (cases st) (auto simp: checkRunFields_def CheckRunToState_def ParseCheckState_def)

end
