(* ===== verification/Webhook.thy ===== *)
theory Webhook
  imports Poller Json Sha256 CheckRun
begin

text \<open>
  \<open>internal/webhook\<close>: the two HTTP handlers that receive events. A request is its method, the
  bytes of its body (\<open>None\<close> when reading fails) and its headers; a response is the status
  code and the body. For GitHub, validating and parsing the delivery is the work of go-github:
  the functions \<open>validate\<close> and \<open>parse\<close> are parameters, and an event carries what the
  getters of the library return.
\<close>

record http_request =
  hr_Method :: string
  hr_Body :: "string option"
  hr_Header :: "string \<Rightarrow> string"

datatype http_response = Response (rs_Status: int) (rs_Body: string)

definition http_error :: "string \<Rightarrow> int \<Rightarrow> http_response" where
  "http_error msg code = Response code (msg @ nl)"

record 'f repo_monitor =
  rm_Deps :: "'f deps"
  rm_TriggerPoll :: "int option"

type_synonym 'f repo_lookup = "string \<Rightarrow> 'f repo_monitor option"

definition trigger_poll :: "'f repo_monitor \<Rightarrow> ('f, unit) go" where
  "trigger_poll rm = (case rm_TriggerPoll rm of None \<Rightarrow> ret () | Some r \<Rightarrow> set_trigger r)"

subsection \<open>Signatures\<close>

definition ComputeSignature :: "string \<Rightarrow> string \<Rightarrow> string" where
  "ComputeSignature body secret = hex_encode (hmac_sha256 (map of_char secret) (map of_char body))"

definition ValidateSignature :: "string \<Rightarrow> string \<Rightarrow> string \<Rightarrow> bool" where
  "ValidateSignature body signature secret \<longleftrightarrow>
     (if signature = [] \<or> secret = [] then False
      else let expected = ComputeSignature body secret in expected = signature)"

subsection \<open>Routing a check\<close>

fun find_sha :: "string \<Rightarrow> queue_entry list \<Rightarrow> queue_entry option" where
  "find_sha sha [] = None"
| "find_sha sha (e # es) = (if qe_MergeBranchSha e = Some sha then Some e else find_sha sha es)"

definition findEntryForCommit :: "int \<Rightarrow> string \<Rightarrow> ('f, queue_entry option) go" where
  "findEntryForCommit repoID sha = do {
     r \<leftarrow> ListActiveEntries repoID;
     ret (case r of Inl _ \<Rightarrow> None | Inr entries \<Rightarrow> find_sha sha entries) }"

definition routeCheck :: "'f repo_monitor \<Rightarrow> string \<Rightarrow> string \<Rightarrow> Check \<Rightarrow> ('f, unit) go" where
  "routeCheck rm sha checkCtx c = do {
     found \<leftarrow> findEntryForCommit (md_RepoID (rm_Deps rm)) sha;
     (case found of
        None \<Rightarrow> ret ()
      | Some entry \<Rightarrow> warn_if_err (ApplyCheck (rm_Deps rm) entry checkCtx c)) }"

definition maybeTriggerPoll :: "'f repo_monitor \<Rightarrow> check_state \<Rightarrow> ('f, unit) go" where
  "maybeTriggerPoll rm st = (if st = CheckStateSuccess then trigger_poll rm else ret ())"

subsection \<open>Gitea\<close>

record statusEvent =
  se_SHA :: string
  se_Context :: string
  se_State :: string
  se_Description :: string
  se_TargetURL :: string
  se_FullName :: string

definition zero_event :: statusEvent where
  "zero_event = \<lparr>se_SHA = [], se_Context = [], se_State = [], se_Description = [],
     se_TargetURL = [], se_FullName = []\<rparr>"

definition status_event_fields :: "statusEvent fields" where
  "status_event_fields =
     [json_field ''sha'' dec_string se_SHA se_SHA_update,
      json_field ''context'' dec_string se_Context se_Context_update,
      json_field ''state'' dec_string se_State se_State_update,
      json_field ''description'' dec_string se_Description se_Description_update,
      json_field ''target_url'' dec_string se_TargetURL se_TargetURL_update,
      (''repository'', dec_struct [json_field ''full_name'' dec_string se_FullName se_FullName_update])]"

definition decode_event :: "string \<Rightarrow> statusEvent option" where
  "decode_event body = decoded (dec_struct status_event_fields) zero_event (json_parse body)"

definition validate_event :: "statusEvent \<Rightarrow> string option" where
  "validate_event e =
     (if se_SHA e = [] then Some ''missing sha''
      else if se_Context e = [] then Some ''missing context''
      else if se_State e = [] then Some ''missing state''
      else if se_FullName e = [] then Some ''missing repository''
      else None)"

definition ok_response :: http_response where
  "ok_response = Response 200 []"

definition Handler :: "string \<Rightarrow> 'f repo_lookup \<Rightarrow> http_request \<Rightarrow> ('f, http_response) go" where
  "Handler secret repos r =
     (if hr_Method r \<noteq> ''POST'' then ret (http_error ''method not allowed'' 405)
      else case hr_Body r of
        None \<Rightarrow> ret (http_error ''failed to read body'' 400)
      | Some body \<Rightarrow>
          if \<not> ValidateSignature body (hr_Header r ''X-Gitea-Signature'') secret
          then ret (http_error ''unauthorized'' 401)
          else (case decode_event body of
            None \<Rightarrow> ret (http_error ''bad request'' 400)
          | Some event \<Rightarrow>
              (case validate_event event of
                 Some msg \<Rightarrow> ret (http_error (''bad request: '' @ msg) 400)
               | None \<Rightarrow>
                   if IsOwnContext (se_Context event) then ret ok_response
                   else (case repos (KindGitea @ '':'' @ se_FullName event) of
                     None \<Rightarrow> ret ok_response
                   | Some rm \<Rightarrow>
                       (let check = \<lparr>ck_State = ParseCheckState (se_State event),
                              ck_Description = se_Description event, ck_TargetURL = se_TargetURL event\<rparr>
                        in do {
                          routeCheck rm (se_SHA event) (se_Context event) check;
                          maybeTriggerPoll rm (ck_State check);
                          ret ok_response })))))"

subsection \<open>GitHub\<close>

datatype gh_event =
    PullRequestEvent (pe_Action: string) (pe_Owner: string) (pe_Name: string)
  | CheckRunEvent (ce_Action: string) (ce_Status: string) (ce_Check: string) (ce_Conclusion: string)
      (ce_Summary: string) (ce_DetailsURL: string) (ce_HeadSHA: string) (ce_Owner: string) (ce_Name: string)
  | StatusEvent (te_Context: string) (te_State: string) (te_Description: string) (te_TargetURL: string)
      (te_SHA: string) (te_Owner: string) (te_Name: string)
  | InstallationEvent
  | OtherEvent

definition prTriggerActions :: "string set" where
  "prTriggerActions = {''auto_merge_enabled'', ''auto_merge_disabled'', ''closed'', ''reopened'',
     ''synchronize'', ''edited''}"

definition lookupGithubRepo :: "'f repo_lookup \<Rightarrow> string \<Rightarrow> string \<Rightarrow> 'f repo_monitor option" where
  "lookupGithubRepo repos owner name =
     (if owner = [] \<or> name = [] then None else repos (KindGithub @ '':'' @ owner @ ''/'' @ name))"

definition github_event ::
  "'f repo_lookup \<Rightarrow> ('f, unit) go option \<Rightarrow> gh_event \<Rightarrow> ('f, unit) go" where
  "github_event repos triggerDiscovery e =
     (case e of
        PullRequestEvent action owner name \<Rightarrow>
          if action \<notin> prTriggerActions then ret ()
          else (case lookupGithubRepo repos owner name of
              Some rm \<Rightarrow> trigger_poll rm | None \<Rightarrow> ret ())
      | CheckRunEvent action status check conclusion summary url sha owner name \<Rightarrow>
          if action \<noteq> ''completed'' \<or> status \<noteq> ''completed'' then ret ()
          else if IsOwnContext check then ret ()
          else (case lookupGithubRepo repos owner name of
              None \<Rightarrow> ret ()
            | Some rm \<Rightarrow>
                (let c = \<lparr>ck_State = CheckRunToState status conclusion, ck_Description = summary,
                       ck_TargetURL = url\<rparr>
                 in do { routeCheck rm sha check c; maybeTriggerPoll rm (ck_State c) }))
      | StatusEvent context st desc url sha owner name \<Rightarrow>
          if IsOwnContext context then ret ()
          else (case lookupGithubRepo repos owner name of
              None \<Rightarrow> ret ()
            | Some rm \<Rightarrow>
                (let c = \<lparr>ck_State = ParseCheckState st, ck_Description = desc, ck_TargetURL = url\<rparr>
                 in do { routeCheck rm sha context c; maybeTriggerPoll rm (ck_State c) }))
      | InstallationEvent \<Rightarrow> (case triggerDiscovery of Some t \<Rightarrow> t | None \<Rightarrow> ret ())
      | OtherEvent \<Rightarrow> ret ())"

definition GithubHandler ::
  "(http_request \<Rightarrow> string option) \<Rightarrow> (http_request \<Rightarrow> string \<Rightarrow> gh_event option) \<Rightarrow>
     'f repo_lookup \<Rightarrow> ('f, unit) go option \<Rightarrow> http_request \<Rightarrow> ('f, http_response) go" where
  "GithubHandler validate parse repos triggerDiscovery r =
     (case validate r of
        None \<Rightarrow> ret (http_error ''unauthorized'' 401)
      | Some payload \<Rightarrow>
          (case parse r payload of
             None \<Rightarrow> ret ok_response
           | Some e \<Rightarrow> do { github_event repos triggerDiscovery e; ret ok_response }))"

subsection \<open>Effects\<close>

lemma io_gh_event [io_intros]:
  "(\<And>a b c. state_io_rel P (f a b c)) \<Longrightarrow> (\<And>a b c d e g h i j. state_io_rel P (k a b c d e g h i j)) \<Longrightarrow>
     (\<And>a b c d e g h. state_io_rel P (l a b c d e g h)) \<Longrightarrow> state_io_rel P m \<Longrightarrow> state_io_rel P n \<Longrightarrow>
     state_io_rel P (case ev of PullRequestEvent a b c \<Rightarrow> f a b c
       | CheckRunEvent a b c d e g h i j \<Rightarrow> k a b c d e g h i j
       | StatusEvent a b c d e g h \<Rightarrow> l a b c d e g h | InstallationEvent \<Rightarrow> m | OtherEvent \<Rightarrow> n)"
  by (cases ev) auto

text \<open>A lookup whose monitors hand checks to batch engines that respect the relation.\<close>

definition lookup_ok :: "('f world \<Rightarrow> 'f world \<Rightarrow> bool) \<Rightarrow> 'f repo_lookup \<Rightarrow> bool" where
  "lookup_ok P repos \<longleftrightarrow> (\<forall>k rm h. repos k = Some rm \<longrightarrow> md_Batch (rm_Deps rm) = Some h \<longrightarrow>
     (\<forall>x c s u. state_io_rel P (h x c s u)))"

context effects begin

lemma io_trigger_poll [io_intros]:
  "state_io_rel P (trigger_poll rm)" "state_io_rel P (maybeTriggerPoll rm st)"
  unfolding maybeTriggerPoll_def trigger_poll_def by (intro io_intros)+

end

context entry_effects begin

lemma io_routeCheck:
  assumes "\<And>h x c s u. md_Batch (rm_Deps rm) = Some h \<Longrightarrow> state_io_rel P (h x c s u)"
  shows "state_io_rel P (routeCheck rm sha ctx c)"
  unfolding routeCheck_def findEntryForCommit_def using assms
  by (intro io_intros io_ApplyCheck)

lemma io_routed:
  assumes "lookup_ok P repos" "repos k = Some rm"
  shows "state_io_rel P (routeCheck rm sha ctx c)"
  using assms by (intro io_routeCheck) (auto simp: lookup_ok_def)

lemma io_Handler:
  assumes "lookup_ok P repos"
  shows "state_io_rel P (Handler secret repos r)"
  unfolding Handler_def Let_def
  by (auto split: option.split intro!: io_intros io_routed[OF assms])

lemma io_GithubHandler:
  assumes "lookup_ok P repos" "\<And>t. triggerDiscovery = Some t \<Longrightarrow> state_io_rel P t"
  shows "state_io_rel P (GithubHandler validate parse repos triggerDiscovery r)"
proof -
  have look: "state_io_rel P (case lookupGithubRepo repos ow nm of None \<Rightarrow> ret () | Some rm \<Rightarrow> do {
      routeCheck rm sha ctx c; maybeTriggerPoll rm st })" for ow nm sha ctx c st
    by (cases "lookupGithubRepo repos ow nm")
      (auto simp: lookupGithubRepo_def split: if_splits intro!: io_intros io_routed[OF assms(1)])
  have disc: "state_io_rel P (case triggerDiscovery of Some t \<Rightarrow> t | None \<Rightarrow> ret ())"
    using assms(2) by (cases triggerDiscovery) (auto intro!: io_intros)
  show ?thesis
    unfolding GithubHandler_def github_event_def Let_def by (intro io_intros look disc)
qed

end

end
