(* ===== verification/WebhookProps.thy ===== *)
theory WebhookProps
  imports Webhook Fixtures
begin

text \<open>The properties of the webhook handlers.\<close>

text \<open>C14. A request to the Gitea webhook leaves the world as it is, unless it is a POST whose
  signature header is the HMAC of its body under a secret that is not empty, whose body is a
  complete event about a context that is not the queue's own, for a managed repository; and then
  it does nothing but route the check to that repository and poke its poller.\<close>

theorem webhook_gate:
  "(rs_Status (fst (run_state (Handler secret repos r) w)) \<in> {200, 400, 401, 405} \<and>
      snd (run_state (Handler secret repos r) w) = w) \<or>
   (\<exists>body e rm. hr_Method r = ''POST'' \<and> hr_Body r = Some body \<and> secret \<noteq> [] \<and>
      hr_Header r ''X-Gitea-Signature'' = ComputeSignature body secret \<and>
      decode_event body = Some e \<and> validate_event e = None \<and> se_SHA e \<noteq> [] \<and>
      \<not> IsOwnContext (se_Context e) \<and> repos (KindGitea @ '':'' @ se_FullName e) = Some rm \<and>
      run_state (Handler secret repos r) w =
        (ok_response, snd (run_state (do {
           routeCheck rm (se_SHA e) (se_Context e) \<lparr>ck_State = ParseCheckState (se_State e),
             ck_Description = se_Description e, ck_TargetURL = se_TargetURL e\<rparr>;
           maybeTriggerPoll rm (ParseCheckState (se_State e)) }) w)))"
proof -
  have "se_SHA e \<noteq> []" if "validate_event e = None" for e
    using that by (simp add: validate_event_def split: if_splits)
  then show ?thesis
    by (auto simp: Handler_def Let_def ValidateSignature_def http_error_def ok_response_def
        split: if_splits option.splits prod.splits)
qed

lemma find_sha_None: "(\<And>e. e \<in> set es \<Longrightarrow> qe_MergeBranchSha e \<noteq> Some sha) \<Longrightarrow> find_sha sha es = None"
  by (induction es) auto

text \<open>A check of a commit that is not the tested merge commit of an active entry of the
  repository changes nothing: no row, no forge call, no trigger.\<close>

theorem unknown_commit_ignored:
  assumes "\<forall>e \<in> set (d_entries (w_db w)). qe_RepoID e = md_RepoID (rm_Deps rm) \<longrightarrow> active e \<longrightarrow>
      qe_MergeBranchSha e \<noteq> Some sha"
    and "w_tx w = NoTx"
  shows "run_state (routeCheck rm sha ctx c) w = ((), w\<lparr>w_stmts := Suc (w_stmts w)\<rparr>)"
proof -
  have "find_sha sha (sort_key (\<lambda>e. (qe_TargetBranch e, qe_EnqueuedAt e))
      (filter (\<lambda>e. qe_RepoID e = md_RepoID (rm_Deps rm) \<and> active e) (d_entries (w_db w)))) = None"
    using assms(1) by (intro find_sha_None) auto
  with assms(2) show ?thesis
    by (simp add: routeCheck_def findEntryForCommit_def ListActiveEntries_def exec_stmt_def Let_def
        sql_ListActiveEntriesByRepo_def)
qed

definition demo_monitor :: "unit repo_monitor" where
  "demo_monitor = \<lparr>rm_Deps = demo_deps, rm_TriggerPoll = Some 1\<rparr>"

theorem unknown_commit_ignored_witness:
  "run_state (routeCheck demo_monitor ''0123abc'' ''ci'' (Check.make CheckStateSuccess [] [])) demo_world =
     ((), demo_world\<lparr>w_stmts := Suc (w_stmts demo_world)\<rparr>)"
  by (rule unknown_commit_ignored)
    (simp_all add: demo_db_def demo_entry_def new_entry_def)

end
