(* ===== verification/Registry.thy ===== *)
theory Registry
  imports Webhook "HOL-Library.AList"
begin

text \<open>
  \<open>internal/registry\<close>: the managed repositories. The Go map is an association list with distinct
  keys; the whole service is the world together with that map. \<open>Add\<close> releases the lock between
  its two looks at the map, so it is split there: \<open>prepare\<close> is everything up to the second
  lock, \<open>publish\<close> is what happens under it. The poller goroutine of a repository is its
  \<open>mr_Poller\<close>; cancelling it is dropping the entry.
\<close>

record 'f managed_repo =
  mr_Ref :: repo_ref
  mr_RepoID :: int
  mr_Monitor :: "'f repo_monitor"
  mr_Poller :: "'f pdeps"

record 'f registry_deps =
  rg_Forges :: "'f forge_set"
  rg_WebhookSecret :: string
  rg_ExternalURL :: string
  rg_PollInterval :: int
  rg_IdlePollInterval :: int
  rg_CheckTimeout :: int
  rg_FallbackChecks :: "string list"
  rg_SuccessTimeout :: int
  rg_SkipQueueIfUpToDate :: bool
  rg_BatchMax :: int
  rg_BisectMaxSteps :: int

type_synonym 'f repo_map = "(string \<times> 'f managed_repo) list"

record 'f service =
  sv_world :: "'f world"
  sv_repos :: "'f repo_map"

definition in_world :: "('f, 'a) go \<Rightarrow> ('f service, 'a) state" where
  "in_world m = State (\<lambda>s. case run_state m (sv_world s) of (a, w) \<Rightarrow> (a, s\<lparr>sv_world := w\<rparr>))"

definition NewRegistry :: "'f repo_map" where
  "NewRegistry = []"

subsection \<open>Adding\<close>

definition new_engine :: "'f registry_deps \<Rightarrow> repo_ref \<Rightarrow> 'f forge \<Rightarrow> int \<Rightarrow> 'f engine" where
  "new_engine deps ref f repoID =
     \<lparr>en_Forge = f, en_Owner = rr_Owner ref, en_Repo = rr_Name ref, en_RepoID = repoID,
      en_ExternalURL = rg_ExternalURL deps, en_BatchMax = rg_BatchMax deps,
      en_BisectMaxSteps = rg_BisectMaxSteps deps, en_CheckTimeout = rg_CheckTimeout deps,
      en_FallbackChecks = rg_FallbackChecks deps, en_MergedPollAttempts = 0, en_Advance = True\<rparr>"

definition new_managed ::
  "'f registry_deps \<Rightarrow> repo_ref \<Rightarrow> 'f forge \<Rightarrow> int \<Rightarrow> 'f engine option \<Rightarrow> 'f managed_repo" where
  "new_managed deps ref f repoID eng =
     \<lparr>mr_Ref = ref, mr_RepoID = repoID,
      mr_Monitor = \<lparr>
        rm_Deps = \<lparr>md_Forge = f, md_Owner = rr_Owner ref, md_Repo = rr_Name ref, md_RepoID = repoID,
          md_ExternalURL = rg_ExternalURL deps, md_CheckTimeout = rg_CheckTimeout deps,
          md_FallbackChecks = rg_FallbackChecks deps, md_Batch = map_option HandleCheck eng\<rparr>,
        rm_TriggerPoll = Some repoID\<rparr>,
      mr_Poller = \<lparr>pd_Forge = f, pd_RepoID = repoID, pd_Owner = rr_Owner ref, pd_Repo = rr_Name ref,
        pd_ExternalURL = rg_ExternalURL deps, pd_FallbackChecks = rg_FallbackChecks deps,
        pd_SuccessTimeout = rg_SuccessTimeout deps,
        pd_SkipQueueIfUpToDate = rg_SkipQueueIfUpToDate deps,
        pd_CheckTimeout = rg_CheckTimeout deps, pd_Batch = eng,
        pd_IdleGating = f_StatusWebhook f\<rparr>\<rparr>"

definition call_EnsureRepoSetup ::
  "'f forge \<Rightarrow> string \<Rightarrow> string \<Rightarrow> SetupConfig \<Rightarrow> ('f, unit) go_err" where
  "call_EnsureRepoSetup f ow nm cfg = forge_do ow nm CallEnsureRepoSetup (f_EnsureRepoSetup f ow nm cfg)"

definition prepare :: "'f registry_deps \<Rightarrow> repo_ref \<Rightarrow> ('f, 'f managed_repo) go_err" where
  "prepare deps ref =
     (case Set_For (rg_Forges deps) ref of
        Inl err \<Rightarrow> ret (Inl err)
      | Inr f \<Rightarrow> do {
          warn_if_err (call_EnsureRepoSetup f (rr_Owner ref) (rr_Name ref)
            \<lparr>sc_ExternalURL = rg_ExternalURL deps, sc_WebhookSecret = rg_WebhookSecret deps\<rparr>);
          on_ok (GetOrCreateRepo (rr_Forge ref) (rr_Owner ref) (rr_Name ref)) (\<lambda>repo.
            let eng = (if rg_BatchMax deps \<noteq> 1 then Some (new_engine deps ref f (r_ID repo)) else None)
            in do {
              spare \<leftarrow> (case eng of
                  None \<Rightarrow> ret []
                | Some e \<Rightarrow> do {
                    r \<leftarrow> LiveBranchNames e;
                    ret (case r of Inl _ \<Rightarrow> [] | Inr names \<Rightarrow> names) });
              warn_if_err (CleanupStaleBranches f (rr_Owner ref) (rr_Name ref) (r_ID repo) spare);
              (case eng of None \<Rightarrow> ret () | Some e \<Rightarrow> warn_if_err (ReconcileLive e));
              ret (Inr (new_managed deps ref f (r_ID repo) eng)) }) })"

definition publish :: "'f managed_repo \<Rightarrow> 'f repo_map \<Rightarrow> 'f repo_map" where
  "publish managed repos =
     (let key = RepoRef_String (mr_Ref managed) in
      if map_of repos key = None then AList.update key managed repos else repos)"

definition Contains :: "string \<Rightarrow> 'f repo_map \<Rightarrow> bool" where
  "Contains key repos \<longleftrightarrow> map_of repos key \<noteq> None"

definition Add :: "'f registry_deps \<Rightarrow> repo_ref \<Rightarrow> ('f service, error + unit) state" where
  "Add deps ref = do {
     exists \<leftarrow> gets (Contains (RepoRef_String ref) \<circ> sv_repos);
     if exists then ret (Inr ())
     else on_ok (in_world (prepare deps ref)) (\<lambda>managed. do {
       modifies (sv_repos_update (publish managed));
       ret (Inr ()) }) }"

subsection \<open>Removing\<close>

definition teardown :: "'f registry_deps \<Rightarrow> repo_ref \<Rightarrow> 'f managed_repo \<Rightarrow> ('f, unit) go" where
  "teardown deps ref managed =
     (case Set_For (rg_Forges deps) ref of
        Inl _ \<Rightarrow> ret ()
      | Inr f \<Rightarrow> do {
          r \<leftarrow> ListActiveEntries (mr_RepoID managed);
          (case r of
             Inl _ \<Rightarrow> ret ()
           | Inr entries \<Rightarrow> for_each entries (CleanupMergeBranch f (rr_Owner ref) (rr_Name ref)));
          warn_if_err (CancelLiveBatches (mr_RepoID managed));
          warn_if_err (DequeueAll (mr_RepoID managed)) })"

definition Remove :: "'f registry_deps \<Rightarrow> repo_ref \<Rightarrow> ('f service, unit) state" where
  "Remove deps ref = do {
     managed \<leftarrow> gets (\<lambda>s. map_of (sv_repos s) (RepoRef_String ref));
     modifies (sv_repos_update (AList.delete (RepoRef_String ref)));
     (case managed of None \<Rightarrow> ret () | Some m \<Rightarrow> in_world (teardown deps ref m)) }"

subsection \<open>Looking up\<close>

definition Lookup :: "'f repo_map \<Rightarrow> string \<Rightarrow> 'f managed_repo option" where
  "Lookup repos key = map_of repos key"

definition LookupMonitor :: "'f repo_map \<Rightarrow> 'f repo_lookup" where
  "LookupMonitor repos key = map_option mr_Monitor (Lookup repos key)"

definition Registry_List :: "'f repo_map \<Rightarrow> repo_ref list" where
  "Registry_List repos = sort_key RepoRef_String (map (mr_Ref \<circ> snd) repos)"

definition Registry_Keys :: "'f repo_map \<Rightarrow> string list" where
  "Registry_Keys repos = map fst repos"

subsection \<open>Runs\<close>

lemma run_in_world:
  "run_state (in_world m) s =
     (fst (run_state m (sv_world s)), s\<lparr>sv_world := snd (run_state m (sv_world s))\<rparr>)"
  by (simp add: in_world_def split: prod.splits)

lemma map_of_delete: "map_of (AList.delete k xs) = (map_of xs)(k := None)"
  by (simp add: AList.delete_conv')

lemma map_of_update: "map_of (AList.update k v xs) = (map_of xs)(k \<mapsto> v)"
  by (simp add: AList.update_conv')

lemma map_of_publish:
  "map_of (publish m repos) key =
     (if key = RepoRef_String (mr_Ref m) \<and> map_of repos key = None then Some m else map_of repos key)"
  by (auto simp: publish_def Let_def map_of_update)

subsection \<open>The shape of the map\<close>

definition engine_of :: "'f registry_deps \<Rightarrow> repo_ref \<Rightarrow> 'f forge \<Rightarrow> int \<Rightarrow> 'f engine option" where
  "engine_of deps ref f repoID =
     (if rg_BatchMax deps \<noteq> 1 then Some (new_engine deps ref f repoID) else None)"

definition managed_ok :: "'f registry_deps \<Rightarrow> 'f managed_repo \<Rightarrow> bool" where
  "managed_ok deps m \<longleftrightarrow> (\<exists>f. Set_For (rg_Forges deps) (mr_Ref m) = Inr f \<and>
     m = new_managed deps (mr_Ref m) f (mr_RepoID m) (engine_of deps (mr_Ref m) f (mr_RepoID m)))"

definition repos_ok :: "'f registry_deps \<Rightarrow> 'f repo_map \<Rightarrow> bool" where
  "repos_ok deps repos \<longleftrightarrow> distinct (map fst repos) \<and>
     (\<forall>(k, m) \<in> set repos. k = RepoRef_String (mr_Ref m) \<and> managed_ok deps m)"

lemma repos_ok_empty [simp]: "repos_ok deps NewRegistry"
  by (simp add: repos_ok_def NewRegistry_def)

lemma repos_okD:
  "repos_ok deps repos \<Longrightarrow> map_of repos k = Some m \<Longrightarrow> k = RepoRef_String (mr_Ref m) \<and> managed_ok deps m"
  by (auto simp: repos_ok_def dest: map_of_SomeD)

lemma repos_ok_delete: "repos_ok deps repos \<Longrightarrow> repos_ok deps (AList.delete k repos)"
  by (auto simp: repos_ok_def AList.delete_eq intro: distinct_map_filter)

lemma managed_ok_Ref [simp]: "mr_Ref (new_managed deps ref f i eng) = ref"
  by (simp add: new_managed_def)

lemma managed_fields:
  assumes "managed_ok deps m"
  obtains f where "Set_For (rg_Forges deps) (mr_Ref m) = Inr f"
    "md_Batch (rm_Deps (mr_Monitor m)) =
       map_option HandleCheck (engine_of deps (mr_Ref m) f (mr_RepoID m))"
    "pd_Batch (mr_Poller m) = engine_of deps (mr_Ref m) f (mr_RepoID m)"
    "rm_TriggerPoll (mr_Monitor m) = Some (mr_RepoID m)" "pd_RepoID (mr_Poller m) = mr_RepoID m"
    "md_RepoID (rm_Deps (mr_Monitor m)) = mr_RepoID m"
proof -
  from assms obtain f where f: "Set_For (rg_Forges deps) (mr_Ref m) = Inr f" and m:
      "m = new_managed deps (mr_Ref m) f (mr_RepoID m) (engine_of deps (mr_Ref m) f (mr_RepoID m))"
    by (auto simp: managed_ok_def)
  show ?thesis by (rule that[OF f]; subst m; simp add: new_managed_def)
qed

lemma prepare_ok:
  assumes "fst (run_state (prepare deps ref) w) = Inr m"
  shows "managed_ok deps m \<and> mr_Ref m = ref"
  using assms
  by (auto simp: prepare_def engine_of_def managed_ok_def Let_def new_managed_def
      split: sum.splits prod.splits if_splits)

lemma repos_ok_publish:
  assumes "repos_ok deps repos" "managed_ok deps m"
  shows "repos_ok deps (publish m repos)"
proof (cases "map_of repos (RepoRef_String (mr_Ref m))")
  case None
  then have "AList.update (RepoRef_String (mr_Ref m)) m repos = repos @ [(RepoRef_String (mr_Ref m), m)]"
    by (induction repos) (auto split: if_splits)
  with None assms show ?thesis
    by (auto simp: publish_def Let_def repos_ok_def map_of_eq_None_iff)
qed (simp add: publish_def assms)

definition keeps_repos :: "'f registry_deps \<Rightarrow> 'f service \<Rightarrow> 'f service \<Rightarrow> bool" where
  "keeps_repos deps = carries (\<lambda>s. repos_ok deps (sv_repos s))"

lemma Add_repos_ok: "state_io_rel (keeps_repos deps) (Add deps ref)"
  by (auto simp: keeps_repos_def carries_def state_io_rel_def Add_def run_in_world prod_eq_iff
      split: sum.splits prod.splits if_splits intro!: repos_ok_publish dest!: prepare_ok)

lemma Remove_repos_ok: "state_io_rel (keeps_repos deps) (Remove deps ref)"
  by (auto simp: keeps_repos_def carries_def state_io_rel_def Remove_def run_in_world repos_ok_delete
      split: option.splits)

end
