(* ===== verification/Discovery.thy ===== *)
theory Discovery
  imports Registry
begin

text \<open>
  \<open>internal/discovery\<close>: the reconciliation of the managed repositories with the sources. Go
  iterates a map in no particular order, so every \<open>range\<close> over one visits its keys in the
  order of the parameter \<open>ord\<close>. The lister of a source is an operation of the forge.
\<close>

record 'f repo_source =
  src_Kind :: string
  src_List :: "('f, error + repo_ref list) state"

record 'f discovery_deps =
  dd_Sources :: "'f repo_source list"
  dd_Registry :: "'f registry_deps"
  dd_ExplicitRepos :: "repo_ref list"

type_synonym map_order = "string list \<Rightarrow> string list"

definition ref_map :: "repo_ref list \<Rightarrow> (string \<times> repo_ref) list" where
  "ref_map refs = fold (\<lambda>r. AList.update (RepoRef_String r) r) refs []"

definition addNew ::
  "map_order \<Rightarrow> 'f registry_deps \<Rightarrow> (string \<times> repo_ref) list \<Rightarrow> ('f service, unit) state" where
  "addNew ord deps desired =
     for_each (ord (map fst desired)) (\<lambda>key. do {
       managed \<leftarrow> gets (Contains key \<circ> sv_repos);
       if managed then ret ()
       else (case map_of desired key of
               None \<Rightarrow> ret ()
             | Some ref \<Rightarrow> warn_if_err (Add deps ref)) })"

definition call_source :: "'f repo_source \<Rightarrow> ('f, repo_ref list) go_err" where
  "call_source src = forge_do [] [] CallDiscover (src_List src)"

definition drop_repo ::
  "'f registry_deps \<Rightarrow> string \<Rightarrow> (string \<times> repo_ref) list \<Rightarrow> (string \<times> repo_ref) list \<Rightarrow> string \<Rightarrow>
     ('f service, unit) state" where
  "drop_repo deps kind desired explicit key =
     (if \<not> has_prefix key (kind @ '':'') then ret ()
      else if map_of desired key \<noteq> None then ret ()
      else if map_of explicit key \<noteq> None then ret ()
      else (case ParseRepoRef key of Some ref \<Rightarrow> Remove deps ref | None \<Rightarrow> ret ()))"

definition reconcile_source ::
  "map_order \<Rightarrow> 'f registry_deps \<Rightarrow> (string \<times> repo_ref) list \<Rightarrow> 'f repo_source \<Rightarrow>
     ('f service, unit) state" where
  "reconcile_source ord deps explicit src = do {
     r \<leftarrow> in_world (call_source src);
     (case r of
        Inl _ \<Rightarrow> ret ()
      | Inr refs \<Rightarrow> do {
          addNew ord deps (ref_map refs);
          keys \<leftarrow> gets (Registry_Keys \<circ> sv_repos);
          for_each (ord keys) (drop_repo deps (src_Kind src) (ref_map refs) explicit) }) }"

definition DiscoverOnce :: "map_order \<Rightarrow> 'f discovery_deps \<Rightarrow> ('f service, unit) state" where
  "DiscoverOnce ord deps = do {
     addNew ord (dd_Registry deps) (ref_map (dd_ExplicitRepos deps));
     for_each (dd_Sources deps)
       (reconcile_source ord (dd_Registry deps) (ref_map (dd_ExplicitRepos deps))) }"

subsection \<open>The map of references\<close>

lemma ref_map_snoc: "ref_map (refs @ [r]) = AList.update (RepoRef_String r) r (ref_map refs)"
  by (simp add: ref_map_def)

lemma ref_map_key: "map_of (ref_map refs) key = Some r \<Longrightarrow> RepoRef_String r = key"
  by (induction refs rule: rev_induct)
    (auto simp: ref_map_snoc map_of_update ref_map_def split: if_splits)

lemma ref_map_mem: "map_of (ref_map refs) key = Some r \<Longrightarrow> r \<in> set refs"
  by (induction refs rule: rev_induct)
    (auto simp: ref_map_snoc map_of_update ref_map_def split: if_splits)

lemma ref_map_dom: "map_of (ref_map refs) key = None \<longleftrightarrow> key \<notin> RepoRef_String ` set refs"
  by (induction refs rule: rev_induct) (auto simp: ref_map_snoc map_of_update ref_map_def)

subsection \<open>Effects\<close>

text \<open>
  \<open>registry_effects\<close>: a relation that the poll cycle, recovery and cancellation respect is
  respected by the management of repositories, when it is read on the world of the service.
\<close>

definition on_world :: "('f world \<Rightarrow> 'f world \<Rightarrow> bool) \<Rightarrow> 'f service \<Rightarrow> 'f service \<Rightarrow> bool" where
  "on_world P s s' \<longleftrightarrow> P (sv_world s) (sv_world s')"

lemma po_on_world [io_intros]: "po_rel P \<Longrightarrow> po_rel (on_world P)"
  unfolding po_rel_def on_world_def by blast

lemma io_in_world [io_intros]: "state_io_rel P m \<Longrightarrow> state_io_rel (on_world P) (in_world m)"
  by (auto simp: state_io_rel_def on_world_def run_in_world)

lemma io_repos [io_intros]:
  "po_rel P \<Longrightarrow> state_io_rel (on_world P) (modifies (sv_repos_update f))"
  by (simp add: state_io_rel_def on_world_def po_rel_def)

locale registry_effects = check_effects +
  assumes eng_LiveBranchNames: "state_io_rel P (LiveBranchNames e)"
    and eng_ReconcileLive: "state_io_rel P (ReconcileLive e)"
    and reg_CancelLiveBatches: "state_io_rel P (CancelLiveBatches r)"
begin

lemma io_prepare [io_intros]: "state_io_rel P (prepare deps ref)"
  unfolding prepare_def call_EnsureRepoSetup_def Let_def
  by (intro io_intros eng_LiveBranchNames eng_ReconcileLive; simp)

lemma io_teardown [io_intros]: "state_io_rel P (teardown deps ref m)"
  unfolding teardown_def by (intro io_intros reg_CancelLiveBatches)

lemma io_registry [io_intros]:
  "state_io_rel (on_world P) (Add deps ref)"
  "state_io_rel (on_world P) (Remove deps ref)"
  unfolding Add_def Remove_def by (intro io_intros)+

lemma io_DiscoverOnce: "state_io_rel (on_world P) (DiscoverOnce ord dd)"
  unfolding DiscoverOnce_def addNew_def reconcile_source_def drop_repo_def call_source_def Let_def
  by (intro io_intros; simp)

lemma lookup_managed:
  assumes "repos_ok deps repos"
  shows "lookup_ok P (LookupMonitor repos)"
proof -
  have "state_io_rel P (h x c s u)"
    if "map_of repos k = Some m" "md_Batch (rm_Deps (mr_Monitor m)) = Some h" for k m h x c s u
  proof -
    have "managed_ok deps m" using repos_okD[OF assms that(1)] by simp
    then show ?thesis
      by (rule managed_fields) (use that(2) in \<open>auto simp: map_option_case intro: eng_HandleCheck split: option.splits\<close>)
  qed
  then show ?thesis by (auto simp: lookup_ok_def LookupMonitor_def Lookup_def)
qed

end

sublocale landing_effects \<subseteq> registry_effects P ok okc
  by unfold_locales (intro io_intros)+

subsection \<open>What stays managed\<close>

definition managed_as :: "string \<Rightarrow> 'f managed_repo \<Rightarrow> 'f service \<Rightarrow> bool" where
  "managed_as key m s \<longleftrightarrow> map_of (sv_repos s) key = Some m"

lemma Add_managed: "hoare (managed_as key m) (Add deps ref) (\<lambda>_. managed_as key m)"
  by (rule hoareI)
    (auto simp: managed_as_def Add_def run_in_world map_of_publish split: sum.splits if_splits)

lemma addNew_managed: "hoare (managed_as key m) (addNew ord deps desired) (\<lambda>_. managed_as key m)"
  unfolding addNew_def
proof (rule hoare_for_each)
  fix k
  show "hoare (managed_as key m) (do {
       managed \<leftarrow> gets (Contains k \<circ> sv_repos);
       if managed then ret ()
       else (case map_of desired k of None \<Rightarrow> ret () | Some ref \<Rightarrow> warn_if_err (Add deps ref)) })
     (\<lambda>_. managed_as key m)"
    by (intro hoareI) (auto intro: Add_managed[THEN hoareD_snd] split: option.splits if_splits)
qed

lemma Remove_managed:
  "RepoRef_String ref \<noteq> key \<Longrightarrow> hoare (managed_as key m) (Remove deps ref) (\<lambda>_. managed_as key m)"
  by (rule hoareI)
    (auto simp: managed_as_def Remove_def run_in_world map_of_delete split: option.splits)

lemma drop_managed:
  assumes "has_prefix key (kind @ '':'') \<Longrightarrow> map_of desired key \<noteq> None \<or> map_of explicit key \<noteq> None"
  shows "hoare (managed_as key m) (drop_repo deps kind desired explicit k) (\<lambda>_. managed_as key m)"
proof (cases "k = key")
  case True
  then show ?thesis using assms by (auto simp: drop_repo_def intro!: hoare_ret)
next
  case False
  then show ?thesis unfolding drop_repo_def
    by (intro hoare_intros Remove_managed) (auto dest: ParseRepoRef_sound)
qed

text \<open>A source wants a repository when whatever it lists contains it.\<close>

definition source_keeps :: "string \<Rightarrow> 'f repo_source \<Rightarrow> bool" where
  "source_keeps key src \<longleftrightarrow> (has_prefix key (src_Kind src @ '':'') \<longrightarrow>
     (\<forall>f. case fst (run_state (src_List src) f) of
        Inl _ \<Rightarrow> True | Inr refs \<Rightarrow> key \<in> RepoRef_String ` set refs))"

lemma hoare_gets: "hoare P (gets f) (\<lambda>_. P)"
  by (rule hoareI) simp

text \<open>A predicate of the registry across a listing.\<close>

lemma hoare_source:
  assumes "\<And>s w. I (s\<lparr>sv_world := w\<rparr>) = I s"
    and "\<And>refs f. fst (run_state (src_List src) f) = Inr refs \<Longrightarrow> hoare I (g (Inr refs)) Q"
    and "\<And>e f. fst (run_state (src_List src) f) = Inl e \<Longrightarrow> hoare I (g (Inl e)) Q"
  shows "hoare I (in_world (call_source src) \<bind> g) Q"
proof (rule hoare_bind)
  let ?R = "\<lambda>r s. I s \<and> (\<exists>f. fst (run_state (src_List src) f) = r)"
  show "hoare I (in_world (call_source src)) ?R"
    by (rule hoareI) (auto simp: assms(1) run_in_world call_source_def run_forge_do)
  show "hoare (?R r) (g r) Q" for r
  proof (rule hoareI)
    fix s a s'
    assume "?R r s" "run_state (g r) s = (a, s')"
    then show "Q a s'"
      by (cases r) (auto intro: hoareD[OF assms(2)] hoareD[OF assms(3)])
  qed
qed

lemma reconcile_managed:
  assumes "source_keeps key src \<or> map_of explicit key \<noteq> None"
  shows "hoare (managed_as key m) (reconcile_source ord deps explicit src) (\<lambda>_. managed_as key m)"
  unfolding reconcile_source_def
proof (rule hoare_source)
  fix refs f
  assume "fst (run_state (src_List src) f) = Inr refs"
  then have "map_of (ref_map refs) key \<noteq> None \<or> map_of explicit key \<noteq> None"
    if "has_prefix key (src_Kind src @ '':'')"
    using assms that ref_map_dom[of refs key] by (force simp: source_keeps_def split: sum.splits)
  then show "hoare (managed_as key m) (case Inr refs of Inl _ \<Rightarrow> ret () | Inr refs \<Rightarrow> do {
      addNew ord deps (ref_map refs);
      keys \<leftarrow> gets (Registry_Keys \<circ> sv_repos);
      for_each (ord keys) (drop_repo deps (src_Kind src) (ref_map refs) explicit) }) (\<lambda>_. managed_as key m)"
    unfolding sum.case
    by (intro hoare_bind[OF addNew_managed] hoare_bind[OF hoare_gets] hoare_for_each drop_managed)
qed (auto simp: managed_as_def intro: hoare_ret)

lemma DiscoverOnce_managed:
  assumes "\<forall>src \<in> set (dd_Sources dd). source_keeps key src \<or> key \<in> RepoRef_String ` set (dd_ExplicitRepos dd)"
  shows "hoare (managed_as key m) (DiscoverOnce ord dd) (\<lambda>_. managed_as key m)"
  unfolding DiscoverOnce_def using assms
  by (intro hoare_bind[OF addNew_managed] hoare_for_each reconcile_managed) (auto simp: ref_map_dom)

subsection \<open>What goes\<close>

definition key_in :: "(string \<Rightarrow> bool) \<Rightarrow> 'f service \<Rightarrow> bool" where
  "key_in A s \<longleftrightarrow> (\<forall>key m. map_of (sv_repos s) key = Some m \<longrightarrow> A key)"

definition is_ref :: "string \<Rightarrow> bool" where
  "is_ref key \<longleftrightarrow> (\<exists>r. ref_ok r \<and> RepoRef_String r = key)"

lemma key_in_weaken: "key_in A s \<Longrightarrow> (\<And>k. A k \<Longrightarrow> B k) \<Longrightarrow> key_in B s"
  by (auto simp: key_in_def)

lemma prepare_Ref: "fst (run_state (prepare deps ref) w) = Inr m \<Longrightarrow> mr_Ref m = ref"
  using prepare_ok by blast

lemma Add_key_in:
  assumes "A (RepoRef_String ref)"
  shows "hoare (key_in A) (Add deps ref) (\<lambda>_. key_in A)"
  using assms
  by (intro hoareI) (auto simp: key_in_def Add_def run_in_world map_of_publish prod_eq_iff
      dest!: prepare_Ref split: sum.splits prod.splits if_splits)

lemma addNew_key_in:
  assumes "\<And>k ref. map_of desired k = Some ref \<Longrightarrow> A (RepoRef_String ref)"
  shows "hoare (key_in A) (addNew ord deps desired) (\<lambda>_. key_in A)"
  unfolding addNew_def
proof (rule hoare_for_each)
  fix k
  show "hoare (key_in A) (do {
       managed \<leftarrow> gets (Contains k \<circ> sv_repos);
       if managed then ret ()
       else (case map_of desired k of None \<Rightarrow> ret () | Some ref \<Rightarrow> warn_if_err (Add deps ref)) })
     (\<lambda>_. key_in A)"
    using assms
    by (intro hoareI) (auto intro: Add_key_in[THEN hoareD_snd] split: option.splits if_splits)
qed

lemma drop_key_in:
  "key_in A s \<Longrightarrow> key_in A (snd (run_state (drop_repo deps kind desired explicit k) s))"
  by (auto simp: key_in_def drop_repo_def Remove_def run_in_world map_of_delete split: option.splits if_splits)

lemma drop_hoare: "hoare (key_in A) (drop_repo deps kind desired explicit k) (\<lambda>_. key_in A)"
  by (rule hoareI) (metis drop_key_in snd_conv)

lemma drop_gone:
  assumes "has_prefix k (kind @ '':'')" "map_of desired k = None" "map_of explicit k = None" "key_in is_ref s"
  shows "map_of (sv_repos (snd (run_state (drop_repo deps kind desired explicit k) s))) k = None"
proof (cases "map_of (sv_repos s) k")
  case None
  have "key_in (\<lambda>i. i \<noteq> k) s" using None by (auto simp: key_in_def)
  from drop_key_in[OF this, of deps kind desired explicit k] show ?thesis
    by (cases "map_of (sv_repos (snd (run_state (drop_repo deps kind desired explicit k) s))) k")
      (auto simp: key_in_def)
next
  case (Some m)
  with assms(4) obtain r where "ref_ok r" "RepoRef_String r = k" by (auto simp: key_in_def is_ref_def)
  then have "ParseRepoRef k = Some r" using ParseRepoRef_String by blast
  with assms \<open>RepoRef_String r = k\<close> show ?thesis
    by (auto simp: drop_repo_def Remove_def run_in_world map_of_delete split: option.splits)
qed

text \<open>The keys a source that lists \<open>refs\<close> leaves managed: of its own kind only the listed and
  the explicit ones; \<open>ks\<close> are still to be looked at.\<close>

definition kept_key :: "string \<Rightarrow> string set \<Rightarrow> string list \<Rightarrow> string \<Rightarrow> bool" where
  "kept_key kind K ks k \<longleftrightarrow> is_ref k \<and> (has_prefix k (kind @ '':'') \<longrightarrow> k \<in> K \<union> set ks)"

lemma drop_loop:
  assumes "\<And>k. map_of desired k \<noteq> None \<or> map_of explicit k \<noteq> None \<Longrightarrow> k \<in> K"
  shows "hoare (key_in (kept_key kind K ks)) (for_each ks (drop_repo deps kind desired explicit))
     (\<lambda>_. key_in (kept_key kind K []))"
proof (induction ks)
  case (Cons k ks)
  have "hoare (key_in (kept_key kind K (k # ks))) (drop_repo deps kind desired explicit k)
      (\<lambda>_. key_in (kept_key kind K ks))"
  proof (rule hoareI)
    fix s :: "'a service" and r s'
    assume pre: "key_in (kept_key kind K (k # ks)) s"
      and run: "run_state (drop_repo deps kind desired explicit k) s = (r, s')"
    have s': "s' = snd (run_state (drop_repo deps kind desired explicit k) s)" by (simp add: run)
    have refs: "key_in is_ref s" by (rule key_in_weaken[OF pre]) (simp add: kept_key_def)
    have "key_in (kept_key kind K (k # ks)) s'" unfolding s' by (rule drop_key_in[OF pre])
    moreover have "map_of (sv_repos s') k = None \<or> \<not> has_prefix k (kind @ '':'') \<or> k \<in> K"
      using drop_gone[OF _ _ _ refs] assms[of k] unfolding s' by blast
    ultimately show "key_in (kept_key kind K ks) s'" by (auto simp: key_in_def kept_key_def)
  qed
  then show ?case using Cons.IH by (auto intro: hoare_bind)
qed (auto intro: hoare_ret)

lemma in_world_keys: "hoare (key_in A) (in_world n) (\<lambda>_. key_in A)"
  by (rule hoareI) (auto simp: key_in_def run_in_world)

text \<open>A source that lists well-formed references of its own kind.\<close>

definition source_ok :: "'f repo_source \<Rightarrow> bool" where
  "source_ok src \<longleftrightarrow> Kind_Valid (src_Kind src) \<and>
     (\<forall>f. case fst (run_state (src_List src) f) of Inl _ \<Rightarrow> True
        | Inr refs \<Rightarrow> (\<forall>r \<in> set refs. ref_ok r \<and> rr_Forge r = src_Kind src))"

lemma source_ok_listed:
  "source_ok src \<Longrightarrow> fst (run_state (src_List src) f) = Inr refs \<Longrightarrow> r \<in> set refs \<Longrightarrow>
     ref_ok r \<and> rr_Forge r = src_Kind src"
  by (auto simp: source_ok_def split: sum.splits dest: spec[of _ f])

lemma kind_prefix:
  assumes "Kind_Valid k" "ref_ok r"
  shows "has_prefix (RepoRef_String r) (k @ '':'') \<longleftrightarrow> rr_Forge r = k"
proof
  assume p: "has_prefix (RepoRef_String r) (k @ '':'')"
  have c: "CHR '':'' \<notin> set k" "CHR '':'' \<notin> set (rr_Forge r)"
    using assms Kind_Valid_chars by (auto simp: ref_ok_def)
  from p obtain t where "rr_Forge r @ CHR '':'' # (rr_Owner r @ ''/'' @ rr_Name r) = k @ CHR '':'' # t"
    by (auto simp: has_prefix_def RepoRef_String_def prefix_def)
  then have "takeWhile (\<lambda>c. c \<noteq> CHR '':'') (rr_Forge r @ CHR '':'' # (rr_Owner r @ ''/'' @ rr_Name r)) =
      takeWhile (\<lambda>c. c \<noteq> CHR '':'') (k @ CHR '':'' # t)"
    by simp
  moreover have "takeWhile (\<lambda>c. c \<noteq> CHR '':'') (xs @ CHR '':'' # ys) = xs" if "CHR '':'' \<notin> set xs" for xs ys
    using that by (induction xs) auto
  ultimately show "rr_Forge r = k" using c by simp
qed (auto simp: has_prefix_def RepoRef_String_def prefix_def)

lemma reconcile_keeps:
  assumes "source_ok src" "\<And>r. ref_ok r \<Longrightarrow> rr_Forge r = src_Kind src \<Longrightarrow> A (RepoRef_String r)"
  shows "hoare (key_in A) (reconcile_source ord deps explicit src) (\<lambda>_. key_in A)"
  unfolding reconcile_source_def
proof (rule hoare_source)
  fix refs f
  assume l: "fst (run_state (src_List src) f) = Inr refs"
  have "A (RepoRef_String r)" if "map_of (ref_map refs) k = Some r" for k r
    using source_ok_listed[OF assms(1) l ref_map_mem[OF that]] assms(2) by simp
  then show "hoare (key_in A) (case Inr refs of Inl _ \<Rightarrow> ret () | Inr refs \<Rightarrow> do {
      addNew ord deps (ref_map refs);
      keys \<leftarrow> gets (Registry_Keys \<circ> sv_repos);
      for_each (ord keys) (drop_repo deps (src_Kind src) (ref_map refs) explicit) }) (\<lambda>_. key_in A)"
    unfolding sum.case
    by (intro hoare_bind[OF addNew_key_in] hoare_bind[OF hoare_gets] hoare_for_each)
      (auto intro: drop_hoare)
qed (auto simp: key_in_def intro: hoare_ret)

lemma reconcile_listed:
  fixes refs :: "repo_ref list" and explicit :: "(string \<times> repo_ref) list"
  defines "K \<equiv> RepoRef_String ` set refs \<union> dom (map_of explicit)"
  assumes "source_ok src" "\<And>f. fst (run_state (src_List src) f) = Inr refs" "\<And>xs. set (ord xs) = set xs"
  shows "hoare (key_in is_ref) (reconcile_source ord deps explicit src)
     (\<lambda>_. key_in (kept_key (src_Kind src) K []))"
  unfolding reconcile_source_def
proof (rule hoare_source)
  fix refs' f
  assume "fst (run_state (src_List src) f) = Inr refs'"
  then have [simp]: "refs' = refs" using assms(3) by simp
  have refs: "is_ref (RepoRef_String r)" if "map_of (ref_map refs) k = Some r" for k r
    using source_ok_listed[OF assms(2,3) ref_map_mem[OF that]] by (auto simp: is_ref_def)
  let ?keys = "\<lambda>keys s. key_in (kept_key (src_Kind src) K (ord keys)) s"
  have keys: "hoare (key_in is_ref) (gets (Registry_Keys \<circ> sv_repos)) ?keys"
    by (rule hoareI) (force simp: key_in_def kept_key_def Registry_Keys_def assms(4) dest: map_of_SomeD)
  have K: "map_of (ref_map refs) k \<noteq> None \<or> map_of explicit k \<noteq> None \<Longrightarrow> k \<in> K" for k
    by (auto simp: K_def ref_map_dom)
  show "hoare (key_in is_ref) (case Inr refs' of Inl _ \<Rightarrow> ret () | Inr refs \<Rightarrow> do {
      addNew ord deps (ref_map refs);
      keys \<leftarrow> gets (Registry_Keys \<circ> sv_repos);
      for_each (ord keys) (drop_repo deps (src_Kind src) (ref_map refs) explicit) })
    (\<lambda>_. key_in (kept_key (src_Kind src) K []))"
    by (simp, intro hoare_bind[OF addNew_key_in] hoare_bind[OF keys] drop_loop K refs)
qed (use assms(3) in \<open>auto simp: key_in_def\<close>)

lemma hoare_for_each_split:
  assumes "\<And>x. x \<in> set xs \<Longrightarrow> hoare A (f x) (\<lambda>_. A)" "hoare A (f y) (\<lambda>_. B)"
    "\<And>z. z \<in> set zs \<Longrightarrow> hoare B (f z) (\<lambda>_. B)"
  shows "hoare A (for_each (xs @ y # zs) f) (\<lambda>_. B)"
  unfolding for_each_append for_each.simps
  by (intro hoare_bind[OF hoare_for_each[OF assms(1)]] hoare_bind[OF assms(2)] hoare_for_each assms(3))

lemma DiscoverOnce_keys:
  assumes src: "src \<in> set (dd_Sources dd)" "\<And>f. fst (run_state (src_List src) f) = Inr refs"
    and ok: "\<forall>x \<in> set (dd_Sources dd). source_ok x" "distinct (map src_Kind (dd_Sources dd))"
      "\<forall>r \<in> set (dd_ExplicitRepos dd). ref_ok r" "\<And>xs. set (ord xs) = set xs"
  shows "hoare (key_in is_ref) (DiscoverOnce ord dd)
     (\<lambda>_. key_in (kept_key (src_Kind src) (RepoRef_String ` set (refs @ dd_ExplicitRepos dd)) []))"
proof -
  let ?ex = "ref_map (dd_ExplicitRepos dd)"
  have K: "RepoRef_String ` set (refs @ dd_ExplicitRepos dd) = RepoRef_String ` set refs \<union> dom (map_of ?ex)"
    using ref_map_dom[of "dd_ExplicitRepos dd"] by (auto simp: dom_def)
  obtain xs ys where split: "dd_Sources dd = xs @ src # ys" using split_list[OF src(1)] by auto
  have explicit: "is_ref (RepoRef_String r)" if "map_of ?ex k = Some r" for k r
    using ref_map_mem[OF that] ok(3) by (auto simp: is_ref_def)
  have later: "kept_key (src_Kind src) L [] (RepoRef_String r)"
    if "y \<in> set ys" "ref_ok r" "rr_Forge r = src_Kind y" for y r L
  proof -
    have "src_Kind y \<noteq> src_Kind src" "Kind_Valid (src_Kind src)"
      using that(1) ok(1,2) by (auto simp: split source_ok_def) (metis imageI)
    then show ?thesis using that kind_prefix[of "src_Kind src" r] by (auto simp: kept_key_def is_ref_def)
  qed
  show ?thesis
    unfolding DiscoverOnce_def K split
  proof (intro hoare_bind[OF addNew_key_in] hoare_for_each_split explicit reconcile_listed src(2) ok(4))
    show "hoare (key_in is_ref) (reconcile_source ord (dd_Registry dd) ?ex x) (\<lambda>_. key_in is_ref)"
      if "x \<in> set xs" for x
      by (rule reconcile_keeps) (use that ok(1) in \<open>auto simp: split is_ref_def\<close>)
    show "hoare (key_in (kept_key (src_Kind src) L [])) (reconcile_source ord (dd_Registry dd) ?ex y)
        (\<lambda>_. key_in (kept_key (src_Kind src) L []))" if "y \<in> set ys" for y L
      by (rule reconcile_keeps) (use that ok(1) later in \<open>auto simp: split\<close>)
    show "source_ok src" using ok(1) src(1) by simp
  qed
qed

end
