(* ===== verification/GoTime.thy ===== *)
theory GoTime
  imports GoStrings
begin

text \<open>
  \<open>time.ParseDuration\<close>: a duration is a signed number of nanoseconds. The integral part of
  every term is computed in 64 bits; a fraction is scaled in double precision, so the rounding
  of IEEE arithmetic is part of the function.
\<close>

subsection \<open>Double precision\<close>

fun bit_length :: "nat \<Rightarrow> nat" where
  "bit_length n = (if n = 0 then 0 else Suc (bit_length (n div 2)))"

declare bit_length.simps [simp del]

definition half_even :: "nat \<Rightarrow> nat \<Rightarrow> nat" where
  "half_even a b =
     (let q = a div b; r = a mod b
      in if 2 * r < b then q else if b < 2 * r then Suc q else if even q then q else Suc q)"

text \<open>The double nearest to \<open>a / b\<close>, as a pair of naturals whose quotient it is exactly.\<close>

definition round_double :: "nat \<times> nat \<Rightarrow> nat \<times> nat" where
  "round_double = (\<lambda>(a, b).
     if a = 0 then (0, 1)
     else let la = bit_length a; lb = bit_length b;
              up = 53 + lb - la; down = la - lb - 53;
              a' = a * 2 ^ up; b' = b * 2 ^ down;
              m = (if a' div b' < 2 ^ 53 then half_even a' b' else 2 * half_even a' (2 * b'))
          in (m * 2 ^ down, 2 ^ up))"

definition mul_double :: "nat \<times> nat \<Rightarrow> nat \<times> nat \<Rightarrow> nat \<times> nat" where
  "mul_double x y = round_double (fst x * fst y, snd x * snd y)"

text \<open>\<open>uint64(float64(f) * (float64(unit) / scale))\<close>\<close>

definition scale_fraction :: "nat \<Rightarrow> nat \<Rightarrow> nat \<Rightarrow> nat" where
  "scale_fraction f unit scale =
     (let p = mul_double (round_double (f, 1)) (round_double (unit, scale)) in fst p div snd p)"

subsection \<open>Parsing\<close>

definition unit_map :: "string \<Rightarrow> nat option" where
  "unit_map u = map_of
     [(''ns'', 1), (''us'', 1000),
      ([CHR 0xC2, CHR 0xB5, CHR ''s''], 1000), ([CHR 0xCE, CHR 0xBC, CHR ''s''], 1000),
      (''ms'', 1000000), (''s'', 1000000000), (''m'', 60000000000), (''h'', 3600000000000)] u"

definition decimal :: "char \<Rightarrow> bool" where
  "decimal c \<longleftrightarrow> char_digit c \<noteq> None"

fun leading_int :: "nat \<Rightarrow> string \<Rightarrow> (nat \<times> string) option" where
  "leading_int x [] = Some (x, [])"
| "leading_int x (c # cs) =
     (case char_digit c of
        None \<Rightarrow> Some (x, c # cs)
      | Some d \<Rightarrow>
          if x > 2 ^ 63 div 10 then None
          else if x * 10 + d > 2 ^ 63 then None
          else leading_int (x * 10 + d) cs)"

text \<open>Digits that no longer fit are skipped.\<close>

fun leading_fraction :: "bool \<Rightarrow> nat \<Rightarrow> nat \<Rightarrow> string \<Rightarrow> nat \<times> nat \<times> string" where
  "leading_fraction overflow x scale [] = (x, scale, [])"
| "leading_fraction overflow x scale (c # cs) =
     (case char_digit c of
        None \<Rightarrow> (x, scale, c # cs)
      | Some d \<Rightarrow>
          if overflow then leading_fraction overflow x scale cs
          else if x > (2 ^ 63 - 1) div 10 then leading_fraction True x scale cs
          else if x * 10 + d > 2 ^ 63 then leading_fraction True x scale cs
          else leading_fraction overflow (x * 10 + d) (scale * 10) cs)"

text \<open>One term, a number and its unit; the result is the amount and the rest of the text.\<close>

definition duration_term :: "string \<Rightarrow> (nat \<times> string) option" where
  "duration_term s =
     (if \<not> (hd s = CHR ''.'' \<or> decimal (hd s)) then None
      else case leading_int 0 s of
        None \<Rightarrow> None
      | Some (v, s1) \<Rightarrow>
          (let pre = length s1 \<noteq> length s;
               (f, scale, s2, post) =
                 (if s1 \<noteq> [] \<and> hd s1 = CHR ''.''
                  then (case leading_fraction False 0 1 (tl s1) of
                          (f, scale, s2) \<Rightarrow> (f, scale, s2, length s2 \<noteq> length (tl s1)))
                  else (0, 1, s1, False));
               u = takeWhile (\<lambda>c. \<not> (c = CHR ''.'' \<or> decimal c)) s2;
               rest = dropWhile (\<lambda>c. \<not> (c = CHR ''.'' \<or> decimal c)) s2
           in if \<not> pre \<and> \<not> post then None
              else if u = [] then None
              else case unit_map u of
                None \<Rightarrow> None
              | Some unit \<Rightarrow>
                  if v > 2 ^ 63 div unit then None
                  else (let v1 = v * unit; v2 = (if f > 0 then v1 + scale_fraction f unit scale else v1)
                        in if v2 > 2 ^ 63 then None else Some (v2, rest))))"

fun duration_terms :: "nat \<Rightarrow> nat \<Rightarrow> string \<Rightarrow> nat option" where
  "duration_terms 0 d s = None"
| "duration_terms (Suc n) d s =
     (if s = [] then Some d
      else case duration_term s of
        None \<Rightarrow> None
      | Some (v, rest) \<Rightarrow> if d + v > 2 ^ 63 then None else duration_terms n (d + v) rest)"

definition parse_duration :: "string \<Rightarrow> int option" where
  "parse_duration orig =
     (let neg = (orig \<noteq> [] \<and> hd orig = CHR ''-'');
          s = (if orig \<noteq> [] \<and> (hd orig = CHR ''-'' \<or> hd orig = CHR ''+'') then tl orig else orig)
      in if s = ''0'' then Some 0
         else if s = [] then None
         else case duration_terms (Suc (length s)) 0 s of
           None \<Rightarrow> None
         | Some d \<Rightarrow> if neg then Some (- int d) else if d > 2 ^ 63 - 1 then None else Some (int d))"

end
