(* ===== verification/Config.thy ===== *)
theory Config
  imports Forge GoTime Errors
begin

text \<open>
  \<open>internal/config\<close>: the configuration, read from the environment. The environment is a function
  (an unset variable reads as empty, as \<open>os.Getenv\<close> has it); reading a file is the parameter
  \<open>read_file\<close>. Errors are the constructors of \<open>config_error\<close>, one for each way to fail.
  Durations are nanoseconds. \<open>os.UserCacheDir\<close> is that of Linux.
\<close>

type_synonym env = "string \<Rightarrow> string"

datatype config_error =
    MissingVariables "string list"
  | NoForgeConfigured
  | InvalidRepo string string
  | NoReposSpecified string
  | InvalidAppID string
  | SecretFileError string error
  | InvalidInteger string string
  | IntegerBelow string int int
  | InvalidBoolean string string
  | InvalidDuration string string
  | DurationNotPositive string int
  | InvalidLogLevel string

record GiteaConfig =
  gc_URL :: string
  gc_Token :: string
  gc_WebhookSecret :: string
  gc_Topic :: string
  gc_Repos :: "repo_ref list"

record GithubConfig =
  hc_AppID :: int
  hc_PrivateKey :: string
  hc_WebhookSecret :: string
  hc_Repos :: "repo_ref list"
  hc_PollInterval :: int

record Config =
  cfg_Gitea :: "GiteaConfig option"
  cfg_Github :: "GithubConfig option"
  cfg_DatabaseURL :: string
  cfg_ListenAddr :: string
  cfg_WebhookPath :: string
  cfg_ExternalURL :: string
  cfg_PollInterval :: int
  cfg_IdlePollInterval :: int
  cfg_CheckTimeout :: int
  cfg_RequiredChecks :: "string list"
  cfg_SkipQueueIfUpToDate :: bool
  cfg_BatchMax :: int
  cfg_BisectMaxSteps :: int
  cfg_RefreshInterval :: int
  cfg_DiscoveryInterval :: int
  cfg_LogLevel :: string
  cfg_CacheDir :: string

text \<open>\<open>v, err := m; if err != nil { return nil, err }\<close> without state.\<close>

definition try_ok :: "'e + 'a \<Rightarrow> ('a \<Rightarrow> 'e + 'b) \<Rightarrow> 'e + 'b" where
  "try_ok m f = (case m of Inl e \<Rightarrow> Inl e | Inr a \<Rightarrow> f a)"

lemma try_ok_Inr [simp]: "try_ok m f = Inr b \<longleftrightarrow> (\<exists>a. m = Inr a \<and> f a = Inr b)"
  by (auto simp: try_ok_def split: sum.splits)

subsection \<open>Reading one variable\<close>

definition envOrDefault :: "env \<Rightarrow> string \<Rightarrow> string \<Rightarrow> string" where
  "envOrDefault env key defaultVal = (if env key \<noteq> [] then env key else defaultVal)"

definition readSecret ::
  "env \<Rightarrow> (string \<Rightarrow> error + string) \<Rightarrow> string \<Rightarrow> config_error + string" where
  "readSecret env read_file key =
     (if env key \<noteq> [] then Inr (env key)
      else let path = env (key @ ''_FILE'') in
        if path \<noteq> [] then (case read_file path of Inl e \<Rightarrow> Inl (SecretFileError key e) | Inr b \<Rightarrow> Inr b)
        else Inr [])"

fun parse_repo_parts :: "string \<Rightarrow> string list \<Rightarrow> config_error + repo_ref list" where
  "parse_repo_parts kind [] = Inr []"
| "parse_repo_parts kind (part # parts) =
     (let p = trim_space part in
      if p = [] then parse_repo_parts kind parts
      else case cut ''/'' p of
          None \<Rightarrow> Inl (InvalidRepo kind p)
        | Some (owner, name) \<Rightarrow>
            if owner = [] \<or> name = [] then Inl (InvalidRepo kind p)
            else try_ok (parse_repo_parts kind parts) (\<lambda>repos.
              Inr (\<lparr>rr_Forge = kind, rr_Owner = owner, rr_Name = name\<rparr> # repos)))"

definition parseRepos :: "string \<Rightarrow> string \<Rightarrow> config_error + repo_ref list" where
  "parseRepos s kind =
     try_ok (parse_repo_parts kind (split_on (CHR '','') s)) (\<lambda>repos.
       if repos = [] then Inl (NoReposSpecified kind) else Inr repos)"

definition parseInt :: "env \<Rightarrow> string \<Rightarrow> int \<Rightarrow> int \<Rightarrow> config_error + int" where
  "parseInt env key defaultVal minVal =
     (if env key = [] then Inr defaultVal
      else case parse_int64 (env key) of
          None \<Rightarrow> Inl (InvalidInteger key (env key))
        | Some n \<Rightarrow> if n < minVal then Inl (IntegerBelow key minVal n) else Inr n)"

definition parseBool :: "env \<Rightarrow> string \<Rightarrow> bool \<Rightarrow> config_error + bool" where
  "parseBool env key defaultVal =
     (if env key = [] then Inr defaultVal
      else case parse_bool (env key) of
          None \<Rightarrow> Inl (InvalidBoolean key (env key))
        | Some b \<Rightarrow> Inr b)"

definition parseDurationOrDefault :: "env \<Rightarrow> string \<Rightarrow> int \<Rightarrow> config_error + int" where
  "parseDurationOrDefault env key defaultVal =
     (if env key = [] then Inr defaultVal
      else case parse_duration (env key) of
          None \<Rightarrow> Inl (InvalidDuration key (env key))
        | Some d \<Rightarrow> if d \<le> 0 then Inl (DurationNotPositive key d) else Inr d)"

definition required_checks :: "string \<Rightarrow> string list" where
  "required_checks checks =
     (if checks = [] then [] else filter (\<lambda>c. c \<noteq> []) (map trim_space (split_on (CHR '','') checks)))"

subsection \<open>The forges\<close>

text \<open>A section is absent unless its first variable is set; the names of missing variables are
  collected.\<close>

definition missing_if :: "bool \<Rightarrow> string \<Rightarrow> string list \<Rightarrow> string list" where
  "missing_if b name missing = (if b then missing @ [name] else missing)"

definition loadGitea :: "env \<Rightarrow> string list \<Rightarrow> config_error + GiteaConfig option \<times> string list" where
  "loadGitea env missing =
     (let url = trim_right (CHR ''/'') (env ''GITEA_MQ_GITEA_URL'') in
      if url = [] then Inr (None, missing)
      else
        let topic = env ''GITEA_MQ_TOPIC'';
            token = env ''GITEA_MQ_GITEA_TOKEN'';
            secret = env ''GITEA_MQ_WEBHOOK_SECRET'';
            reposStr = env ''GITEA_MQ_REPOS'';
            missing = missing_if (token = []) ''GITEA_MQ_GITEA_TOKEN'' missing;
            missing = missing_if (secret = []) ''GITEA_MQ_WEBHOOK_SECRET'' missing;
            missing = missing_if (reposStr = [] \<and> topic = []) ''GITEA_MQ_REPOS'' missing
        in try_ok (if reposStr \<noteq> [] then parseRepos reposStr KindGitea else Inr []) (\<lambda>repos.
             Inr (Some \<lparr>gc_URL = url, gc_Token = token, gc_WebhookSecret = secret, gc_Topic = topic,
               gc_Repos = repos\<rparr>, missing)))"

definition loadGithub ::
  "env \<Rightarrow> (string \<Rightarrow> error + string) \<Rightarrow> string list \<Rightarrow>
     config_error + GithubConfig option \<times> string list" where
  "loadGithub env read_file missing =
     (let appIDStr = env ''GITEA_MQ_GITHUB_APP_ID'' in
      if appIDStr = [] then Inr (None, missing)
      else case parse_int64 appIDStr of
          None \<Rightarrow> Inl (InvalidAppID appIDStr)
        | Some appID \<Rightarrow>
            try_ok (readSecret env read_file ''GITEA_MQ_GITHUB_PRIVATE_KEY'') (\<lambda>key.
              let secret = env ''GITEA_MQ_GITHUB_WEBHOOK_SECRET'';
                  reposStr = env ''GITEA_MQ_GITHUB_REPOS'';
                  missing = missing_if (key = []) ''GITEA_MQ_GITHUB_PRIVATE_KEY'' missing;
                  missing = missing_if (secret = []) ''GITEA_MQ_GITHUB_WEBHOOK_SECRET'' missing
              in try_ok (if reposStr \<noteq> [] then parseRepos reposStr KindGithub else Inr []) (\<lambda>repos.
                   Inr (Some \<lparr>hc_AppID = appID, hc_PrivateKey = key, hc_WebhookSecret = secret,
                     hc_Repos = repos, hc_PollInterval = 0\<rparr>, missing))))"

subsection \<open>The cache directory\<close>

text \<open>\<open>filepath.Clean\<close>, on the components of a path.\<close>

fun clean_parts :: "bool \<Rightarrow> string list \<Rightarrow> string list \<Rightarrow> string list" where
  "clean_parts rooted out [] = rev out"
| "clean_parts rooted out (p # ps) =
     (if p = [] \<or> p = ''.'' then clean_parts rooted out ps
      else if p = ''..'' then
        (case out of
           o1 # os \<Rightarrow> if o1 = ''..'' then clean_parts rooted (p # out) ps else clean_parts rooted os ps
         | [] \<Rightarrow> if rooted then clean_parts rooted [] ps else clean_parts rooted [p] ps)
      else clean_parts rooted (p # out) ps)"

definition path_clean :: "string \<Rightarrow> string" where
  "path_clean path =
     (let rooted = has_prefix path ''/'';
          body = join_with ''/'' (clean_parts rooted [] (split_on (CHR ''/'') path))
      in if rooted then CHR ''/'' # body else if body = [] then ''.'' else body)"

definition path_join :: "string \<Rightarrow> string \<Rightarrow> string" where
  "path_join base name = path_clean (base @ ''/'' @ name)"

definition user_cache_dir :: "env \<Rightarrow> string option" where
  "user_cache_dir env =
     (let dir = env ''XDG_CACHE_HOME'' in
      if dir = [] then (if env ''HOME'' = [] then None else Some (env ''HOME'' @ ''/.cache''))
      else if has_prefix dir ''/'' then Some dir else None)"

definition temp_dir :: "env \<Rightarrow> string" where
  "temp_dir env = envOrDefault env ''TMPDIR'' ''/tmp''"

definition cache_dir :: "env \<Rightarrow> string" where
  "cache_dir env =
     (if env ''GITEA_MQ_CACHE_DIR'' \<noteq> [] then env ''GITEA_MQ_CACHE_DIR''
      else path_join (case user_cache_dir env of Some base \<Rightarrow> base | None \<Rightarrow> temp_dir env) ''gitea-mq'')"

subsection \<open>Load\<close>

definition second :: int where
  "second = 1000000000"

definition minute :: int where
  "minute = 60 * second"

definition valid_level :: "string \<Rightarrow> bool" where
  "valid_level level \<longleftrightarrow> level \<in> {''debug'', ''info'', ''warn'', ''error''}"

definition Load :: "env \<Rightarrow> (string \<Rightarrow> error + string) \<Rightarrow> config_error + Config" where
  "Load env read_file =
     (let db = env ''GITEA_MQ_DATABASE_URL'';
          ext = trim_right (CHR ''/'') (env ''GITEA_MQ_EXTERNAL_URL'');
          missing = missing_if (db = []) ''GITEA_MQ_DATABASE_URL'' [];
          missing = missing_if (ext = []) ''GITEA_MQ_EXTERNAL_URL'' missing
      in try_ok (loadGitea env missing) (\<lambda>(gitea, missing).
         try_ok (loadGithub env read_file missing) (\<lambda>(github, missing).
         if missing \<noteq> [] then Inl (MissingVariables missing)
         else if gitea = None \<and> github = None then Inl NoForgeConfigured
         else
         try_ok (parseDurationOrDefault env ''GITEA_MQ_POLL_INTERVAL'' (30 * second)) (\<lambda>poll.
         try_ok (parseDurationOrDefault env ''GITEA_MQ_IDLE_POLL_INTERVAL'' (15 * minute)) (\<lambda>idle.
         try_ok (parseDurationOrDefault env ''GITEA_MQ_CHECK_TIMEOUT'' (60 * minute)) (\<lambda>checkTimeout.
         try_ok (parseDurationOrDefault env ''GITEA_MQ_REFRESH_INTERVAL'' (10 * second)) (\<lambda>refresh.
         try_ok (parseDurationOrDefault env ''GITEA_MQ_DISCOVERY_INTERVAL'' (5 * minute)) (\<lambda>discovery.
         try_ok (case github of
             None \<Rightarrow> Inr None
           | Some gh \<Rightarrow> try_ok (parseDurationOrDefault env ''GITEA_MQ_GITHUB_POLL_INTERVAL'' poll)
               (\<lambda>d. Inr (Some (gh\<lparr>hc_PollInterval := d\<rparr>)))) (\<lambda>github.
         try_ok (parseBool env ''GITEA_MQ_SKIP_QUEUE_IF_UP_TO_DATE'' True) (\<lambda>skip.
         try_ok (parseInt env ''GITEA_MQ_BATCH_MAX'' 1 0) (\<lambda>batchMax.
         try_ok (parseInt env ''GITEA_MQ_BISECT_MAX_STEPS'' 0 0) (\<lambda>bisect.
         let level = envOrDefault env ''GITEA_MQ_LOG_LEVEL'' ''info'' in
         if \<not> valid_level level then Inl (InvalidLogLevel level)
         else Inr \<lparr>cfg_Gitea = gitea, cfg_Github = github, cfg_DatabaseURL = db,
           cfg_ListenAddr = envOrDefault env ''GITEA_MQ_LISTEN_ADDR'' '':8080'',
           cfg_WebhookPath = envOrDefault env ''GITEA_MQ_WEBHOOK_PATH'' ''/webhook'',
           cfg_ExternalURL = ext, cfg_PollInterval = poll, cfg_IdlePollInterval = idle,
           cfg_CheckTimeout = checkTimeout,
           cfg_RequiredChecks = required_checks (env ''GITEA_MQ_REQUIRED_CHECKS''),
           cfg_SkipQueueIfUpToDate = skip, cfg_BatchMax = batchMax, cfg_BisectMaxSteps = bisect,
           cfg_RefreshInterval = refresh, cfg_DiscoveryInterval = discovery,
           cfg_LogLevel = level, cfg_CacheDir = cache_dir env\<rparr>))))))))))))"

definition config_repos :: "Config \<Rightarrow> repo_ref list" where
  "config_repos c =
     (case cfg_Gitea c of None \<Rightarrow> [] | Some g \<Rightarrow> gc_Repos g) @
     (case cfg_Github c of None \<Rightarrow> [] | Some g \<Rightarrow> hc_Repos g)"

end
