(* ===== verification/Routes.thy ===== *)
theory Routes
  imports Config
begin

text \<open>
  The routes of the server (\<open>run\<close> in \<open>cmd/gitea-mq/main.go\<close>), on a model of Go's
  \<open>http.ServeMux\<close>: registering a pattern twice panics, a path is cleaned before it is routed (with a
  redirect), a pattern that ends in a slash stands for its subtree, the longest one wins, and a path
  without the slash is redirected to a registered one with it. Patterns are plain paths; the only
  one that is not a literal of the source is \<open>GITEA_MQ_WEBHOOK_PATH\<close>. Paths have no percent escapes.
\<close>

datatype endpoint = GiteaWebhook | GithubWebhook | Healthz | Dashboard

type_synonym mux = "(string \<times> endpoint) list"

text \<open>A pattern without a method, a host, a wildcard or an escape.\<close>

definition plain_pattern :: "string \<Rightarrow> bool" where
  "plain_pattern p \<longleftrightarrow> has_prefix p ''/'' \<and>
     list_all (\<lambda>c. c \<notin> set [CHR ''{'', CHR ''%'', CHR '' '', CHR 0x09]) p"

text \<open>\<open>None\<close> is the panic.\<close>

definition Handle :: "string \<Rightarrow> endpoint \<Rightarrow> mux \<Rightarrow> mux option" where
  "Handle pattern h m = (if map_of m pattern \<noteq> None then None else Some (m @ [(pattern, h)]))"

fun mount :: "(string \<times> endpoint) list \<Rightarrow> mux \<Rightarrow> mux option" where
  "mount [] m = Some m"
| "mount ((p, h) # routes) m = (case Handle p h m of None \<Rightarrow> None | Some m' \<Rightarrow> mount routes m')"

definition ends_in_slash :: "string \<Rightarrow> bool" where
  "ends_in_slash p \<longleftrightarrow> p \<noteq> [] \<and> last p = CHR ''/''"

definition cleanPath :: "string \<Rightarrow> string" where
  "cleanPath p =
     (if p = [] then ''/''
      else let p = (if has_prefix p ''/'' then p else CHR ''/'' # p); np = path_clean p
        in if ends_in_slash p \<and> np \<noteq> ''/'' then np @ ''/'' else np)"

fun longest :: "mux \<Rightarrow> (string \<times> endpoint) option" where
  "longest [] = None"
| "longest ((p, h) # m) = (case longest m of
       None \<Rightarrow> Some (p, h)
     | Some (q, g) \<Rightarrow> if length q < length p then Some (p, h) else Some (q, g))"

definition mux_match :: "mux \<Rightarrow> string \<Rightarrow> endpoint option" where
  "mux_match m path = (case map_of m path of
       Some h \<Rightarrow> Some h
     | None \<Rightarrow> map_option snd (longest (filter (\<lambda>(p, _). ends_in_slash p \<and> has_prefix path p) m)))"

datatype routed = Moved string | Routed endpoint | NoRoute

definition mux_serve :: "mux \<Rightarrow> string \<Rightarrow> string \<Rightarrow> routed" where
  "mux_serve m meth url =
     (let path = (if meth = ''CONNECT'' then url else cleanPath url)
      in if map_of m path = None \<and> \<not> ends_in_slash path \<and> map_of m (path @ ''/'') \<noteq> None
         then Moved (cleanPath url @ ''/'')
         else if path \<noteq> url then Moved path
         else case mux_match m path of None \<Rightarrow> NoRoute | Some h \<Rightarrow> Routed h)"

subsection \<open>The routes of the program\<close>

definition startup_routes :: "Config \<Rightarrow> (string \<times> endpoint) list" where
  "startup_routes cfg =
     (case cfg_Gitea cfg of
        None \<Rightarrow> []
      | Some _ \<Rightarrow> (''/webhook/gitea'', GiteaWebhook) #
          (if cfg_WebhookPath cfg \<noteq> [] \<and> cfg_WebhookPath cfg \<noteq> ''/webhook/gitea''
           then [(cfg_WebhookPath cfg, GiteaWebhook)] else [])) @
     (case cfg_Github cfg of None \<Rightarrow> [] | Some _ \<Rightarrow> [(''/webhook/github'', GithubWebhook)]) @
     [(''/healthz'', Healthz), (''/static/'', Dashboard), (''/repo/'', Dashboard), (''/'', Dashboard)]"

definition startup_mux :: "Config \<Rightarrow> mux option" where
  "startup_mux cfg = mount (startup_routes cfg) []"

text \<open>The level of the log, a number in Go; the handler drops what is below it.\<close>

datatype slog_level = LevelDebug | LevelInfo | LevelWarn | LevelError

fun slog_number :: "slog_level \<Rightarrow> int" where
  "slog_number LevelDebug = - 4"
| "slog_number LevelInfo = 0"
| "slog_number LevelWarn = 4"
| "slog_number LevelError = 8"

lemma slog_number_inj: "slog_number a = slog_number b \<Longrightarrow> a = b"
  by (cases a; cases b) simp_all

instantiation slog_level :: linorder
begin

definition less_eq_slog_level :: "slog_level \<Rightarrow> slog_level \<Rightarrow> bool" where
  "less_eq_slog_level a b \<longleftrightarrow> slog_number a \<le> slog_number b"

definition less_slog_level :: "slog_level \<Rightarrow> slog_level \<Rightarrow> bool" where
  "less_slog_level a b \<longleftrightarrow> slog_number a < slog_number b"

instance
  by intro_classes (auto simp: less_eq_slog_level_def less_slog_level_def intro: slog_number_inj)

end

definition slogLevel :: "string \<Rightarrow> slog_level" where
  "slogLevel level =
     (if level = ''debug'' then LevelDebug
      else if level = ''warn'' then LevelWarn
      else if level = ''error'' then LevelError
      else LevelInfo)"

text \<open>Whatever is configured, errors are logged.\<close>

lemma errors_logged: "slogLevel level \<le> LevelError"
  by (simp add: slogLevel_def less_eq_slog_level_def)

subsection \<open>What is mounted and found\<close>

lemma mount_Some: "mount routes m = Some m' \<Longrightarrow> m' = m @ routes"
  by (induction routes m rule: mount.induct) (auto simp: Handle_def split: if_splits)

lemma mount_distinct:
  "distinct (map fst m) \<Longrightarrow> mount routes m \<noteq> None \<longleftrightarrow> distinct (map fst (m @ routes))"
proof (induction routes m rule: mount.induct)
  case (2 p h routes m)
  show ?case
  proof (cases "map_of m p")
    case None
    then have "p \<notin> fst ` set m" by (simp add: map_of_eq_None_iff)
    with 2 None show ?thesis by (auto simp: Handle_def)
  next
    case (Some h')
    then have "p \<in> fst ` set m" by (force dest: map_of_SomeD)
    with Some show ?thesis by (auto simp: Handle_def)
  qed
qed simp

lemma startup_mux_routes: "startup_mux cfg = Some m \<Longrightarrow> m = startup_routes cfg \<and> distinct (map fst m)"
  using mount_distinct[of "[]" "startup_routes cfg"] mount_Some[of "startup_routes cfg" "[]" m]
  by (auto simp: startup_mux_def)

lemma longest_in: "longest m = Some (p, h) \<Longrightarrow> (p, h) \<in> set m"
  by (induction m arbitrary: p h rule: longest.induct) (auto split: option.splits if_splits)

lemma longest_None: "longest m = None \<longleftrightarrow> m = []"
  by (cases m rule: longest.cases) (auto split: option.splits)

lemma longest_max: "longest m = Some (p, h) \<Longrightarrow> (q, g) \<in> set m \<Longrightarrow> length q \<le> length p"
proof (induction m arbitrary: p h)
  case (Cons x m)
  obtain p' h' where x: "x = (p', h')" by fastforce
  show ?case
  proof (cases "longest m")
    case None
    then have "m = []" by (simp add: longest_None)
    with Cons.prems show ?thesis by (auto simp: x)
  next
    case (Some y)
    obtain p2 h2 where y: "y = (p2, h2)" by fastforce
    have "(q, g) = x \<or> length q \<le> length p2" using Cons.prems(2) Cons.IH Some y by auto
    with Cons.prems(1) Some show ?thesis by (auto simp: x y split: if_splits)
  qed
qed simp

text \<open>A match is the pattern itself, or the longest subtree the path lies in.\<close>

lemma mux_match_cases:
  assumes "mux_match m path = Some h"
  obtains "map_of m path = Some h"
  | p where "map_of m path = None" "(p, h) \<in> set m" "ends_in_slash p" "has_prefix path p"
      "\<And>q g. (q, g) \<in> set m \<Longrightarrow> ends_in_slash q \<Longrightarrow> has_prefix path q \<Longrightarrow> length q \<le> length p"
proof (cases "map_of m path")
  case None
  with assms obtain p where l: "longest (filter (\<lambda>(p, _). ends_in_slash p \<and> has_prefix path p) m) = Some (p, h)"
    by (auto simp: mux_match_def)
  show thesis
    by (rule that(2)[OF None]) (use longest_in[OF l] longest_max[OF l] in auto)
qed (use assms that in \<open>auto simp: mux_match_def\<close>)

text \<open>What the routes of the program lead to.\<close>

lemma mux_match_tail:
  assumes "map_of m path = None"
    "\<And>p h. (p, h) \<in> set m \<Longrightarrow> ends_in_slash p \<Longrightarrow> has_prefix path p \<Longrightarrow> h = Dashboard"
    "(''/'', Dashboard) \<in> set m" "\<And>p h. (p, h) \<in> set m \<Longrightarrow> ends_in_slash p \<Longrightarrow> has_prefix p ''/''"
  shows "mux_match m path = (if has_prefix path ''/'' then Some Dashboard else None)"
proof -
  let ?f = "filter (\<lambda>(p, _). ends_in_slash p \<and> has_prefix path p) m"
  show ?thesis
  proof (cases "longest ?f")
    case None
    then have "(''/'', Dashboard) \<notin> set ?f" by (simp add: longest_None)
    with assms(1,3) None show ?thesis by (auto simp: mux_match_def ends_in_slash_def)
  next
    case (Some x)
    obtain p h where x: "x = (p, h)" by fastforce
    with longest_in[of ?f] Some have p: "(p, h) \<in> set m" "ends_in_slash p" "has_prefix path p" by auto
    with assms(4)[OF p(1,2)] have "has_prefix path ''/''"
      by (auto simp: has_prefix_def elim: prefix_order.trans)
    with Some x assms(1) assms(2)[OF p] show ?thesis by (simp add: mux_match_def)
  qed
qed

lemma map_of_routes:
  "map_of ((if gitea then (a, X) # (if w \<noteq> [] \<and> w \<noteq> a then [(w, X)] else []) else []) @
     (if github then [(b, Y)] else []) @ [(c, Z), (d1, D), (d2, D), (d3, D)]) path =
   (if gitea \<and> (path = a \<or> path = w \<and> path \<noteq> []) then Some X
    else if github \<and> path = b then Some Y
    else if path = c then Some Z
    else if path = d1 \<or> path = d2 \<or> path = d3 then Some D else None)"
proof -
  let ?first = "if gitea then (a, X) # (if w \<noteq> [] \<and> w \<noteq> a then [(w, X)] else []) else []"
    and ?second = "if github then [(b, Y)] else []"
  have first: "map_of ?first path = (if gitea \<and> (path = a \<or> path = w \<and> path \<noteq> []) then Some X else None)"
    by (cases "path = a"; cases "path = w") auto
  have second: "map_of ?second path = (if github \<and> path = b then Some Y else None)" by auto
  have third: "map_of [(c, Z), (d1, D), (d2, D), (d3, D)] path =
      (if path = c then Some Z else if path = d1 \<or> path = d2 \<or> path = d3 then Some D else None)"
    by simp
  show ?thesis
    unfolding map_of_append map_add_def first second third
    by (cases "gitea \<and> (path = a \<or> path = w \<and> path \<noteq> [])"; cases "github \<and> path = b")
      (simp_all only: simp_thms if_True if_False option.case)
qed

lemma startup_routes_if:
  "startup_routes cfg =
     (if cfg_Gitea cfg \<noteq> None then (''/webhook/gitea'', GiteaWebhook) #
        (if cfg_WebhookPath cfg \<noteq> [] \<and> cfg_WebhookPath cfg \<noteq> ''/webhook/gitea''
         then [(cfg_WebhookPath cfg, GiteaWebhook)] else []) else []) @
     (if cfg_Github cfg \<noteq> None then [(''/webhook/github'', GithubWebhook)] else []) @
     [(''/healthz'', Healthz), (''/static/'', Dashboard), (''/repo/'', Dashboard), (''/'', Dashboard)]"
  by (cases "cfg_Gitea cfg"; cases "cfg_Github cfg") (simp_all only: startup_routes_def option.case option.distinct simp_thms if_True if_False)

lemma chain_exact:
  "x = (if A then Some X else if B then Some Y else if C then Some Z else if E then Some D else None) \<Longrightarrow>
   x = Some h \<Longrightarrow> (E \<Longrightarrow> R) \<Longrightarrow>
   Some h = (if A then Some X else if B then Some Y else if C then Some Z else if R then Some D else None)"
  by (auto split: if_splits)

lemma chain_rest:
  "x = (if A then Some X else if B then Some Y else if C then Some Z else if E then Some D else None) \<Longrightarrow>
   x = None \<Longrightarrow> y = (if R then Some D else None) \<Longrightarrow>
   y = (if A then Some X else if B then Some Y else if C then Some Z else if R then Some D else None)"
  by (auto split: if_splits)

lemma startup_endpoints:
  assumes "startup_mux cfg = Some m" "\<not> ends_in_slash (cfg_WebhookPath cfg)"
  shows "mux_match m path =
    (if cfg_Gitea cfg \<noteq> None \<and> (path = ''/webhook/gitea'' \<or> path = cfg_WebhookPath cfg \<and> path \<noteq> [])
     then Some GiteaWebhook
     else if cfg_Github cfg \<noteq> None \<and> path = ''/webhook/github'' then Some GithubWebhook
     else if path = ''/healthz'' then Some Healthz
     else if has_prefix path ''/'' then Some Dashboard else None)"
proof -
  have m: "m = startup_routes cfg" using startup_mux_routes[OF assms(1)] by simp
  let ?r = "has_prefix path ''/''"
  note exact = map_of_routes[of "cfg_Gitea cfg \<noteq> None" "''/webhook/gitea''" GiteaWebhook "cfg_WebhookPath cfg"
      "cfg_Github cfg \<noteq> None" "''/webhook/github''" GithubWebhook "''/healthz''" Healthz
      "''/static/''" Dashboard "''/repo/''" "''/''" path, folded startup_routes_if m]
  show ?thesis
  proof (cases "map_of m path")
    case (Some h)
    have "?r" if "path = ''/static/'' \<or> path = ''/repo/'' \<or> path = ''/''"
      using that by (elim disjE) (simp_all add: has_prefix_def)
    note chain_exact[OF exact Some this]
    moreover have "mux_match m path = Some h" by (simp add: mux_match_def Some)
    ultimately show ?thesis by (rule trans[rotated])
  next
    case None
    have slash: "h = Dashboard \<and> has_prefix p ''/''" if "(p, h) \<in> set m" "ends_in_slash p" for p h
      using that assms(2) unfolding m startup_routes_if
      by (auto simp: has_prefix_def ends_in_slash_def split: if_splits)
    have "mux_match m path = (if has_prefix path ''/'' then Some Dashboard else None)"
    proof (rule mux_match_tail[OF None])
      show "(''/'', Dashboard) \<in> set m" unfolding m startup_routes_def set_append by simp
    qed (use slash in blast)+
    from chain_rest[OF exact None this] show ?thesis .
  qed
qed

lemma startup_panics:
  "startup_mux cfg = None \<longleftrightarrow> cfg_Gitea cfg \<noteq> None \<and>
     (cfg_WebhookPath cfg \<in> {''/healthz'', ''/static/'', ''/repo/'', ''/''} \<or>
      cfg_Github cfg \<noteq> None \<and> cfg_WebhookPath cfg = ''/webhook/github'')"
proof -
  have "startup_mux cfg \<noteq> None \<longleftrightarrow> distinct (map fst (startup_routes cfg))"
    using mount_distinct[of "[]" "startup_routes cfg"] by (simp add: startup_mux_def)
  moreover have "distinct (map fst (startup_routes cfg)) \<longleftrightarrow> \<not> (cfg_Gitea cfg \<noteq> None \<and>
     (cfg_WebhookPath cfg \<in> {''/healthz'', ''/static/'', ''/repo/'', ''/''} \<or>
      cfg_Github cfg \<noteq> None \<and> cfg_WebhookPath cfg = ''/webhook/github''))"
    by (cases "cfg_Gitea cfg"; cases "cfg_Github cfg") (auto simp: startup_routes_def)
  ultimately show ?thesis by blast
qed

end
