(* ===== verification/Web.thy ===== *)
theory Web
  imports Batch GoTime
begin

text \<open>
  \<open>internal/web/handler.go\<close>: the dashboard. A handler runs in the world, since looking a repository
  up creates its row, and yields the page: the data handed to the template, or one of the error
  responses. The templates, the response headers and the log are left out. A path is the list of its
  segments; the name values of a route are the arguments of its handler.
\<close>

subsection \<open>Relative times\<close>

definition nanosecond_max :: int where
  "nanosecond_max = 2 ^ 63 - 1"

text \<open>\<open>Time.Sub\<close> saturates.\<close>

definition time_sub :: "int \<Rightarrow> int \<Rightarrow> int" where
  "time_sub t u = max (- nanosecond_max - 1) (min nanosecond_max (t - u))"

definition Second :: nat where
  "Second = 1000000000"

definition Minute :: nat where
  "Minute = 60 * Second"

definition Hour :: nat where
  "Hour = 60 * Minute"

text \<open>\<open>Seconds\<close>, \<open>Minutes\<close> and \<open>Hours\<close> of a non-negative duration: the whole units and the rest,
  added in double precision. The result is a fraction.\<close>

definition in_units :: "nat \<Rightarrow> nat \<Rightarrow> nat \<times> nat" where
  "in_units unit d =
     (let whole = d div unit; (a, b) = round_double (d mod unit, unit)
      in round_double (whole * b + a, b))"

definition div_double :: "nat \<times> nat \<Rightarrow> nat \<Rightarrow> nat \<times> nat" where
  "div_double x n = round_double (fst x, snd x * n)"

definition trunc :: "nat \<times> nat \<Rightarrow> nat" where
  "trunc x = fst x div snd x"

definition pluralize :: "nat \<Rightarrow> string \<Rightarrow> string" where
  "pluralize n unit = (if n = 1 then ''1 '' @ unit else show_nat n @ '' '' @ unit @ ''s'')"

text \<open>Negating the least duration leaves it negative, and below five seconds.\<close>

definition RelativeTime :: "int \<Rightarrow> int \<Rightarrow> string" where
  "RelativeTime t now =
     (let future = t > now;
          d0 = time_sub now t;
          d1 = (if d0 < 0 then (if d0 = - nanosecond_max - 1 then d0 else - d0) else d0);
          d = nat d1;
          format = (\<lambda>mag. if future then ''in '' @ mag else mag @ '' ago'')
      in if d1 < 5 * int Second then ''just now''
         else if d < Minute then format (pluralize (trunc (in_units Second d)) ''second'')
         else if d < Hour then format (pluralize (trunc (in_units Minute d)) ''minute'')
         else if d < 24 * Hour then format (pluralize (trunc (in_units Hour d)) ''hour'')
         else if d < 30 * 24 * Hour then
           format (pluralize (trunc (div_double (in_units Hour d) 24)) ''day'')
         else if d < 365 * 24 * Hour then
           format (pluralize (trunc (div_double (in_units Hour d) (24 * 30))) ''month'')
         else format (pluralize (trunc (div_double (in_units Hour d) (24 * 365))) ''year''))"

definition checkIcon :: "check_state \<Rightarrow> string" where
  "checkIcon st = (case st of
      CheckStateSuccess \<Rightarrow> [CHR 0xE2, CHR 0x9C, CHR 0x85]
    | CheckStateFailure \<Rightarrow> [CHR 0xE2, CHR 0x9D, CHR 0x8C]
    | CheckStateError \<Rightarrow> [CHR 0xE2, CHR 0x9D, CHR 0x8C]
    | _ \<Rightarrow> [CHR 0xE2, CHR 0x8F, CHR 0xB3])"

definition forgeName :: "string \<Rightarrow> string" where
  "forgeName k = (if k = KindGithub then ''GitHub'' else ''Gitea'')"

subsection \<open>Pages\<close>

record RepoOverview =
  ov_Ref :: repo_ref
  ov_QueueSize :: nat

record OverviewData =
  od_Repos :: "RepoOverview list"
  od_RefreshInterval :: int

record RepoDetailEntry =
  de_PrNumber :: int
  de_TargetBranch :: string
  de_State :: entry_state
  de_BatchBucket :: MemberBucket

record RepoDetailBatch =
  db_ID :: int
  db_TargetBranch :: string
  db_BranchName :: string
  db_BranchURL :: string
  db_Builds :: "32 word"
  db_Current :: nat
  db_Members :: nat

record RepoDetailData =
  rd_Ref :: repo_ref
  rd_RepoURL :: string
  rd_Entries :: "RepoDetailEntry list"
  rd_Batches :: "RepoDetailBatch list"
  rd_RefreshInterval :: int

record PRDetailData =
  pp_Ref :: repo_ref
  pp_PrNumber :: int
  pp_Title :: string
  pp_Author :: string
  pp_State :: "entry_state option"
  pp_Position :: int
  pp_EnqueuedAt :: "int option"
  pp_CheckStatuses :: "check_status list"
  pp_InQueue :: bool
  pp_PRURL :: string
  pp_MergeBranchURL :: string
  pp_BatchID :: int
  pp_BatchBucket :: MemberBucket
  pp_BatchPRs :: "int list"
  pp_RefreshInterval :: int

datatype web_page =
    NotFoundPage
  | ServerErrorPage
  | StylePage
  | OverviewPage OverviewData
  | RepoPage RepoDetailData
  | PRPage PRDetailData

record 'f web_deps =
  wd_List :: "repo_ref list"
  wd_Contains :: "string \<Rightarrow> bool"
  wd_Forges :: "'f forge_set option"
  wd_FallbackChecks :: "string list"
  wd_RefreshInterval :: int

subsection \<open>Overview\<close>

definition forgeFor :: "'f web_deps \<Rightarrow> repo_ref \<Rightarrow> 'f forge option" where
  "forgeFor deps ref = (case wd_Forges deps of
      None \<Rightarrow> None
    | Some fs \<Rightarrow> (case Set_For fs ref of Inl _ \<Rightarrow> None | Inr f \<Rightarrow> Some f))"

definition repo_row :: "repo_ref \<Rightarrow> ('f, repo) go_err" where
  "repo_row ref = GetOrCreateRepo (rr_Forge ref) (rr_Owner ref) (rr_Name ref)"

definition overview_one ::
  "repo_ref \<Rightarrow> RepoOverview list \<Rightarrow> ('f, RepoOverview list) go" where
  "overview_one ref out = do {
     size \<leftarrow> on_ok (repo_row ref) (\<lambda>repo. on_ok (ListActiveEntries (r_ID repo))
       (\<lambda>entries. ret (Inr (length entries))));
     ret (out @ [\<lparr>ov_Ref = ref, ov_QueueSize = (case size of Inl _ \<Rightarrow> 0 | Inr n \<Rightarrow> n)\<rparr>]) }"

definition overviewHandler :: "'f web_deps \<Rightarrow> ('f, web_page) go" where
  "overviewHandler deps = do {
     repos \<leftarrow> for_acc (wd_List deps) [] overview_one;
     ret (OverviewPage \<lparr>od_Repos = repos, od_RefreshInterval = wd_RefreshInterval deps\<rparr>) }"

definition or_server_error :: "('f, error + web_page) go \<Rightarrow> ('f, web_page) go" where
  "or_server_error m = do {
     r \<leftarrow> m;
     ret (case r of Inl _ \<Rightarrow> ServerErrorPage | Inr page \<Rightarrow> page) }"

subsection \<open>The queue of a repository\<close>

definition detail_batch :: "'f forge option \<Rightarrow> repo_ref \<Rightarrow> batch \<Rightarrow> RepoDetailBatch" where
  "detail_batch f ref b =
     (let branch = text_string (b_BranchName b) in
      \<lparr>db_ID = b_ID b, db_TargetBranch = b_TargetBranch b, db_BranchName = branch,
       db_BranchURL = (case f of
           Some fg \<Rightarrow> if branch \<noteq> [] then f_BranchHTMLURL fg (rr_Owner ref) (rr_Name ref) branch else []
         | None \<Rightarrow> []),
       db_Builds = b_Builds b, db_Current = length (b_CurrentIds b), db_Members = length (b_MemberIds b)\<rparr>)"

definition detail_entry :: "batch list \<Rightarrow> queue_entry \<Rightarrow> RepoDetailEntry" where
  "detail_entry batches e =
     \<lparr>de_PrNumber = qe_PrNumber e, de_TargetBranch = qe_TargetBranch e, de_State = qe_State e,
      de_BatchBucket = (case qe_ActiveBatchID e of
          None \<Rightarrow> BucketNone
        | Some i \<Rightarrow> (case map_of (rev (map (\<lambda>b. (b_ID b, b)) batches)) i of
              None \<Rightarrow> BucketNone
            | Some b \<Rightarrow> Bucket b (qe_ID e)))\<rparr>"

definition serveRepoDetail :: "'f web_deps \<Rightarrow> repo_ref \<Rightarrow> ('f, web_page) go" where
  "serveRepoDetail deps ref = or_server_error (
     on_ok (repo_row ref) (\<lambda>repo.
       on_ok (ListActiveEntries (r_ID repo)) (\<lambda>entries. do {
         listed \<leftarrow> ListLiveBatches (r_ID repo);
         (let f = forgeFor deps ref;
              batches = (case listed of Inl _ \<Rightarrow> [] | Inr bs \<Rightarrow> bs)
          in ret (Inr (RepoPage
            \<lparr>rd_Ref = ref,
             rd_RepoURL = (case f of Some fg \<Rightarrow> f_RepoHTMLURL fg (rr_Owner ref) (rr_Name ref) | None \<Rightarrow> []),
             rd_Entries = map (detail_entry batches) entries,
             rd_Batches = map (detail_batch f ref) batches,
             rd_RefreshInterval = wd_RefreshInterval deps\<rparr>))) })))"

subsection \<open>A pull request\<close>

definition long_dash :: string where
  "long_dash = [CHR 0xE2, CHR 0x80, CHR 0x94]"

definition empty_pr_page :: "'f web_deps \<Rightarrow> repo_ref \<Rightarrow> int \<Rightarrow> PRDetailData" where
  "empty_pr_page deps ref n =
     \<lparr>pp_Ref = ref, pp_PrNumber = n, pp_Title = long_dash, pp_Author = long_dash, pp_State = None,
      pp_Position = 0, pp_EnqueuedAt = None, pp_CheckStatuses = [], pp_InQueue = False, pp_PRURL = [],
      pp_MergeBranchURL = [], pp_BatchID = 0, pp_BatchBucket = BucketNone, pp_BatchPRs = [],
      pp_RefreshInterval = wd_RefreshInterval deps\<rparr>"

definition pending_status :: "string \<Rightarrow> check_status" where
  "pending_status ctx = \<lparr>cs_ID = 0, cs_QueueEntryID = 0, cs_Context = ctx,
     cs_State = CheckStatePending, cs_UpdatedAt = 0, cs_TargetUrl = []\<rparr>"

definition mergeCheckStatuses :: "check_status list \<Rightarrow> string list \<Rightarrow> check_status list" where
  "mergeCheckStatuses recorded required =
     (if required = [] then recorded
      else map (\<lambda>ctx. case status_map recorded ctx of Some s \<Rightarrow> s | None \<Rightarrow> pending_status ctx) required @
        filter (\<lambda>s. cs_Context s \<notin> set required) recorded)"

definition pr_from_forge ::
  "'f forge option \<Rightarrow> repo_ref \<Rightarrow> queue_entry \<Rightarrow> PRDetailData \<Rightarrow> ('f, PRDetailData) go" where
  "pr_from_forge f ref entry data =
     (case f of
        None \<Rightarrow> ret data
      | Some fg \<Rightarrow> do {
          r \<leftarrow> call_GetPR fg (rr_Owner ref) (rr_Name ref) (qe_PrNumber entry);
          ret (case r of
              Inl _ \<Rightarrow> data
            | Inr pr \<Rightarrow> data\<lparr>pp_Title := pr_Title pr, pp_PRURL := pr_HTMLURL pr,
                pp_Author := (if pr_AuthorLogin pr \<noteq> [] then pr_AuthorLogin pr else pp_Author data),
                pp_MergeBranchURL := (case qe_MergeBranchName entry of
                    Some b \<Rightarrow> if b \<noteq> [] then f_BranchHTMLURL fg (rr_Owner ref) (rr_Name ref) b
                      else pp_MergeBranchURL data
                  | None \<Rightarrow> pp_MergeBranchURL data)\<rparr>) })"

definition pr_from_batch ::
  "'f forge option \<Rightarrow> repo_ref \<Rightarrow> queue_entry \<Rightarrow> PRDetailData \<Rightarrow> ('f, PRDetailData) go" where
  "pr_from_batch f ref entry data =
     (case qe_ActiveBatchID entry of
        None \<Rightarrow> ret data
      | Some bid \<Rightarrow> do {
          got \<leftarrow> GetBatch bid;
          (case got of
             Inr (Some b) \<Rightarrow> do {
               members \<leftarrow> entries_or_nil (b_MemberIds b);
               ret (data\<lparr>pp_BatchID := b_ID b, pp_BatchBucket := Bucket b (qe_ID entry),
                 pp_BatchPRs := filter (\<lambda>n. n \<noteq> qe_PrNumber entry) (map qe_PrNumber members),
                 pp_MergeBranchURL := (case (f, b_BranchName b) of
                     (Some fg, Some branch) \<Rightarrow> f_BranchHTMLURL fg (rr_Owner ref) (rr_Name ref) branch
                   | _ \<Rightarrow> pp_MergeBranchURL data)\<rparr>) }
           | _ \<Rightarrow> ret data) })"

definition pr_checks ::
  "'f web_deps \<Rightarrow> 'f forge option \<Rightarrow> repo_ref \<Rightarrow> queue_entry \<Rightarrow> PRDetailData \<Rightarrow> ('f, PRDetailData) go" where
  "pr_checks deps f ref entry data =
     (if pp_Position data = 1 \<and> qe_State entry = EntryStateTesting then do {
        recorded \<leftarrow> GetCheckStatuses (qe_ID entry);
        required \<leftarrow> (case f of
            None \<Rightarrow> ret (Inr [])
          | Some fg \<Rightarrow> ResolveRequiredChecks fg (rr_Owner ref) (rr_Name ref) (qe_TargetBranch entry)
              (wd_FallbackChecks deps));
        ret (data\<lparr>pp_CheckStatuses := mergeCheckStatuses
          (case recorded of Inl _ \<Rightarrow> [] | Inr ss \<Rightarrow> ss)
          (case required of Inl _ \<Rightarrow> [] | Inr rs \<Rightarrow> rs)\<rparr>) }
      else ret data)"

definition pr_in_queue ::
  "'f web_deps \<Rightarrow> repo_ref \<Rightarrow> int \<Rightarrow> queue_entry \<Rightarrow> PRDetailData \<Rightarrow> ('f, PRDetailData) go" where
  "pr_in_queue deps ref repoID entry data = do {
     pos \<leftarrow> Position repoID (qe_TargetBranch entry) (qe_PrNumber entry);
     (let f = forgeFor deps ref;
          data = data\<lparr>pp_InQueue := True, pp_State := Some (qe_State entry),
            pp_EnqueuedAt := Some (qe_EnqueuedAt entry),
            pp_Position := (case pos of Inl _ \<Rightarrow> 0 | Inr n \<Rightarrow> n)\<rparr>
      in do {
        data \<leftarrow> pr_from_forge f ref entry data;
        data \<leftarrow> pr_from_batch f ref entry data;
        pr_checks deps f ref entry data }) }"

definition servePRDetail :: "'f web_deps \<Rightarrow> repo_ref \<Rightarrow> string \<Rightarrow> ('f, web_page) go" where
  "servePRDetail deps ref prNumberStr =
     (case parse_int64 prNumberStr of
        None \<Rightarrow> ret NotFoundPage
      | Some n \<Rightarrow>
          if n \<le> 0 then ret NotFoundPage
          else or_server_error (
            on_ok (repo_row ref) (\<lambda>repo.
              on_ok (GetEntry (r_ID repo) n) (\<lambda>entry. case entry of
                  None \<Rightarrow> ret (Inr (PRPage (empty_pr_page deps ref n)))
                | Some e \<Rightarrow> do {
                    data \<leftarrow> pr_in_queue deps ref (r_ID repo) e (empty_pr_page deps ref n);
                    ret (Inr (PRPage data)) }))))"

subsection \<open>Routes\<close>

definition repoHandler ::
  "'f web_deps \<Rightarrow> string \<Rightarrow> string \<Rightarrow> string \<Rightarrow> string \<Rightarrow> ('f, web_page) go" where
  "repoHandler deps k owner name number =
     (let kind = (if k \<noteq> [] then k else KindGitea);
          ref = \<lparr>rr_Forge = kind, rr_Owner = owner, rr_Name = name\<rparr>
      in if k \<noteq> [] \<and> \<not> Kind_Valid k then ret NotFoundPage
         else if \<not> wd_Contains deps (RepoRef_String ref) then ret NotFoundPage
         else if number \<noteq> [] then servePRDetail deps ref number
         else serveRepoDetail deps ref)"

text \<open>The patterns differ in their number of segments; a wildcard matches a non-empty segment.\<close>

definition NewMux :: "'f web_deps \<Rightarrow> string list \<Rightarrow> ('f, web_page) go" where
  "NewMux deps path =
     (if [] \<in> set path then ret NotFoundPage
      else case path of
        [] \<Rightarrow> overviewHandler deps
      | [s, file] \<Rightarrow> if s = ''static'' \<and> file = ''style.css'' then ret StylePage else ret NotFoundPage
      | [r, owner, name] \<Rightarrow> if r = ''repo'' then repoHandler deps [] owner name [] else ret NotFoundPage
      | [r, k, owner, name] \<Rightarrow> if r = ''repo'' then repoHandler deps k owner name [] else ret NotFoundPage
      | [r, owner, name, p, number] \<Rightarrow>
          if r = ''repo'' \<and> p = ''pr'' then repoHandler deps [] owner name number else ret NotFoundPage
      | [r, k, owner, name, p, number] \<Rightarrow>
          if r = ''repo'' \<and> p = ''pr'' then repoHandler deps k owner name number else ret NotFoundPage
      | _ \<Rightarrow> ret NotFoundPage)"

subsection \<open>Effects\<close>

context entry_effects begin

lemma io_dashboard [io_intros]:
  "state_io_rel P (overviewHandler deps)"
  "state_io_rel P (repoHandler deps k ow nm number)"
  unfolding overviewHandler_def overview_one_def repoHandler_def serveRepoDetail_def servePRDetail_def
    or_server_error_def repo_row_def pr_in_queue_def pr_from_forge_def pr_from_batch_def pr_checks_def
    entries_or_nil_def ResolveRequiredChecks_def call_GetPR_def call_GetRequiredChecks_def Let_def
  by (intro io_intros; simp)+

lemma io_NewMux [io_intros]: "state_io_rel P (NewMux deps path)"
  unfolding NewMux_def by (intro io_intros)

end

end
