(* ===== verification/Service.thy ===== *)
theory Service
  imports Discovery BatchLedger Fifo Routes Web
begin

text \<open>
  The running service (\<open>cmd/gitea-mq/main.go\<close>): pollers, HTTP requests (webhooks and the dashboard,
  through the routes) and the discovery loop, as a step relation on the world and the registry. A
  step is one turn of one of the loops or one request; what happens outside the program between steps (time, the forge and its users) is a
  step of its own, and so is a restart, which forgets the registry and the trigger slots. The
  database connection may fail at any statement within a step.
\<close>

record 'f service_config =
  cf_Discovery :: "'f discovery_deps"
  cf_GiteaSecret :: string
  cf_Validate :: "http_request \<Rightarrow> string option"
  cf_Parse :: "http_request \<Rightarrow> string \<Rightarrow> gh_event option"
  cf_PollInterval :: int
  cf_IdlePollInterval :: int
  cf_Mux :: mux
  cf_Forges :: "'f forge_set"
  cf_FallbackChecks :: "string list"
  cf_RefreshInterval :: int

text \<open>The trigger slot of the discovery loop; the identifiers of repositories start at 1.\<close>

definition discovery_slot :: int where
  "discovery_slot = 0"

definition triggerDiscovery :: "('f, unit) go" where
  "triggerDiscovery = set_trigger discovery_slot"

definition serve_gitea :: "'f service_config \<Rightarrow> http_request \<Rightarrow> ('f service, http_response) state" where
  "serve_gitea cf r = do {
     repos \<leftarrow> gets sv_repos;
     in_world (Handler (cf_GiteaSecret cf) (LookupMonitor repos) r) }"

definition serve_github :: "'f service_config \<Rightarrow> http_request \<Rightarrow> ('f service, http_response) state" where
  "serve_github cf r = do {
     repos \<leftarrow> gets sv_repos;
     in_world (GithubHandler (cf_Validate cf) (cf_Parse cf) (LookupMonitor repos)
       (Some triggerDiscovery) r) }"

text \<open>The dashboard reads the registry of the moment. Segments of a path are what lies between its
  slashes.\<close>

definition dashboard_deps :: "'f service_config \<Rightarrow> 'f repo_map \<Rightarrow> 'f web_deps" where
  "dashboard_deps cf repos =
     \<lparr>wd_List = Registry_List repos, wd_Contains = (\<lambda>k. Contains k repos),
      wd_Forges = Some (cf_Forges cf), wd_FallbackChecks = cf_FallbackChecks cf,
      wd_RefreshInterval = cf_RefreshInterval cf\<rparr>"

definition path_segments :: "string \<Rightarrow> string list" where
  "path_segments path = (if path = ''/'' then [] else split_on (CHR ''/'') (tl path))"

datatype http_reply =
    HookReply http_response
  | PageReply web_page
  | RedirectReply string
  | HealthReply

definition serve_http ::
  "'f service_config \<Rightarrow> string \<Rightarrow> http_request \<Rightarrow> ('f service, http_reply) state" where
  "serve_http cf path r = (case mux_serve (cf_Mux cf) (hr_Method r) path of
       Moved p \<Rightarrow> ret (RedirectReply p)
     | NoRoute \<Rightarrow> ret (PageReply NotFoundPage)
     | Routed GiteaWebhook \<Rightarrow> do { x \<leftarrow> serve_gitea cf r; ret (HookReply x) }
     | Routed GithubWebhook \<Rightarrow> do { x \<leftarrow> serve_github cf r; ret (HookReply x) }
     | Routed Healthz \<Rightarrow> ret HealthReply
     | Routed Dashboard \<Rightarrow> do {
         repos \<leftarrow> gets sv_repos;
         x \<leftarrow> in_world (NewMux (dashboard_deps cf repos) (path_segments path));
         ret (PageReply x) })"

text \<open>One turn of the discovery loop.\<close>

definition discovery_turn ::
  "map_order \<Rightarrow> 'f discovery_deps \<Rightarrow> poll_event \<Rightarrow> ('f service, unit) state" where
  "discovery_turn ord deps ev = do {
     (case ev of
        TriggerEvent \<Rightarrow> in_world (modifies (\<lambda>w. w\<lparr>w_trigger := w_trigger w - {discovery_slot}\<rparr>))
      | TickEvent \<Rightarrow> ret ());
     DiscoverOnce ord deps }"

text \<open>One turn of a poller's loop; a turn taken on the trigger channel empties the slot.\<close>

definition poll_turn :: "'f service_config \<Rightarrow> 'f managed_repo \<Rightarrow> poll_event \<Rightarrow> int \<Rightarrow> ('f, int) go" where
  "poll_turn cf m ev lastFull = do {
     (case ev of
        TriggerEvent \<Rightarrow> modifies (\<lambda>w. w\<lparr>w_trigger := w_trigger w - {mr_RepoID m}\<rparr>)
      | TickEvent \<Rightarrow> ret ());
     run_event (mr_Poller m) (cf_PollInterval cf) (cf_IdlePollInterval cf) ev lastFull }"

inductive sys_step :: "'f service_config \<Rightarrow> 'f service \<Rightarrow> 'f service \<Rightarrow> bool" for cf where
  discover: "run_state (DiscoverOnce ord (cf_Discovery cf)) s = ((), s') \<Longrightarrow> sys_step cf s s'"
| rediscover: "run_state (discovery_turn ord (cf_Discovery cf) ev) s = ((), s') \<Longrightarrow> sys_step cf s s'"
| poll: "map_of (sv_repos s) k = Some m \<Longrightarrow>
    run_state (in_world (poll_turn cf m ev lastFull)) s = (r, s') \<Longrightarrow> sys_step cf s s'"
| request: "run_state (serve_http cf path req) s = (resp, s') \<Longrightarrow> sys_step cf s s'"
| outside: "w_now (sv_world s) \<le> t \<Longrightarrow> sys_step cf s
    (s\<lparr>sv_world := (sv_world s)\<lparr>w_now := t, w_forge := f\<rparr>\<rparr>)"
| restart: "sys_step cf s (s\<lparr>sv_world := (sv_world s)\<lparr>w_trigger := {}\<rparr>, sv_repos := NewRegistry\<rparr>)"

abbreviation sys_run :: "'f service_config \<Rightarrow> 'f service \<Rightarrow> 'f service \<Rightarrow> bool" where
  "sys_run cf \<equiv> (sys_step cf)\<^sup>*\<^sup>*"

text \<open>A service that has just been installed: empty tables, no repository managed.\<close>

definition fresh_service :: "'f service \<Rightarrow> bool" where
  "fresh_service s \<longleftrightarrow> w_db (sv_world s) = empty_db \<and> sv_repos s = NewRegistry"

subsection \<open>Effects\<close>

context check_effects begin

lemma io_empty_slot [io_intros]: "state_io_rel P (modifies (\<lambda>w. w\<lparr>w_trigger := w_trigger w - {i}\<rparr>))"
  by (simp add: state_io_rel_def P_trigger)

lemma io_poll_turn [io_intros]: "state_io_rel P (poll_turn cf m ev lastFull)"
  unfolding poll_turn_def by (intro io_intros)

end

text \<open>What every step but the outside world's does to the world respects every relation that the
  operations respect, as long as the registry is in shape.\<close>

context registry_effects begin

lemma serve_hooks:
  assumes "repos_ok (dd_Registry (cf_Discovery cf)) (sv_repos s)"
  shows "run_state (serve_gitea cf req) s = (x, t) \<Longrightarrow> on_world P s t"
    and "run_state (serve_github cf req) s = (x, t) \<Longrightarrow> on_world P s t"
proof -
  have "state_io_rel P (Handler (cf_GiteaSecret cf) (LookupMonitor (sv_repos s)) req)"
    by (rule io_Handler[OF lookup_managed[OF assms]])
  from state_io_relD[OF io_in_world[OF this]]
  show "run_state (serve_gitea cf req) s = (x, t) \<Longrightarrow> on_world P s t" by (simp add: serve_gitea_def)
  have "state_io_rel P (GithubHandler (cf_Validate cf) (cf_Parse cf) (LookupMonitor (sv_repos s))
      (Some triggerDiscovery) req)"
    by (rule io_GithubHandler[OF lookup_managed[OF assms]])
      (auto simp: triggerDiscovery_def intro!: io_intros)
  from state_io_relD[OF io_in_world[OF this]]
  show "run_state (serve_github cf req) s = (x, t) \<Longrightarrow> on_world P s t" by (simp add: serve_github_def)
qed

lemma sys_step_respects:
  assumes "sys_step cf s s'" "repos_ok (dd_Registry (cf_Discovery cf)) (sv_repos s)"
    and "\<And>w t f. w_now w \<le> t \<Longrightarrow> P w (w\<lparr>w_now := t, w_forge := f\<rparr>)"
  shows "P (sv_world s) (sv_world s')"
  using assms(1)
proof cases
  case (discover ord)
  from io_DiscoverOnce[of ord "cf_Discovery cf"] discover show ?thesis
    unfolding on_world_def by (rule state_io_relD[of "\<lambda>s s'. P (sv_world s) (sv_world s')"])
next
  case (poll k m ev lastFull r)
  have "state_io_rel (on_world P) (in_world (poll_turn cf m ev lastFull))"
    by (intro io_intros)
  from state_io_relD[OF this poll(2)] show ?thesis by (simp add: on_world_def)
next
  case (rediscover ord ev)
  have "state_io_rel (on_world P) (discovery_turn ord (cf_Discovery cf) ev)"
    unfolding discovery_turn_def by (intro io_intros io_empty_slot io_DiscoverOnce)
  from state_io_relD[OF this rediscover] show ?thesis by (simp add: on_world_def)
next
  case (request path req resp)
  have hooks: "P (sv_world s) (sv_world t)"
    if "run_state (serve_gitea cf req) s = (x, t) \<or> run_state (serve_github cf req) s = (x, t)" for x t
    using that serve_hooks[OF assms(2)] by (metis on_world_def)
  show ?thesis
  proof (cases "mux_serve (cf_Mux cf) (hr_Method req) path")
    case (Routed h)
    show ?thesis
    proof (cases h)
      case Dashboard
      let ?page = "run_state (NewMux (dashboard_deps cf (sv_repos s)) (path_segments path)) (sv_world s)"
      have "P (sv_world s) (snd ?page)" by (rule state_io_relD[OF io_NewMux]) (rule prod.collapse[symmetric])
      with request Routed Dashboard show ?thesis by (auto simp: serve_http_def run_in_world)
    qed (use request Routed hooks P_refl in \<open>auto simp: serve_http_def split: prod.splits\<close>)
  qed (use request P_refl in \<open>auto simp: serve_http_def\<close>)
next
  case (outside t f)
  then show ?thesis using assms(3) by simp
next
  case restart
  then show ?thesis using P_trigger by simp
qed

end

text \<open>The ledgers of all batches, for the whole service.\<close>

context ledger_inv begin

lemma CancelLiveBatches_rows: "hoare (rows_ok J) (CancelLiveBatches r) (\<lambda>_. rows_ok J)"
proof (rule hoareI)
  fix w :: "'f world" and a w'
  assume ok: "rows_ok J w" and run: "run_state (CancelLiveBatches r) w = (a, w')"
  let ?bs = "update_where (\<lambda>b. b_RepoID b = r \<and> live b) (b_State_update (\<lambda>_. BatchStateCancelled))
    (d_batches (w_db w))"
  have bs: "map b_ID ?bs = map b_ID (d_batches (w_db w))" "\<forall>b \<in> set ?bs. ok_row J b"
    using ok by (auto simp: rows_ok_def ok_row_def set_update_where)
  from run have "run_state (exec_stmt (sql_CancelBatchesByRepo r)) w = (a, w')"
    by (simp add: CancelLiveBatches_def)
  then show "rows_ok J w'"
    by (cases rule: exec_stmt_cases) (use ok bs in \<open>auto simp: rows_ok_def sql_CancelBatchesByRepo_def\<close>)
qed

end

sublocale ledger_removal \<subseteq> service: registry_effects "ledger_step J" keeps_ledger "\<lambda>_. True"
proof unfold_locales
  fix e :: "'a engine"
  show "state_io_rel (ledger_step J) (LiveBranchNames e)"
    unfolding LiveBranchNames_def ListLiveBatches_def by (intro io_intros)
  show "state_io_rel (ledger_step J) (ReconcileLive e)"
    by (rule ledger_stepI[OF wf.io_engine_entry(4) rows_weaken[OF ReconcileLive_rows]])
next
  fix r
  show "state_io_rel (ledger_step J) (CancelLiveBatches r :: ('a, unit) go_err)"
    by (rule ledger_stepI[OF wf.io_queue_batch(3) rows_weaken[OF CancelLiveBatches_rows]])
qed

subsection \<open>Invariants of a run\<close>

definition service_inv :: "'f service_config \<Rightarrow> 'f service \<Rightarrow> bool" where
  "service_inv cf s \<longleftrightarrow> fifo_wf (w_now (sv_world s)) (w_db (sv_world s)) \<and>
     rows_ok disjoint_ledger (sv_world s) \<and> repos_ok (dd_Registry (cf_Discovery cf)) (sv_repos s)"

lemma repos_in_world [io_intros]: "state_io_rel (keeps_repos deps) (in_world m)"
  by (simp add: state_io_rel_def keeps_repos_def carries_def run_in_world)

lemma po_keeps_repos [io_intros]: "po_rel (keeps_repos deps)"
  by (simp add: keeps_repos_def)

lemmas repos_intros [io_intros] = Add_repos_ok Remove_repos_ok

lemma DiscoverOnce_repos_ok: "state_io_rel (keeps_repos (dd_Registry dd)) (DiscoverOnce ord dd)"
  unfolding DiscoverOnce_def addNew_def reconcile_source_def drop_repo_def by (intro io_intros)

lemma sys_step_repos:
  assumes "sys_step cf s s'" "repos_ok (dd_Registry (cf_Discovery cf)) (sv_repos s)"
  shows "repos_ok (dd_Registry (cf_Discovery cf)) (sv_repos s')"
  using assms
proof cases
  case (discover ord)
  from state_io_relD[OF DiscoverOnce_repos_ok this(1)] assms(2) show ?thesis
    by (simp add: keeps_repos_def carries_def)
next
  case (rediscover ord ev)
  have "state_io_rel (keeps_repos (dd_Registry (cf_Discovery cf))) (discovery_turn ord (cf_Discovery cf) ev)"
    unfolding discovery_turn_def by (intro io_intros DiscoverOnce_repos_ok)
  from state_io_relD[OF this rediscover] assms(2) show ?thesis
    by (simp add: keeps_repos_def carries_def)
next
  case (request path req resp)
  then have "sv_repos s' = sv_repos s"
    by (auto simp: serve_http_def run_in_world serve_gitea_def serve_github_def
        split: routed.splits endpoint.splits)
  with assms(2) show ?thesis by simp
qed (auto simp: run_in_world)

interpretation service_fifo: registry_effects fifo_step keeps_fifo "\<lambda>_. True"
  by unfold_locales (rule fifo.io_engine_entry fifo.io_queue_batch)+

lemma sys_step_fifo:
  assumes "sys_step cf s s'" "repos_ok (dd_Registry (cf_Discovery cf)) (sv_repos s)"
  shows "fifo_step (sv_world s) (sv_world s')"
  by (rule service_fifo.sys_step_respects[OF assms fifo_outside])

lemma sys_step_ledger:
  assumes "sys_step cf s s'" "repos_ok (dd_Registry (cf_Discovery cf)) (sv_repos s)"
  shows "ledger_step disjoint_ledger (sv_world s) (sv_world s')"
  by (rule disjoint.service.sys_step_respects[OF assms])
    (simp add: ledger_step_def db_step_def rows_ok_def)

lemma service_inv_step: "sys_step cf s s' \<Longrightarrow> service_inv cf s \<Longrightarrow> service_inv cf s'"
  using sys_step_repos[of cf s s'] sys_step_fifo[of cf s s'] sys_step_ledger[of cf s s']
  by (auto simp: service_inv_def fifo_step_def ledger_step_def fifo_db_def fifo_wf_def)

lemma service_inv_run: "sys_run cf s s' \<Longrightarrow> service_inv cf s \<Longrightarrow> service_inv cf s'"
  by (induction rule: rtranclp_induct) (auto intro: service_inv_step)

lemma service_inv_fresh: "fresh_service s \<Longrightarrow> service_inv cf s"
  using db_wf_empty
  by (simp add: fresh_service_def service_inv_def fifo_wf_def times_ok_def rows_ok_def empty_db_def)

lemma fifo_run:
  "sys_run cf s s' \<Longrightarrow> service_inv cf s \<Longrightarrow> fifo_step (sv_world s) (sv_world s')"
proof (induction rule: rtranclp_induct)
  case (step s1 s2)
  have "service_inv cf s1" using step service_inv_run by blast
  then have "fifo_step (sv_world s1) (sv_world s2)"
    using sys_step_fifo[OF step(2)] by (simp add: service_inv_def)
  with step show ?case by (blast intro: fifo.P_trans)
qed (simp add: fifo.P_refl)

end
