(* ===== verification/ServiceProps.thy ===== *)
theory ServiceProps
  imports Service Fixtures
begin

text \<open>The properties of the running service, its registry and its discovery loop.\<close>

subsection \<open>A concrete service\<close>

text \<open>One Gitea with the repository \<open>org/app\<close>, configured explicitly, and one pull request with
  auto-merge enabled.\<close>

definition auto_pr :: PR where
  "auto_pr = \<lparr>pr_Number = 7, pr_Title = ''t'', pr_State = ''open'', pr_Merged = False,
     pr_AuthorLogin = ''a'', pr_HeadBranch = ''f'', pr_HeadSHA = ''h7'', pr_BaseBranch = ''main'',
     pr_HTMLURL = [], pr_AutoMergeEnabled = True\<rparr>"

definition green :: Check where
  "green = \<lparr>ck_State = CheckStateSuccess, ck_Description = [], ck_TargetURL = []\<rparr>"

definition pr_forge :: "unit forge" where
  "pr_forge = ok_forge\<lparr>f_ListOpenPRs := (\<lambda>_ _. ret (Inr [auto_pr])),
     f_GetPR := (\<lambda>_ _ _. ret (Inr auto_pr)), f_GetCheckStates := (\<lambda>_ _ _. ret (Inr [(''ci'', green)]))\<rparr>"

definition demo_ref :: repo_ref where
  "demo_ref = \<lparr>rr_Forge = ''gitea'', rr_Owner = ''org'', rr_Name = ''app''\<rparr>"

definition demo_registry :: "unit registry_deps" where
  "demo_registry = \<lparr>rg_Forges = Register pr_forge NewSet, rg_WebhookSecret = ''s'',
     rg_ExternalURL = ''http://mq'', rg_PollInterval = 30, rg_IdlePollInterval = 900,
     rg_CheckTimeout = 3600, rg_FallbackChecks = [], rg_SuccessTimeout = 300,
     rg_SkipQueueIfUpToDate = True, rg_BatchMax = 4, rg_BisectMaxSteps = 0\<rparr>"

definition demo_source :: "unit repo_source" where
  "demo_source = \<lparr>src_Kind = ''gitea'', src_List = ret (Inr [demo_ref])\<rparr>"

definition demo_discovery :: "unit discovery_deps" where
  "demo_discovery = \<lparr>dd_Sources = [demo_source], dd_Registry = demo_registry, dd_ExplicitRepos = []\<rparr>"

definition demo_config :: "unit service_config" where
  "demo_config = \<lparr>cf_Discovery = demo_discovery, cf_GiteaSecret = ''s'', cf_Validate = (\<lambda>_. None),
     cf_Parse = (\<lambda>_ _. None), cf_PollInterval = 30, cf_IdlePollInterval = 900,
     cf_Mux = [(''/webhook/gitea'', GiteaWebhook), (''/'', Dashboard)], cf_Forges = Register pr_forge NewSet,
     cf_FallbackChecks = [], cf_RefreshInterval = 10\<rparr>"

definition demo_new :: "unit service" where
  "demo_new = \<lparr>sv_world = demo_world\<lparr>w_db := empty_db\<rparr>, sv_repos = NewRegistry\<rparr>"

definition demo_up :: "unit service" where
  "demo_up = snd (run_state (DiscoverOnce id demo_discovery) demo_new)"

definition demo_managed :: "unit managed_repo" where
  "demo_managed = the (map_of (sv_repos demo_up) ''gitea:org/app'')"

definition demo_polled :: "unit service" where
  "demo_polled = snd (run_state (in_world (poll_turn demo_config demo_managed TickEvent 0)) demo_up)"

lemma demo_new_fresh: "fresh_service demo_new"
  by (simp add: fresh_service_def demo_new_def)

lemma demo_runs: "sys_step demo_config demo_new demo_up" "sys_step demo_config demo_up demo_polled"
proof -
  show "sys_step demo_config demo_new demo_up"
    by (rule sys_step.discover[of id]) (simp add: demo_up_def demo_config_def prod_eq_iff)
  have "map_of (sv_repos demo_up) ''gitea:org/app'' \<noteq> None" by code_simp
  then have "map_of (sv_repos demo_up) ''gitea:org/app'' = Some demo_managed"
    by (auto simp: demo_managed_def)
  then show "sys_step demo_config demo_up demo_polled"
    by (rule sys_step.poll[of _ _ _ _ TickEvent 0]) (simp add: demo_polled_def prod_eq_iff)
qed

subsection \<open>The database\<close>

text \<open>C3. Whatever pollers, webhooks, discovery cycles, restarts and database failures happen, in
  any order, from an empty installation on: a pull request has at most one entry, a target branch
  at most one live batch, every batch has distinct members, none of them lands twice, none that is
  under test or waits for its test has been ejected, and the registry holds every repository once,
  under its own name.\<close>

theorem service_invariant:
  assumes "fresh_service s" "sys_run cf s s'"
  shows "distinct (map entry_key (d_entries (w_db (sv_world s')))) \<and>
    live_unique (d_batches (w_db (sv_world s'))) \<and>
    list_all (\<lambda>b. distinct (b_MemberIds b) \<and>
      mset (b_LandedIds b @ b_CurrentIds b @ concat (loadPending (b_Pending b))) \<subseteq># mset (b_MemberIds b) \<and>
      set (b_CurrentIds b @ concat (loadPending (b_Pending b))) \<inter> set (b_EjectedIds b) = {})
      (d_batches (w_db (sv_world s'))) \<and>
    distinct (Registry_Keys (sv_repos s')) \<and>
    list_all (\<lambda>(k, m). k = RepoRef_String (mr_Ref m)) (sv_repos s')"
proof -
  have inv: "service_inv cf s'"
    using service_inv_run[OF assms(2) service_inv_fresh[OF assms(1)]] .
  then have wf: "db_wf (w_db (sv_world s'))" by (simp add: service_inv_def fifo_wf_def)
  show ?thesis
    using inv wf db_wf_live_unique[OF wf]
    by (auto simp: service_inv_def rows_ok_def ok_row_def disjoint_ledger_def repos_ok_def
        Registry_Keys_def list_all_iff db_wf_def entries_wf_def)
qed

theorem service_invariant_witness:
  "live_unique (d_batches (w_db (sv_world demo_polled))) \<and> distinct (Registry_Keys (sv_repos demo_polled))"
proof -
  have "sys_run demo_config demo_new demo_polled"
    using demo_runs by (meson rtranclp.rtrancl_into_rtrancl rtranclp.rtrancl_refl)
  from service_invariant[OF demo_new_fresh this] show ?thesis by blast
qed

text \<open>C9. No pull request overtakes another: between any two moments of a run, what is left of
  a queue keeps its order, and everything new stands behind it.\<close>

theorem service_fifo:
  assumes "fresh_service s0" "sys_run cf s0 s" "sys_run cf s s'"
  shows "\<exists>keep new. queue_ids (w_db (sv_world s')) r b = keep @ new \<and>
    subseq keep (queue_ids (w_db (sv_world s)) r b) \<and>
    list_all (\<lambda>i. i < d_entry_seq (w_db (sv_world s))) (queue_ids (w_db (sv_world s)) r b) \<and>
    list_all (\<lambda>i. d_entry_seq (w_db (sv_world s)) \<le> i) new"
proof -
  have inv: "service_inv cf s"
    using service_inv_run[OF assms(2) service_inv_fresh[OF assms(1)]] .
  then have wf: "fifo_wf (w_now (sv_world s)) (w_db (sv_world s))" by (simp add: service_inv_def)
  then have "list_all (\<lambda>i. i < d_entry_seq (w_db (sv_world s))) (queue_ids (w_db (sv_world s)) r b)"
    by (auto simp: fifo_wf_def db_wf_def entries_wf_def list_all_iff queue_ids_def queue_rows_def)
  with fifo_run[OF assms(3) inv] wf show ?thesis
    by (fastforce simp: fifo_step_def fifo_db_def evolves_def list_all_iff)
qed

theorem service_fifo_witness:
  "\<exists>keep new. queue_ids (w_db (sv_world demo_polled)) 1 ''main'' = keep @ new \<and>
    subseq keep (queue_ids (w_db (sv_world demo_up)) 1 ''main'') \<and>
    list_all (\<lambda>i. i < d_entry_seq (w_db (sv_world demo_up))) (queue_ids (w_db (sv_world demo_up)) 1 ''main'') \<and>
    list_all (\<lambda>i. d_entry_seq (w_db (sv_world demo_up)) \<le> i) new"
  by (rule service_fifo[OF demo_new_fresh r_into_rtranclp r_into_rtranclp], rule demo_runs, rule demo_runs)

subsection \<open>The registry and its discovery loop\<close>

text \<open>C19. Discovery never evicts on an outage: a managed repository that is configured, or that
  every source of its kind still lists or fails to list, keeps its entry with the same monitor and
  the same poller, in whatever order Go iterates its maps.\<close>

theorem discovery_outage_safe:
  assumes "map_of (sv_repos s) key = Some m"
    "list_all (\<lambda>src. source_keeps key src \<or> key \<in> RepoRef_String ` set (dd_ExplicitRepos dd)) (dd_Sources dd)"
  shows "map_of (sv_repos (snd (run_state (DiscoverOnce ord dd) s))) key = Some m"
proof -
  from assms(2) have "hoare (managed_as key m) (DiscoverOnce ord dd) (\<lambda>_. managed_as key m)"
    by (intro DiscoverOnce_managed) (simp add: list_all_iff)
  from hoareD_snd[OF this] assms(1) show ?thesis by (simp add: managed_as_def)
qed

definition down_source :: "unit repo_source" where
  "down_source = \<lparr>src_Kind = ''gitea'', src_List = ret (Inl (PlainError ''timeout''))\<rparr>"

theorem discovery_outage_safe_witness:
  "map_of (sv_repos (snd (run_state
     (DiscoverOnce rev (demo_discovery\<lparr>dd_Sources := [down_source]\<rparr>)) demo_up))) ''gitea:org/app'' =
   Some demo_managed"
proof (rule discovery_outage_safe)
  have "map_of (sv_repos demo_up) ''gitea:org/app'' \<noteq> None" by code_simp
  then show "map_of (sv_repos demo_up) ''gitea:org/app'' = Some demo_managed"
    by (auto simp: demo_managed_def)
qed (simp add: down_source_def source_keeps_def)

text \<open>C18. After a cycle, every managed repository of a kind whose source answered is one that the
  source lists or that is configured: what lost its topic or its installation is gone, and no cycle
  of another kind brings it back.\<close>

theorem discovery_reconciles:
  assumes "src \<in> set (dd_Sources dd)" "\<And>f. fst (run_state (src_List src) f) = Inr refs"
    "list_all source_ok (dd_Sources dd)" "distinct (map src_Kind (dd_Sources dd))"
    "list_all ref_ok (dd_ExplicitRepos dd)" "\<And>ks. set (ord ks) = set ks" "key_in is_ref s"
    "map_of (sv_repos (snd (run_state (DiscoverOnce ord dd) s))) key = Some m"
    "has_prefix key (src_Kind src @ '':'')"
  shows "key \<in> RepoRef_String ` set (refs @ dd_ExplicitRepos dd)"
proof -
  have "hoare (key_in is_ref) (DiscoverOnce ord dd)
      (\<lambda>_. key_in (kept_key (src_Kind src) (RepoRef_String ` set (refs @ dd_ExplicitRepos dd)) []))"
    using assms(1-6) by (intro DiscoverOnce_keys) (auto simp: list_all_iff)
  from hoareD_snd[OF this assms(7)] assms(8,9) show ?thesis by (auto simp: key_in_def kept_key_def)
qed

definition other_ref :: repo_ref where
  "other_ref = \<lparr>rr_Forge = ''gitea'', rr_Owner = ''org'', rr_Name = ''lib''\<rparr>"

definition moved_discovery :: "unit discovery_deps" where
  "moved_discovery = demo_discovery\<lparr>dd_Sources := [demo_source\<lparr>src_List := ret (Inr [other_ref])\<rparr>]\<rparr>"

theorem discovery_reconciles_witness:
  "''gitea:org/lib'' \<in> RepoRef_String ` set ([other_ref] @ dd_ExplicitRepos moved_discovery)"
proof -
  have "map_of (sv_repos (snd (run_state (DiscoverOnce id moved_discovery) demo_up))) ''gitea:org/lib'' \<noteq> None"
    by code_simp
  then obtain m where
      m: "map_of (sv_repos (snd (run_state (DiscoverOnce id moved_discovery) demo_up))) ''gitea:org/lib'' = Some m"
    by auto
  have keys: "map fst (sv_repos demo_up) = [''gitea:org/app'']" by code_simp
  have ref: "ref_ok demo_ref" "RepoRef_String demo_ref = ''gitea:org/app''" by code_simp+
  have "is_ref ''gitea:org/app''" using ref unfolding is_ref_def by blast
  then have in_s: "key_in is_ref demo_up"
    using keys by (auto simp: key_in_def dest!: map_of_SomeD dest: image_eqI[of _ fst])
  show ?thesis
    by (rule discovery_reconciles[where src = "demo_source\<lparr>src_List := ret (Inr [other_ref])\<rparr>",
          OF _ _ _ _ _ _ in_s m])
      (simp_all add: moved_discovery_def demo_discovery_def demo_source_def source_ok_def
        other_ref_def ref_ok_def Kind_Valid_def KindGitea_def has_prefix_def)
qed







end
