(* ===== verification/Startup.thy ===== *)
theory Startup
  imports Config Service
begin

text \<open>
  How \<open>run\<close> of \<open>cmd/gitea-mq/main.go\<close> wires the service from its configuration. The adapters
  and the two listers are arguments here; theory \<open>Server\<close> puts them in.
\<close>

definition giteaWebhookSecret :: "Config \<Rightarrow> string" where
  "giteaWebhookSecret cfg = (case cfg_Gitea cfg of None \<Rightarrow> [] | Some g \<Rightarrow> gc_WebhookSecret g)"

text \<open>A forge, and a source, is there if its section is configured; the topic of Gitea may be empty.\<close>

definition startup_forges :: "'f forge option \<Rightarrow> 'f forge option \<Rightarrow> 'f forge_set" where
  "startup_forges giteaForge githubForge =
     (let s = (case giteaForge of None \<Rightarrow> NewSet | Some f \<Rightarrow> Register f NewSet)
      in case githubForge of None \<Rightarrow> s | Some f \<Rightarrow> Register f s)"

definition startup_sources ::
  "(string \<times> ('f, error + repo_ref list) state) option \<Rightarrow> ('f, error + repo_ref list) state option \<Rightarrow>
     'f repo_source list" where
  "startup_sources topicSource installationSource =
     (case topicSource of
        None \<Rightarrow> []
      | Some (topic, list) \<Rightarrow> if topic \<noteq> [] then [\<lparr>src_Kind = KindGitea, src_List = list\<rparr>] else []) @
     (case installationSource of
        None \<Rightarrow> [] | Some list \<Rightarrow> [\<lparr>src_Kind = KindGithub, src_List = list\<rparr>])"

definition startup_registry :: "Config \<Rightarrow> 'f forge_set \<Rightarrow> 'f registry_deps" where
  "startup_registry cfg forges =
     \<lparr>rg_Forges = forges, rg_WebhookSecret = giteaWebhookSecret cfg,
      rg_ExternalURL = cfg_ExternalURL cfg, rg_PollInterval = cfg_PollInterval cfg,
      rg_IdlePollInterval = cfg_IdlePollInterval cfg, rg_CheckTimeout = cfg_CheckTimeout cfg,
      rg_FallbackChecks = cfg_RequiredChecks cfg, rg_SuccessTimeout = 5 * minute,
      rg_SkipQueueIfUpToDate = cfg_SkipQueueIfUpToDate cfg, rg_BatchMax = cfg_BatchMax cfg,
      rg_BisectMaxSteps = cfg_BisectMaxSteps cfg\<rparr>"

definition startup_discovery :: "Config \<Rightarrow> 'f forge_set \<Rightarrow> 'f repo_source list \<Rightarrow> 'f discovery_deps" where
  "startup_discovery cfg forges sources =
     \<lparr>dd_Sources = sources, dd_Registry = startup_registry cfg forges,
      dd_ExplicitRepos = config_repos cfg\<rparr>"

subsection \<open>What a loaded configuration guarantees\<close>

lemma parse_repo_parts_ok:
  "parse_repo_parts kind parts = Inr refs \<Longrightarrow> Kind_Valid kind \<Longrightarrow> r \<in> set refs \<Longrightarrow>
     ref_ok r \<and> rr_Forge r = kind"
proof (induction parts arbitrary: refs r)
  case (Cons part parts)
  have new: "ref_ok \<lparr>rr_Forge = kind, rr_Owner = ow, rr_Name = nm\<rparr>"
    if "cut ''/'' p = Some (ow, nm)" "ow \<noteq> []" "nm \<noteq> []" for p ow nm
    using that cut_Some_first[of "CHR ''/''" p ow nm] Cons.prems(2) by (simp add: ref_ok_def)
  from Cons.prems(1) consider "parse_repo_parts kind parts = Inr refs"
    | ow nm rest where "cut ''/'' (trim_space part) = Some (ow, nm)" "ow \<noteq> []" "nm \<noteq> []"
        "refs = \<lparr>rr_Forge = kind, rr_Owner = ow, rr_Name = nm\<rparr> # rest"
        "parse_repo_parts kind parts = Inr rest"
    by (auto simp: Let_def split: if_splits option.splits)
  then show ?case
    using Cons.IH[OF _ Cons.prems(2)] Cons.prems(3) by cases (auto intro: new)
qed simp

lemma parseRepos_ok:
  "parseRepos s kind = Inr refs \<Longrightarrow> Kind_Valid kind \<Longrightarrow>
     refs \<noteq> [] \<and> list_all (\<lambda>r. ref_ok r \<and> rr_Forge r = kind) refs"
  using parse_repo_parts_ok by (auto simp: parseRepos_def list_all_iff split: if_splits)

lemma parseDuration_positive:
  "parseDurationOrDefault env key d = Inr v \<Longrightarrow> 0 < d \<Longrightarrow> 0 < v"
  by (auto simp: parseDurationOrDefault_def split: if_splits option.splits)

lemma parseInt_bounds:
  "parseInt env key d m = Inr v \<Longrightarrow> m \<le> d \<Longrightarrow> d < 2 ^ 63 \<Longrightarrow> m \<le> v \<and> v < 2 ^ 63"
  by (auto simp: parseInt_def split: if_splits option.splits dest: parse_int64_range)

lemma missing_if_Nil [simp]: "missing_if b name missing = [] \<longleftrightarrow> \<not> b \<and> missing = []"
  by (simp add: missing_if_def)

definition gitea_ok :: "GiteaConfig \<Rightarrow> bool" where
  "gitea_ok g \<longleftrightarrow> gc_URL g \<noteq> [] \<and> last (gc_URL g) \<noteq> CHR ''/'' \<and> gc_Token g \<noteq> [] \<and>
     gc_WebhookSecret g \<noteq> [] \<and> (gc_Topic g \<noteq> [] \<or> gc_Repos g \<noteq> []) \<and>
     list_all (\<lambda>r. ref_ok r \<and> rr_Forge r = KindGitea) (gc_Repos g)"

definition github_ok :: "GithubConfig \<Rightarrow> bool" where
  "github_ok g \<longleftrightarrow> hc_PrivateKey g \<noteq> [] \<and> hc_WebhookSecret g \<noteq> [] \<and>
     list_all (\<lambda>r. ref_ok r \<and> rr_Forge r = KindGithub) (hc_Repos g)"

lemma loadGitea_ok: "loadGitea env missing = Inr (g, []) \<Longrightarrow> missing = [] \<and> pred_option gitea_ok g"
  using trim_right_no_trailing[of "CHR ''/''" "env ''GITEA_MQ_GITEA_URL''"]
  by (auto simp: loadGitea_def Let_def gitea_ok_def dest!: parseRepos_ok split: if_splits)

lemma loadGithub_ok: "loadGithub env rf missing = Inr (g, []) \<Longrightarrow> missing = [] \<and> pred_option github_ok g"
  by (auto simp: loadGithub_def Let_def github_ok_def dest!: parseRepos_ok split: if_splits option.splits)

definition config_ok :: "Config \<Rightarrow> bool" where
  "config_ok c \<longleftrightarrow> pred_option gitea_ok (cfg_Gitea c) \<and> pred_option github_ok (cfg_Github c) \<and>
     (cfg_Gitea c \<noteq> None \<or> cfg_Github c \<noteq> None) \<and> cfg_DatabaseURL c \<noteq> [] \<and>
     cfg_ExternalURL c \<noteq> [] \<and> last (cfg_ExternalURL c) \<noteq> CHR ''/'' \<and>
     0 < cfg_PollInterval c \<and> 0 < cfg_IdlePollInterval c \<and> 0 < cfg_CheckTimeout c \<and>
     0 < cfg_RefreshInterval c \<and> 0 < cfg_DiscoveryInterval c \<and>
     0 \<le> cfg_BatchMax c \<and> cfg_BatchMax c < 2 ^ 63 \<and> 0 \<le> cfg_BisectMaxSteps c \<and>
     list_all (\<lambda>s. s \<noteq> []) (cfg_RequiredChecks c)"

lemma explicit_ok: "config_ok c \<Longrightarrow> list_all ref_ok (config_repos c)"
  by (cases "cfg_Gitea c"; cases "cfg_Github c")
    (auto simp: config_ok_def config_repos_def gitea_ok_def github_ok_def list_all_iff)

lemma Load_parts:
  assumes "Load env rf = Inr c"
  obtains g h m1 poll where
    "loadGitea env (missing_if (trim_right (CHR ''/'') (env ''GITEA_MQ_EXTERNAL_URL'') = [])
       ''GITEA_MQ_EXTERNAL_URL'' (missing_if (env ''GITEA_MQ_DATABASE_URL'' = []) ''GITEA_MQ_DATABASE_URL'' []))
       = Inr (g, m1)"
    "loadGithub env rf m1 = Inr (h, [])" "g \<noteq> None \<or> h \<noteq> None"
    "cfg_Gitea c = g" "map_option (hc_PollInterval_update (\<lambda>_. 0)) (cfg_Github c) =
       map_option (hc_PollInterval_update (\<lambda>_. 0)) h"
    "cfg_DatabaseURL c = env ''GITEA_MQ_DATABASE_URL''"
    "cfg_ExternalURL c = trim_right (CHR ''/'') (env ''GITEA_MQ_EXTERNAL_URL'')"
    "parseDurationOrDefault env ''GITEA_MQ_POLL_INTERVAL'' (30 * second) = Inr (cfg_PollInterval c)"
    "parseDurationOrDefault env ''GITEA_MQ_IDLE_POLL_INTERVAL'' (15 * minute) = Inr (cfg_IdlePollInterval c)"
    "parseDurationOrDefault env ''GITEA_MQ_CHECK_TIMEOUT'' (60 * minute) = Inr (cfg_CheckTimeout c)"
    "parseDurationOrDefault env ''GITEA_MQ_REFRESH_INTERVAL'' (10 * second) = Inr (cfg_RefreshInterval c)"
    "parseDurationOrDefault env ''GITEA_MQ_DISCOVERY_INTERVAL'' (5 * minute) = Inr (cfg_DiscoveryInterval c)"
    "parseInt env ''GITEA_MQ_BATCH_MAX'' 1 0 = Inr (cfg_BatchMax c)"
    "parseInt env ''GITEA_MQ_BISECT_MAX_STEPS'' 0 0 = Inr (cfg_BisectMaxSteps c)"
    "cfg_RequiredChecks c = required_checks (env ''GITEA_MQ_REQUIRED_CHECKS'')"
  using assms unfolding Load_def Let_def
  by (clarsimp split: if_splits option.splits simp del: missing_if_Nil)

lemma Load_ok:
  assumes "Load env rf = Inr c"
  shows "config_ok c"
  using assms
proof (rule Load_parts)
  fix g h m1 poll
  assume l: "loadGitea env (missing_if (trim_right (CHR ''/'') (env ''GITEA_MQ_EXTERNAL_URL'') = [])
       ''GITEA_MQ_EXTERNAL_URL'' (missing_if (env ''GITEA_MQ_DATABASE_URL'' = []) ''GITEA_MQ_DATABASE_URL'' []))
       = Inr (g, m1)" "loadGithub env rf m1 = Inr (h, [])"
    and gh: "g \<noteq> None \<or> h \<noteq> None" "cfg_Gitea c = g" "map_option (hc_PollInterval_update (\<lambda>_. 0)) (cfg_Github c) =
       map_option (hc_PollInterval_update (\<lambda>_. 0)) h"
    and u: "cfg_DatabaseURL c = env ''GITEA_MQ_DATABASE_URL''"
    "cfg_ExternalURL c = trim_right (CHR ''/'') (env ''GITEA_MQ_EXTERNAL_URL'')"
    and d: "parseDurationOrDefault env ''GITEA_MQ_POLL_INTERVAL'' (30 * second) = Inr (cfg_PollInterval c)"
    "parseDurationOrDefault env ''GITEA_MQ_IDLE_POLL_INTERVAL'' (15 * minute) = Inr (cfg_IdlePollInterval c)"
    "parseDurationOrDefault env ''GITEA_MQ_CHECK_TIMEOUT'' (60 * minute) = Inr (cfg_CheckTimeout c)"
    "parseDurationOrDefault env ''GITEA_MQ_REFRESH_INTERVAL'' (10 * second) = Inr (cfg_RefreshInterval c)"
    "parseDurationOrDefault env ''GITEA_MQ_DISCOVERY_INTERVAL'' (5 * minute) = Inr (cfg_DiscoveryInterval c)"
    and i: "parseInt env ''GITEA_MQ_BATCH_MAX'' 1 0 = Inr (cfg_BatchMax c)"
    "parseInt env ''GITEA_MQ_BISECT_MAX_STEPS'' 0 0 = Inr (cfg_BisectMaxSteps c)"
    and r: "cfg_RequiredChecks c = required_checks (env ''GITEA_MQ_REQUIRED_CHECKS'')"
  from loadGithub_ok[OF l(2)] have h: "m1 = []" "pred_option github_ok h" by auto
  with loadGitea_ok[of env _ g] l(1) have g: "pred_option gitea_ok g"
    "trim_right (CHR ''/'') (env ''GITEA_MQ_EXTERNAL_URL'') \<noteq> []" "env ''GITEA_MQ_DATABASE_URL'' \<noteq> []"
    by fastforce+
  have pos: "0 < second" "0 < minute" by (simp_all add: second_def minute_def)
  have "last (cfg_ExternalURL c) \<noteq> CHR ''/''"
    using trim_right_no_trailing[of "CHR ''/''" "env ''GITEA_MQ_EXTERNAL_URL''"] g(2) u(2) by auto
  moreover have "pred_option github_ok (cfg_Github c)" 
  proof (cases "cfg_Github c"; cases h)
    fix a b
    assume "cfg_Github c = Some a" "h = Some b"
    moreover from this gh(3) have "a\<lparr>hc_PollInterval := 0\<rparr> = b\<lparr>hc_PollInterval := 0\<rparr>" by simp
    ultimately show ?thesis using h(2) by (cases a; cases b) (simp add: github_ok_def)
  qed (use gh(3) in auto)
  moreover have "list_all (\<lambda>s. s \<noteq> []) (cfg_RequiredChecks c)"
    by (auto simp: r required_checks_def list_all_iff)
  ultimately show ?thesis
    using d[THEN parseDuration_positive] i[THEN parseInt_bounds] pos gh g u
    by (auto simp: config_ok_def)
qed

end
