(* ===== verification/ConfigProps.thy ===== *)
theory ConfigProps
  imports Startup
begin

text \<open>The properties of the configuration and of the service wired from it.\<close>

definition demo_env :: env where
  "demo_env k = (case map_of
     [(''GITEA_MQ_DATABASE_URL'', ''db''), (''GITEA_MQ_EXTERNAL_URL'', ''http://mq/''),
      (''GITEA_MQ_GITEA_URL'', ''http://git//''), (''GITEA_MQ_GITEA_TOKEN'', ''t''),
      (''GITEA_MQ_WEBHOOK_SECRET'', ''s''), (''GITEA_MQ_REPOS'', '' org/app , org/lib''),
      (''GITEA_MQ_BATCH_MAX'', ''4''),
      (''HOME'', ''/home/mq'')] k of None \<Rightarrow> [] | Some v \<Rightarrow> v)"

text \<open>C30. A configuration that loads is fit for the service: every interval and timeout is
  positive, batch sizes are 64-bit and not negative, a forge is configured, a configured Gitea has a
  token, a secret to check signatures with and something to manage, every explicit repository is a
  well-formed reference of the forge of its section, and no two sources are of one kind.\<close>

theorem load_guarantees:
  assumes "Load env rf = Inr c"
  shows "0 < cfg_PollInterval c \<and> 0 < cfg_IdlePollInterval c \<and> 0 < cfg_CheckTimeout c \<and>
    0 < cfg_RefreshInterval c \<and> 0 < cfg_DiscoveryInterval c \<and>
    0 \<le> cfg_BatchMax c \<and> cfg_BatchMax c < 2 ^ 63 \<and> 0 \<le> cfg_BisectMaxSteps c \<and>
    cfg_DatabaseURL c \<noteq> [] \<and> cfg_ExternalURL c \<noteq> [] \<and> last (cfg_ExternalURL c) \<noteq> CHR ''/'' \<and>
    (cfg_Gitea c \<noteq> None \<or> cfg_Github c \<noteq> None) \<and>
    pred_option (\<lambda>g. gc_Token g \<noteq> [] \<and> gc_WebhookSecret g \<noteq> [] \<and> giteaWebhookSecret c = gc_WebhookSecret g \<and>
      (gc_Topic g \<noteq> [] \<or> gc_Repos g \<noteq> [])) (cfg_Gitea c) \<and>
    list_all ref_ok (config_repos c) \<and>
    list_all (\<lambda>r. rr_Forge r \<in> fst ` set (startup_forges (map_option (\<lambda>_. gf\<lparr>f_Kind := KindGitea\<rparr>) (cfg_Gitea c))
      (map_option (\<lambda>_. hf\<lparr>f_Kind := KindGithub\<rparr>) (cfg_Github c))))
      (config_repos c) \<and>
    distinct (map src_Kind (startup_sources topics installations)) \<and>
    list_all (\<lambda>x. Kind_Valid (src_Kind x)) (startup_sources topics installations)"
proof -
  have ok: "config_ok c" by (rule Load_ok[OF assms])
  then have "list_all ref_ok (config_repos c)" by (rule explicit_ok)
  moreover from ok have "list_all (\<lambda>r. rr_Forge r \<in> fst ` set (startup_forges
      (map_option (\<lambda>_. gf\<lparr>f_Kind := KindGitea\<rparr>) (cfg_Gitea c)) (map_option (\<lambda>_. hf\<lparr>f_Kind := KindGithub\<rparr>) (cfg_Github c)))) (config_repos c)"
    by (cases "cfg_Gitea c"; cases "cfg_Github c")
      (auto simp: config_ok_def config_repos_def gitea_ok_def github_ok_def startup_forges_def Let_def
        Register_def NewSet_def KindGitea_def KindGithub_def list_all_iff)
  moreover have "distinct (map src_Kind (startup_sources topics installations))"
    "list_all (\<lambda>x. Kind_Valid (src_Kind x)) (startup_sources topics installations)"
    by (auto simp: startup_sources_def KindGitea_def KindGithub_def Kind_Valid_def split: option.splits)
  ultimately show ?thesis
    using ok by (cases "cfg_Gitea c") (simp_all add: config_ok_def gitea_ok_def giteaWebhookSecret_def)
qed

theorem load_guarantees_witness:
  "\<exists>c. Load demo_env (\<lambda>_. Inr []) = Inr c \<and> list_all ref_ok (config_repos c)"
proof -
  have "\<not> isl (Load demo_env (\<lambda>_. Inr []))" by code_simp
  then obtain c where c: "Load demo_env (\<lambda>_. Inr []) = Inr c"
    by (cases "Load demo_env (\<lambda>_. Inr [])") auto
  with load_guarantees[OF c, of undefined undefined undefined undefined] show ?thesis by blast
qed

definition repo_text :: "repo_ref \<Rightarrow> string" where
  "repo_text r = rr_Owner r @ ''/'' @ rr_Name r"

lemma parse_repo_parts_text:
  "list_all (\<lambda>r. ref_ok r \<and> rr_Forge r = kind \<and> trim_space (repo_text r) = repo_text r) refs \<Longrightarrow>
     parse_repo_parts kind (map repo_text refs) = Inr refs"
  by (induction refs) (auto simp: Let_def repo_text_def ref_ok_def cut_first)

text \<open>Writing references separated by commas and parsing them again gives them back, in
  their order, whatever forge the variable is for.\<close>

theorem repos_roundtrip:
  assumes "refs \<noteq> []" "list_all (\<lambda>r. ref_ok r \<and> rr_Forge r = kind \<and>
      trim_space (repo_text r) = repo_text r \<and> CHR '','' \<notin> set (repo_text r)) refs"
  shows "parseRepos (join_with '','' (map repo_text refs)) kind = Inr refs"
proof -
  have "split_on (CHR '','') (join_with '','' (map repo_text refs)) = map repo_text refs"
    using assms by (intro split_join) (auto simp: list_all_iff)
  moreover have "parse_repo_parts kind (map repo_text refs) = Inr refs"
    using assms(2) by (intro parse_repo_parts_text) (auto simp: list_all_iff)
  ultimately show ?thesis using assms(1) by (simp add: parseRepos_def)
qed

theorem repos_roundtrip_witness:
  "parseRepos ''org/app,org/lib'' KindGitea =
     Inr [\<lparr>rr_Forge = KindGitea, rr_Owner = ''org'', rr_Name = ''app''\<rparr>,
          \<lparr>rr_Forge = KindGitea, rr_Owner = ''org'', rr_Name = ''lib''\<rparr>]"
proof -
  let ?refs = "[\<lparr>rr_Forge = KindGitea, rr_Owner = ''org'', rr_Name = ''app''\<rparr>,
          \<lparr>rr_Forge = KindGitea, rr_Owner = ''org'', rr_Name = ''lib''\<rparr>]"
  have "list_all (\<lambda>r. ref_ok r \<and> rr_Forge r = KindGitea \<and>
      trim_space (repo_text r) = repo_text r \<and> CHR '','' \<notin> set (repo_text r)) ?refs"
    by code_simp
  from repos_roundtrip[OF _ this] show ?thesis by (simp add: repo_text_def)
qed

end
