(* ===== verification/GitCache.thy ===== *)
theory GitCache
  imports Errors Config Sha256
begin

text \<open>
  \<open>internal/gitea/gitcache.go\<close>: the persistent clones, one per repository. Running git and the
  file system are parameters over the state \<open>'f\<close>: \<open>ge_Exec\<close> runs git in a directory and returns
  its output and, on failure, its exit status. The per-repository lock makes \<open>withRepo\<close> one step.
\<close>

record 'f git_env =
  ge_Exec :: "string \<Rightarrow> string list \<Rightarrow> ('f, string \<times> int option) state"
  ge_Stat :: "string \<Rightarrow> ('f, int option) state"
  ge_MkdirAll :: "string \<Rightarrow> ('f, error + unit) state"
  ge_RemoveAll :: "string \<Rightarrow> ('f, error + unit) state"
  ge_WriteFile :: "string \<Rightarrow> ('f, error + unit) state"
  ge_Glob :: "string \<Rightarrow> ('f, string list option) state"

record 'f git_cache =
  gk_BaseDir :: string
  gk_AuthFlags :: "string list"
  gk_Redact :: "string \<Rightarrow> string"
  gk_Env :: "'f git_env"

definition cacheMarkerFile :: string where
  "cacheMarkerFile = ''.last-used''"

definition DefaultCacheMaxAge :: int where
  "DefaultCacheMaxAge = 30 * 24 * 60 * minute"

definition path_in :: "string \<Rightarrow> string \<Rightarrow> string" where
  "path_in dir name = path_clean (dir @ ''/'' @ name)"

definition repoPath :: "'f git_cache \<Rightarrow> string \<Rightarrow> string \<Rightarrow> string \<Rightarrow> string" where
  "repoPath g url owner repo =
     path_in (path_in (gk_BaseDir g) owner)
       (repo @ ''-'' @ hex_encode (take 4 (sha256 (map of_char url))) @ ''.git'')"

type_synonym 'f git_run = "string list \<Rightarrow> ('f, string \<times> error option) state"

definition runner :: "'f git_cache \<Rightarrow> string \<Rightarrow> 'f git_run" where
  "runner g dir args = do {
     r \<leftarrow> ge_Exec (gk_Env g) dir (gk_AuthFlags g @ args);
     (case r of (out, failed) \<Rightarrow> ret (out, (case failed of
         None \<Rightarrow> None
       | Some code \<Rightarrow> Some (GitError (gk_Redact g (join_with '' '' args)) code (gk_Redact g out))))) }"

text \<open>\<open>out, err := run(args); if err != nil { return err }\<close>\<close>

definition run_ok :: "'f git_run \<Rightarrow> string list \<Rightarrow> ('f, error + string) state" where
  "run_ok run args = do {
     r \<leftarrow> run args;
     (case r of (out, err) \<Rightarrow> ret (case err of None \<Rightarrow> Inr out | Some e \<Rightarrow> Inl e)) }"

definition init_commands :: "string \<Rightarrow> string list list" where
  "init_commands url =
     [[''init'', ''--bare'', ''--quiet''], [''remote'', ''add'', ''origin'', url],
      [''config'', ''remote.origin.promisor'', ''true''],
      [''config'', ''remote.origin.partialclonefilter'', ''blob:none'']]"

text \<open>Run commands until one fails.\<close>

primrec run_all :: "'f git_run \<Rightarrow> string list list \<Rightarrow> ('f, error + unit) state" where
  "run_all run [] = ret (Inr ())"
| "run_all run (args # rest) = on_ok (run_ok run args) (\<lambda>_. run_all run rest)"

definition fetch_repo ::
  "'f git_cache \<Rightarrow> string \<Rightarrow> string \<Rightarrow> string list \<Rightarrow> ('f, error + unit) state" where
  "fetch_repo g path url refs =
     (let run = runner g path in do {
        head \<leftarrow> ge_Stat (gk_Env g) (path_in path ''HEAD'');
        on_ok (if head \<noteq> None then ret (Inr ())
               else on_ok_map (Wrap ''create cache dir'') (ge_MkdirAll (gk_Env g) path) (\<lambda>_.
                 on_ok_map (Wrap ''init cache'') (run_all run (init_commands url)) (\<lambda>_. ret (Inr ()))))
          (\<lambda>_. on_ok_map (Wrap ''configure cache'') (run_ok run [''remote'', ''set-url'', ''origin'', url]) (\<lambda>_.
               on_ok_map (Wrap ''fetch into cache'')
                 (run_ok run ([''fetch'', ''--quiet'', ''--force'', ''--prune'', ''--filter=blob:none'', ''origin''] @ refs))
                 (\<lambda>_. ret (Inr ())))) })"

definition healthy :: "'f git_cache \<Rightarrow> string \<Rightarrow> ('f, bool) state" where
  "healthy g path = do {
     head \<leftarrow> ge_Stat (gk_Env g) (path_in path ''HEAD'');
     if head = None then ret False
     else do {
       r \<leftarrow> run_ok (runner g path)
         [''for-each-ref'', ''--count=1'', ''--format=%(objectname)'', ''refs/heads''];
       (case r of
          Inl _ \<Rightarrow> ret False
        | Inr out \<Rightarrow>
            let sha = trim_space out in
            if sha = [] then ret True
            else do {
              r \<leftarrow> run_ok (runner g path) [''cat-file'', ''-e'', sha @ ''^{commit}''];
              ret (\<not> isl r) }) } }"

definition ensure ::
  "'f git_cache \<Rightarrow> string \<Rightarrow> string \<Rightarrow> string list \<Rightarrow> ('f, error + unit) state" where
  "ensure g path url refs = do {
     r \<leftarrow> fetch_repo g path url refs;
     (case r of
        Inr _ \<Rightarrow> ret (Inr ())
      | Inl err \<Rightarrow> do {
          ok \<leftarrow> healthy g path;
          if ok then ret (Inl err)
          else on_ok_map (Wrap (''remove corrupted cache '' @ path)) (ge_RemoveAll (gk_Env g) path)
            (\<lambda>_. fetch_repo g path url refs) }) }"

definition withRepo ::
  "'f git_cache \<Rightarrow> string \<Rightarrow> string \<Rightarrow> string \<Rightarrow> string list \<Rightarrow>
     ('f git_run \<Rightarrow> ('f, error + 'a) state) \<Rightarrow> ('f, error + 'a) state" where
  "withRepo g url owner repo refs fn =
     (let path = repoPath g url owner repo in
      on_ok (ensure g path url refs) (\<lambda>_. do {
        _ \<leftarrow> ge_WriteFile (gk_Env g) (path_in path cacheMarkerFile);
        on_ok (fn (runner g path)) (\<lambda>a. do {
          _ \<leftarrow> run_ok (runner g path) [''gc'', ''--auto'', ''--quiet''];
          ret (Inr a) }) }))"

definition stale_repo :: "'f git_cache \<Rightarrow> int \<Rightarrow> string \<Rightarrow> ('f, unit) state" where
  "stale_repo g cutoff dir = do {
     marker \<leftarrow> ge_Stat (gk_Env g) (path_in dir cacheMarkerFile);
     info \<leftarrow> (case marker of Some t \<Rightarrow> ret (Some t) | None \<Rightarrow> ge_Stat (gk_Env g) dir);
     (case info of
        None \<Rightarrow> ret ()
      | Some t \<Rightarrow> if cutoff < t then ret () else warn_if_err (ge_RemoveAll (gk_Env g) dir)) }"

definition cleanupStale :: "'f git_cache \<Rightarrow> int \<Rightarrow> int \<Rightarrow> ('f, unit) state" where
  "cleanupStale g now maxAge = do {
     dirs \<leftarrow> ge_Glob (gk_Env g) (path_in (path_in (gk_BaseDir g) ''*'') ''*.git'');
     (case dirs of
        None \<Rightarrow> ret ()
      | Some ds \<Rightarrow> for_each ds (stale_repo g (now - maxAge))) }"

end
