(* ===== verification/GiteaTypes.thy ===== *)
theory GiteaTypes
  imports Json Forge
begin

text \<open>
  The wire types of \<open>internal/gitea/client.go\<close> with their JSON decoders and encoders, and
  \<open>automerge.go\<close>. A time stamp is kept as its text; decoding one fails, as in Go, unless it is
  a quoted RFC 3339 time.
\<close>

subsection \<open>RFC 3339\<close>

definition two_digits :: "string \<Rightarrow> (nat \<times> string) option" where
  "two_digits s =
     (case s of a # b # r \<Rightarrow>
        (case (char_digit a, char_digit b) of (Some x, Some y) \<Rightarrow> Some (10 * x + y, r) | _ \<Rightarrow> None)
      | _ \<Rightarrow> None)"

definition month_days :: "nat \<Rightarrow> nat \<Rightarrow> nat" where
  "month_days y m =
     (if m = 2 then (if y mod 4 = 0 \<and> (y mod 100 \<noteq> 0 \<or> y mod 400 = 0) then 29 else 28)
      else if m \<in> {4, 6, 9, 11} then 30 else 31)"

definition skip_char :: "char \<Rightarrow> string \<Rightarrow> string option" where
  "skip_char c s = (case s of x # r \<Rightarrow> if x = c then Some r else None | [] \<Rightarrow> None)"

definition time_zone_ok :: "string \<Rightarrow> bool" where
  "time_zone_ok s =
     (s = ''Z'' \<or>
      (case s of
         c # r \<Rightarrow> c \<in> {CHR ''+'', CHR ''-''} \<and>
           (case two_digits r of
              Some (h, r1) \<Rightarrow> h < 24 \<and>
                (case Option.bind (skip_char (CHR '':'') r1) two_digits of
                   Some (m, r2) \<Rightarrow> m < 60 \<and> r2 = [] | None \<Rightarrow> False)
            | None \<Rightarrow> False)
       | [] \<Rightarrow> False))"

definition fraction_zone_ok :: "string \<Rightarrow> bool" where
  "fraction_zone_ok s =
     (case s of
        c # r \<Rightarrow> if c = CHR ''.'' then
            r \<noteq> [] \<and> char_digit (hd r) \<noteq> None \<and> time_zone_ok (dropWhile (\<lambda>x. char_digit x \<noteq> None) r)
          else time_zone_ok s
      | [] \<Rightarrow> False)"

definition rfc3339 :: "string \<Rightarrow> bool" where
  "rfc3339 s =
     (case Option.bind (two_digits s) (\<lambda>(c, s).
           Option.bind (two_digits s) (\<lambda>(y, s).
           Option.bind (skip_char (CHR ''-'') s) (\<lambda>s.
           Option.bind (two_digits s) (\<lambda>(mo, s).
           Option.bind (skip_char (CHR ''-'') s) (\<lambda>s.
           Option.bind (two_digits s) (\<lambda>(d, s).
           Option.bind (skip_char (CHR ''T'') s) (\<lambda>s.
           Option.bind (two_digits s) (\<lambda>(h, s).
           Option.bind (skip_char (CHR '':'') s) (\<lambda>s.
           Option.bind (two_digits s) (\<lambda>(mi, s).
           Option.bind (skip_char (CHR '':'') s) (\<lambda>s.
           map_option (\<lambda>(sec, s). (100 * c + y, mo, d, h, mi, sec, s)) (two_digits s)))))))))))) of
        None \<Rightarrow> False
      | Some (y, mo, d, h, mi, sec, s) \<Rightarrow>
          1 \<le> mo \<and> mo \<le> 12 \<and> 1 \<le> d \<and> d \<le> month_days y mo \<and> h < 24 \<and> mi < 60 \<and> sec < 60 \<and>
          fraction_zone_ok s)"

definition dec_time :: "string decoder" where
  "dec_time v x = (case v of
      JStr s \<Rightarrow> if rfc3339 s then (s, True) else (x, False)
    | JNull \<Rightarrow> (x, True) | _ \<Rightarrow> (x, False))"

subsection \<open>Pull requests and timelines\<close>

record gt_User =
  us_ID :: int
  us_Login :: string

record gt_PRRef =
  ref_Label :: string
  ref_Ref :: string
  ref_Sha :: string
  ref_RepoID :: int

record gt_PR =
  gp_ID :: int
  gp_Index :: int
  gp_Title :: string
  gp_Body :: string
  gp_State :: string
  gp_HasMerged :: bool
  gp_Merged :: "string option"
  gp_User :: "gt_User option"
  gp_Head :: "gt_PRRef option"
  gp_Base :: "gt_PRRef option"
  gp_HTMLURL :: string

definition zero_User :: gt_User where
  "zero_User = \<lparr>us_ID = 0, us_Login = []\<rparr>"

definition zero_PRRef :: gt_PRRef where
  "zero_PRRef = \<lparr>ref_Label = [], ref_Ref = [], ref_Sha = [], ref_RepoID = 0\<rparr>"

definition zero_PR :: gt_PR where
  "zero_PR = \<lparr>gp_ID = 0, gp_Index = 0, gp_Title = [], gp_Body = [], gp_State = [],
     gp_HasMerged = False, gp_Merged = None, gp_User = None, gp_Head = None, gp_Base = None,
     gp_HTMLURL = []\<rparr>"

definition dec_User :: "gt_User decoder" where
  "dec_User = dec_struct
     [json_field ''id'' dec_int64 us_ID us_ID_update,
      json_field ''login'' dec_string us_Login us_Login_update]"

definition dec_PRRef :: "gt_PRRef decoder" where
  "dec_PRRef = dec_struct
     [json_field ''label'' dec_string ref_Label ref_Label_update,
      json_field ''ref'' dec_string ref_Ref ref_Ref_update,
      json_field ''sha'' dec_string ref_Sha ref_Sha_update,
      json_field ''repo_id'' dec_int64 ref_RepoID ref_RepoID_update]"

definition dec_PR :: "gt_PR decoder" where
  "dec_PR = dec_struct
     [json_field ''id'' dec_int64 gp_ID gp_ID_update,
      json_field ''number'' dec_int64 gp_Index gp_Index_update,
      json_field ''title'' dec_string gp_Title gp_Title_update,
      json_field ''body'' dec_string gp_Body gp_Body_update,
      json_field ''state'' dec_string gp_State gp_State_update,
      json_field ''merged'' dec_bool gp_HasMerged gp_HasMerged_update,
      json_field ''merged_at'' (dec_pointer dec_time []) gp_Merged gp_Merged_update,
      json_field ''user'' (dec_pointer dec_User zero_User) gp_User gp_User_update,
      json_field ''head'' (dec_pointer dec_PRRef zero_PRRef) gp_Head gp_Head_update,
      json_field ''base'' (dec_pointer dec_PRRef zero_PRRef) gp_Base gp_Base_update,
      json_field ''html_url'' dec_string gp_HTMLURL gp_HTMLURL_update]"

record TimelineComment =
  tc_ID :: int
  tc_Type :: string
  tc_Body :: string
  tc_CreatedAt :: string

definition zero_TimelineComment :: TimelineComment where
  "zero_TimelineComment = \<lparr>tc_ID = 0, tc_Type = [], tc_Body = [], tc_CreatedAt = []\<rparr>"

definition dec_TimelineComment :: "TimelineComment decoder" where
  "dec_TimelineComment = dec_struct
     [json_field ''id'' dec_int64 tc_ID tc_ID_update,
      json_field ''type'' dec_string tc_Type tc_Type_update,
      json_field ''body'' dec_string tc_Body tc_Body_update,
      json_field ''created_at'' dec_time tc_CreatedAt tc_CreatedAt_update]"

definition commentTypeAutomergeScheduled :: string where
  "commentTypeAutomergeScheduled = ''pull_scheduled_merge''"

definition commentTypeAutomergeCancelled :: string where
  "commentTypeAutomergeCancelled = ''pull_cancel_scheduled_merge''"

text \<open>The loop from the last comment to the first.\<close>

fun scheduled_in :: "TimelineComment list \<Rightarrow> bool" where
  "scheduled_in [] = False"
| "scheduled_in (c # cs) =
     (if tc_Type c = commentTypeAutomergeScheduled then True
      else if tc_Type c = commentTypeAutomergeCancelled then False
      else scheduled_in cs)"

definition HasAutomergeScheduled :: "TimelineComment list \<Rightarrow> bool" where
  "HasAutomergeScheduled timeline = scheduled_in (rev timeline)"

subsection \<open>Statuses, branches, protections\<close>

record CommitStatus =
  st_Context :: string
  st_State :: string
  st_Description :: string
  st_TargetURL :: string

definition omitempty :: "string \<Rightarrow> string \<Rightarrow> (string \<times> json) list" where
  "omitempty name s = (if s = [] then [] else [(name, JStr s)])"

definition enc_CommitStatus :: "CommitStatus \<Rightarrow> json" where
  "enc_CommitStatus s = JObj
     ([(''context'', JStr (st_Context s)), (''state'', JStr (st_State s)),
       (''description'', JStr (st_Description s))] @ omitempty ''target_url'' (st_TargetURL s))"

definition gt_MQStatus :: "string \<Rightarrow> string \<Rightarrow> string \<Rightarrow> CommitStatus" where
  "gt_MQStatus state description targetURL =
     \<lparr>st_Context = ''gitea-mq'', st_State = state, st_Description = description,
      st_TargetURL = targetURL\<rparr>"

record CommitStatusResult =
  sr_Context :: string
  sr_Status :: string
  sr_Description :: string
  sr_TargetURL :: string

definition zero_StatusResult :: CommitStatusResult where
  "zero_StatusResult = \<lparr>sr_Context = [], sr_Status = [], sr_Description = [], sr_TargetURL = []\<rparr>"

definition dec_StatusResult :: "CommitStatusResult decoder" where
  "dec_StatusResult = dec_struct
     [json_field ''context'' dec_string sr_Context sr_Context_update,
      json_field ''status'' dec_string sr_Status sr_Status_update,
      json_field ''description'' dec_string sr_Description sr_Description_update,
      json_field ''target_url'' dec_string sr_TargetURL sr_TargetURL_update]"

record CombinedStatus =
  cb_State :: string
  cb_Statuses :: "CommitStatusResult list"
  cb_SHA :: string

definition zero_CombinedStatus :: CombinedStatus where
  "zero_CombinedStatus = \<lparr>cb_State = [], cb_Statuses = [], cb_SHA = []\<rparr>"

definition dec_CombinedStatus :: "CombinedStatus decoder" where
  "dec_CombinedStatus = dec_struct
     [json_field ''state'' dec_string cb_State cb_State_update,
      json_field ''statuses'' (dec_list dec_StatusResult zero_StatusResult) cb_Statuses cb_Statuses_update,
      json_field ''sha'' dec_string cb_SHA cb_SHA_update]"

record gt_Branch =
  br_Name :: string

definition dec_Branch :: "gt_Branch decoder" where
  "dec_Branch = dec_struct [json_field ''name'' dec_string br_Name br_Name_update]"

record BranchProtection =
  bp_BranchName :: string
  bp_RuleName :: string
  bp_EnableStatusCheck :: bool
  bp_StatusCheckContexts :: "string list"

definition zero_BranchProtection :: BranchProtection where
  "zero_BranchProtection = \<lparr>bp_BranchName = [], bp_RuleName = [], bp_EnableStatusCheck = False,
     bp_StatusCheckContexts = []\<rparr>"

definition dec_BranchProtection :: "BranchProtection decoder" where
  "dec_BranchProtection = dec_struct
     [json_field ''branch_name'' dec_string bp_BranchName bp_BranchName_update,
      json_field ''rule_name'' dec_string bp_RuleName bp_RuleName_update,
      json_field ''enable_status_check'' dec_bool bp_EnableStatusCheck bp_EnableStatusCheck_update,
      json_field ''status_check_contexts'' (dec_list dec_string []) bp_StatusCheckContexts
        bp_StatusCheckContexts_update]"

record EditBranchProtectionOpts =
  eo_EnableStatusCheck :: "bool option"
  eo_StatusCheckContexts :: "string list"

definition enc_EditProtection :: "EditBranchProtectionOpts \<Rightarrow> json" where
  "enc_EditProtection o' = JObj
     ((case eo_EnableStatusCheck o' of None \<Rightarrow> [] | Some b \<Rightarrow> [(''enable_status_check'', JBool b)]) @
      [(''status_check_contexts'', JArr (map JStr (eo_StatusCheckContexts o')))])"

record gt_Compare =
  cm_TotalCommits :: int

definition dec_Compare :: "gt_Compare decoder" where
  "dec_Compare = dec_struct [json_field ''total_commits'' dec_int64 cm_TotalCommits cm_TotalCommits_update]"

subsection \<open>Webhooks and repositories\<close>

record gt_Webhook =
  wh_ID :: int
  wh_Type :: string
  wh_Config :: "(string \<times> string) list"
  wh_Events :: "string list"
  wh_Active :: bool

definition zero_Webhook :: gt_Webhook where
  "zero_Webhook = \<lparr>wh_ID = 0, wh_Type = [], wh_Config = [], wh_Events = [], wh_Active = False\<rparr>"

definition dec_Webhook :: "gt_Webhook decoder" where
  "dec_Webhook = dec_struct
     [json_field ''id'' dec_int64 wh_ID wh_ID_update,
      json_field ''type'' dec_string wh_Type wh_Type_update,
      json_field ''config'' dec_string_map wh_Config wh_Config_update,
      json_field ''events'' (dec_list dec_string []) wh_Events wh_Events_update,
      json_field ''active'' dec_bool wh_Active wh_Active_update]"

text \<open>Indexing a Go map of strings: a later binding of a key replaces an earlier one, and a
  missing key reads as the empty string.\<close>

definition string_at :: "(string \<times> string) list \<Rightarrow> string \<Rightarrow> string" where
  "string_at m k = (case map_of (rev m) k of None \<Rightarrow> [] | Some v \<Rightarrow> v)"

record CreateWebhookOpts =
  wo_Type :: string
  wo_Events :: "string list"
  wo_Active :: bool
  wo_Config :: "(string \<times> string) list"

text \<open>\<open>Marshal\<close> sorts the keys of a map.\<close>

definition enc_string_map :: "(string \<times> string) list \<Rightarrow> json" where
  "enc_string_map m = JObj (map (\<lambda>(k, v). (k, JStr v)) (sort_key fst m))"

definition enc_CreateWebhook :: "CreateWebhookOpts \<Rightarrow> json" where
  "enc_CreateWebhook w = JObj
     [(''type'', JStr (wo_Type w)), (''events'', JArr (map JStr (wo_Events w))),
      (''active'', JBool (wo_Active w)), (''config'', enc_string_map (wo_Config w))]"

record RepoPermissions =
  rp_Admin :: bool
  rp_Push :: bool
  rp_Pull :: bool

record gt_Repo =
  gr_FullName :: string
  gr_Owner :: string
  gr_Name :: string
  gr_Permissions :: RepoPermissions

definition zero_Repo :: gt_Repo where
  "zero_Repo = \<lparr>gr_FullName = [], gr_Owner = [], gr_Name = [],
     gr_Permissions = \<lparr>rp_Admin = False, rp_Push = False, rp_Pull = False\<rparr>\<rparr>"

definition dec_Permissions :: "RepoPermissions decoder" where
  "dec_Permissions = dec_struct
     [json_field ''admin'' dec_bool rp_Admin rp_Admin_update,
      json_field ''push'' dec_bool rp_Push rp_Push_update,
      json_field ''pull'' dec_bool rp_Pull rp_Pull_update]"

text \<open>The owner is a struct of its one field \<open>login\<close>.\<close>

definition dec_Repo :: "gt_Repo decoder" where
  "dec_Repo = dec_struct
     [json_field ''full_name'' dec_string gr_FullName gr_FullName_update,
      json_field ''owner'' (dec_struct [(''login'', dec_string)]) gr_Owner gr_Owner_update,
      json_field ''name'' dec_string gr_Name gr_Name_update,
      json_field ''permissions'' dec_Permissions gr_Permissions gr_Permissions_update]"

end
