(* ===== verification/GiteaHttp.thy ===== *)
theory GiteaHttp
  imports GiteaTypes Errors
begin

text \<open>
  The REST half of \<open>internal/gitea/http.go\<close>. The transport is a parameter: \<open>hx_Send\<close> sends a
  request and returns the status and the body, or an error. A loop over pages may never end (a
  server can always answer with a full page), so it is a partial function of the transport's
  state; \<open>paginatePages\<close> turns its divergence into the error \<open>OutOfFuel\<close>, which no Go
  function returns. The text of errors that \<open>encoding/json\<close> makes is not modelled. Names that go
  into the path of a list must not contain a percent sign, since Go formats such a path twice.
\<close>

record http_call =
  hq_Method :: string
  hq_URL :: string
  hq_Header :: "(string \<times> string) list"
  hq_Body :: "string option"

record http_answer =
  hp_StatusCode :: int
  hp_Body :: string

record 'f http_client =
  hx_BaseURL :: string
  hx_Token :: string
  hx_Send :: "http_call \<Rightarrow> ('f, error + http_answer) state"

subsection \<open>Requests\<close>

definition http_do ::
  "'f http_client \<Rightarrow> string \<Rightarrow> string \<Rightarrow> json option \<Rightarrow> ('f, error + http_answer) state" where
  "http_do c method path body =
     on_ok_map (Wrap (''execute request '' @ method @ '' '' @ path))
       (hx_Send c \<lparr>hq_Method = method, hq_URL = hx_BaseURL c @ ''/api/v1'' @ path,
          hq_Header = [(''Authorization'', ''token '' @ hx_Token c), (''Accept'', ''application/json'')] @
            (if body \<noteq> None then [(''Content-Type'', ''application/json'')] else []),
          hq_Body = map_option json_print body\<rparr>)
       (\<lambda>resp. ret (Inr resp))"

definition json_error :: error where
  "json_error = PlainError ''json''"

definition bad_status :: "http_answer \<Rightarrow> error option" where
  "bad_status resp =
     (if hp_StatusCode resp < 200 \<or> 300 \<le> hp_StatusCode resp
      then Some (APIError (hp_StatusCode resp) (hp_Body resp)) else None)"

definition decodeJSON :: "'a decoder \<Rightarrow> 'a \<Rightarrow> http_answer \<Rightarrow> error + 'a" where
  "decodeJSON d zero resp =
     (case bad_status resp of
        Some e \<Rightarrow> Inl e
      | None \<Rightarrow> (case decoded d zero (json_decode (hp_Body resp)) of
            None \<Rightarrow> Inl (Wrap ''decode response'' json_error)
          | Some v \<Rightarrow> Inr v))"

text \<open>With a nil target the body is drained and dropped.\<close>

definition drain :: "http_answer \<Rightarrow> error + unit" where
  "drain resp = (case bad_status resp of Some e \<Rightarrow> Inl e | None \<Rightarrow> Inr ())"

definition wrap_err :: "string \<Rightarrow> error + 'a \<Rightarrow> error + 'a" where
  "wrap_err label r = (case r of Inl e \<Rightarrow> Inl (Wrap label e) | Inr v \<Rightarrow> Inr v)"

definition doDiscard ::
  "'f http_client \<Rightarrow> string \<Rightarrow> string \<Rightarrow> json option \<Rightarrow> string \<Rightarrow> ('f, error + unit) state" where
  "doDiscard c method path body errLabel =
     on_ok (http_do c method path body) (\<lambda>resp. ret (wrap_err errLabel (drain resp)))"

definition IsNotFound :: "error \<Rightarrow> bool" where
  "IsNotFound err \<longleftrightarrow> (case errors_as as_api_error err of Some (code, _) \<Rightarrow> code = 404 | None \<Rightarrow> False)"

definition IsMergeConflict :: "error \<Rightarrow> bool" where
  "IsMergeConflict err \<longleftrightarrow> errors_as as_merge_conflict err \<noteq> None"

definition ignore_not_found :: "error + unit \<Rightarrow> error + unit" where
  "ignore_not_found r = (case r of Inl e \<Rightarrow> if IsNotFound e then Inr () else Inl e | Inr u \<Rightarrow> Inr u)"

subsection \<open>Pages\<close>

partial_function (option) pages ::
  "(int \<Rightarrow> ('f, error + 'a list) state) \<Rightarrow> bool \<Rightarrow> int \<Rightarrow> 'a list \<Rightarrow> 'f \<Rightarrow>
     ((error + 'a list) \<times> 'f) option" where
  "pages fetch untilEmpty page items s =
     (case run_state (fetch page) s of
        (Inl e, s') \<Rightarrow> Some (Inl e, s')
      | (Inr new, s') \<Rightarrow>
          if (untilEmpty \<and> new = []) \<or> (\<not> untilEmpty \<and> length new < 50)
          then Some (Inr (items @ new), s')
          else pages fetch untilEmpty (page + 1) (items @ new) s')"

definition fetch_page ::
  "'f http_client \<Rightarrow> (int \<Rightarrow> string) \<Rightarrow> string \<Rightarrow> 'w decoder \<Rightarrow> 'w \<Rightarrow> ('w \<Rightarrow> 'a list) \<Rightarrow> int \<Rightarrow>
     ('f, error + 'a list) state" where
  "fetch_page c path errLabel d zero extract page =
     on_ok (http_do c ''GET'' (path page) None)
       (\<lambda>resp. ret (map_sum id extract (wrap_err errLabel (decodeJSON d zero resp))))"

definition paginatePages ::
  "'f http_client \<Rightarrow> (int \<Rightarrow> string) \<Rightarrow> string \<Rightarrow> 'w decoder \<Rightarrow> 'w \<Rightarrow> ('w \<Rightarrow> 'a list) \<Rightarrow> bool \<Rightarrow>
     ('f, error + 'a list) state" where
  "paginatePages c path errLabel d zero extract untilEmpty = State (\<lambda>s.
     case pages (fetch_page c path errLabel d zero extract) untilEmpty 1 [] s of
       None \<Rightarrow> (Inl OutOfFuel, s) | Some r \<Rightarrow> r)"

definition paginate ::
  "'f http_client \<Rightarrow> (int \<Rightarrow> string) \<Rightarrow> string \<Rightarrow> 'a decoder \<Rightarrow> 'a \<Rightarrow> ('f, error + 'a list) state" where
  "paginate c path errLabel d zero = paginatePages c path errLabel (dec_list d zero) [] id False"

definition paginateUntilEmpty ::
  "'f http_client \<Rightarrow> (int \<Rightarrow> string) \<Rightarrow> string \<Rightarrow> 'a decoder \<Rightarrow> 'a \<Rightarrow> ('f, error + 'a list) state" where
  "paginateUntilEmpty c path errLabel d zero = paginatePages c path errLabel (dec_list d zero) [] id True"

definition paginateWrapped ::
  "'f http_client \<Rightarrow> (int \<Rightarrow> string) \<Rightarrow> string \<Rightarrow> 'w decoder \<Rightarrow> 'w \<Rightarrow> ('w \<Rightarrow> 'a list) \<Rightarrow>
     ('f, error + 'a list) state" where
  "paginateWrapped c path errLabel d zero extract = paginatePages c path errLabel d zero extract False"

definition paginateWrappedUntilEmpty ::
  "'f http_client \<Rightarrow> (int \<Rightarrow> string) \<Rightarrow> string \<Rightarrow> 'w decoder \<Rightarrow> 'w \<Rightarrow> ('w \<Rightarrow> 'a list) \<Rightarrow>
     ('f, error + 'a list) state" where
  "paginateWrappedUntilEmpty c path errLabel d zero extract =
     paginatePages c path errLabel d zero extract True"

subsection \<open>The methods of the client\<close>

definition repo_path :: "string \<Rightarrow> string \<Rightarrow> string" where
  "repo_path owner repo = ''/repos/'' @ owner @ ''/'' @ repo"

definition page_suffix :: "int \<Rightarrow> string" where
  "page_suffix page = ''page='' @ show_int page @ ''&limit=50''"

definition in_repo :: "string \<Rightarrow> string \<Rightarrow> string" where
  "in_repo owner repo = '' in '' @ owner @ ''/'' @ repo"

definition gt_SearchReposByTopic :: "'f http_client \<Rightarrow> string \<Rightarrow> ('f, error + gt_Repo list) state" where
  "gt_SearchReposByTopic c topic =
     paginateWrappedUntilEmpty c
       (\<lambda>page. ''/repos/search?q='' @ topic @ ''&topic=true&'' @ page_suffix page)
       (''search repos by topic '' @ topic)
       (dec_struct [(''data'', dec_list dec_Repo zero_Repo)]) [] id"

definition gt_ListOpenPRs :: "'f http_client \<Rightarrow> string \<Rightarrow> string \<Rightarrow> ('f, error + gt_PR list) state" where
  "gt_ListOpenPRs c owner repo =
     paginate c (\<lambda>page. repo_path owner repo @ ''/pulls?state=open&'' @ page_suffix page)
       (''list open PRs for '' @ owner @ ''/'' @ repo) dec_PR zero_PR"

definition gt_GetPR :: "'f http_client \<Rightarrow> string \<Rightarrow> string \<Rightarrow> int \<Rightarrow> ('f, error + gt_PR) state" where
  "gt_GetPR c owner repo index =
     on_ok (http_do c ''GET'' (repo_path owner repo @ ''/pulls/'' @ show_int index) None)
       (\<lambda>resp. ret (wrap_err (''get PR #'' @ show_int index @ in_repo owner repo)
          (decodeJSON dec_PR zero_PR resp)))"

definition gt_GetPRTimeline ::
  "'f http_client \<Rightarrow> string \<Rightarrow> string \<Rightarrow> int \<Rightarrow> ('f, error + TimelineComment list) state" where
  "gt_GetPRTimeline c owner repo index =
     paginateUntilEmpty c
       (\<lambda>page. repo_path owner repo @ ''/issues/'' @ show_int index @ ''/timeline?'' @ page_suffix page)
       (''get PR #'' @ show_int index @ '' timeline'' @ in_repo owner repo)
       dec_TimelineComment zero_TimelineComment"

definition gt_GetCombinedCommitStatus ::
  "'f http_client \<Rightarrow> string \<Rightarrow> string \<Rightarrow> string \<Rightarrow> ('f, error + CombinedStatus) state" where
  "gt_GetCombinedCommitStatus c owner repo ref =
     on_ok (paginateWrapped c
         (\<lambda>page. repo_path owner repo @ ''/commits/'' @ ref @ ''/status?'' @ page_suffix page)
         (''get combined status for '' @ shortSHA ref @ in_repo owner repo)
         dec_CombinedStatus zero_CombinedStatus cb_Statuses)
       (\<lambda>statuses. ret (Inr \<lparr>cb_State = [], cb_Statuses = statuses, cb_SHA = ref\<rparr>))"

definition gt_CreateCommitStatus ::
  "'f http_client \<Rightarrow> string \<Rightarrow> string \<Rightarrow> string \<Rightarrow> CommitStatus \<Rightarrow> ('f, error + unit) state" where
  "gt_CreateCommitStatus c owner repo sha status =
     doDiscard c ''POST'' (repo_path owner repo @ ''/statuses/'' @ sha) (Some (enc_CommitStatus status))
       (''create commit status on '' @ shortSHA sha @ in_repo owner repo)"

definition gt_CreateComment ::
  "'f http_client \<Rightarrow> string \<Rightarrow> string \<Rightarrow> int \<Rightarrow> string \<Rightarrow> ('f, error + unit) state" where
  "gt_CreateComment c owner repo index body =
     doDiscard c ''POST'' (repo_path owner repo @ ''/issues/'' @ show_int index @ ''/comments'')
       (Some (enc_string_map [(''body'', body)]))
       (''create comment on PR #'' @ show_int index @ in_repo owner repo)"

definition gt_CancelAutoMerge ::
  "'f http_client \<Rightarrow> string \<Rightarrow> string \<Rightarrow> int \<Rightarrow> ('f, error + unit) state" where
  "gt_CancelAutoMerge c owner repo index = do {
     r \<leftarrow> doDiscard c ''DELETE'' (repo_path owner repo @ ''/pulls/'' @ show_int index @ ''/merge'') None
       (''cancel automerge on PR #'' @ show_int index @ in_repo owner repo);
     ret (ignore_not_found r) }"

definition gt_GetBranchProtection ::
  "'f http_client \<Rightarrow> string \<Rightarrow> string \<Rightarrow> string \<Rightarrow> ('f, error + BranchProtection option) state" where
  "gt_GetBranchProtection c owner repo branch =
     on_ok (http_do c ''GET'' (repo_path owner repo @ ''/branch_protections/'' @ branch) None)
       (\<lambda>resp. ret (case decodeJSON dec_BranchProtection zero_BranchProtection resp of
            Inl err \<Rightarrow> if IsNotFound err then Inr None
              else Inl (Wrap (''get branch protection for '' @ branch @ in_repo owner repo) err)
          | Inr bp \<Rightarrow> Inr (Some bp)))"

definition gt_ListBranches :: "'f http_client \<Rightarrow> string \<Rightarrow> string \<Rightarrow> ('f, error + gt_Branch list) state" where
  "gt_ListBranches c owner repo =
     paginate c (\<lambda>page. repo_path owner repo @ ''/branches?'' @ page_suffix page)
       (''list branches for '' @ owner @ ''/'' @ repo) dec_Branch \<lparr>br_Name = []\<rparr>"

definition gt_CreateBranch ::
  "'f http_client \<Rightarrow> string \<Rightarrow> string \<Rightarrow> string \<Rightarrow> string \<Rightarrow> ('f, error + unit) state" where
  "gt_CreateBranch c owner repo name target =
     doDiscard c ''POST'' (repo_path owner repo @ ''/branches'')
       (Some (enc_string_map [(''new_branch_name'', name), (''old_ref_name'', target)]))
       (''create branch '' @ name @ '' from '' @ target @ in_repo owner repo)"

definition gt_CompareCommits ::
  "'f http_client \<Rightarrow> string \<Rightarrow> string \<Rightarrow> string \<Rightarrow> string \<Rightarrow> ('f, error + gt_Compare) state" where
  "gt_CompareCommits c owner repo base head =
     on_ok (http_do c ''GET'' (repo_path owner repo @ ''/compare/'' @ base @ ''...'' @ head) None)
       (\<lambda>resp. ret (wrap_err (''compare '' @ base @ ''...'' @ head)
          (decodeJSON dec_Compare \<lparr>cm_TotalCommits = 0\<rparr> resp)))"

definition gt_DeleteBranch ::
  "'f http_client \<Rightarrow> string \<Rightarrow> string \<Rightarrow> string \<Rightarrow> ('f, error + unit) state" where
  "gt_DeleteBranch c owner repo name = do {
     r \<leftarrow> doDiscard c ''DELETE'' (repo_path owner repo @ ''/branches/'' @ name) None
       (''delete branch '' @ name @ in_repo owner repo);
     ret (ignore_not_found r) }"

definition gt_EditIssueState ::
  "'f http_client \<Rightarrow> string \<Rightarrow> string \<Rightarrow> int \<Rightarrow> string \<Rightarrow> ('f, error + unit) state" where
  "gt_EditIssueState c owner repo index st =
     doDiscard c ''PATCH'' (repo_path owner repo @ ''/issues/'' @ show_int index)
       (Some (enc_string_map [(''state'', st)]))
       (''edit issue #'' @ show_int index @ '' state'' @ in_repo owner repo)"

definition gt_ListBranchProtections ::
  "'f http_client \<Rightarrow> string \<Rightarrow> string \<Rightarrow> ('f, error + BranchProtection list) state" where
  "gt_ListBranchProtections c owner repo =
     paginate c (\<lambda>page. repo_path owner repo @ ''/branch_protections?'' @ page_suffix page)
       (''list branch protections for '' @ owner @ ''/'' @ repo)
       dec_BranchProtection zero_BranchProtection"

definition gt_EditBranchProtection ::
  "'f http_client \<Rightarrow> string \<Rightarrow> string \<Rightarrow> string \<Rightarrow> EditBranchProtectionOpts \<Rightarrow> ('f, error + unit) state" where
  "gt_EditBranchProtection c owner repo name opts =
     doDiscard c ''PATCH'' (repo_path owner repo @ ''/branch_protections/'' @ name)
       (Some (enc_EditProtection opts)) (''edit branch protection '' @ name @ in_repo owner repo)"

definition gt_ListWebhooks :: "'f http_client \<Rightarrow> string \<Rightarrow> string \<Rightarrow> ('f, error + gt_Webhook list) state" where
  "gt_ListWebhooks c owner repo =
     paginate c (\<lambda>page. repo_path owner repo @ ''/hooks?'' @ page_suffix page)
       (''list webhooks for '' @ owner @ ''/'' @ repo) dec_Webhook zero_Webhook"

definition gt_CreateWebhook ::
  "'f http_client \<Rightarrow> string \<Rightarrow> string \<Rightarrow> CreateWebhookOpts \<Rightarrow> ('f, error + unit) state" where
  "gt_CreateWebhook c owner repo opts =
     doDiscard c ''POST'' (repo_path owner repo @ ''/hooks'') (Some (enc_CreateWebhook opts))
       (''create webhook'' @ in_repo owner repo)"

end
