(* ===== verification/GiteaGit.thy ===== *)
theory GiteaGit
  imports GitCache GiteaHttp
begin

text \<open>
  The git half of \<open>internal/gitea/http.go\<close>: merge branches, stacked merges and fast-forwards in
  the cached clone, and the reading of git's push report.
\<close>

definition http_git_cache :: "'f git_env \<Rightarrow> string \<Rightarrow> string \<Rightarrow> string \<Rightarrow> 'f git_cache" where
  "http_git_cache env baseDir baseURL token =
     \<lparr>gk_BaseDir = baseDir,
      gk_AuthFlags = (if token = [] then []
        else [''-c'', ''http.'' @ baseURL @ ''/.extraheader=Authorization: token '' @ token]),
      gk_Redact = (\<lambda>s. if token = [] then s else replace_all s token ''***''), gk_Env = env\<rparr>"

definition redact :: "'f http_client \<Rightarrow> string \<Rightarrow> string" where
  "redact c s = (if hx_Token c = [] then s else replace_all s (hx_Token c) ''***'')"

definition cloneURL :: "'f http_client \<Rightarrow> string \<Rightarrow> string \<Rightarrow> string" where
  "cloneURL c owner repo = hx_BaseURL c @ ''/'' @ owner @ ''/'' @ repo @ ''.git''"

subsection \<open>Merging\<close>

definition gitExitCode :: "error \<Rightarrow> int" where
  "gitExitCode err = (case errors_as as_exit_error err of Some code \<Rightarrow> code | None \<Rightarrow> -1)"

datatype merge_outcome = MergedAs string | ConflictOut string

definition mergeCommit ::
  "'f git_run \<Rightarrow> string \<Rightarrow> string \<Rightarrow> string \<Rightarrow> ('f, error + merge_outcome) state" where
  "mergeCommit run base head msg = do {
     r \<leftarrow> run [''merge-tree'', ''--write-tree'', base, head];
     (case r of
        (out, Some err) \<Rightarrow> ret (if gitExitCode err = 1 then Inr (ConflictOut out) else Inl err)
      | (out, None) \<Rightarrow>
          on_ok (run_ok run [''commit-tree'', trim_space out, ''-p'', base, ''-p'', head, ''-m'', msg])
            (\<lambda>commit. ret (Inr (MergedAs (trim_space commit))))) }"

text \<open>Go returns the commit and the conflict report as two strings and tells them apart by the
  commit being empty, so a commit that trims to nothing counts as a conflict without a report.\<close>

definition merge_sha :: "merge_outcome \<Rightarrow> string" where
  "merge_sha o' = (case o' of MergedAs sha \<Rightarrow> sha | ConflictOut _ \<Rightarrow> [])"

definition merge_report :: "merge_outcome \<Rightarrow> string" where
  "merge_report o' = (case o' of MergedAs _ \<Rightarrow> [] | ConflictOut out \<Rightarrow> out)"

definition heads_ref :: "string \<Rightarrow> string" where
  "heads_ref branch = ''refs/heads/'' @ branch"

definition track_ref :: "string \<Rightarrow> string" where
  "track_ref branch = ''+'' @ heads_ref branch @ '':'' @ heads_ref branch"

definition merge_and_push ::
  "string \<Rightarrow> string \<Rightarrow> string \<Rightarrow> 'f git_run \<Rightarrow> ('f, error + string) state" where
  "merge_and_push base head branchName run =
     on_ok_map (Wrap ''merge'')
       (mergeCommit run (heads_ref base) head (''mq: merge '' @ head @ '' into '' @ base))
       (\<lambda>m. if merge_sha m = [] then ret (Inl (MergeConflictError base head (merge_report m)))
            else on_ok_map (Wrap ''push'')
              (run_ok run [''push'', ''--quiet'', ''origin'', merge_sha m @ '':'' @ heads_ref branchName])
              (\<lambda>_. ret (Inr (merge_sha m))))"

definition gt_MergeBranches ::
  "'f git_cache \<Rightarrow> 'f http_client \<Rightarrow> string \<Rightarrow> string \<Rightarrow> string \<Rightarrow> string \<Rightarrow> string \<Rightarrow>
     ('f, error + string) state" where
  "gt_MergeBranches g c owner repo base head branchName =
     withRepo g (cloneURL c owner repo) owner repo [track_ref base, head]
       (merge_and_push base head branchName)"

subsection \<open>Stacking\<close>

datatype StackStep = StackStep (ss_Conflict: bool) (ss_Err: "error option")

text \<open>One head: the new tip, and what became of the head. An empty tip is no merge yet.\<close>

definition stack_one ::
  "'f git_run \<Rightarrow> string \<Rightarrow> string \<Rightarrow> string \<Rightarrow> ('f, string \<times> StackStep) state" where
  "stack_one run base tip head = do {
     r \<leftarrow> run_ok run [''fetch'', ''--quiet'', ''--filter=blob:none'', ''origin'', head];
     (case r of
        Inl err \<Rightarrow> ret (tip, StackStep False (Some (Wrap (''fetch '' @ shortSHA head) err)))
      | Inr _ \<Rightarrow> do {
          m \<leftarrow> mergeCommit run (if tip = [] then heads_ref base else tip) head
            (''mq: merge '' @ shortSHA head @ '' into '' @ base);
          ret (case m of
             Inl err \<Rightarrow> (tip, StackStep False (Some (Wrap (''merge '' @ shortSHA head) err)))
           | Inr o' \<Rightarrow> if merge_sha o' = [] then (tip, StackStep True None)
               else (merge_sha o', StackStep False None)) }) }"

primrec stack_heads ::
  "'f git_run \<Rightarrow> string \<Rightarrow> string list \<Rightarrow> string \<Rightarrow> ('f, string \<times> StackStep list) state" where
  "stack_heads run base [] tip = ret (tip, [])"
| "stack_heads run base (head # heads) tip = do {
     r \<leftarrow> stack_one run base tip head;
     (case r of (tip', step) \<Rightarrow> do {
        r \<leftarrow> stack_heads run base heads tip';
        (case r of (tip'', steps) \<Rightarrow> ret (tip'', step # steps)) }) }"

definition stack_and_push ::
  "string \<Rightarrow> string list \<Rightarrow> string \<Rightarrow> 'f git_run \<Rightarrow> ('f, error + string \<times> StackStep list) state" where
  "stack_and_push base heads branch run = do {
     r \<leftarrow> stack_heads run base heads [];
     (case r of (tip, steps) \<Rightarrow>
        if tip = [] then ret (Inr (tip, steps))
        else on_ok_map (Wrap (''push '' @ branch))
          (run_ok run [''push'', ''--quiet'', ''origin'', tip @ '':'' @ heads_ref branch])
          (\<lambda>_. ret (Inr (tip, steps)))) }"

definition gt_StackMerges ::
  "'f git_cache \<Rightarrow> 'f http_client \<Rightarrow> string \<Rightarrow> string \<Rightarrow> string \<Rightarrow> string list \<Rightarrow> string \<Rightarrow>
     ('f, error + string \<times> StackStep list) state" where
  "gt_StackMerges g c owner repo base heads branch =
     withRepo g (cloneURL c owner repo) owner repo [track_ref base] (stack_and_push base heads branch)"

subsection \<open>Fast-forwarding\<close>

text \<open>\<open>strings.Lines\<close>: the lines with their line feeds; an empty string has none.\<close>

fun go_lines :: "string \<Rightarrow> string list" where
  "go_lines [] = []"
| "go_lines (c # cs) =
     (if c = CHR 0x0A then [c] # go_lines cs
      else (case go_lines cs of
              [] \<Rightarrow> [[c]]
            | l # ls \<Rightarrow> (c # l) # ls))"

definition cut_or_all :: "string \<Rightarrow> string \<Rightarrow> string \<times> string" where
  "cut_or_all sep s = (case cut sep s of None \<Rightarrow> (s, []) | Some p \<Rightarrow> p)"

definition ff_reasons :: "string set" where
  "ff_reasons = {''non-fast-forward'', ''fetch first'', ''needs force'', ''stale info''}"

text \<open>What one line of the report says, if it is a rejection.\<close>

definition classify_line :: "string \<Rightarrow> string \<Rightarrow> string \<Rightarrow> error option" where
  "classify_line branch sha line =
     (case cut [CHR 0x09] line of
        None \<Rightarrow> None
      | Some (flag, rest) \<Rightarrow>
          if flag \<noteq> ''!'' then None
          else (case cut [CHR 0x09] rest of
              None \<Rightarrow> None
            | Some (_, result) \<Rightarrow>
                (case cut_or_all '' ('' (trim_space result) of
                   (summary, reason0) \<Rightarrow>
                     let reason = trim_suffix reason0 '')'' in
                     if summary = ''[remote rejected]'' then Some (ProtectedBranchError branch reason)
                     else if reason \<in> ff_reasons then Some (NotFastForwardError branch sha)
                     else None)))"

definition classifyPushFailure :: "string \<Rightarrow> string \<Rightarrow> string \<Rightarrow> error \<Rightarrow> error" where
  "classifyPushFailure branch sha out err =
     (case first_some (classify_line branch sha) (go_lines out) of
        Some e \<Rightarrow> e | None \<Rightarrow> Wrap (''git push '' @ branch) err)"

definition push_ref ::
  "'f http_client \<Rightarrow> string \<Rightarrow> string \<Rightarrow> 'f git_run \<Rightarrow> ('f, error + unit) state" where
  "push_ref c branch sha run = do {
     r \<leftarrow> run [''push'', ''--porcelain'', ''origin'', sha @ '':'' @ heads_ref branch];
     ret (case r of
        (_, None) \<Rightarrow> Inr ()
      | (out, Some err) \<Rightarrow> Inl (classifyPushFailure branch sha (redact c out) err)) }"

definition gt_FastForwardRef ::
  "'f git_cache \<Rightarrow> 'f http_client \<Rightarrow> string \<Rightarrow> string \<Rightarrow> string \<Rightarrow> string \<Rightarrow> ('f, error + unit) state" where
  "gt_FastForwardRef g c owner repo branch sha =
     withRepo g (cloneURL c owner repo) owner repo [track_ref branch, sha] (push_ref c branch sha)"

end
