(* ===== verification/GiteaForge.thy ===== *)
theory GiteaForge
  imports GiteaGit CheckRun "HOL-Library.AList"
begin

text \<open>
  The Gitea adapter: the interface \<open>Client\<close> of \<open>internal/gitea/client.go\<close>, its implementation by
  \<open>HTTPClient\<close>, repository setup (\<open>setup.go\<close>), topic discovery (\<open>discovery.go\<close>) and the
  translation to the forge interface (\<open>forge.go\<close>).
\<close>

record 'f gitea_client =
  cl_SearchReposByTopic :: "string \<Rightarrow> ('f, error + gt_Repo list) state"
  cl_ListOpenPRs :: "string \<Rightarrow> string \<Rightarrow> ('f, error + gt_PR list) state"
  cl_GetPR :: "string \<Rightarrow> string \<Rightarrow> int \<Rightarrow> ('f, error + gt_PR) state"
  cl_GetPRTimeline :: "string \<Rightarrow> string \<Rightarrow> int \<Rightarrow> ('f, error + TimelineComment list) state"
  cl_GetCombinedCommitStatus :: "string \<Rightarrow> string \<Rightarrow> string \<Rightarrow> ('f, error + CombinedStatus) state"
  cl_CreateCommitStatus :: "string \<Rightarrow> string \<Rightarrow> string \<Rightarrow> CommitStatus \<Rightarrow> ('f, error + unit) state"
  cl_CreateComment :: "string \<Rightarrow> string \<Rightarrow> int \<Rightarrow> string \<Rightarrow> ('f, error + unit) state"
  cl_CancelAutoMerge :: "string \<Rightarrow> string \<Rightarrow> int \<Rightarrow> ('f, error + unit) state"
  cl_GetBranchProtection :: "string \<Rightarrow> string \<Rightarrow> string \<Rightarrow> ('f, error + BranchProtection option) state"
  cl_ListBranches :: "string \<Rightarrow> string \<Rightarrow> ('f, error + gt_Branch list) state"
  cl_CreateBranch :: "string \<Rightarrow> string \<Rightarrow> string \<Rightarrow> string \<Rightarrow> ('f, error + unit) state"
  cl_DeleteBranch :: "string \<Rightarrow> string \<Rightarrow> string \<Rightarrow> ('f, error + unit) state"
  cl_CompareCommits :: "string \<Rightarrow> string \<Rightarrow> string \<Rightarrow> string \<Rightarrow> ('f, error + gt_Compare) state"
  cl_MergeBranches ::
    "string \<Rightarrow> string \<Rightarrow> string \<Rightarrow> string \<Rightarrow> string \<Rightarrow> ('f, error + string) state"
  cl_StackMerges ::
    "string \<Rightarrow> string \<Rightarrow> string \<Rightarrow> string list \<Rightarrow> string \<Rightarrow> ('f, error + string \<times> StackStep list) state"
  cl_FastForwardRef :: "string \<Rightarrow> string \<Rightarrow> string \<Rightarrow> string \<Rightarrow> ('f, error + unit) state"
  cl_EditIssueState :: "string \<Rightarrow> string \<Rightarrow> int \<Rightarrow> string \<Rightarrow> ('f, error + unit) state"
  cl_ListBranchProtections :: "string \<Rightarrow> string \<Rightarrow> ('f, error + BranchProtection list) state"
  cl_EditBranchProtection ::
    "string \<Rightarrow> string \<Rightarrow> string \<Rightarrow> EditBranchProtectionOpts \<Rightarrow> ('f, error + unit) state"
  cl_ListWebhooks :: "string \<Rightarrow> string \<Rightarrow> ('f, error + gt_Webhook list) state"
  cl_CreateWebhook :: "string \<Rightarrow> string \<Rightarrow> CreateWebhookOpts \<Rightarrow> ('f, error + unit) state"

definition http_gitea :: "'f git_cache \<Rightarrow> 'f http_client \<Rightarrow> 'f gitea_client" where
  "http_gitea g c =
     \<lparr>cl_SearchReposByTopic = gt_SearchReposByTopic c, cl_ListOpenPRs = gt_ListOpenPRs c,
      cl_GetPR = gt_GetPR c, cl_GetPRTimeline = gt_GetPRTimeline c,
      cl_GetCombinedCommitStatus = gt_GetCombinedCommitStatus c,
      cl_CreateCommitStatus = gt_CreateCommitStatus c, cl_CreateComment = gt_CreateComment c,
      cl_CancelAutoMerge = gt_CancelAutoMerge c, cl_GetBranchProtection = gt_GetBranchProtection c,
      cl_ListBranches = gt_ListBranches c, cl_CreateBranch = gt_CreateBranch c,
      cl_DeleteBranch = gt_DeleteBranch c, cl_CompareCommits = gt_CompareCommits c,
      cl_MergeBranches = gt_MergeBranches g c, cl_StackMerges = gt_StackMerges g c,
      cl_FastForwardRef = gt_FastForwardRef g c, cl_EditIssueState = gt_EditIssueState c,
      cl_ListBranchProtections = gt_ListBranchProtections c,
      cl_EditBranchProtection = gt_EditBranchProtection c, cl_ListWebhooks = gt_ListWebhooks c,
      cl_CreateWebhook = gt_CreateWebhook c\<rparr>"

text \<open>\<open>NewHTTPClient\<close>: the cache directory is a parameter, as \<open>main\<close> sets it.\<close>

definition NewHTTPClient ::
  "(http_call \<Rightarrow> ('f, error + http_answer) state) \<Rightarrow> 'f git_env \<Rightarrow> string \<Rightarrow> string \<Rightarrow> string \<Rightarrow>
     'f gitea_client" where
  "NewHTTPClient send env cacheDir baseURL token =
     (let base = trim_right (CHR ''/'') baseURL
      in http_gitea (http_git_cache env cacheDir base token)
           \<lparr>hx_BaseURL = base, hx_Token = token, hx_Send = send\<rparr>)"

subsection \<open>Setup and discovery\<close>

definition protect_one ::
  "'f gitea_client \<Rightarrow> string \<Rightarrow> string \<Rightarrow> BranchProtection \<Rightarrow> ('f, error + unit) state" where
  "protect_one cl owner repo bp =
     (if ''gitea-mq'' \<in> set (bp_StatusCheckContexts bp) then ret (Inr ())
      else on_ok_map (Wrap (''add gitea-mq to branch protection '' @ bp_RuleName bp @ in_repo owner repo))
        (cl_EditBranchProtection cl owner repo (bp_RuleName bp)
           \<lparr>eo_EnableStatusCheck = Some True,
            eo_StatusCheckContexts = bp_StatusCheckContexts bp @ [''gitea-mq'']\<rparr>)
        (\<lambda>_. ret (Inr ())))"

primrec protect_all ::
  "'f gitea_client \<Rightarrow> string \<Rightarrow> string \<Rightarrow> BranchProtection list \<Rightarrow> ('f, error + unit) state" where
  "protect_all cl owner repo [] = ret (Inr ())"
| "protect_all cl owner repo (bp # bps) =
     on_ok (protect_one cl owner repo bp) (\<lambda>_. protect_all cl owner repo bps)"

definition EnsureBranchProtection ::
  "'f gitea_client \<Rightarrow> string \<Rightarrow> string \<Rightarrow> ('f, error + unit) state" where
  "EnsureBranchProtection cl owner repo =
     on_ok_map (Wrap (''list branch protections for '' @ owner @ ''/'' @ repo))
       (cl_ListBranchProtections cl owner repo)
       (\<lambda>bps. if bps = [] then ret (Inr ()) else protect_all cl owner repo bps)"

definition webhook_opts :: "string \<Rightarrow> string \<Rightarrow> CreateWebhookOpts" where
  "webhook_opts webhookURL secret =
     \<lparr>wo_Type = ''gitea'', wo_Events = [''status''], wo_Active = True,
      wo_Config = [(''url'', webhookURL), (''content_type'', ''json''), (''secret'', secret)]\<rparr>"

definition EnsureWebhook ::
  "'f gitea_client \<Rightarrow> string \<Rightarrow> string \<Rightarrow> string \<Rightarrow> string \<Rightarrow> ('f, error + unit) state" where
  "EnsureWebhook cl owner repo webhookURL secret =
     on_ok_map (Wrap (''list webhooks for '' @ owner @ ''/'' @ repo)) (cl_ListWebhooks cl owner repo)
       (\<lambda>hooks. if (\<exists>h \<in> set hooks. string_at (wh_Config h) ''url'' = webhookURL) then ret (Inr ())
         else on_ok_map (Wrap (''create webhook for '' @ owner @ ''/'' @ repo))
           (cl_CreateWebhook cl owner repo (webhook_opts webhookURL secret)) (\<lambda>_. ret (Inr ())))"

definition TopicSource :: "'f gitea_client \<Rightarrow> string \<Rightarrow> ('f, error + repo_ref list) state" where
  "TopicSource cl topic =
     on_ok (cl_SearchReposByTopic cl topic) (\<lambda>repos. ret (Inr
       (map (\<lambda>r. \<lparr>rr_Forge = KindGitea, rr_Owner = gr_Owner r, rr_Name = gr_Name r\<rparr>)
         (filter (\<lambda>r. rp_Admin (gr_Permissions r)) repos))))"

subsection \<open>The adapter\<close>

definition toForgePR :: "gt_PR \<Rightarrow> bool \<Rightarrow> PR" where
  "toForgePR pr autoMerge =
     \<lparr>pr_Number = gp_Index pr, pr_Title = gp_Title pr, pr_State = gp_State pr,
      pr_Merged = gp_HasMerged pr,
      pr_AuthorLogin = (case gp_User pr of Some u \<Rightarrow> us_Login u | None \<Rightarrow> []),
      pr_HeadBranch = (case gp_Head pr of Some h \<Rightarrow> ref_Ref h | None \<Rightarrow> []),
      pr_HeadSHA = (case gp_Head pr of Some h \<Rightarrow> ref_Sha h | None \<Rightarrow> []),
      pr_BaseBranch = (case gp_Base pr of Some b \<Rightarrow> ref_Ref b | None \<Rightarrow> []),
      pr_HTMLURL = gp_HTMLURL pr, pr_AutoMergeEnabled = autoMerge\<rparr>"

primrec with_timelines ::
  "'f gitea_client \<Rightarrow> string \<Rightarrow> string \<Rightarrow> gt_PR list \<Rightarrow> ('f, error + PR list) state" where
  "with_timelines cl owner name [] = ret (Inr [])"
| "with_timelines cl owner name (pr # prs) =
     on_ok_map (Wrap (''get timeline for PR #'' @ show_int (gp_Index pr)))
       (cl_GetPRTimeline cl owner name (gp_Index pr))
       (\<lambda>timeline. on_ok (with_timelines cl owner name prs)
          (\<lambda>out. ret (Inr (toForgePR pr (HasAutomergeScheduled timeline) # out))))"

definition gf_ListOpenPRs :: "'f gitea_client \<Rightarrow> string \<Rightarrow> string \<Rightarrow> ('f, error + PR list) state" where
  "gf_ListOpenPRs cl owner name = on_ok (cl_ListOpenPRs cl owner name) (with_timelines cl owner name)"

definition gf_GetPR :: "'f gitea_client \<Rightarrow> string \<Rightarrow> string \<Rightarrow> int \<Rightarrow> ('f, error + PR) state" where
  "gf_GetPR cl owner name number =
     on_ok (cl_GetPR cl owner name number) (\<lambda>pr.
       on_ok (cl_GetPRTimeline cl owner name number) (\<lambda>timeline.
         ret (Inr (toForgePR pr (HasAutomergeScheduled timeline)))))"

definition gf_SetMQStatus ::
  "'f gitea_client \<Rightarrow> string \<Rightarrow> string \<Rightarrow> string \<Rightarrow> MQStatus \<Rightarrow> ('f, error + unit) state" where
  "gf_SetMQStatus cl owner name sha st =
     cl_CreateCommitStatus cl owner name sha
       (gt_MQStatus (check_state_string (mq_State st)) (mq_Description st) (mq_TargetURL st))"

definition gf_MirrorCheck ::
  "'f gitea_client \<Rightarrow> string \<Rightarrow> string \<Rightarrow> string \<Rightarrow> string \<Rightarrow> Check \<Rightarrow> ('f, error + unit) state" where
  "gf_MirrorCheck cl owner name sha checkContext c =
     cl_CreateCommitStatus cl owner name sha
       \<lparr>st_Context = checkContext, st_State = check_state_string (ck_State c),
        st_Description = ck_Description c, st_TargetURL = ck_TargetURL c\<rparr>"

definition gf_GetRequiredChecks ::
  "'f gitea_client \<Rightarrow> string \<Rightarrow> string \<Rightarrow> string \<Rightarrow> ('f, error + string list) state" where
  "gf_GetRequiredChecks cl owner name branch =
     on_ok (cl_GetBranchProtection cl owner name branch) (\<lambda>bp. ret (Inr (case bp of
         None \<Rightarrow> []
       | Some p \<Rightarrow> if \<not> bp_EnableStatusCheck p then []
           else filter (\<lambda>c. \<not> IsOwnContext c) (bp_StatusCheckContexts p))))"

text \<open>The Go map of checks: a later status of a context replaces an earlier one.\<close>

definition check_map :: "CommitStatusResult list \<Rightarrow> (string \<times> Check) list" where
  "check_map statuses = fold (\<lambda>s. AList.update (sr_Context s)
       \<lparr>ck_State = ParseCheckState (sr_Status s), ck_Description = sr_Description s,
        ck_TargetURL = sr_TargetURL s\<rparr>)
     (filter (\<lambda>s. sr_Context s \<noteq> MQContext) statuses) []"

definition gf_GetCheckStates ::
  "'f gitea_client \<Rightarrow> string \<Rightarrow> string \<Rightarrow> string \<Rightarrow> ('f, error + (string \<times> Check) list) state" where
  "gf_GetCheckStates cl owner name sha =
     on_ok (cl_GetCombinedCommitStatus cl owner name sha) (\<lambda>cs. ret (Inr (check_map (cb_Statuses cs))))"

definition conflict_result :: "error + string \<Rightarrow> error + string \<times> bool" where
  "conflict_result r = (case r of
      Inl err \<Rightarrow> if IsMergeConflict err then Inr ([], True) else Inl err
    | Inr sha \<Rightarrow> Inr (sha, False))"

definition gf_CreateMergeBranch ::
  "'f gitea_client \<Rightarrow> string \<Rightarrow> string \<Rightarrow> string \<Rightarrow> string \<Rightarrow> string \<Rightarrow> ('f, error + string \<times> bool) state" where
  "gf_CreateMergeBranch cl owner name base headSHA branch = do {
     r \<leftarrow> cl_MergeBranches cl owner name base headSHA branch;
     ret (conflict_result r) }"

definition gf_MergeInto ::
  "'f gitea_client \<Rightarrow> string \<Rightarrow> string \<Rightarrow> string \<Rightarrow> string \<Rightarrow> ('f, error + string \<times> bool) state" where
  "gf_MergeInto cl owner name branch headSHA = do {
     r \<leftarrow> cl_MergeBranches cl owner name branch headSHA branch;
     ret (conflict_result r) }"

definition ff_error :: "string \<Rightarrow> error \<Rightarrow> error" where
  "ff_error branch err =
     (case errors_as as_not_fast_forward err of
        Some _ \<Rightarrow> ErrNotFastForward
      | None \<Rightarrow> (case errors_as as_protected_branch err of
            Some (_, msg) \<Rightarrow> PushDeniedError branch msg
          | None \<Rightarrow> err))"

definition gf_FastForward ::
  "'f gitea_client \<Rightarrow> string \<Rightarrow> string \<Rightarrow> string \<Rightarrow> string \<Rightarrow> ('f, error + unit) state" where
  "gf_FastForward cl owner name branch sha = do {
     r \<leftarrow> cl_FastForwardRef cl owner name branch sha;
     ret (case r of Inr u \<Rightarrow> Inr u | Inl err \<Rightarrow> Inl (ff_error branch err)) }"

definition gf_ClosePR :: "'f gitea_client \<Rightarrow> string \<Rightarrow> string \<Rightarrow> int \<Rightarrow> ('f, error + unit) state" where
  "gf_ClosePR cl owner name number = do {
     r \<leftarrow> cl_EditIssueState cl owner name number ''closed'';
     ret (ignore_not_found r) }"

definition gf_IsUpToDate ::
  "'f gitea_client \<Rightarrow> string \<Rightarrow> string \<Rightarrow> string \<Rightarrow> string \<Rightarrow> ('f, error + bool) state" where
  "gf_IsUpToDate cl owner name base headSHA =
     on_ok (cl_CompareCommits cl owner name headSHA base) (\<lambda>cmp. ret (Inr (cm_TotalCommits cmp = 0)))"

definition gf_ListBranches :: "'f gitea_client \<Rightarrow> string \<Rightarrow> string \<Rightarrow> ('f, error + string list) state" where
  "gf_ListBranches cl owner name =
     on_ok (cl_ListBranches cl owner name) (\<lambda>bs. ret (Inr (map br_Name bs)))"

definition gf_EnsureRepoSetup ::
  "'f gitea_client \<Rightarrow> string \<Rightarrow> string \<Rightarrow> SetupConfig \<Rightarrow> ('f, error + unit) state" where
  "gf_EnsureRepoSetup cl owner name cfg =
     on_ok (EnsureBranchProtection cl owner name) (\<lambda>_.
       if sc_ExternalURL cfg = [] then ret (Inr ())
       else EnsureWebhook cl owner name
         (trim_right (CHR ''/'') (sc_ExternalURL cfg) @ ''/webhook/gitea'') (sc_WebhookSecret cfg))"

definition gf_StackMerges ::
  "'f gitea_client \<Rightarrow> string \<Rightarrow> string \<Rightarrow> string \<Rightarrow> string list \<Rightarrow> string \<Rightarrow>
     ('f, error + string \<times> MergeStep list) state" where
  "gf_StackMerges cl owner repo base heads branch =
     on_ok (cl_StackMerges cl owner repo base heads branch) (\<lambda>(tip, steps).
       ret (Inr (tip, map (\<lambda>s. MergeStep (ss_Conflict s) (ss_Err s)) steps)))"

definition NewForge :: "'f gitea_client \<Rightarrow> string \<Rightarrow> 'f forge" where
  "NewForge cl url =
     (let baseURL = trim_right (CHR ''/'') url in
      \<lparr>f_Kind = KindGitea, f_StatusWebhook = False,
       f_RepoHTMLURL = (\<lambda>owner name. baseURL @ ''/'' @ owner @ ''/'' @ name),
       f_BranchHTMLURL = (\<lambda>owner name branch.
         baseURL @ ''/'' @ owner @ ''/'' @ name @ ''/src/branch/'' @ branch),
       f_ListOpenPRs = gf_ListOpenPRs cl, f_GetPR = gf_GetPR cl, f_SetMQStatus = gf_SetMQStatus cl,
       f_MirrorCheck = gf_MirrorCheck cl, f_GetRequiredChecks = gf_GetRequiredChecks cl,
       f_GetCheckStates = gf_GetCheckStates cl, f_CreateMergeBranch = gf_CreateMergeBranch cl,
       f_DeleteBranch = cl_DeleteBranch cl, f_ListBranches = gf_ListBranches cl,
       f_IsUpToDate = gf_IsUpToDate cl, f_CancelAutoMerge = cl_CancelAutoMerge cl,
       f_Comment = cl_CreateComment cl, f_EnsureRepoSetup = gf_EnsureRepoSetup cl,
       f_MergeInto = gf_MergeInto cl, f_FastForward = gf_FastForward cl,
       f_ClosePR = gf_ClosePR cl, f_StackMerges = Some (gf_StackMerges cl)\<rparr>)"

end
