(* ===== verification/GiteaLemmas.thy ===== *)
theory GiteaLemmas
  imports GiteaForge
begin

text \<open>Lemmas on the Gitea adapter: redaction, pages, stacked merges, push reports.\<close>

subsection \<open>Redaction\<close>

lemma replace_all_Nil [simp]: "replace_all [] t new = []"
  by (simp add: replace_all.simps[of "[]"])

lemma replace_all_hit:
  "t \<noteq> [] \<Longrightarrow> prefix t (c # cs) \<Longrightarrow>
     replace_all (c # cs) t new = new @ replace_all (drop (length t) (c # cs)) t new"
  by (subst replace_all.simps) simp

lemma replace_all_miss:
  "t \<noteq> [] \<Longrightarrow> \<not> prefix t (c # cs) \<Longrightarrow> replace_all (c # cs) t new = c # replace_all cs t new"
  by (subst replace_all.simps) simp

lemma replaced_prefix:
  "prefix u (replace_all x t ''***'') \<Longrightarrow> CHR ''*'' \<notin> set u \<Longrightarrow> prefix u x"
proof (induction x t "''***''" arbitrary: u rule: replace_all.induct)
  case (1 x t)
  show ?case
  proof (cases "t = [] \<or> x = []")
    case True
    then show ?thesis using 1(3) by (cases "x = []") (auto simp: replace_all.simps[of x])
  next
    case False
    then obtain c cs where x: "x = c # cs" and t: "t \<noteq> []" by (cases x) auto
    show ?thesis
    proof (cases "prefix t x")
      case True
      then show ?thesis using 1(3,4) t x by (cases u) (auto simp: replace_all_hit)
    next
      case False
      then have "replace_all x t ''***'' = c # replace_all cs t ''***''"
        using t x by (simp add: replace_all_miss)
      then show ?thesis using 1(2)[OF t x, of "tl u"] 1(3,4) False x by (cases u) auto
    qed
  qed
qed

lemma occurs_Cons: "c # r = b @ t @ a \<Longrightarrow> t \<noteq> [] \<Longrightarrow> prefix t (c # r) \<or> (\<exists>b'. r = b' @ t @ a)"
  by (cases b) (auto simp: prefix_def)

lemma redacted:
  assumes "t \<noteq> []" "CHR ''*'' \<notin> set t"
  shows "\<not> contains (replace_all s t ''***'') t"
  using assms
proof (induction s t "''***''" rule: replace_all.induct)
  case (1 s t)
  show ?case
  proof (cases s)
    case Nil
    then show ?thesis using 1(3) by (simp add: contains_iff)
  next
    case (Cons c cs)
    show ?thesis
    proof (cases "prefix t s")
      case True
      have IH: "\<not> contains (replace_all (drop (length t) s) t ''***'') t"
        using 1(1)[OF 1(3) Cons] True Cons 1(3,4) by simp
      have star: "\<not> prefix t (CHR ''*'' # r)" for r
        using 1(3,4) by (cases t) auto
      from IH show ?thesis using True Cons 1(3) star
        by (auto simp: contains_iff replace_all_hit dest!: occurs_Cons)
    next
      case False
      have R: "replace_all s t ''***'' = c # replace_all cs t ''***''"
        using False Cons 1(3) by (simp add: replace_all_miss)
      have "\<not> prefix t (c # replace_all cs t ''***'')"
        using replaced_prefix[of t s t] False 1(4) R by auto
      moreover have "\<not> contains (replace_all cs t ''***'') t"
        using 1(2)[OF 1(3) Cons] False Cons 1(3,4) by simp
      ultimately show ?thesis using 1(3) by (auto simp: contains_iff R dest!: occurs_Cons)
    qed
  qed
qed

subsection \<open>Pages\<close>

definition last_page :: "bool \<Rightarrow> 'a list \<Rightarrow> bool" where
  "last_page untilEmpty new \<longleftrightarrow> (untilEmpty \<and> new = []) \<or> (\<not> untilEmpty \<and> length new < 50)"

fun through :: "('a \<Rightarrow> bool) \<Rightarrow> 'a list \<Rightarrow> 'a list" where
  "through p [] = []"
| "through p (x # xs) = (if p x then [x] else x # through p xs)"

lemma through_all: "\<forall>x \<in> set (butlast xs). \<not> p x \<Longrightarrow> through p xs = xs"
  by (induction xs) (auto split: if_splits)

lemma pages_spec:
  assumes "\<And>k s. k < length ps \<Longrightarrow> \<exists>s'. run_state (fetch (page + int k)) s = (Inr (ps ! k), s')"
    and "\<exists>p \<in> set ps. last_page ue p"
  shows "\<exists>s'. pages fetch ue page items s = Some (Inr (items @ concat (through (last_page ue) ps)), s')"
  using assms
proof (induction ps arbitrary: page items s)
  case (Cons p ps)
  from Cons.prems(1)[of 0 s] obtain s' where run: "run_state (fetch page) s = (Inr p, s')" by auto
  show ?case
  proof (cases "last_page ue p")
    case True
    then show ?thesis by (subst pages.simps) (simp add: run last_page_def)
  next
    case False
    have next_page: "\<exists>s'. run_state (fetch (page + 1 + int k)) s = (Inr (ps ! k), s')"
      if "k < length ps" for k s
      using Cons.prems(1)[of "Suc k" s] that by (simp add: algebra_simps)
    have "\<exists>p \<in> set ps. last_page ue p" using Cons.prems(2) False by auto
    from Cons.IH[OF next_page this, of "items @ p" s'] obtain s'' where
      "pages fetch ue (page + 1) (items @ p) s' =
         Some (Inr ((items @ p) @ concat (through (last_page ue) ps)), s'')" by auto
    moreover have "\<not> (ue \<and> p = [] \<or> \<not> ue \<and> length p < 50)"
      using False by (simp add: last_page_def)
    ultimately show ?thesis by (subst pages.simps) (auto simp: run False)
  qed
qed simp

lemma paginatePages_spec:
  assumes "\<And>k s. k < length ps \<Longrightarrow>
      \<exists>s'. run_state (fetch_page c path label d zero extract (int k + 1)) s = (Inr (ps ! k), s')"
    and "\<exists>p \<in> set ps. last_page ue p"
  shows "fst (run_state (paginatePages c path label d zero extract ue) s) =
    Inr (concat (through (last_page ue) ps))"
proof -
  have "\<exists>s'. run_state (fetch_page c path label d zero extract (1 + int k)) s = (Inr (ps ! k), s')"
    if "k < length ps" for k s
    using assms(1)[OF that, of s] by (simp add: add.commute)
  from pages_spec[OF this assms(2), of "[]" s] show ?thesis by (auto simp: paginatePages_def)
qed

subsection \<open>Stacked merges\<close>

definition merged_step :: "StackStep \<Rightarrow> bool" where
  "merged_step s \<longleftrightarrow> \<not> ss_Conflict s \<and> ss_Err s = None"

lemma stack_one_cases:
  assumes "run_state (stack_one run base tip head) s = ((tip', step), s')"
  shows "(merged_step step \<and> tip' \<noteq> []) \<or> (\<not> merged_step step \<and> tip' = tip)"
  using assms
  by (auto simp: stack_one_def merged_step_def Let_def split: sum.splits prod.splits if_splits)

lemma stack_heads_spec:
  "run_state (stack_heads run base heads tip) s = ((tip', steps), s') \<Longrightarrow>
     length steps = length heads \<and>
     (if list_ex merged_step steps then tip' \<noteq> [] else tip' = tip)"
proof (induction heads arbitrary: tip tip' steps s s')
  case (Cons head heads)
  from Cons.prems obtain tip1 step s1 steps1 where
      one: "run_state (stack_one run base tip head) s = ((tip1, step), s1)"
      and rest: "run_state (stack_heads run base heads tip1) s1 = ((tip', steps1), s')"
      and steps: "steps = step # steps1"
    by (auto split: prod.splits)
  from stack_one_cases[OF one] Cons.IH[OF rest] steps show ?case by (auto split: if_splits)
qed auto

text \<open>With a git that answers by its arguments alone, the heads that fail leave no trace.\<close>

definition pure_run :: "(string list \<Rightarrow> string \<times> error option) \<Rightarrow> 'f git_run" where
  "pure_run answer = (\<lambda>args. ret (answer args))"

lemma run_ok_pure [simp]:
  "run_state (run_ok (pure_run answer) args) s =
     (case answer args of (out, None) \<Rightarrow> Inr out | (out, Some e) \<Rightarrow> Inl e, s)"
  by (auto simp: run_ok_def pure_run_def split: prod.splits option.splits)

lemma stack_one_pure:
  "run_state (stack_one (pure_run answer) base tip head) s =
     (fst (run_state (stack_one (pure_run answer) base tip head) t), s)"
  by (auto simp: stack_one_def mergeCommit_def pure_run_def run_ok_def
      split: prod.splits option.splits sum.splits)

lemma stack_heads_failed:
  assumes "run_state (stack_heads (pure_run answer) base heads tip) s = ((tip', steps), s')"
  shows "fst (run_state (stack_heads (pure_run answer) base
      (map fst (filter (merged_step \<circ> snd) (zip heads steps))) tip) s) =
    (tip', filter merged_step steps)"
  using assms
proof (induction heads arbitrary: tip steps s)
  case (Cons head heads)
  obtain tip1 step s1 where one: "run_state (stack_one (pure_run answer) base tip head) s = ((tip1, step), s1)"
    by (metis prod.exhaust_sel)
  then have s1: "s1 = s" using stack_one_pure[of answer base tip head s s] by simp
  from Cons.prems one s1 obtain steps1 where
      rest: "run_state (stack_heads (pure_run answer) base heads tip1) s = ((tip', steps1), s')"
      and steps: "steps = step # steps1"
    by (auto split: prod.splits)
  from stack_one_cases[OF one] Cons.IH[OF rest] one s1 show ?case
    by (auto simp: steps split: prod.splits)
qed simp

subsection \<open>Push reports\<close>

abbreviation (input) LF :: char where
  "LF \<equiv> CHR 0x0A"

abbreviation (input) TAB :: char where
  "TAB \<equiv> CHR 0x09"

lemma go_lines_line: "LF \<notin> set l \<Longrightarrow> go_lines (l @ LF # rest) = (l @ [LF]) # go_lines rest"
  by (induction l) auto

lemma go_lines_lines:
  "list_all (\<lambda>l. LF \<notin> set l) ls \<Longrightarrow>
     go_lines (concat (map (\<lambda>l. l @ [LF]) ls) @ rest) = map (\<lambda>l. l @ [LF]) ls @ go_lines rest"
  by (induction ls) (simp_all add: go_lines_line)

lemma first_some_append:
  "first_some f (xs @ ys) = (case first_some f xs of None \<Rightarrow> first_some f ys | Some y \<Rightarrow> Some y)"
  by (induction xs) (auto split: option.splits)

lemma trim_none:
  assumes "list_all (\<lambda>p. p \<noteq> [] \<and> hd p \<noteq> c) ps"
  shows "trim_prefixes n ps (c # s) = c # s"
proof -
  have "List.find (\<lambda>p. prefix p (c # s)) ps = None"
    using assms by (auto simp: find_None_iff list_all_iff prefix_Cons)
  then show ?thesis by (cases n) simp_all
qed

lemma trim_report: "trim_space (CHR ''['' # s @ CHR '')'' # [LF]) = CHR ''['' # s @ '')''"
proof -
  have lead: "list_all (\<lambda>p. p \<noteq> [] \<and> hd p \<noteq> CHR ''['') spaces" by code_simp
  have trail: "list_all (\<lambda>p. p \<noteq> [] \<and> hd p \<noteq> CHR '')'') (map rev spaces)" by code_simp
  have two: "take 2 (map rev spaces) = [[TAB], [LF]]" by code_simp
  obtain rest where "map rev spaces = [TAB] # [LF] # rest"
    using two append_take_drop_id[of 2 "map rev spaces"] by (metis append_Cons append_Nil)
  then have "List.find (\<lambda>p. prefix p (LF # t)) (map rev spaces) = Some [LF]" for t
    by simp
  then have "trim_prefixes (Suc n) (map rev spaces) (LF # CHR '')'' # t) = CHR '')'' # t" for n t
    using trim_none[OF trail] by simp
  then show ?thesis unfolding trim_space_def trim_none[OF lead] Let_def by simp
qed

lemma classify_quiet:
  assumes "prefix ''!'' l \<Longrightarrow> False"
  shows "classify_line branch sha (l @ [LF]) = None"
proof -
  have "flag \<noteq> ''!''" if "cut [TAB] (l @ [LF]) = Some (flag, rest)" for flag rest
  proof
    assume "flag = ''!''"
    with cut_Some[OF that] assms show False by (cases l) auto
  qed
  then show ?thesis by (auto simp: classify_line_def split: option.splits)
qed

definition porcelain :: "string \<Rightarrow> string \<Rightarrow> string \<Rightarrow> string" where
  "porcelain ref summary reason = ''!'' @ [TAB] @ ref @ [TAB] @ summary @ '' ('' @ reason @ '')''"

lemma classify_rejection:
  assumes "TAB \<notin> set ref" "summary \<in> {''[remote rejected]'', ''[rejected]''}"
  shows "classify_line branch sha (porcelain ref summary reason @ [LF]) =
    (if summary = ''[remote rejected]'' then Some (ProtectedBranchError branch reason)
     else if reason \<in> ff_reasons then Some (NotFastForwardError branch sha) else None)"
proof -
  have cuts: "cut [TAB] (porcelain ref summary reason @ [LF]) = Some (''!'', ref @ TAB # summary @ '' ('' @ reason @ '')'' @ [LF])"
    "cut [TAB] (ref @ TAB # summary @ '' ('' @ reason @ '')'' @ [LF]) = Some (ref, summary @ '' ('' @ reason @ '')'' @ [LF])"
    using assms(1) by (simp_all add: porcelain_def cut_first)
  have trim: "trim_space (summary @ '' ('' @ reason @ '')'' @ [LF]) = summary @ '' ('' @ reason @ '')''"
    using assms(2) trim_report[of "''remote rejected] ('' @ reason"] trim_report[of "''rejected] ('' @ reason"]
    by auto
  have summary: "cut '' ('' (summary @ '' ('' @ reason @ '')'') = Some (summary, reason @ '')'')"
    using assms(2) by auto
  show ?thesis
    unfolding classify_line_def cuts(1) option.case prod.case if_False not_True_eq_False cuts(2) trim
      cut_or_all_def summary
    by (simp add: cuts(2) trim summary trim_suffix_def)
qed

end
