(* ===== verification/GiteaProps.thy ===== *)
theory GiteaProps
  imports GiteaLemmas
begin

text \<open>The properties of the Gitea adapter.\<close>

subsection \<open>A concrete server\<close>

text \<open>Its state counts the requests; \<open>answers\<close> are the bodies it sends, one after the other.\<close>

definition canned :: "string list \<Rightarrow> http_call \<Rightarrow> (nat, error + http_answer) state" where
  "canned answers req = State (\<lambda>n. (Inr \<lparr>hp_StatusCode = 200, hp_Body = answers ! n\<rparr>, Suc n))"

definition constant_server :: "string \<Rightarrow> http_call \<Rightarrow> (nat, error + http_answer) state" where
  "constant_server body req = State (\<lambda>n. (Inr \<lparr>hp_StatusCode = 200, hp_Body = body\<rparr>, Suc n))"

definition demo_client :: "(http_call \<Rightarrow> (nat, error + http_answer) state) \<Rightarrow> nat http_client" where
  "demo_client send = \<lparr>hx_BaseURL = ''http://git'', hx_Token = ''tok'', hx_Send = send\<rparr>"

definition str :: "string \<Rightarrow> string" where
  "str s = [CHR 0x22] @ s @ [CHR 0x22]"

definition branch_page :: string where
  "branch_page = ''[{'' @ str ''name'' @ '':'' @ str ''main'' @ ''}]''"

subsection \<open>Pages\<close>

text \<open>C32. Reading a paged list ends at the first page that is the last one by the reading's own
  criterion, and returns exactly the items up to it, in order; when no earlier page meets the
  criterion, that is everything the server has.\<close>

theorem paginate_complete:
  assumes "\<And>k s. k < length ps \<Longrightarrow>
      \<exists>s'. run_state (fetch_page c path label d zero extract (int k + 1)) s = (Inr (ps ! k), s')"
    and "ps \<noteq> []" "last_page ue (last ps)" "list_all (\<lambda>p. \<not> last_page ue p) (butlast ps)"
  shows "fst (run_state (paginatePages c path label d zero extract ue) s) = Inr (concat ps)"
proof -
  have "\<exists>p \<in> set ps. last_page ue p" using assms(2,3) last_in_set by blast
  from paginatePages_spec[OF assms(1) this] assms(4) show ?thesis
    by (simp add: through_all list_all_iff)
qed

theorem paginate_complete_witness:
  "fst (run_state (gt_ListBranches (demo_client (constant_server branch_page)) ''o'' ''r'') 0) =
     Inr [\<lparr>br_Name = ''main''\<rparr>]"
proof -
  have page: "decodeJSON (dec_list dec_Branch \<lparr>br_Name = []\<rparr>) [] \<lparr>hp_StatusCode = 200, hp_Body = branch_page\<rparr> =
      Inr [\<lparr>br_Name = ''main''\<rparr>]" by code_simp
  show ?thesis
    unfolding gt_ListBranches_def paginate_def
    by (rule paginate_complete[where ps = "[[\<lparr>br_Name = ''main''\<rparr>]]", simplified concat.simps append_Nil2])
      (simp_all add: fetch_page_def http_do_def demo_client_def constant_server_def page wrap_err_def
        last_page_def)
qed

text \<open>The timeline of a pull request ends at the first empty page, although Gitea drops hidden
  comments from a page after cutting it: a page of nothing but hidden comments hides whatever
  follows it, an auto-merge request included.\<close>

theorem timeline_hides_rest:
  assumes "\<And>k s. k < length (before @ [[]]) \<Longrightarrow>
      \<exists>s'. run_state (fetch_page c (\<lambda>page. repo_path owner repo @ ''/issues/'' @ show_int n @ ''/timeline?'' @ page_suffix page)
             (''get PR #'' @ show_int n @ '' timeline'' @ in_repo owner repo)
             (dec_list dec_TimelineComment zero_TimelineComment) [] id (int k + 1)) s =
           (Inr ((before @ [[]]) ! k), s')"
    and "list_all (\<lambda>p. p \<noteq> []) before"
  shows "fst (run_state (gt_GetPRTimeline c owner repo n) s) = Inr (concat before)"
proof -
  have "\<exists>p \<in> set (before @ [[]]). last_page True p" by (simp add: last_page_def)
  moreover have "through (last_page True) (before @ [[]]) = before @ [[]]"
    using assms(2) by (intro through_all) (auto simp: last_page_def list_all_iff)
  ultimately show ?thesis
    using paginatePages_spec[OF assms(1), where ue = True]
    by (simp add: gt_GetPRTimeline_def paginateUntilEmpty_def)
qed

definition comment_page :: "string \<Rightarrow> string" where
  "comment_page type = ''[{'' @ str ''type'' @ '':'' @ str type @ ''}]''"

definition page_body :: "string list \<Rightarrow> string \<Rightarrow> string" where
  "page_body answers url =
     (case List.find (\<lambda>k. contains url (''page='' @ show_int (int k) @ ''&'')) [1 ..< Suc (length answers)] of
        Some k \<Rightarrow> answers ! (k - 1) | None \<Rightarrow> ''[]'')"

definition paged :: "string list \<Rightarrow> http_call \<Rightarrow> (nat, error + http_answer) state" where
  "paged answers req = State (\<lambda>n. (Inr \<lparr>hp_StatusCode = 200, hp_Body = page_body answers (hq_URL req)\<rparr>, Suc n))"

text \<open>The first page holds only hidden comments, the second the request for auto-merge.\<close>

theorem timeline_hides_rest_witness:
  "map_sum id HasAutomergeScheduled (fst (run_state (gt_GetPRTimeline
     (demo_client (paged [''[]'', comment_page ''pull_scheduled_merge''])) ''o'' ''r'' 1) 0)) = Inr False"
proof -
  let ?answers = "[''[]'', comment_page ''pull_scheduled_merge'']"
  have body: "page_body ?answers (''http://git/api/v1'' @ repo_path ''o'' ''r'' @ ''/issues/'' @ show_int 1 @
      ''/timeline?'' @ page_suffix 1) = ''[]''"
    by code_simp
  have dec: "decodeJSON (dec_list dec_TimelineComment zero_TimelineComment) []
      \<lparr>hp_StatusCode = 200, hp_Body = ''[]''\<rparr> = Inr []"
    by code_simp
  have "fst (run_state (gt_GetPRTimeline (demo_client (paged ?answers)) ''o'' ''r'' 1) 0) = Inr (concat [])"
    using body dec
    by (intro timeline_hides_rest)
      (simp_all add: fetch_page_def http_do_def demo_client_def paged_def wrap_err_def)
  then show ?thesis by (simp add: HasAutomergeScheduled_def)
qed

subsection \<open>Merging\<close>




subsection \<open>Secrets\<close>

text \<open>C27. Whatever git is run with and whatever it prints, the error made of its failure does not
  contain the token the client authenticates with.\<close>

theorem token_redacted:
  assumes "token \<noteq> []" "CHR ''*'' \<notin> set token"
    "run_state (runner (http_git_cache env dir base token) path args) s = ((out, Some err), s')"
  shows "\<exists>cmd code report. err = GitError cmd code report \<and> \<not> contains cmd token \<and> \<not> contains report token"
  using assms(3) redacted[OF assms(1,2)] assms(1)
  by (auto simp: runner_def http_git_cache_def split: prod.splits option.splits)

definition leaky_env :: "unit git_env" where
  "leaky_env = \<lparr>ge_Exec = (\<lambda>dir args. ret (join_with '' '' args, Some 128)), ge_Stat = (\<lambda>_. ret None),
     ge_MkdirAll = (\<lambda>_. ret (Inr ())), ge_RemoveAll = (\<lambda>_. ret (Inr ())),
     ge_WriteFile = (\<lambda>_. ret (Inr ())), ge_Glob = (\<lambda>_. ret None)\<rparr>"

theorem token_redacted_witness:
  "\<exists>out err. fst (run_state (runner (http_git_cache leaky_env ''/c'' ''http://git'' ''tok'') ''/c/r'' [''push'']) ()) =
     (out, Some err) \<and> contains out ''tok'' \<and>
   (\<exists>cmd code report. err = GitError cmd code report \<and> \<not> contains cmd ''tok'' \<and> \<not> contains report ''tok'')"
proof -
  let ?run = "run_state (runner (http_git_cache leaky_env ''/c'' ''http://git'' ''tok'') ''/c/r'' [''push'']) ()"
  have leak: "contains (fst (fst ?run)) ''tok''" "snd (fst ?run) \<noteq> None" by code_simp+
  then obtain err where "?run = ((fst (fst ?run), Some err), snd ?run)" by (metis option.exhaust prod.collapse)
  note run = this
  have "\<exists>cmd code report. err = GitError cmd code report \<and> \<not> contains cmd ''tok'' \<and> \<not> contains report ''tok''"
    by (rule token_redacted[OF _ _ run]) simp_all
  moreover have "fst ?run = (fst (fst ?run), Some err)" by (subst run) simp
  ultimately show ?thesis using leak(1) by blast
qed

subsection \<open>Push reports\<close>

text \<open>C26. A rejection in git's porcelain report decides the error of a fast-forward, whatever
  other lines surround it: a remote rejection is a denied push with the server's reason, a rejected
  non-fast-forward is \<open>ErrNotFastForward\<close>; a report without a rejection stays the error of git.\<close>

theorem push_report:
  assumes "list_all (\<lambda>l. LF \<notin> set l \<and> \<not> prefix ''!'' l) before"
    and "TAB \<notin> set ref" "LF \<notin> set (ref @ reason)"
    and "summary = ''[remote rejected]'' \<or> summary = ''[rejected]'' \<and> reason \<in> ff_reasons"
    and "as_not_fast_forward err = None" "as_protected_branch err = None" "error_chain err = [err]"
  shows "ff_error branch (classifyPushFailure branch sha
      (concat (map (\<lambda>l. l @ [LF]) (before @ [porcelain ref summary reason])) @ after) err) =
    (if summary = ''[remote rejected]'' then PushDeniedError branch reason else ErrNotFastForward) \<and>
   ff_error branch (classifyPushFailure branch sha (concat (map (\<lambda>l. l @ [LF]) before)) err) =
     Wrap (''git push '' @ branch) err"
proof -
  have quiet: "first_some (classify_line branch sha) (map (\<lambda>l. l @ [LF]) before) = None"
    using assms(1) by (induction before) (auto simp: classify_quiet)
  have lines: "list_all (\<lambda>l. LF \<notin> set l) (before @ [porcelain ref summary reason])"
    using assms(1,3,4) by (auto simp: list_all_iff porcelain_def)
  have "go_lines (concat (map (\<lambda>l. l @ [LF]) (before @ [porcelain ref summary reason])) @ after) =
      map (\<lambda>l. l @ [LF]) before @ (porcelain ref summary reason @ [LF]) # go_lines after"
    using go_lines_lines[OF lines, of after] by simp
  moreover have "classify_line branch sha (porcelain ref summary reason @ [LF]) =
      Some (if summary = ''[remote rejected]'' then ProtectedBranchError branch reason
        else NotFastForwardError branch sha)"
    using classify_rejection[OF assms(2), of summary branch sha reason] assms(4) by auto
  moreover have "go_lines (concat (map (\<lambda>l. l @ [LF]) before)) = map (\<lambda>l. l @ [LF]) before"
    using go_lines_lines[of before "[]"] assms(1) by (simp add: list_all_iff)
  ultimately show ?thesis
    using quiet assms(5-7)
    by (simp add: classifyPushFailure_def first_some_append ff_error_def errors_as_def)
qed

theorem push_report_witness:
  "ff_error ''main'' (classifyPushFailure ''main'' ''s''
      (concat (map (\<lambda>l. l @ [LF]) ([''To http://git/o/r.git''] @
        [porcelain ''s:refs/heads/main'' ''[remote rejected]'' ''branch is protected''])) @ ''Done'') (GitError [] 1 [])) =
    PushDeniedError ''main'' ''branch is protected''"
  using push_report[of "[''To http://git/o/r.git'']" "''s:refs/heads/main''" "''branch is protected''"
      "''[remote rejected]''" "GitError [] 1 []" "''main''" "''s''" "''Done''"]
  by simp

subsection \<open>Statuses\<close>



definition demo_gitea :: "unit gitea_client" where
  "demo_gitea = \<lparr>cl_SearchReposByTopic = (\<lambda>_. ret (Inr [])), cl_ListOpenPRs = (\<lambda>_ _. ret (Inr [])),
     cl_GetPR = (\<lambda>_ _ _. ret (Inr zero_PR)), cl_GetPRTimeline = (\<lambda>_ _ _. ret (Inr [])),
     cl_GetCombinedCommitStatus = (\<lambda>_ _ _. ret (Inr \<lparr>cb_State = [], cb_Statuses =
       [\<lparr>sr_Context = ''gitea-mq'', sr_Status = ''pending'', sr_Description = [], sr_TargetURL = []\<rparr>,
        \<lparr>sr_Context = ''ci'', sr_Status = ''success'', sr_Description = [], sr_TargetURL = []\<rparr>], cb_SHA = []\<rparr>)),
     cl_CreateCommitStatus = (\<lambda>_ _ _ _. ret (Inr ())), cl_CreateComment = (\<lambda>_ _ _ _. ret (Inr ())),
     cl_CancelAutoMerge = (\<lambda>_ _ _. ret (Inr ())),
     cl_GetBranchProtection = (\<lambda>_ _ _. ret (Inr (Some \<lparr>bp_BranchName = ''main'', bp_RuleName = ''main'',
       bp_EnableStatusCheck = True, bp_StatusCheckContexts = [''gitea-mq'', ''ci'']\<rparr>))),
     cl_ListBranches = (\<lambda>_ _. ret (Inr [])), cl_CreateBranch = (\<lambda>_ _ _ _. ret (Inr ())),
     cl_DeleteBranch = (\<lambda>_ _ _. ret (Inr ())), cl_CompareCommits = (\<lambda>_ _ _ _. ret (Inr \<lparr>cm_TotalCommits = 0\<rparr>)),
     cl_MergeBranches = (\<lambda>_ _ _ _ _. ret (Inr ''m'')), cl_StackMerges = (\<lambda>_ _ _ _ _. ret (Inr ([], []))),
     cl_FastForwardRef = (\<lambda>_ _ _ _. ret (Inr ())), cl_EditIssueState = (\<lambda>_ _ _ _. ret (Inr ())),
     cl_ListBranchProtections = (\<lambda>_ _. ret (Inr [])), cl_EditBranchProtection = (\<lambda>_ _ _ _. ret (Inr ())),
     cl_ListWebhooks = (\<lambda>_ _. ret (Inr [])), cl_CreateWebhook = (\<lambda>_ _ _. ret (Inr ()))\<rparr>"


text \<open>Setup leaves a rule alone that lists the queue's context, even when its status check is
  switched off; such a rule then requires nothing at all.\<close>

theorem setup_trusts_disabled_rule:
  assumes "run_state (cl_ListBranchProtections cl owner repo) s = (Inr [bp], s1)"
    "''gitea-mq'' \<in> set (bp_StatusCheckContexts bp)" "\<not> bp_EnableStatusCheck bp"
    "run_state (cl_GetBranchProtection cl owner repo branch) s1 = (Inr (Some bp), s2)"
  shows "run_state (EnsureBranchProtection cl owner repo) s = (Inr (), s1) \<and>
    run_state (gf_GetRequiredChecks cl owner repo branch) s1 = (Inr [], s2)"
  using assms by (simp add: EnsureBranchProtection_def protect_one_def gf_GetRequiredChecks_def)

definition off_rule :: BranchProtection where
  "off_rule = \<lparr>bp_BranchName = ''main'', bp_RuleName = ''main'', bp_EnableStatusCheck = False,
     bp_StatusCheckContexts = [''gitea-mq'']\<rparr>"

definition off_gitea :: "unit gitea_client" where
  "off_gitea = demo_gitea\<lparr>cl_ListBranchProtections := (\<lambda>_ _. ret (Inr [off_rule])),
     cl_GetBranchProtection := (\<lambda>_ _ _. ret (Inr (Some off_rule)))\<rparr>"

theorem setup_trusts_disabled_rule_witness:
  "run_state (gf_GetRequiredChecks off_gitea ''o'' ''r'' ''main'') () = (Inr [], ())"
  using setup_trusts_disabled_rule[of off_gitea "''o''" "''r''" "()" off_rule "()" "''main''" "()"]
  by (simp add: off_gitea_def off_rule_def)

end
