(* ===== verification/GithubApp.thy ===== *)
theory GithubApp
  imports CheckRun Json Prelude "HOL-Library.AList"
begin

text \<open>
  The GitHub App: \<open>internal/github/app.go\<close> and \<open>discovery.go\<close>. The API client (go-github) and the
  App transports (ghinstallation) are third-party: the record \<open>gh_api\<close> holds the calls the program
  makes, on the state \<open>'g\<close> of GitHub. The client of an installation is its id, the first argument of
  every call of a repository. A field behind a nil-able pointer is an option, read as the library's
  getters read it. An iterator is the items it yields and the error that ends it, if one does; the
  pages it fetches between items are not interleaved with the body of the loop. Where the program looks at the
  HTTP response, a call also returns its status, or none when there was no response.
\<close>

subsection \<open>The API\<close>

type_synonym 'a iter = "'a list \<times> error option"
type_synonym 'a gh_answer = "(error + 'a) \<times> int option"

record gh_PullRequest =
  hp_Number :: "int option"
  hp_Title :: "string option"
  hp_State :: "string option"
  hp_Merged :: "bool option"
  hp_Login :: "string option"
  hp_HeadRef :: "string option"
  hp_HeadSHA :: "string option"
  hp_BaseRef :: "string option"
  hp_HTMLURL :: "string option"
  hp_AutoMerge :: bool
  hp_NodeID :: "string option"

record gh_CheckRun =
  hk_ID :: "int option"
  hk_Name :: "string option"
  hk_Status :: "string option"
  hk_Conclusion :: "string option"
  hk_Summary :: "string option"
  hk_DetailsURL :: "string option"

record gh_RepoStatus =
  hs_Context :: "string option"
  hs_State :: "string option"
  hs_Description :: "string option"
  hs_TargetURL :: "string option"

record gh_CheckRunOptions =
  ho_Name :: string
  ho_Status :: string
  ho_Conclusion :: "string option"
  ho_DetailsURL :: "string option"
  ho_Title :: string
  ho_Summary :: string

datatype gh_ActorType = ActorIntegration | ActorRepositoryRole

record gh_Ruleset =
  hr_Name :: string
  hr_BypassActors :: "(int \<times> gh_ActorType) list"
  hr_Include :: "string list"
  hr_Exclude :: "string list"
  hr_RequiredChecks :: "(string \<times> int) list"
  hr_Strict :: bool
  hr_DoNotEnforceOnCreate :: bool

record 'g gh_api =
  ha_ListInstallations :: "('g, int iter) state"
  ha_ListRepos :: "int \<Rightarrow> ('g, string iter) state"
  ha_UpdateHookConfig :: "string \<Rightarrow> string \<Rightarrow> string \<Rightarrow> ('g, error + unit) state"
  ha_ListPulls :: "int \<Rightarrow> string \<Rightarrow> string \<Rightarrow> ('g, gh_PullRequest iter) state"
  ha_GetPull :: "int \<Rightarrow> string \<Rightarrow> string \<Rightarrow> int \<Rightarrow> ('g, error + gh_PullRequest) state"
  ha_EditPullState :: "int \<Rightarrow> string \<Rightarrow> string \<Rightarrow> int \<Rightarrow> string \<Rightarrow> ('g, error + unit) state"
  ha_RulesForBranch :: "int \<Rightarrow> string \<Rightarrow> string \<Rightarrow> string \<Rightarrow> ('g, error + string list list) state"
  ha_IterCheckRuns :: "int \<Rightarrow> string \<Rightarrow> string \<Rightarrow> string \<Rightarrow> ('g, gh_CheckRun iter) state"
  ha_ListCheckRuns :: "int \<Rightarrow> string \<Rightarrow> string \<Rightarrow> string \<Rightarrow> string \<Rightarrow> ('g, error + gh_CheckRun list) state"
  ha_UpdateCheckRun :: "int \<Rightarrow> string \<Rightarrow> string \<Rightarrow> int \<Rightarrow> gh_CheckRunOptions \<Rightarrow> ('g, error + unit) state"
  ha_CreateCheckRun ::
    "int \<Rightarrow> string \<Rightarrow> string \<Rightarrow> string \<Rightarrow> gh_CheckRunOptions \<Rightarrow> ('g, error + gh_CheckRun) state"
  ha_IterStatuses :: "int \<Rightarrow> string \<Rightarrow> string \<Rightarrow> string \<Rightarrow> ('g, gh_RepoStatus iter) state"
  ha_GetRef :: "int \<Rightarrow> string \<Rightarrow> string \<Rightarrow> string \<Rightarrow> ('g, error + string option) state"
  ha_CreateRef :: "int \<Rightarrow> string \<Rightarrow> string \<Rightarrow> string \<Rightarrow> string \<Rightarrow> ('g, error + unit) state"
  ha_UpdateRef :: "int \<Rightarrow> string \<Rightarrow> string \<Rightarrow> string \<Rightarrow> string \<Rightarrow> bool \<Rightarrow> ('g, unit gh_answer) state"
  ha_DeleteRef :: "int \<Rightarrow> string \<Rightarrow> string \<Rightarrow> string \<Rightarrow> ('g, unit gh_answer) state"
  ha_Merge :: "int \<Rightarrow> string \<Rightarrow> string \<Rightarrow> string \<Rightarrow> string \<Rightarrow> ('g, string option gh_answer) state"
  ha_Compare :: "int \<Rightarrow> string \<Rightarrow> string \<Rightarrow> string \<Rightarrow> string \<Rightarrow> ('g, error + int option) state"
  ha_IterBranches :: "int \<Rightarrow> string \<Rightarrow> string \<Rightarrow> ('g, string option iter) state"
  ha_PostGraphQL :: "int \<Rightarrow> string \<Rightarrow> string \<Rightarrow> ('g, error + string) state"
  ha_CreateComment :: "int \<Rightarrow> string \<Rightarrow> string \<Rightarrow> int \<Rightarrow> string \<Rightarrow> ('g, error + unit) state"
  ha_AllowAutoMerge :: "int \<Rightarrow> string \<Rightarrow> string \<Rightarrow> bool \<Rightarrow> ('g, unit gh_answer) state"
  ha_AllRulesets :: "int \<Rightarrow> string \<Rightarrow> string \<Rightarrow> ('g, string list gh_answer) state"
  ha_CreateRuleset :: "int \<Rightarrow> string \<Rightarrow> string \<Rightarrow> gh_Ruleset \<Rightarrow> ('g, unit gh_answer) state"

subsection \<open>The App\<close>

definition DefaultBaseURL :: string where
  "DefaultBaseURL = ''https://api.github.com''"

text \<open>\<open>WithEnterpriseURLs\<close> and \<open>NewAppsTransport\<close> can refuse their arguments.\<close>

record 'g gh_app =
  ap_AppID :: int
  ap_BaseURL :: string
  ap_Enterprise :: "string \<Rightarrow> error option"
  ap_API :: "'g gh_api"

record 'g github =
  gs_net :: 'g
  gs_instClients :: "int list"
  gs_repoInstall :: "(string \<times> int) list"
  gs_checkRuns :: "((string \<times> string \<times> string) \<times> int) list"

definition in_github :: "('g, 'a) state \<Rightarrow> ('g github, 'a) state" where
  "in_github m = State (\<lambda>s. case run_state m (gs_net s) of (a, g) \<Rightarrow> (a, s\<lparr>gs_net := g\<rparr>))"

definition newClient :: "(string \<Rightarrow> error option) \<Rightarrow> string \<Rightarrow> error option" where
  "newClient enterprise baseURL = (if baseURL = DefaultBaseURL then None else enterprise baseURL)"

definition NewApp ::
  "(int \<Rightarrow> string \<Rightarrow> error option) \<Rightarrow> (string \<Rightarrow> error option) \<Rightarrow> 'g gh_api \<Rightarrow> int \<Rightarrow> string \<Rightarrow> string \<Rightarrow>
     error + 'g gh_app" where
  "NewApp appsTransport enterprise api appID privateKey url =
     (let baseURL = (if url = [] then DefaultBaseURL else url) in
      case appsTransport appID privateKey of
        Some err \<Rightarrow> Inl (Wrap ''github app transport'' err)
      | None \<Rightarrow> (case newClient enterprise baseURL of
            Some err \<Rightarrow> Inl err
          | None \<Rightarrow> Inr \<lparr>ap_AppID = appID, ap_BaseURL = baseURL, ap_Enterprise = enterprise, ap_API = api\<rparr>))"

definition new_github :: "'g \<Rightarrow> 'g github" where
  "new_github g = \<lparr>gs_net = g, gs_instClients = [], gs_repoInstall = [], gs_checkRuns = []\<rparr>"

definition graphqlURL :: "'g gh_app \<Rightarrow> string" where
  "graphqlURL a =
     (if ap_BaseURL a = DefaultBaseURL then ''https://api.github.com/graphql''
      else trim_suffix (ap_BaseURL a) ''/api/v3'' @ ''/api/graphql'')"

definition installationClient :: "'g gh_app \<Rightarrow> int \<Rightarrow> ('g github, error + int) state" where
  "installationClient a i = do {
     known \<leftarrow> gets (\<lambda>s. i \<in> set (gs_instClients s));
     if known then ret (Inr i)
     else case newClient (ap_Enterprise a) (ap_BaseURL a) of
       Some err \<Rightarrow> ret (Inl err)
     | None \<Rightarrow> do {
         modifies (\<lambda>s. s\<lparr>gs_instClients := i # gs_instClients s\<rparr>);
         ret (Inr i) } }"

text \<open>The map under construction is carried through the two loops.\<close>

definition refresh_repos ::
  "int \<Rightarrow> string iter \<Rightarrow> (string \<times> int) list \<Rightarrow> error + (string \<times> int) list" where
  "refresh_repos inst repos m =
     (case snd repos of
        Some err \<Rightarrow> Inl (Wrap (''list repos for installation '' @ show_int inst) err)
      | None \<Rightarrow> Inr (fold (\<lambda>full. AList.update full inst) (fst repos) m))"

primrec refresh_installations ::
  "'g gh_app \<Rightarrow> int list \<Rightarrow> error option \<Rightarrow> (string \<times> int) list \<Rightarrow>
     ('g github, error + (string \<times> int) list) state" where
  "refresh_installations a [] ended m =
     ret (case ended of Some err \<Rightarrow> Inl (Wrap ''list installations'' err) | None \<Rightarrow> Inr m)"
| "refresh_installations a (inst # insts) ended m =
     on_ok (installationClient a inst) (\<lambda>ic.
       on_ok (do { repos \<leftarrow> in_github (ha_ListRepos (ap_API a) ic); ret (refresh_repos inst repos m) })
         (refresh_installations a insts ended))"

definition Refresh :: "'g gh_app \<Rightarrow> ('g github, error + unit) state" where
  "Refresh a = do {
     insts \<leftarrow> in_github (ha_ListInstallations (ap_API a));
     on_ok (refresh_installations a (fst insts) (snd insts) []) (\<lambda>repoInstall. do {
       modifies (\<lambda>s. s\<lparr>gs_repoInstall := repoInstall\<rparr>);
       ret (Inr ()) }) }"

definition SyncHookConfig :: "'g gh_app \<Rightarrow> string \<Rightarrow> string \<Rightarrow> ('g github, error + unit) state" where
  "SyncHookConfig a externalURL secret =
     (if externalURL = [] \<or> secret = [] then ret (Inr ())
      else on_ok_map (Wrap ''update app hook config'')
        (in_github (ha_UpdateHookConfig (ap_API a)
           (trim_right (CHR ''/'') externalURL @ ''/webhook/github'') secret ''json''))
        (\<lambda>_. ret (Inr ())))"

definition app_repo :: "string \<Rightarrow> repo_ref option" where
  "app_repo full = (case cut ''/'' full of
      None \<Rightarrow> None
    | Some (owner, name) \<Rightarrow> Some \<lparr>rr_Forge = KindGithub, rr_Owner = owner, rr_Name = name\<rparr>)"

definition Repos :: "'g github \<Rightarrow> repo_ref list" where
  "Repos s = List.map_filter app_repo (map fst (gs_repoInstall s))"

definition ClientForRepo :: "'g gh_app \<Rightarrow> string \<Rightarrow> string \<Rightarrow> ('g github, error + int) state" where
  "ClientForRepo a owner name = do {
     found \<leftarrow> gets (\<lambda>s. map_of (gs_repoInstall s) (owner @ ''/'' @ name));
     (case found of
        None \<Rightarrow> ret (Inl (PlainError (''github: no installation covers '' @ owner @ ''/'' @ name)))
      | Some i \<Rightarrow> installationClient a i) }"

definition InstallationSource :: "'g gh_app \<Rightarrow> ('g github, error + repo_ref list) state" where
  "InstallationSource a = on_ok (Refresh a) (\<lambda>_. do { rs \<leftarrow> gets Repos; ret (Inr rs) })"

end
