(* ===== verification/GithubForge.thy ===== *)
theory GithubForge
  imports GithubApp
begin

text \<open>
  The GitHub adapter: check runs (\<open>internal/github/checkrun.go\<close>), the forge interface
  (\<open>forge.go\<close>) and repository setup (\<open>setup.go\<close>), over the App of theory \<open>GithubApp\<close>. The
  mutex of the check run cache is left out: every access is one step.
\<close>

type_synonym ('g, 'a) gh = "('g github, error + 'a) state"

definition with_client ::
  "'g gh_app \<Rightarrow> string \<Rightarrow> string \<Rightarrow> ('g gh_api \<Rightarrow> int \<Rightarrow> ('g, 'a) gh) \<Rightarrow> ('g, 'a) gh" where
  "with_client a owner name f = on_ok (ClientForRepo a owner name) (f (ap_API a))"

text \<open>A loop over an iterator that returns the first error.\<close>

definition collect :: "'a iter \<Rightarrow> error + 'a list" where
  "collect it = (case snd it of Some err \<Rightarrow> Inl err | None \<Rightarrow> Inr (fst it))"

definition gh_text :: "string option \<Rightarrow> string" where
  "gh_text o' = (case o' of None \<Rightarrow> [] | Some s \<Rightarrow> s)"

definition gh_int :: "int option \<Rightarrow> int" where
  "gh_int o' = (case o' of None \<Rightarrow> 0 | Some n \<Rightarrow> n)"

subsection \<open>Check runs\<close>

type_synonym check_run_key = "string \<times> string \<times> string"

definition checkRuns_get :: "string \<Rightarrow> string \<Rightarrow> string \<Rightarrow> ('g github, int option) state" where
  "checkRuns_get repo sha name = gets (\<lambda>s. map_of (gs_checkRuns s) (repo, sha, name))"

definition checkRuns_set :: "string \<Rightarrow> string \<Rightarrow> string \<Rightarrow> int \<Rightarrow> ('g github, unit) state" where
  "checkRuns_set repo sha name i =
     modifies (\<lambda>s. s\<lparr>gs_checkRuns := AList.update (repo, sha, name) i (gs_checkRuns s)\<rparr>)"

text \<open>The id to update: from the cache, else the first listed run of that name, else none.\<close>

definition known_run ::
  "'g gh_api \<Rightarrow> int \<Rightarrow> string \<Rightarrow> string \<Rightarrow> string \<Rightarrow> string \<Rightarrow> ('g, int option) gh" where
  "known_run api c owner name sha checkName = do {
     cached \<leftarrow> checkRuns_get (owner @ ''/'' @ name) sha checkName;
     (case cached of
        Some i \<Rightarrow> ret (Inr (Some i))
      | None \<Rightarrow> on_ok (in_github (ha_ListCheckRuns api c owner name sha checkName)) (\<lambda>runs.
          ret (Inr (case runs of [] \<Rightarrow> None | r # _ \<Rightarrow> Some (gh_int (hk_ID r)))))) }"

definition non_empty :: "string \<Rightarrow> string option" where
  "non_empty s = (if s \<noteq> [] then Some s else None)"

text \<open>Updating the run with a known id, or creating one.\<close>

definition put_run ::
  "'g gh_api \<Rightarrow> int \<Rightarrow> string \<Rightarrow> string \<Rightarrow> string \<Rightarrow> gh_CheckRunOptions \<Rightarrow> int option \<Rightarrow> ('g, unit) gh" where
  "put_run api c owner name sha opts run = (case run of
      Some i \<Rightarrow> on_ok (in_github (ha_UpdateCheckRun api c owner name i opts)) (\<lambda>_. do {
          checkRuns_set (owner @ ''/'' @ name) sha (ho_Name opts) i;
          ret (Inr ()) })
    | None \<Rightarrow> on_ok (in_github (ha_CreateCheckRun api c owner name sha opts)) (\<lambda>cr. do {
          checkRuns_set (owner @ ''/'' @ name) sha (ho_Name opts) (gh_int (hk_ID cr));
          ret (Inr ()) }))"

definition run_options :: "string \<Rightarrow> string \<Rightarrow> string \<Rightarrow> string \<Rightarrow> string \<Rightarrow> gh_CheckRunOptions" where
  "run_options checkName status conclusion summary detailsURL =
     \<lparr>ho_Name = checkName, ho_Status = status, ho_Conclusion = non_empty conclusion,
      ho_DetailsURL = non_empty detailsURL, ho_Title = checkName, ho_Summary = summary\<rparr>"

definition upsertCheckRun ::
  "'g gh_app \<Rightarrow> string \<Rightarrow> string \<Rightarrow> string \<Rightarrow> string \<Rightarrow> string \<Rightarrow> string \<Rightarrow> string \<Rightarrow> string \<Rightarrow>
     ('g, unit) gh" where
  "upsertCheckRun a owner name sha checkName status conclusion summary detailsURL =
     with_client a owner name (\<lambda>api c.
       on_ok (known_run api c owner name sha checkName)
         (put_run api c owner name sha (run_options checkName status conclusion summary detailsURL)))"

subsection \<open>Pull requests, statuses and checks\<close>

definition gh_toForgePR :: "gh_PullRequest \<Rightarrow> PR" where
  "gh_toForgePR p =
     \<lparr>pr_Number = gh_int (hp_Number p), pr_Title = gh_text (hp_Title p), pr_State = gh_text (hp_State p),
      pr_Merged = (hp_Merged p = Some True), pr_AuthorLogin = gh_text (hp_Login p),
      pr_HeadBranch = gh_text (hp_HeadRef p), pr_HeadSHA = gh_text (hp_HeadSHA p),
      pr_BaseBranch = gh_text (hp_BaseRef p), pr_HTMLURL = gh_text (hp_HTMLURL p),
      pr_AutoMergeEnabled = hp_AutoMerge p\<rparr>"

definition gh_ListOpenPRs :: "'g gh_app \<Rightarrow> string \<Rightarrow> string \<Rightarrow> ('g, PR list) gh" where
  "gh_ListOpenPRs a owner name = with_client a owner name (\<lambda>api c. do {
     prs \<leftarrow> in_github (ha_ListPulls api c owner name);
     ret (case collect prs of Inl err \<Rightarrow> Inl err | Inr ps \<Rightarrow> Inr (map gh_toForgePR ps)) })"

definition gh_GetPR :: "'g gh_app \<Rightarrow> string \<Rightarrow> string \<Rightarrow> int \<Rightarrow> ('g, PR) gh" where
  "gh_GetPR a owner name number = with_client a owner name (\<lambda>api c.
     on_ok (in_github (ha_GetPull api c owner name number)) (\<lambda>p. ret (Inr (gh_toForgePR p))))"

definition gh_SetMQStatus ::
  "'g gh_app \<Rightarrow> string \<Rightarrow> string \<Rightarrow> string \<Rightarrow> MQStatus \<Rightarrow> ('g, unit) gh" where
  "gh_SetMQStatus a owner name sha st =
     (case checkRunFields (check_state_string (mq_State st)) of (status, concl) \<Rightarrow>
       upsertCheckRun a owner name sha MQContext status concl (mq_Description st) (mq_TargetURL st))"

definition gh_MirrorCheck ::
  "'g gh_app \<Rightarrow> string \<Rightarrow> string \<Rightarrow> string \<Rightarrow> string \<Rightarrow> Check \<Rightarrow> ('g, unit) gh" where
  "gh_MirrorCheck a owner name sha checkContext c =
     (case checkRunFields (check_state_string (ck_State c)) of (status, concl) \<Rightarrow>
       upsertCheckRun a owner name sha checkContext status concl (ck_Description c) (ck_TargetURL c))"

definition gh_GetRequiredChecks ::
  "'g gh_app \<Rightarrow> string \<Rightarrow> string \<Rightarrow> string \<Rightarrow> ('g, string list) gh" where
  "gh_GetRequiredChecks a owner name branch = with_client a owner name (\<lambda>api c.
     on_ok (in_github (ha_RulesForBranch api c owner name branch)) (\<lambda>rules.
       ret (Inr (filter (\<lambda>ctx. \<not> IsOwnContext ctx) (concat rules)))))"

definition add_check_run :: "gh_CheckRun \<Rightarrow> (string \<times> Check) list \<Rightarrow> (string \<times> Check) list" where
  "add_check_run cr out =
     (if gh_text (hk_Name cr) = MQContext then out
      else AList.update (gh_text (hk_Name cr))
        \<lparr>ck_State = CheckRunToState (gh_text (hk_Status cr)) (gh_text (hk_Conclusion cr)),
         ck_Description = gh_text (hk_Summary cr), ck_TargetURL = gh_text (hk_DetailsURL cr)\<rparr> out)"

definition add_status :: "gh_RepoStatus \<Rightarrow> (string \<times> Check) list \<Rightarrow> (string \<times> Check) list" where
  "add_status st out =
     (if gh_text (hs_Context st) = MQContext then out
      else if map_of out (gh_text (hs_Context st)) \<noteq> None then out
      else AList.update (gh_text (hs_Context st))
        \<lparr>ck_State = ParseCheckState (gh_text (hs_State st)),
         ck_Description = gh_text (hs_Description st), ck_TargetURL = gh_text (hs_TargetURL st)\<rparr> out)"

definition gh_GetCheckStates ::
  "'g gh_app \<Rightarrow> string \<Rightarrow> string \<Rightarrow> string \<Rightarrow> ('g, (string \<times> Check) list) gh" where
  "gh_GetCheckStates a owner name sha = with_client a owner name (\<lambda>api c.
     on_ok (do { runs \<leftarrow> in_github (ha_IterCheckRuns api c owner name sha); ret (collect runs) }) (\<lambda>runs.
       on_ok (do { sts \<leftarrow> in_github (ha_IterStatuses api c owner name sha); ret (collect sts) }) (\<lambda>sts.
         ret (Inr (fold add_status sts (fold add_check_run runs []))))))"

subsection \<open>Branches\<close>

text \<open>\<open>mergeHead\<close>: an empty commit name is GitHub's answer 204.\<close>

definition mergeHead ::
  "'g gh_api \<Rightarrow> int \<Rightarrow> string \<Rightarrow> string \<Rightarrow> string \<Rightarrow> string \<Rightarrow> ('g, string \<times> bool) gh" where
  "mergeHead api c owner name branch headSHA = do {
     (r, status) \<leftarrow> in_github (ha_Merge api c owner name branch headSHA);
     ret (case r of
         Inl err \<Rightarrow> if status = Some 409 then Inr ([], True)
           else Inl (Wrap (''merge '' @ headSHA @ '' into '' @ branch) err)
       | Inr commit \<Rightarrow> Inr (gh_text commit, False)) }"

definition already_exists :: "error \<Rightarrow> bool" where
  "already_exists err = (case errors_as as_gh_error err of
      Some (msg, _) \<Rightarrow> contains msg ''already exists'' | None \<Rightarrow> False)"

text \<open>Making the merge branch point at the base: created, or reset when it exists.\<close>

definition make_branch ::
  "'g gh_api \<Rightarrow> int \<Rightarrow> string \<Rightarrow> string \<Rightarrow> string \<Rightarrow> string \<Rightarrow> ('g, unit) gh" where
  "make_branch api c owner name branch baseSHA = do {
     created \<leftarrow> in_github (ha_CreateRef api c owner name (''refs/heads/'' @ branch) baseSHA);
     (case created of
        Inr _ \<Rightarrow> ret (Inr ())
      | Inl err \<Rightarrow>
          if \<not> already_exists err then ret (Inl (Wrap (''create ref '' @ branch) err))
          else do {
            (r, _) \<leftarrow> in_github (ha_UpdateRef api c owner name (''heads/'' @ branch) baseSHA True);
            ret (case r of Inl err \<Rightarrow> Inl (Wrap (''reset stale ref '' @ branch) err) | Inr u \<Rightarrow> Inr u) }) }"

definition gh_CreateMergeBranch ::
  "'g gh_app \<Rightarrow> string \<Rightarrow> string \<Rightarrow> string \<Rightarrow> string \<Rightarrow> string \<Rightarrow> ('g, string \<times> bool) gh" where
  "gh_CreateMergeBranch a owner name base headSHA branch = with_client a owner name (\<lambda>api c.
     on_ok_map (Wrap (''resolve base '' @ base))
       (in_github (ha_GetRef api c owner name (''heads/'' @ base))) (\<lambda>baseRef.
         let baseSHA = gh_text baseRef in
         on_ok (make_branch api c owner name branch baseSHA) (\<lambda>_.
           on_ok (mergeHead api c owner name branch headSHA) (\<lambda>(sha, conflict).
             ret (Inr (if conflict then ([], True) else if sha = [] then (baseSHA, False)
               else (sha, False)))))))"

definition gh_MergeInto ::
  "'g gh_app \<Rightarrow> string \<Rightarrow> string \<Rightarrow> string \<Rightarrow> string \<Rightarrow> ('g, string \<times> bool) gh" where
  "gh_MergeInto a owner name branch headSHA = with_client a owner name (\<lambda>api c.
     on_ok (mergeHead api c owner name branch headSHA) (\<lambda>(sha, conflict).
       if conflict then ret (Inr ([], True))
       else if sha = [] then
         on_ok_map (Wrap (''resolve '' @ branch @ '' after no-op merge''))
           (in_github (ha_GetRef api c owner name (''heads/'' @ branch)))
           (\<lambda>r. ret (Inr (gh_text r, False)))
       else ret (Inr (sha, False))))"

text \<open>The error of a refused fast-forward, by message and status.\<close>

definition gh_ff_error :: "string \<Rightarrow> string \<Rightarrow> error \<Rightarrow> int option \<Rightarrow> error" where
  "gh_ff_error branch sha err status =
     (let other = Wrap (''fast-forward '' @ branch @ '' to '' @ sha) err in
      case errors_as as_gh_error err of
        None \<Rightarrow> other
      | Some (message, _) \<Rightarrow>
          let msg = to_lower message in
          if contains msg ''fast forward'' \<or> contains msg ''fast-forward'' then ErrNotFastForward
          else if status = Some 403 \<or>
            status = Some 422 \<and> (contains msg ''protected branch'' \<or> contains msg ''ruleset'')
          then PushDeniedError branch message
          else other)"

definition gh_FastForward :: "'g gh_app \<Rightarrow> string \<Rightarrow> string \<Rightarrow> string \<Rightarrow> string \<Rightarrow> ('g, unit) gh" where
  "gh_FastForward a owner name branch sha = with_client a owner name (\<lambda>api c. do {
     (r, status) \<leftarrow> in_github (ha_UpdateRef api c owner name (''heads/'' @ branch) sha False);
     ret (case r of Inr _ \<Rightarrow> Inr () | Inl err \<Rightarrow> Inl (gh_ff_error branch sha err status)) })"

definition gh_ClosePR :: "'g gh_app \<Rightarrow> string \<Rightarrow> string \<Rightarrow> int \<Rightarrow> ('g, unit) gh" where
  "gh_ClosePR a owner name number = with_client a owner name (\<lambda>api c. do {
     r \<leftarrow> in_github (ha_EditPullState api c owner name number ''closed'');
     ret (case r of
         Inr _ \<Rightarrow> Inr ()
       | Inl err \<Rightarrow> (case errors_as as_gh_error err of
             Some (_, Some code) \<Rightarrow> if code = 422 then Inr () else Inl err
           | _ \<Rightarrow> Inl err)) })"

definition gh_IsUpToDate :: "'g gh_app \<Rightarrow> string \<Rightarrow> string \<Rightarrow> string \<Rightarrow> string \<Rightarrow> ('g, bool) gh" where
  "gh_IsUpToDate a owner name base headSHA = with_client a owner name (\<lambda>api c.
     on_ok_map (Wrap (''compare '' @ base @ ''...'' @ headSHA))
       (in_github (ha_Compare api c owner name base headSHA))
       (\<lambda>behindBy. ret (Inr (gh_int behindBy = 0))))"

definition gh_DeleteBranch :: "'g gh_app \<Rightarrow> string \<Rightarrow> string \<Rightarrow> string \<Rightarrow> ('g, unit) gh" where
  "gh_DeleteBranch a owner name branch = with_client a owner name (\<lambda>api c. do {
     (r, status) \<leftarrow> in_github (ha_DeleteRef api c owner name (''heads/'' @ branch));
     ret (if status = Some 422 \<or> status = Some 404 then Inr () else r) })"

definition gh_ListBranches :: "'g gh_app \<Rightarrow> string \<Rightarrow> string \<Rightarrow> ('g, string list) gh" where
  "gh_ListBranches a owner name = with_client a owner name (\<lambda>api c. do {
     bs \<leftarrow> in_github (ha_IterBranches api c owner name);
     ret (case collect bs of Inl err \<Rightarrow> Inl err | Inr names \<Rightarrow> Inr (map gh_text names)) })"

subsection \<open>Auto-merge and comments\<close>

definition disableAutoMergeMutation :: string where
  "disableAutoMergeMutation = ''mutation($id:ID!){disablePullRequestAutoMerge'' @
     ''(input:{pullRequestId:$id}){clientMutationId}}''"

definition graphql_payload :: "string \<Rightarrow> string" where
  "graphql_payload nodeID = json_print (JObj
     [(''query'', JStr disableAutoMergeMutation), (''variables'', JObj [(''id'', JStr nodeID)])])"

record graphql_error =
  ge_Message :: string

record graphql_body =
  gb_Errors :: "graphql_error list"

definition graphql_fields :: "graphql_body fields" where
  "graphql_fields = [json_field ''errors''
     (dec_list (dec_struct [json_field ''Message'' dec_string ge_Message ge_Message_update]) \<lparr>ge_Message = []\<rparr>)
     gb_Errors gb_Errors_update]"

definition graphql_result :: "string \<Rightarrow> error + unit" where
  "graphql_result body =
     (case decoded (dec_struct graphql_fields) \<lparr>gb_Errors = []\<rparr> (json_decode body) of
        None \<Rightarrow> Inl (Wrap ''decode graphql response'' (PlainError ''json''))
      | Some b \<Rightarrow> (case gb_Errors b of
            [] \<Rightarrow> Inr ()
          | e # _ \<Rightarrow> if contains (to_lower (ge_Message e)) ''not enabled'' then Inr ()
              else Inl (PlainError (''disablePullRequestAutoMerge: '' @ ge_Message e))))"

definition gh_CancelAutoMerge :: "'g gh_app \<Rightarrow> string \<Rightarrow> string \<Rightarrow> int \<Rightarrow> ('g, unit) gh" where
  "gh_CancelAutoMerge a owner name number = with_client a owner name (\<lambda>api c.
     on_ok (in_github (ha_GetPull api c owner name number)) (\<lambda>pr.
       on_ok (in_github (ha_PostGraphQL api c (graphqlURL a) (graphql_payload (gh_text (hp_NodeID pr)))))
         (\<lambda>body. ret (graphql_result body))))"

definition gh_Comment :: "'g gh_app \<Rightarrow> string \<Rightarrow> string \<Rightarrow> int \<Rightarrow> string \<Rightarrow> ('g, unit) gh" where
  "gh_Comment a owner name number body = with_client a owner name (\<lambda>api c.
     in_github (ha_CreateComment api c owner name number body))"

subsection \<open>Setup\<close>

definition repoAdminRoleID :: int where
  "repoAdminRoleID = 5"

definition isForbidden :: "int option \<Rightarrow> bool" where
  "isForbidden status \<longleftrightarrow> status = Some 403 \<or> status = Some 404"

definition mq_ruleset :: "int \<Rightarrow> gh_Ruleset" where
  "mq_ruleset appID =
     \<lparr>hr_Name = MQContext,
      hr_BypassActors = [(appID, ActorIntegration), (repoAdminRoleID, ActorRepositoryRole)],
      hr_Include = [''~DEFAULT_BRANCH''], hr_Exclude = [],
      hr_RequiredChecks = [(MQContext, appID)], hr_Strict = False, hr_DoNotEnforceOnCreate = True\<rparr>"

text \<open>An error is returned unless the App may not administer the repository.\<close>

definition tolerated :: "unit gh_answer \<Rightarrow> error + unit" where
  "tolerated ans = (case ans of
      (Inl err, status) \<Rightarrow> if \<not> isForbidden status then Inl err else Inr ()
    | (Inr u, _) \<Rightarrow> Inr u)"

definition ensure_ruleset :: "'g gh_app \<Rightarrow> 'g gh_api \<Rightarrow> int \<Rightarrow> string \<Rightarrow> string \<Rightarrow> ('g, unit) gh" where
  "ensure_ruleset a api c owner name = do {
     (rss, status) \<leftarrow> in_github (ha_AllRulesets api c owner name);
     (case rss of
        Inl err \<Rightarrow> ret (if \<not> isForbidden status then Inl err else Inr ())
      | Inr names \<Rightarrow>
          if MQContext \<in> set names then ret (Inr ())
          else do {
            ans \<leftarrow> in_github (ha_CreateRuleset api c owner name (mq_ruleset (ap_AppID a)));
            ret (tolerated ans) }) }"

definition gh_EnsureRepoSetup ::
  "'g gh_app \<Rightarrow> string \<Rightarrow> string \<Rightarrow> SetupConfig \<Rightarrow> ('g, unit) gh" where
  "gh_EnsureRepoSetup a owner name cfg = with_client a owner name (\<lambda>api c.
     on_ok (do { ans \<leftarrow> in_github (ha_AllowAutoMerge api c owner name True); ret (tolerated ans) })
       (\<lambda>_. ensure_ruleset a api c owner name))"

subsection \<open>The adapter\<close>

definition NewGithubForge :: "'g gh_app \<Rightarrow> string \<Rightarrow> 'g github forge" where
  "NewGithubForge a url =
     (let htmlURL = (if url = [] then ''https://github.com'' else url) in
      \<lparr>f_Kind = KindGithub, f_StatusWebhook = True,
       f_RepoHTMLURL = (\<lambda>owner name. htmlURL @ ''/'' @ owner @ ''/'' @ name),
       f_BranchHTMLURL = (\<lambda>owner name branch.
         htmlURL @ ''/'' @ owner @ ''/'' @ name @ ''/tree/'' @ branch),
       f_ListOpenPRs = gh_ListOpenPRs a, f_GetPR = gh_GetPR a, f_SetMQStatus = gh_SetMQStatus a,
       f_MirrorCheck = gh_MirrorCheck a, f_GetRequiredChecks = gh_GetRequiredChecks a,
       f_GetCheckStates = gh_GetCheckStates a, f_CreateMergeBranch = gh_CreateMergeBranch a,
       f_DeleteBranch = gh_DeleteBranch a, f_ListBranches = gh_ListBranches a,
       f_IsUpToDate = gh_IsUpToDate a, f_CancelAutoMerge = gh_CancelAutoMerge a,
       f_Comment = gh_Comment a, f_EnsureRepoSetup = gh_EnsureRepoSetup a,
       f_MergeInto = gh_MergeInto a, f_FastForward = gh_FastForward a,
       f_ClosePR = gh_ClosePR a, f_StackMerges = None\<rparr>)"

subsection \<open>The check run cache\<close>

text \<open>A run of the adapter: its operations in any order, the refreshes of the App, and GitHub
  changing on its own.\<close>

inductive gh_step :: "'g gh_app \<Rightarrow> 'g github \<Rightarrow> 'g github \<Rightarrow> bool" for a :: "'g gh_app" where
  outside: "gh_step a s (s\<lparr>gs_net := g\<rparr>)"
| refresh: "run_state (Refresh a) s = (u, s') \<Longrightarrow> gh_step a s s'"
| hook: "run_state (SyncHookConfig a url secret) s = (u, s') \<Longrightarrow> gh_step a s s'"
| list: "run_state (gh_ListOpenPRs a ow nm) s = (prs, s') \<Longrightarrow> gh_step a s s'"
| get: "run_state (gh_GetPR a ow nm n) s = (pr, s') \<Longrightarrow> gh_step a s s'"
| status: "run_state (gh_SetMQStatus a ow nm sha st) s = (u, s') \<Longrightarrow> gh_step a s s'"
| mirror: "run_state (gh_MirrorCheck a ow nm sha ctx c) s = (u, s') \<Longrightarrow> gh_step a s s'"
| required: "run_state (gh_GetRequiredChecks a ow nm b) s = (cs, s') \<Longrightarrow> gh_step a s s'"
| states: "run_state (gh_GetCheckStates a ow nm sha) s = (ck, s') \<Longrightarrow> gh_step a s s'"
| branch: "run_state (gh_CreateMergeBranch a ow nm base sha b) s = (m, s') \<Longrightarrow> gh_step a s s'"
| merge: "run_state (gh_MergeInto a ow nm b sha) s = (m, s') \<Longrightarrow> gh_step a s s'"
| forward: "run_state (gh_FastForward a ow nm b sha) s = (u, s') \<Longrightarrow> gh_step a s s'"
| close: "run_state (gh_ClosePR a ow nm n) s = (u, s') \<Longrightarrow> gh_step a s s'"
| compare: "run_state (gh_IsUpToDate a ow nm base sha) s = (d, s') \<Longrightarrow> gh_step a s s'"
| delete: "run_state (gh_DeleteBranch a ow nm b) s = (u, s') \<Longrightarrow> gh_step a s s'"
| branches: "run_state (gh_ListBranches a ow nm) s = (bs, s') \<Longrightarrow> gh_step a s s'"
| cancel: "run_state (gh_CancelAutoMerge a ow nm n) s = (u, s') \<Longrightarrow> gh_step a s s'"
| comment: "run_state (gh_Comment a ow nm n body) s = (u, s') \<Longrightarrow> gh_step a s s'"
| repo_setup: "run_state (gh_EnsureRepoSetup a ow nm cfg) s = (u, s') \<Longrightarrow> gh_step a s s'"

text \<open>An id in the cache is never replaced or forgotten.\<close>

definition ids_kept :: "'g github \<Rightarrow> 'g github \<Rightarrow> bool" where
  "ids_kept s s' \<longleftrightarrow> map_of (gs_checkRuns s) \<subseteq>\<^sub>m map_of (gs_checkRuns s')"

lemma ids_kept_po [io_intros, simp]: "po_rel ids_kept"
  by (auto simp: ids_kept_def po_rel_def intro: map_le_trans)

lemma io_in_github [io_intros]: "state_io_rel ids_kept (in_github m)"
  by (auto simp: in_github_def state_io_rel_def ids_kept_def split: prod.splits)

lemma io_client [io_intros]:
  "state_io_rel ids_kept (installationClient a i)"
  "state_io_rel ids_kept (ClientForRepo a ow nm)"
proof -
  show i: "state_io_rel ids_kept (installationClient a i)" for i
    unfolding installationClient_def
    by (intro io_intros) (auto simp: state_io_rel_def ids_kept_def)
  show "state_io_rel ids_kept (ClientForRepo a ow nm)"
    unfolding ClientForRepo_def by (intro io_intros i)
qed

lemma io_with_client [io_intros]:
  "(\<And>api c. state_io_rel ids_kept (f api c)) \<Longrightarrow> state_io_rel ids_kept (with_client a ow nm f)"
  unfolding with_client_def by (intro io_intros)

lemma io_refresh [io_intros]:
  "state_io_rel ids_kept (refresh_installations a ids e m)"
  "state_io_rel ids_kept (Refresh a)"
proof -
  show r: "state_io_rel ids_kept (refresh_installations a ids e m)" for ids e m
    by (induction ids arbitrary: m) (auto intro!: io_intros)
  show "state_io_rel ids_kept (Refresh a)"
    unfolding Refresh_def by (intro io_intros r) (auto simp: state_io_rel_def ids_kept_def)
qed

lemma in_github_cache: "run_state (in_github m) s = (r, s') \<Longrightarrow> gs_checkRuns s' = gs_checkRuns s"
  by (auto simp: in_github_def split: prod.splits)

lemma known_run_cases:
  assumes "run_state (known_run api c owner name sha checkName) s = (r, s')"
  shows "gs_checkRuns s' = gs_checkRuns s"
    and "map_of (gs_checkRuns s) (owner @ ''/'' @ name, sha, checkName) = Some i \<Longrightarrow> r = Inr (Some i) \<and> s' = s"
  using assms
  by (auto simp: known_run_def checkRuns_get_def on_ok_def
      split: option.splits prod.splits sum.splits dest!: in_github_cache)

lemma put_run_result:
  assumes "run_state (put_run api c owner name sha opts run) s = (r, s')"
    "map_of (gs_checkRuns s) (owner @ ''/'' @ name, sha, ho_Name opts) \<in> {None, run}"
  shows "ids_kept s s'"
    and "r = Inr () \<Longrightarrow> \<exists>i. map_of (gs_checkRuns s') (owner @ ''/'' @ name, sha, ho_Name opts) = Some i"
  using assms
  by (auto simp: put_run_def on_ok_def checkRuns_set_def ids_kept_def map_le_def update_conv
      split: option.splits sum.splits prod.splits dest!: in_github_cache)

lemma put_known_run:
  assumes "run_state (on_ok (known_run api c owner name sha (ho_Name opts)) (put_run api c owner name sha opts)) s = (r, s')"
  shows "ids_kept s s'"
    and "r = Inr () \<Longrightarrow> \<exists>i. map_of (gs_checkRuns s') (owner @ ''/'' @ name, sha, ho_Name opts) = Some i"
proof -
  obtain k v where k: "run_state (known_run api c owner name sha (ho_Name opts)) s = (k, v)" by fastforce
  note kn = known_run_cases[OF k]
  have "ids_kept s s' \<and> (r = Inr () \<longrightarrow>
      (\<exists>i. map_of (gs_checkRuns s') (owner @ ''/'' @ name, sha, ho_Name opts) = Some i))"
  proof (cases k)
    case (Inl e)
    with assms k kn(1) show ?thesis by (auto simp: on_ok_def ids_kept_def)
  next
    case (Inr run)
    with assms k have p: "run_state (put_run api c owner name sha opts run) v = (r, s')" by (simp add: on_ok_def)
    have m: "map_of (gs_checkRuns v) (owner @ ''/'' @ name, sha, ho_Name opts) \<in> {None, run}"
      using kn(2) Inr kn(1) by (cases "map_of (gs_checkRuns s) (owner @ ''/'' @ name, sha, ho_Name opts)") auto
    from put_run_result[OF p m] kn(1) show ?thesis by (auto simp: ids_kept_def)
  qed
  then show "ids_kept s s'"
    and "r = Inr () \<Longrightarrow> \<exists>i. map_of (gs_checkRuns s') (owner @ ''/'' @ name, sha, ho_Name opts) = Some i"
    by auto
qed

lemma run_options_name [simp]: "ho_Name (run_options checkName st c sm u) = checkName"
  by (simp add: run_options_def)

lemmas put_named = put_known_run[where opts = "run_options n st c sm u" for n st c sm u,
  unfolded run_options_name]

lemma upsert_kept [io_intros]: "state_io_rel ids_kept (upsertCheckRun a ow nm sha name st c sm u)"
  unfolding upsertCheckRun_def
  by (intro io_with_client state_io_relI)
    (erule put_named(1))

lemma upsert_cached:
  assumes "run_state (upsertCheckRun a ow nm sha name st c sm u) s = (Inr (), s')"
  shows "\<exists>i. map_of (gs_checkRuns s') (ow @ ''/'' @ nm, sha, name) = Some i"
proof -
  obtain k v where k: "run_state (ClientForRepo a ow nm) s = (k, v)" by fastforce
  with assms obtain cl where "k = Inr cl" by (cases k) (auto simp: upsertCheckRun_def with_client_def on_ok_def)
  with assms k have "run_state (on_ok (known_run (ap_API a) cl ow nm sha name)
      (put_run (ap_API a) cl ow nm sha (run_options name st c sm u))) v = (Inr (), s')"
    by (simp add: upsertCheckRun_def with_client_def on_ok_def[of "ClientForRepo a ow nm"])
  from put_named(2)[OF this] show ?thesis by simp
qed

lemma io_gh_ops [io_intros]:
  "state_io_rel ids_kept (SyncHookConfig a url secret)"
  "state_io_rel ids_kept (gh_ListOpenPRs a ow nm)"
  "state_io_rel ids_kept (gh_GetPR a ow nm n)"
  "state_io_rel ids_kept (gh_SetMQStatus a ow nm sha st)"
  "state_io_rel ids_kept (gh_MirrorCheck a ow nm sha ctx ck)"
  "state_io_rel ids_kept (gh_GetRequiredChecks a ow nm b)"
  "state_io_rel ids_kept (gh_GetCheckStates a ow nm sha)"
  "state_io_rel ids_kept (gh_CreateMergeBranch a ow nm base sha b)"
  "state_io_rel ids_kept (gh_MergeInto a ow nm b sha)"
  "state_io_rel ids_kept (gh_FastForward a ow nm b sha)"
  "state_io_rel ids_kept (gh_ClosePR a ow nm n)"
  "state_io_rel ids_kept (gh_IsUpToDate a ow nm base sha)"
  "state_io_rel ids_kept (gh_DeleteBranch a ow nm b)"
  "state_io_rel ids_kept (gh_ListBranches a ow nm)"
  "state_io_rel ids_kept (gh_CancelAutoMerge a ow nm n)"
  "state_io_rel ids_kept (gh_Comment a ow nm n body)"
  "state_io_rel ids_kept (gh_EnsureRepoSetup a ow nm cfg)"
  unfolding SyncHookConfig_def gh_ListOpenPRs_def gh_GetPR_def gh_SetMQStatus_def gh_MirrorCheck_def
    gh_GetRequiredChecks_def gh_GetCheckStates_def gh_CreateMergeBranch_def make_branch_def mergeHead_def
    gh_MergeInto_def gh_FastForward_def gh_ClosePR_def gh_IsUpToDate_def gh_DeleteBranch_def
    gh_ListBranches_def gh_CancelAutoMerge_def gh_Comment_def gh_EnsureRepoSetup_def ensure_ruleset_def Let_def
  by (intro io_intros)+

lemma gh_steps_kept: "(gh_step a)\<^sup>*\<^sup>* s s' \<Longrightarrow> ids_kept s s'"
proof (induction rule: rtranclp_induct)
  case base
  then show ?case by (simp add: ids_kept_def)
next
  case (step t v)
  from step(2) have "ids_kept t v"
    by cases (auto intro: state_io_relD[rotated] io_gh_ops io_refresh simp: ids_kept_def[of _ "_\<lparr>gs_net := _\<rparr>"])
  with step(3) show ?case by (auto simp: ids_kept_def intro: map_le_trans)
qed

end
