(* ===== verification/EtagCache.thy ===== *)
theory EtagCache
  imports Prelude Errors "HOL-Library.AList"
begin

text \<open>
  \<open>internal/github/etagcache.go\<close>: the transport that revalidates GET responses. The transport
  below is a parameter \<open>next\<close> over its own state; the state of the cache is that state with the
  map of entries. A header is the map of its canonical keys to their values. A body is what
  reading it yields, the text or an error. The protocol version of a rebuilt response and the
  request it carries are left out.
\<close>

subsection \<open>Requests and responses\<close>

definition StatusOK :: int where
  "StatusOK = 200"

definition StatusNotModified :: int where
  "StatusNotModified = 304"

type_synonym http_header = "(string \<times> string list) list"

record http_req =
  rq_Method :: string
  rq_URL :: string
  rq_Header :: http_header
  rq_Body :: string

record http_resp =
  re_Status :: string
  re_StatusCode :: int
  re_Header :: http_header
  re_Body :: "error + string"

text \<open>\<open>http.CanonicalHeaderKey\<close>: a key with a byte that is no token character stays as it is.\<close>

definition header_byte :: "char \<Rightarrow> bool" where
  "header_byte c \<longleftrightarrow> (let n = (of_char c :: nat) in
     48 \<le> n \<and> n \<le> 57 \<or> 65 \<le> n \<and> n \<le> 90 \<or> 97 \<le> n \<and> n \<le> 122 \<or> n \<in> {33, 35, 36, 37, 38, 39, 42, 43, 45, 46, 94, 95, 96, 124, 126})"

definition upper_char :: "char \<Rightarrow> char" where
  "upper_char c = (let n = (of_char c :: nat) in if 97 \<le> n \<and> n \<le> 122 then char_of (n - 32) else c)"

fun canonical_bytes :: "bool \<Rightarrow> string \<Rightarrow> string" where
  "canonical_bytes upper [] = []"
| "canonical_bytes upper (c # cs) =
     (if upper then upper_char c else lower_char c) # canonical_bytes (c = CHR ''-'') cs"

definition CanonicalHeaderKey :: "string \<Rightarrow> string" where
  "CanonicalHeaderKey k = (if list_all header_byte k then canonical_bytes True k else k)"

definition header_get :: "string \<Rightarrow> http_header \<Rightarrow> string" where
  "header_get k h = (case map_of h (CanonicalHeaderKey k) of Some (v # _) \<Rightarrow> v | _ \<Rightarrow> [])"

definition header_set :: "string \<Rightarrow> string \<Rightarrow> http_header \<Rightarrow> http_header" where
  "header_set k v = AList.update (CanonicalHeaderKey k) [v]"

text \<open>\<open>http.StatusText\<close>; only responses with status 200 are stored.\<close>

definition StatusText :: "int \<Rightarrow> string" where
  "StatusText n = (if n = StatusOK then ''OK'' else [])"

subsection \<open>The cache\<close>

record etagEntry =
  et_etag :: string
  et_body :: string
  et_header :: http_header
  et_status :: int

type_synonym etag_entries = "(string \<times> etagEntry) list"

record 'h transport =
  tr_net :: 'h
  tr_entries :: etag_entries

definition newETagCache :: "'h \<Rightarrow> 'h transport" where
  "newETagCache h = \<lparr>tr_net = h, tr_entries = []\<rparr>"

definition on_net :: "('h, 'a) state \<Rightarrow> ('h transport, 'a) state" where
  "on_net m = State (\<lambda>s. case run_state m (tr_net s) of (a, h) \<Rightarrow> (a, s\<lparr>tr_net := h\<rparr>))"

definition cacheKey :: "http_req \<Rightarrow> string" where
  "cacheKey req = rq_Method req @ '' '' @ rq_URL req @ '' '' @ header_get ''Accept'' (rq_Header req)"

definition etag_get :: "string \<Rightarrow> ('h transport, etagEntry option) state" where
  "etag_get key = gets (\<lambda>s. map_of (tr_entries s) key)"

definition etag_put :: "nat \<Rightarrow> string \<Rightarrow> etagEntry \<Rightarrow> etag_entries \<Rightarrow> etag_entries" where
  "etag_put maxSize key e entries =
     AList.update key e (if length entries \<ge> maxSize then [] else entries)"

text \<open>A rebuilt response: the cached one with the rate limit headers of the live one.\<close>

definition overlay_header :: "http_header \<Rightarrow> http_header \<Rightarrow> http_header" where
  "overlay_header live h = fold (\<lambda>(k, v) h.
     if has_prefix (CanonicalHeaderKey k) ''X-Ratelimit'' then AList.update (CanonicalHeaderKey k) v h
     else h) live h"

definition entry_response :: "etagEntry \<Rightarrow> http_header \<Rightarrow> http_resp" where
  "entry_response e live =
     \<lparr>re_Status = StatusText (et_status e), re_StatusCode = et_status e,
      re_Header = overlay_header live (et_header e), re_Body = Inr (et_body e)\<rparr>"

text \<open>What follows the exchange: the answer \<open>resp\<close> to a request whose entry was \<open>cached\<close>.\<close>

definition store_answer ::
  "nat \<Rightarrow> string \<Rightarrow> etagEntry option \<Rightarrow> http_resp \<Rightarrow> ('h transport, error + http_resp) state" where
  "store_answer maxSize key cached resp =
     (case (cached, re_StatusCode resp = StatusNotModified) of
        (Some e, True) \<Rightarrow> ret (Inr (entry_response e (re_Header resp)))
      | _ \<Rightarrow>
        (let etag = header_get ''ETag'' (re_Header resp) in
         if re_StatusCode resp = StatusOK \<and> etag \<noteq> [] then
           (case re_Body resp of
              Inl readErr \<Rightarrow> ret (Inl readErr)
            | Inr body \<Rightarrow> do {
                modifies (\<lambda>s. s\<lparr>tr_entries := etag_put maxSize key
                  \<lparr>et_etag = etag, et_body = body, et_header = re_Header resp,
                   et_status = re_StatusCode resp\<rparr> (tr_entries s)\<rparr>);
                ret (Inr (resp\<lparr>re_Body := Inr body\<rparr>)) })
         else ret (Inr resp)))"

definition conditional :: "etagEntry option \<Rightarrow> http_req \<Rightarrow> http_req" where
  "conditional cached req = (case cached of
      None \<Rightarrow> req
    | Some e \<Rightarrow> req\<lparr>rq_Header := header_set ''If-None-Match'' (et_etag e) (rq_Header req)\<rparr>)"

definition RoundTrip ::
  "(http_req \<Rightarrow> ('h, error + http_resp) state) \<Rightarrow> nat \<Rightarrow> http_req \<Rightarrow>
     ('h transport, error + http_resp) state" where
  "RoundTrip next maxSize req =
     (if rq_Method req \<noteq> ''GET'' then on_net (next req)
      else let key = cacheKey req in do {
        cached \<leftarrow> etag_get key;
        on_ok (on_net (next (conditional cached req))) (store_answer maxSize key cached) })"

subsection \<open>What the cache holds\<close>

text \<open>
  The documented behaviour of conditional requests, for a server whose unconditional answer in
  state \<open>h\<close> is \<open>repr h req\<close>: an answer is that one, or 304 for a request whose
  \<open>If-None-Match\<close> is the ETag of that one; a request without a condition is never answered by
  304; and an ETag identifies one body among all answers, at any time, that share a cache key.
\<close>

definition condition_of :: "http_req \<Rightarrow> string" where
  "condition_of req = header_get ''If-None-Match'' (rq_Header req)"

definition unconditional :: "http_req \<Rightarrow> http_req" where
  "unconditional req = req\<lparr>rq_Header := AList.delete ''If-None-Match'' (rq_Header req)\<rparr>"

definition honest ::
  "(http_req \<Rightarrow> ('h, error + http_resp) state) \<Rightarrow> ('h \<Rightarrow> http_req \<Rightarrow> http_resp) \<Rightarrow> bool" where
  "honest next repr \<longleftrightarrow>
     (\<forall>h req res h'. run_state (next req) h = (Inr res, h') \<longrightarrow>
        res = repr h (unconditional req) \<or>
        re_StatusCode res = StatusNotModified \<and>
          re_StatusCode (repr h (unconditional req)) = StatusOK \<and> condition_of req \<noteq> [] \<and>
          header_get ''ETag'' (re_Header (repr h (unconditional req))) = condition_of req) \<and>
     (\<forall>h req. re_StatusCode (repr h req) \<noteq> StatusNotModified) \<and>
     (\<forall>h1 h2 r1 r2. cacheKey r1 = cacheKey r2 \<longrightarrow>
        re_StatusCode (repr h1 r1) = StatusOK \<longrightarrow> re_StatusCode (repr h2 r2) = StatusOK \<longrightarrow>
        header_get ''ETag'' (re_Header (repr h1 r1)) = header_get ''ETag'' (re_Header (repr h2 r2)) \<longrightarrow>
        header_get ''ETag'' (re_Header (repr h1 r1)) \<noteq> [] \<longrightarrow>
        re_Body (repr h1 r1) = re_Body (repr h2 r2))"

lemma honest_unique:
  "honest next repr \<Longrightarrow> cacheKey r1 = cacheKey r2 \<Longrightarrow> re_StatusCode (repr h1 r1) = StatusOK \<Longrightarrow>
     re_StatusCode (repr h2 r2) = StatusOK \<Longrightarrow>
     header_get ''ETag'' (re_Header (repr h1 r1)) = header_get ''ETag'' (re_Header (repr h2 r2)) \<Longrightarrow>
     header_get ''ETag'' (re_Header (repr h1 r1)) \<noteq> [] \<Longrightarrow> re_Body (repr h1 r1) = re_Body (repr h2 r2)"
  unfolding honest_def by blast

text \<open>An entry is an answer the server once gave to a request with the key of the entry.\<close>

definition entry_true :: "('h \<Rightarrow> http_req \<Rightarrow> http_resp) \<Rightarrow> string \<Rightarrow> etagEntry \<Rightarrow> bool" where
  "entry_true repr key e \<longleftrightarrow> et_status e = StatusOK \<and> et_etag e \<noteq> [] \<and>
     (\<exists>h req. cacheKey req = key \<and> re_StatusCode (repr h req) = StatusOK \<and>
        header_get ''ETag'' (re_Header (repr h req)) = et_etag e \<and> re_Body (repr h req) = Inr (et_body e))"

definition entries_true :: "('h \<Rightarrow> http_req \<Rightarrow> http_resp) \<Rightarrow> nat \<Rightarrow> etag_entries \<Rightarrow> bool" where
  "entries_true repr maxSize entries \<longleftrightarrow> length entries \<le> max 1 maxSize \<and>
     (\<forall>(key, e) \<in> set entries. entry_true repr key e)"

lemma inm_key: "CanonicalHeaderKey ''If-None-Match'' = ''If-None-Match''" "CanonicalHeaderKey ''Accept'' = ''Accept''"
  "CanonicalHeaderKey ''ETag'' = ''Etag''"
  by code_simp+

lemma header_get_set:
  "header_get ''If-None-Match'' (header_set ''If-None-Match'' v h) = v"
  "header_get ''Accept'' (header_set ''If-None-Match'' v h) = header_get ''Accept'' h"
  by (simp_all add: header_get_def header_set_def inm_key update_conv)

lemma header_get_delete:
  "header_get ''Accept'' (AList.delete ''If-None-Match'' h) = header_get ''Accept'' h"
  by (simp add: header_get_def inm_key delete_conv)

lemma condition_of_conditional: "condition_of (conditional (Some e) req) = et_etag e"
  by (simp add: condition_of_def conditional_def header_get_set)

lemma conditional_simps:
  "unconditional (conditional cached req) = unconditional req"
  "cacheKey (unconditional req) = cacheKey req"
  by (auto simp: unconditional_def conditional_def cacheKey_def condition_of_def header_get_delete
      header_get_set header_set_def inm_key delete_update_same split: option.splits)

lemma length_update: "length (AList.update k v al) \<le> Suc (length al)"
  by (induction al) auto

lemma set_update: "x \<in> set (AList.update k v al) \<Longrightarrow> x = (k, v) \<or> x \<in> set al"
  by (induction al) (auto split: if_splits)

lemma entries_true_put:
  assumes "entries_true repr maxSize entries" "entry_true repr key e"
  shows "entries_true repr maxSize (etag_put maxSize key e entries)"
proof -
  let ?old = "if length entries \<ge> maxSize then [] else entries"
  have "length (AList.update key e ?old) \<le> max 1 maxSize"
    using length_update[of key e ?old] by (auto split: if_splits)
  moreover have "entry_true repr k x" if "(k, x) \<in> set (AList.update key e ?old)" for k x
    using set_update[OF that] assms by (auto simp: entries_true_def split: if_splits)
  ultimately show ?thesis by (auto simp: entries_true_def etag_put_def)
qed

lemma run_on_net:
  "run_state (on_net m) s = (fst (run_state m (tr_net s)), s\<lparr>tr_net := snd (run_state m (tr_net s))\<rparr>)"
  by (simp add: on_net_def split: prod.splits)

text \<open>A request: the answer is the server's and the cache stays true.\<close>

lemma store_answer_true:
  assumes honest: "honest next repr" and inv: "entries_true repr maxSize (tr_entries s1)"
    and cached: "cached = map_of (tr_entries s1) (cacheKey req)"
    and answer: "run_state (next (conditional cached req)) h = (Inr resp, h')"
    and run: "run_state (store_answer maxSize (cacheKey req) cached resp) s1 = (r, s')"
  shows "entries_true repr maxSize (tr_entries s') \<and>
    (condition_of req = [] \<longrightarrow> (\<forall>res. r = Inr res \<longrightarrow>
       re_StatusCode res = re_StatusCode (repr h (unconditional req)) \<and>
       re_Body res = re_Body (repr h (unconditional req))))"
proof -
  let ?U = "repr h (unconditional req)" and ?key = "cacheKey req"
  have U: "re_StatusCode ?U \<noteq> StatusNotModified" using honest by (simp add: honest_def)
  consider (same) "resp = ?U" | (fresh) "re_StatusCode resp = StatusNotModified" "re_StatusCode ?U = StatusOK"
      "condition_of (conditional cached req) \<noteq> []"
      "header_get ''ETag'' (re_Header ?U) = condition_of (conditional cached req)"
    using honest answer unfolding honest_def by (metis conditional_simps(1))
  then show ?thesis
  proof cases
    case same
    show ?thesis
    proof (cases "re_StatusCode ?U = StatusOK \<and> header_get ''ETag'' (re_Header ?U) \<noteq> []")
      case True
      show ?thesis
      proof (cases "re_Body ?U")
        case (Inl e)
        with run True U same inv show ?thesis by (auto simp: store_answer_def Let_def split: option.splits)
      next
        case (Inr body)
        let ?e = "\<lparr>et_etag = header_get ''ETag'' (re_Header ?U), et_body = body, et_header = re_Header ?U,
          et_status = re_StatusCode ?U\<rparr>"
        have "entry_true repr ?key ?e"
          using True Inr conditional_simps(2)[of req] by (auto simp: entry_true_def)
        from entries_true_put[OF inv this] run True U same Inr show ?thesis
          by (auto simp: store_answer_def Let_def split: option.splits)
      qed
    next
      case False
      with run U same inv show ?thesis by (auto simp: store_answer_def Let_def split: option.splits)
    qed
  next
    case fresh
    show ?thesis
    proof (cases cached)
      case None
      with fresh run inv show ?thesis
        by (auto simp: store_answer_def Let_def conditional_def StatusOK_def StatusNotModified_def)
    next
      case (Some e)
      with cached have "(?key, e) \<in> set (tr_entries s1)" by (metis map_of_SomeD)
      with inv have e: "entry_true repr ?key e" by (auto simp: entries_true_def)
      then obtain h0 r0 where r0: "cacheKey r0 = ?key" "re_StatusCode (repr h0 r0) = StatusOK"
          "header_get ''ETag'' (re_Header (repr h0 r0)) = et_etag e" "re_Body (repr h0 r0) = Inr (et_body e)"
          "et_etag e \<noteq> []" "et_status e = StatusOK"
        by (auto simp: entry_true_def)
      have "re_Body (repr h0 r0) = re_Body ?U"
        by (rule honest_unique[OF honest])
          (use r0 fresh(2,4) Some condition_of_conditional conditional_simps(2)[of req] in simp_all)
      with fresh run inv r0 Some show ?thesis
        by (auto simp: store_answer_def entry_response_def)
    qed
  qed
qed

lemma RoundTrip_true:
  assumes honest: "honest next repr" and inv: "entries_true repr maxSize (tr_entries s)"
    and run: "run_state (RoundTrip next maxSize req) s = (r, s')"
  shows "entries_true repr maxSize (tr_entries s') \<and>
    (condition_of req = [] \<longrightarrow> (\<forall>res. r = Inr res \<longrightarrow>
       re_StatusCode res = re_StatusCode (repr (tr_net s) (unconditional req)) \<and>
       re_Body res = re_Body (repr (tr_net s) (unconditional req))))"
proof (cases "rq_Method req = ''GET''")
  case False
  obtain a h' where "run_state (next req) (tr_net s) = (a, h')" by fastforce
  with run False inv honest show ?thesis
    by (auto simp: RoundTrip_def run_on_net honest_def)
next
  case True
  define cached where "cached = map_of (tr_entries s) (cacheKey req)"
  obtain a h' where a: "run_state (next (conditional cached req)) (tr_net s) = (a, h')" by fastforce
  show ?thesis
  proof (cases a)
    case (Inl e)
    with run True a inv show ?thesis
      by (auto simp add: RoundTrip_def run_on_net on_ok_def Let_def etag_get_def cached_def)
  next
    case (Inr resp)
    let ?s1 = "s\<lparr>tr_net := h'\<rparr>"
    have "run_state (store_answer maxSize (cacheKey req) cached resp) ?s1 = (r, s')"
      using run True a Inr by (simp add: RoundTrip_def run_on_net on_ok_def Let_def etag_get_def cached_def)
    from store_answer_true[OF honest _ _ a[unfolded Inr] this] inv show ?thesis
      by (simp add: cached_def)
  qed
qed

subsection \<open>Runs\<close>

text \<open>Requests are answered through the cache while the server changes on its own.\<close>

inductive etag_reach ::
  "(http_req \<Rightarrow> ('h, error + http_resp) state) \<Rightarrow> nat \<Rightarrow> 'h transport \<Rightarrow> bool"
  for nxt :: "http_req \<Rightarrow> ('h, error + http_resp) state" and maxSize :: nat where
  start: "etag_reach nxt maxSize (newETagCache h)"
| outside: "etag_reach nxt maxSize s \<Longrightarrow> etag_reach nxt maxSize (s\<lparr>tr_net := h\<rparr>)"
| request: "etag_reach nxt maxSize s \<Longrightarrow> run_state (RoundTrip nxt maxSize req) s = (r, s') \<Longrightarrow>
    etag_reach nxt maxSize s'"

lemma etag_reach_true:
  assumes "etag_reach nxt maxSize s" "honest nxt repr"
  shows "entries_true repr maxSize (tr_entries s)"
  using assms
proof (induction rule: etag_reach.induct)
  case (request s req r s')
  then show ?case using RoundTrip_true by blast
qed (simp_all add: newETagCache_def entries_true_def)

end
