(* ===== verification/GithubProps.thy ===== *)
theory GithubProps
  imports GithubForge EtagCache
begin

text \<open>
  Properties of the GitHub adapter: the cache of its transport is transparent, a status updates the
  check run it wrote before, and the checks it reports are ones the queue can store.
\<close>

subsection \<open>The transport\<close>








subsection \<open>Check runs\<close>

text \<open>C25. One check run per name and commit. Once a status was written for a name on a commit, its
  run is known by an id that nothing the adapter does replaces or forgets, however GitHub, the
  installations and the other statuses evolve; every later status of that name on that commit is
  exactly one update of this run: no second run is created, and none is searched for.\<close>

theorem upsert_updates:
  assumes "run_state (upsertCheckRun a ow nm sha name st c sm u) s = (Inr (), s1)"
    "(gh_step a)\<^sup>*\<^sup>* s1 s2"
  shows "\<exists>i. map_of (gs_checkRuns s1) (ow @ ''/'' @ nm, sha, name) = Some i \<and>
    run_state (upsertCheckRun a ow nm sha name st' c' sm' u') s2 =
    run_state (with_client a ow nm (\<lambda>api cl.
      on_ok (in_github (ha_UpdateCheckRun api cl ow nm i (run_options name st' c' sm' u'))) (\<lambda>_. do {
        checkRuns_set (ow @ ''/'' @ nm) sha name i;
        ret (Inr ()) }))) s2"
proof -
  let ?key = "(ow @ ''/'' @ nm, sha, name)"
  from upsert_cached[OF assms(1)] obtain i where i: "map_of (gs_checkRuns s1) ?key = Some i" by blast
  obtain k v where k: "run_state (ClientForRepo a ow nm) s2 = (k, v)" by fastforce
  have "ids_kept s1 v"
    using gh_steps_kept[OF assms(2)] state_io_relD[OF io_client(2) k]
    by (auto simp: ids_kept_def intro: map_le_trans)
  with i have key: "map_of (gs_checkRuns v) ?key = Some i"
    unfolding ids_kept_def map_le_def by (metis domI)
  have known: "run_state (known_run (ap_API a) cl ow nm sha name) v = (Inr (Some i), v)" for cl
    using key by (simp add: known_run_def checkRuns_get_def)
  have "run_state (upsertCheckRun a ow nm sha name st' c' sm' u') s2 =
    run_state (with_client a ow nm (\<lambda>api cl.
      on_ok (in_github (ha_UpdateCheckRun api cl ow nm i (run_options name st' c' sm' u'))) (\<lambda>_. do {
        checkRuns_set (ow @ ''/'' @ nm) sha name i;
        ret (Inr ()) }))) s2"
    using k known
    by (cases k) (simp_all add: upsertCheckRun_def with_client_def on_ok_def[of "ClientForRepo a ow nm"]
        on_ok_def[of "known_run _ _ _ _ _ _"] put_run_def)
  with i show ?thesis by blast
qed

text \<open>The fixture: a GitHub that only knows check runs, as the list of their ids and names.\<close>

definition runs_api :: "(int \<times> string) list gh_api" where
  "runs_api =
     \<lparr>ha_ListInstallations = ret ([7], None), ha_ListRepos = (\<lambda>_. ret ([''org/app''], None)),
      ha_UpdateHookConfig = (\<lambda>_ _ _. ret (Inr ())), ha_ListPulls = (\<lambda>_ _ _. ret ([], None)),
      ha_GetPull = (\<lambda>_ _ _ _. ret (Inl (PlainError ''none''))), ha_EditPullState = (\<lambda>_ _ _ _ _. ret (Inr ())),
      ha_RulesForBranch = (\<lambda>_ _ _ _. ret (Inr [[''ci''], [''gitea-mq'']])),
      ha_IterCheckRuns = (\<lambda>_ _ _ _. ret ([], None)),
      ha_ListCheckRuns = (\<lambda>_ _ _ _ name. State (\<lambda>g. (Inr (map (\<lambda>(i, n).
        \<lparr>hk_ID = Some i, hk_Name = Some n, hk_Status = None, hk_Conclusion = None, hk_Summary = None,
         hk_DetailsURL = None\<rparr>) (filter (\<lambda>(_, n). n = name) g)), g))),
      ha_UpdateCheckRun = (\<lambda>_ _ _ _ _. ret (Inr ())),
      ha_CreateCheckRun = (\<lambda>_ _ _ _ opts. State (\<lambda>g. (let i = int (length g) + 1 in
        (Inr \<lparr>hk_ID = Some i, hk_Name = Some (ho_Name opts), hk_Status = None, hk_Conclusion = None,
          hk_Summary = None, hk_DetailsURL = None\<rparr>, g @ [(i, ho_Name opts)])))),
      ha_IterStatuses = (\<lambda>_ _ _ _. ret ([], None)), ha_GetRef = (\<lambda>_ _ _ _. ret (Inr None)),
      ha_CreateRef = (\<lambda>_ _ _ _ _. ret (Inr ())), ha_UpdateRef = (\<lambda>_ _ _ _ _ _. ret (Inr (), Some 200)),
      ha_DeleteRef = (\<lambda>_ _ _ _. ret (Inr (), Some 204)), ha_Merge = (\<lambda>_ _ _ _ _. ret (Inr None, Some 204)),
      ha_Compare = (\<lambda>_ _ _ _ _. ret (Inr (Some 0))), ha_IterBranches = (\<lambda>_ _ _. ret ([], None)),
      ha_PostGraphQL = (\<lambda>_ _ _. ret (Inr ''{}'')), ha_CreateComment = (\<lambda>_ _ _ _ _. ret (Inr ())),
      ha_AllowAutoMerge = (\<lambda>_ _ _ _. ret (Inr (), Some 200)),
      ha_AllRulesets = (\<lambda>_ _ _. ret (Inr [], Some 200)), ha_CreateRuleset = (\<lambda>_ _ _ _. ret (Inr (), Some 201))\<rparr>"

definition runs_app :: "(int \<times> string) list gh_app" where
  "runs_app = \<lparr>ap_AppID = 42, ap_BaseURL = DefaultBaseURL, ap_Enterprise = (\<lambda>_. None), ap_API = runs_api\<rparr>"

definition runs_start :: "(int \<times> string) list github" where
  "runs_start = snd (run_state (Refresh runs_app) (new_github []))"

definition runs_written :: "(int \<times> string) list github" where
  "runs_written = snd (run_state (upsertCheckRun runs_app ''org'' ''app'' ''abc'' ''gitea-mq''
     ''in_progress'' [] ''Queued'' []) runs_start)"

theorem upsert_updates_witness:
  "gs_net runs_written = [(1, ''gitea-mq'')] \<and>
   gs_net (snd (run_state (upsertCheckRun runs_app ''org'' ''app'' ''abc'' ''gitea-mq'' ''completed''
     ''success'' ''Merged'' []) runs_written)) = [(1, ''gitea-mq'')]"
proof -
  have net: "gs_net runs_written = [(1, ''gitea-mq'')]" by code_simp
  have "\<not> isl (fst (run_state (upsertCheckRun runs_app ''org'' ''app'' ''abc'' ''gitea-mq''
     ''in_progress'' [] ''Queued'' []) runs_start))"
    by code_simp
  then have first: "run_state (upsertCheckRun runs_app ''org'' ''app'' ''abc'' ''gitea-mq''
     ''in_progress'' [] ''Queued'' []) runs_start = (Inr (), runs_written)"
    by (rule run_Inr) (simp add: runs_written_def)
  have update: "snd (run_state (ha_UpdateCheckRun (ap_API runs_app) cl ow nm i opts) g) = g" for cl ow nm i opts g
    by (simp add: runs_app_def runs_api_def)
  have client: "gs_net (snd (run_state (ClientForRepo runs_app ow nm) s)) = gs_net s" for ow nm s
    by (auto simp: ClientForRepo_def installationClient_def runs_app_def newClient_def split: option.splits)
  obtain i where "run_state (upsertCheckRun runs_app ''org'' ''app'' ''abc'' ''gitea-mq'' ''completed''
      ''success'' ''Merged'' []) runs_written =
    run_state (with_client runs_app ''org'' ''app'' (\<lambda>api cl.
      on_ok (in_github (ha_UpdateCheckRun api cl ''org'' ''app'' i
        (run_options ''gitea-mq'' ''completed'' ''success'' ''Merged'' []))) (\<lambda>_. do {
        checkRuns_set (''org'' @ ''/'' @ ''app'') ''abc'' ''gitea-mq'' i;
        ret (Inr ()) }))) runs_written"
    using upsert_updates[OF first rtranclp.rtrancl_refl] by blast
  moreover have "gs_net (snd (run_state (with_client runs_app ''org'' ''app'' (\<lambda>api cl.
      on_ok (in_github (ha_UpdateCheckRun api cl ''org'' ''app'' i
        (run_options ''gitea-mq'' ''completed'' ''success'' ''Merged'' []))) (\<lambda>_. do {
        checkRuns_set (''org'' @ ''/'' @ ''app'') ''abc'' ''gitea-mq'' i;
        ret (Inr ()) }))) runs_written)) = gs_net runs_written"
    using client[of "''org''" "''app''" runs_written] update
    by (auto simp: with_client_def on_ok_def in_github_def checkRuns_set_def split: prod.splits sum.splits)
      (metis snd_conv)+
  ultimately show ?thesis using net by simp
qed

subsection \<open>Reported checks\<close>

text \<open>The states the type \<open>check_state\<close> of the database has.\<close>

fun storable :: "check_state \<Rightarrow> bool" where
  "storable (CheckStateOther s) = False"
| "storable st = True"

definition run_check :: "gh_CheckRun \<Rightarrow> Check" where
  "run_check r = \<lparr>ck_State = CheckRunToState (gh_text (hk_Status r)) (gh_text (hk_Conclusion r)),
     ck_Description = gh_text (hk_Summary r), ck_TargetURL = gh_text (hk_DetailsURL r)\<rparr>"

definition status_check :: "gh_RepoStatus \<Rightarrow> Check" where
  "status_check st = \<lparr>ck_State = ParseCheckState (gh_text (hs_State st)),
     ck_Description = gh_text (hs_Description st), ck_TargetURL = gh_text (hs_TargetURL st)\<rparr>"

definition reported_check :: "gh_CheckRun list \<Rightarrow> gh_RepoStatus list \<Rightarrow> string \<Rightarrow> Check option" where
  "reported_check runs sts ctx =
     (if ctx = MQContext then None
      else case List.find (\<lambda>r. gh_text (hk_Name r) = ctx) (rev runs) of
        Some r \<Rightarrow> Some (run_check r)
      | None \<Rightarrow> map_option status_check (List.find (\<lambda>st. gh_text (hs_Context st) = ctx) sts))"

lemma add_check_run_eq:
  "add_check_run cr out = (if gh_text (hk_Name cr) = MQContext then out
     else AList.update (gh_text (hk_Name cr)) (run_check cr) out)"
  by (simp add: add_check_run_def run_check_def)

lemma add_status_eq:
  "add_status st out = (if gh_text (hs_Context st) = MQContext \<or> map_of out (gh_text (hs_Context st)) \<noteq> None
     then out else AList.update (gh_text (hs_Context st)) (status_check st) out)"
  by (simp add: add_status_def status_check_def)

lemma map_of_check_runs:
  "map_of (fold add_check_run runs []) ctx =
     (if ctx = MQContext then None
      else map_option run_check (List.find (\<lambda>r. gh_text (hk_Name r) = ctx) (rev runs)))"
  by (induction runs rule: rev_induct) (auto simp: add_check_run_eq update_conv)

lemma map_of_statuses:
  "map_of (fold add_status sts out) ctx =
     (case map_of out ctx of
        Some c \<Rightarrow> Some c
      | None \<Rightarrow> if ctx = MQContext then None
          else map_option status_check (List.find (\<lambda>st. gh_text (hs_Context st) = ctx) sts))"
  by (induction sts arbitrary: out)
    (auto simp: add_status_eq update_conv split: option.splits)

lemma CheckRunToState_storable: "storable (CheckRunToState s c)"
  by (simp add: CheckRunToState_def)

lemma ParseCheckState_storable: "storable (ParseCheckState s)"
  by (simp add: ParseCheckState_def)

definition checks_ok :: "(string \<times> Check) list \<Rightarrow> bool" where
  "checks_ok checks \<longleftrightarrow> distinct (map fst checks) \<and> MQContext \<notin> set (map fst checks) \<and>
     list_all (\<lambda>(_, c). storable (ck_State c)) checks"

lemma checks_ok_update:
  "checks_ok out \<Longrightarrow> ctx \<noteq> MQContext \<Longrightarrow> storable (ck_State c) \<Longrightarrow> checks_ok (AList.update ctx c out)"
  by (auto simp: checks_ok_def distinct_update list_all_iff dest!: set_update simp flip: set_map)
    (auto simp: dom_update)

lemma checks_ok_add:
  "checks_ok out \<Longrightarrow> checks_ok (add_check_run cr out)"
  "checks_ok out \<Longrightarrow> checks_ok (add_status st out)"
  by (simp_all add: add_check_run_eq add_status_eq checks_ok_update run_check_def status_check_def
      CheckRunToState_storable ParseCheckState_storable)

lemma checks_ok_reported: "checks_ok (fold add_status sts (fold add_check_run runs []))"
proof -
  have "checks_ok out \<Longrightarrow> checks_ok (fold add_check_run runs out)" for out
    by (induction runs arbitrary: out) (simp_all add: checks_ok_add)
  moreover have "checks_ok out \<Longrightarrow> checks_ok (fold add_status sts out)" for out
    by (induction sts arbitrary: out) (simp_all add: checks_ok_add)
  ultimately show ?thesis by (simp add: checks_ok_def)
qed

text \<open>C37. The checks of a commit on GitHub. Every reported state is one the database can store, each
  context is reported once, and the queue does not see its own check. The check of a context is that
  of the last check run of that name; only without one it is the first, and so the latest, commit
  status of that context.\<close>

theorem github_checks_storable:
  "(case fst (run_state (gh_GetCheckStates a ow nm sha) s) of
      Inl _ \<Rightarrow> True | Inr checks \<Rightarrow> checks_ok checks) \<and>
   map_of (fold add_status sts (fold add_check_run runs [])) = reported_check runs sts"
proof
  show "case fst (run_state (gh_GetCheckStates a ow nm sha) s) of
      Inl _ \<Rightarrow> True | Inr checks \<Rightarrow> checks_ok checks"
    by (auto simp: gh_GetCheckStates_def with_client_def on_ok_def checks_ok_reported
        split: sum.splits prod.splits)
  show "map_of (fold add_status sts (fold add_check_run runs [])) = reported_check runs sts"
    by (auto simp: fun_eq_iff map_of_statuses map_of_check_runs reported_check_def split: option.splits)
qed

end
