(* ===== verification/GhFake.thy ===== *)
theory GhFake
  imports Json Prelude "HOL-Library.AList"
begin

text \<open>
  The GitHub server the adapter and the integration tests run against:
  \<open>internal/github/ghfake/server.go\<close>. A handler is a function on the state of the server; its
  arguments are the path values, the query, and the body as the JSON value the decoder reads
  (none for a body it cannot read). Each handler holds the mutex while it touches the state, so
  it is one step. The order in which Go ranges over a map is the argument \<open>ord\<close>, which gives a
  permutation of the positions below a length. The listener and the in-process HTTP server are
  left out; the pointers that \<open>AddPR\<close>, \<open>AddRepo\<close> and \<open>Repo\<close> hand out are read as the values they
  point to.
\<close>

subsection \<open>State\<close>

record fake_PR =
  fp_Number :: int
  fp_Title :: string
  fp_State :: string
  fp_Merged :: bool
  fp_User :: string
  fp_HeadRef :: string
  fp_HeadSHA :: string
  fp_BaseRef :: string
  fp_NodeID :: string
  fp_AutoMerge :: bool
  fp_HTMLURL :: string

record fake_CheckRun =
  fc_ID :: int
  fc_Name :: string
  fc_HeadSHA :: string
  fc_Status :: string
  fc_Conclusion :: string
  fc_DetailsURL :: string
  fc_Output :: "string \<times> string"

record fake_Ruleset =
  fr_ID :: int
  fr_Name :: string
  fr_Target :: string
  fr_Enforcement :: string
  fr_Conditions :: "json option"
  fr_Rules :: "(string \<times> json option) list option"

record fake_Repo =
  fo_Owner :: string
  fo_Name :: string
  fo_DefaultBranch :: string
  fo_PRs :: "(int \<times> fake_PR) list"
  fo_Refs :: "(string \<times> string) list"
  fo_Parents :: "(string \<times> string list) list"
  fo_CheckRuns :: "(string \<times> fake_CheckRun list) list"
  fo_Rulesets :: "fake_Ruleset list"
  fo_BehindBy :: "(string \<times> int) list"
  fo_ConflictOn :: "(string \<times> bool) list"
  fo_Settings :: "(string \<times> json) list"
  fo_ProtectedRefs :: "(string \<times> bool) list"
  fo_RequiredChecks :: "(string \<times> string list) list"

record fake_HookConfig =
  fh_URL :: string
  fh_Secret :: string
  fh_ContentType :: string

record fake_Server =
  fs_installs :: "(int \<times> string list) list"
  fs_repos :: "(string \<times> fake_Repo) list"
  fs_hookCfg :: fake_HookConfig
  fs_idSeq :: int

definition fake_New :: fake_Server where
  "fake_New = \<lparr>fs_installs = [], fs_repos = [],
     fs_hookCfg = \<lparr>fh_URL = [], fh_Secret = [], fh_ContentType = []\<rparr>, fs_idSeq = 0\<rparr>"

text \<open>A missing key of a Go map reads as the zero value.\<close>

definition go_at :: "('k \<times> 'v) list \<Rightarrow> 'k \<Rightarrow> 'v \<Rightarrow> 'v" where
  "go_at m k zero = (case map_of m k of None \<Rightarrow> zero | Some v \<Rightarrow> v)"

type_synonym range_order = "nat \<Rightarrow> nat list"

definition ranged :: "range_order \<Rightarrow> 'a list \<Rightarrow> 'a list" where
  "ranged ord m = List.map_filter (\<lambda>i. if i < length m then Some (m ! i) else None) (ord (length m))"

subsection \<open>What the tests arrange\<close>

definition AddInstallation :: "int \<Rightarrow> string list \<Rightarrow> (fake_Server, unit) state" where
  "AddInstallation i fullNames = modifies (\<lambda>s. s\<lparr>fs_installs := AList.update i fullNames (fs_installs s)\<rparr>)"

definition new_repo :: "string \<Rightarrow> string \<Rightarrow> fake_Repo" where
  "new_repo owner name = \<lparr>fo_Owner = owner, fo_Name = name, fo_DefaultBranch = ''main'', fo_PRs = [],
     fo_Refs = [(''main'', ''sha-main'')], fo_Parents = [], fo_CheckRuns = [], fo_Rulesets = [],
     fo_BehindBy = [], fo_ConflictOn = [], fo_Settings = [], fo_ProtectedRefs = [],
     fo_RequiredChecks = []\<rparr>"

definition put_repo :: "string \<Rightarrow> fake_Repo \<Rightarrow> (fake_Server, unit) state" where
  "put_repo key rp = modifies (\<lambda>s. s\<lparr>fs_repos := AList.update key rp (fs_repos s)\<rparr>)"

definition AddRepo :: "string \<Rightarrow> string \<Rightarrow> (fake_Server, unit) state" where
  "AddRepo owner name = put_repo (owner @ ''/'' @ name) (new_repo owner name)"

text \<open>\<open>AddPR\<close> panics on a repository that was not added; the state is then left as it is.\<close>

definition AddPR :: "string \<Rightarrow> string \<Rightarrow> fake_PR \<Rightarrow> (fake_Server, fake_PR option) state" where
  "AddPR owner name pr = do {
     found \<leftarrow> gets (\<lambda>s. map_of (fs_repos s) (owner @ ''/'' @ name));
     (let pr = (if fp_State pr = [] then pr\<lparr>fp_State := ''open''\<rparr> else pr);
          pr = (if fp_NodeID pr = [] then
            pr\<lparr>fp_NodeID := ''PR_'' @ name @ ''_'' @ show_int (fp_Number pr)\<rparr> else pr);
          pr = (if fp_HTMLURL pr = [] then
            pr\<lparr>fp_HTMLURL := ''https://github.com/'' @ owner @ ''/'' @ name @ ''/pull/'' @
              show_int (fp_Number pr)\<rparr> else pr)
      in case found of
           None \<Rightarrow> ret None
         | Some r \<Rightarrow> do {
             put_repo (owner @ ''/'' @ name) (r\<lparr>fo_PRs := AList.update (fp_Number pr) pr (fo_PRs r)\<rparr>);
             ret (Some pr) }) }"

definition fake_nextID :: "(fake_Server, int) state" where
  "fake_nextID = State (\<lambda>s. (fs_idSeq s + 1, s\<lparr>fs_idSeq := fs_idSeq s + 1\<rparr>))"

subsection \<open>Requests and replies\<close>

datatype reply = WriteJSON int json | PlainReply int string | EmptyReply int | Crash

definition not_found :: reply where
  "not_found = PlainReply 404 (''404 page not found'' @ [CHR 0x0A])"

definition j_int :: "int \<Rightarrow> json" where
  "j_int n = JNum (show_int n)"

text \<open>A field of a decoded body. The decoder ignores the case of a key when no field has it
  exactly; a value of another type is skipped, and the error is ignored by every handler.\<close>

definition body_field :: "string \<Rightarrow> 'a decoder \<Rightarrow> 'a \<Rightarrow> json option \<Rightarrow> 'a" where
  "body_field name d zero body = (case body of None \<Rightarrow> zero | Some v \<Rightarrow> fst (dec_struct [(name, d)] v zero))"

definition body_str :: "string \<Rightarrow> json option \<Rightarrow> string" where
  "body_str name = body_field name dec_string []"

definition dec_any :: "json option decoder" where
  "dec_any v x = (Some v, True)"

definition dec_Output :: "(string \<times> string) decoder" where
  "dec_Output = dec_struct
     [(''Title'', \<lambda>v (t, s). case dec_string v t of (t, ok) \<Rightarrow> ((t, s), ok)),
      (''Summary'', \<lambda>v (t, s). case dec_string v s of (s, ok) \<Rightarrow> ((t, s), ok))]"

text \<open>\<open>strconv.ParseInt\<close> with its error ignored: 0 for a text that is no number, the nearest
  bound for one that is too large.\<close>

definition parse_or_zero :: "string \<Rightarrow> int" where
  "parse_or_zero s = (case parse_int s of None \<Rightarrow> 0
     | Some i \<Rightarrow> max (- (2 ^ 63)) (min (2 ^ 63 - 1) i))"

definition repoOr404 ::
  "string \<Rightarrow> string \<Rightarrow> (fake_Repo \<Rightarrow> (fake_Server, reply) state) \<Rightarrow> (fake_Server, reply) state" where
  "repoOr404 ow nm f = do {
     found \<leftarrow> gets (\<lambda>s. map_of (fs_repos s) (ow @ ''/'' @ nm));
     (case found of None \<Rightarrow> ret not_found | Some rp \<Rightarrow> f rp) }"

subsection \<open>The App and its installations\<close>

definition hook_json :: "fake_HookConfig \<Rightarrow> json" where
  "hook_json cfg = JObj
     ((if fh_URL cfg \<noteq> [] then [(''url'', JStr (fh_URL cfg))] else []) @
      (if fh_Secret cfg \<noteq> [] then [(''secret'', JStr (fh_Secret cfg))] else []) @
      (if fh_ContentType cfg \<noteq> [] then [(''content_type'', JStr (fh_ContentType cfg))] else []))"

definition hGetHookConfig :: "(fake_Server, reply) state" where
  "hGetHookConfig = gets (\<lambda>s. WriteJSON 200 (hook_json (fs_hookCfg s)))"

definition hUpdateHookConfig :: "json option \<Rightarrow> (fake_Server, reply) state" where
  "hUpdateHookConfig body = do {
     cfg \<leftarrow> gets fs_hookCfg;
     (let url = body_str ''url'' body; secret = body_str ''secret'' body;
          contentType = body_str ''content_type'' body;
          cfg = (if url \<noteq> [] then cfg\<lparr>fh_URL := url\<rparr> else cfg);
          cfg = (if secret \<noteq> [] then cfg\<lparr>fh_Secret := secret\<rparr> else cfg);
          cfg = (if contentType \<noteq> [] then cfg\<lparr>fh_ContentType := contentType\<rparr> else cfg)
      in do {
        modifies (\<lambda>s. s\<lparr>fs_hookCfg := cfg\<rparr>);
        ret (WriteJSON 200 (hook_json cfg)) }) }"

definition hListInstalls :: "range_order \<Rightarrow> (fake_Server, reply) state" where
  "hListInstalls ord = gets (\<lambda>s. WriteJSON 200 (JArr
     (map (\<lambda>(i, _). JObj [(''id'', j_int i), (''app_id'', j_int 1)]) (ranged ord (fs_installs s)))))"

definition hAccessToken :: "string \<Rightarrow> string \<Rightarrow> (fake_Server, reply) state" where
  "hAccessToken expires i = ret (WriteJSON 201
     (JObj [(''token'', JStr (''ghs_fake_'' @ i)), (''expires_at'', JStr expires)]))"

definition repoJSON :: "fake_Repo \<Rightarrow> json" where
  "repoJSON r = JObj [(''id'', j_int 1), (''name'', JStr (fo_Name r)),
     (''full_name'', JStr (fo_Owner r @ ''/'' @ fo_Name r)),
     (''owner'', JObj [(''login'', JStr (fo_Owner r))]),
     (''default_branch'', JStr (fo_DefaultBranch r)),
     (''html_url'', JStr (''https://github.com/'' @ fo_Owner r @ ''/'' @ fo_Name r))]"

text \<open>The installation is read off the token: what follows its last underscore.\<close>

definition token_installation :: "string \<Rightarrow> int" where
  "token_installation auth =
     (if CHR ''_'' \<in> set auth
      then parse_or_zero (rev (takeWhile (\<lambda>c. c \<noteq> CHR ''_'') (rev auth))) else 0)"

definition hInstallRepos :: "string \<Rightarrow> (fake_Server, reply) state" where
  "hInstallRepos auth = gets (\<lambda>s.
     let repos = (case map_of (fs_installs s) (token_installation auth) of
          None \<Rightarrow> []
        | Some fulls \<Rightarrow> map repoJSON (List.map_filter (map_of (fs_repos s)) fulls))
     in WriteJSON 200 (JObj [(''total_count'', j_int (int (length repos))), (''repositories'', JArr repos)]))"

subsection \<open>Repositories\<close>

definition hGetRepo :: "string \<Rightarrow> string \<Rightarrow> (fake_Server, reply) state" where
  "hGetRepo ow nm = repoOr404 ow nm (\<lambda>rp. ret (WriteJSON 200 (repoJSON rp)))"

definition hPatchRepo :: "string \<Rightarrow> string \<Rightarrow> json option \<Rightarrow> (fake_Server, reply) state" where
  "hPatchRepo ow nm body = repoOr404 ow nm (\<lambda>rp. do {
     (let kvs = (case body of Some (JObj kvs) \<Rightarrow> kvs | _ \<Rightarrow> [])
      in put_repo (ow @ ''/'' @ nm)
        (rp\<lparr>fo_Settings := fold (\<lambda>(k, v). AList.update k v) kvs (fo_Settings rp)\<rparr>));
     ret (WriteJSON 200 (repoJSON rp)) })"

subsection \<open>Pull requests\<close>

definition prJSON :: "string \<Rightarrow> string \<Rightarrow> fake_PR \<Rightarrow> json" where
  "prJSON ow nm p = JObj
     [(''number'', j_int (fp_Number p)), (''node_id'', JStr (fp_NodeID p)),
      (''title'', JStr (fp_Title p)), (''state'', JStr (fp_State p)), (''merged'', JBool (fp_Merged p)),
      (''html_url'', JStr (fp_HTMLURL p)), (''user'', JObj [(''login'', JStr (fp_User p))]),
      (''head'', JObj [(''ref'', JStr (fp_HeadRef p)), (''sha'', JStr (fp_HeadSHA p)),
        (''repo'', JObj [(''full_name'', JStr (ow @ ''/'' @ nm))])]),
      (''base'', JObj [(''ref'', JStr (fp_BaseRef p))]),
      (''auto_merge'', if fp_AutoMerge p
         then JObj [(''enabled_by'', JObj [(''login'', JStr (fp_User p))])] else JNull)]"

definition hListPRs :: "range_order \<Rightarrow> string \<Rightarrow> string \<Rightarrow> string \<Rightarrow> (fake_Server, reply) state" where
  "hListPRs ord ow nm st = repoOr404 ow nm (\<lambda>rp. ret (WriteJSON 200 (JArr
     (map (\<lambda>(_, p). prJSON (fo_Owner rp) (fo_Name rp) p)
       (filter (\<lambda>(_, p). \<not> (st \<noteq> [] \<and> st \<noteq> ''all'' \<and> fp_State p \<noteq> st)) (ranged ord (fo_PRs rp)))))))"

definition hGetPR :: "string \<Rightarrow> string \<Rightarrow> string \<Rightarrow> (fake_Server, reply) state" where
  "hGetPR ow nm n = repoOr404 ow nm (\<lambda>rp.
     case map_of (fo_PRs rp) (parse_or_zero n) of
       None \<Rightarrow> ret not_found
     | Some p \<Rightarrow> ret (WriteJSON 200 (prJSON (fo_Owner rp) (fo_Name rp) p)))"

definition hEditPR :: "string \<Rightarrow> string \<Rightarrow> string \<Rightarrow> json option \<Rightarrow> (fake_Server, reply) state" where
  "hEditPR ow nm n body = repoOr404 ow nm (\<lambda>rp.
     case map_of (fo_PRs rp) (parse_or_zero n) of
       None \<Rightarrow> ret not_found
     | Some p \<Rightarrow>
         (let st = body_str ''state'' body; p = (if st \<noteq> [] then p\<lparr>fp_State := st\<rparr> else p) in do {
           put_repo (ow @ ''/'' @ nm) (rp\<lparr>fo_PRs := AList.update (parse_or_zero n) p (fo_PRs rp)\<rparr>);
           ret (WriteJSON 200 (prJSON (fo_Owner rp) (fo_Name rp) p)) }))"

definition hCreatePR :: "string \<Rightarrow> string \<Rightarrow> json option \<Rightarrow> (fake_Server, reply) state" where
  "hCreatePR ow nm body = repoOr404 ow nm (\<lambda>rp.
     let n = int (length (fo_PRs rp)) + 1;
         p = \<lparr>fp_Number = n, fp_Title = body_str ''Title'' body, fp_State = ''open'', fp_Merged = False,
           fp_User = [], fp_HeadRef = body_str ''Head'' body,
           fp_HeadSHA = go_at (fo_Refs rp) (body_str ''Head'' body) [], fp_BaseRef = body_str ''Base'' body,
           fp_NodeID = ''PR_'' @ fo_Name rp @ ''_'' @ show_int n, fp_AutoMerge = False, fp_HTMLURL = []\<rparr>
     in do {
       put_repo (ow @ ''/'' @ nm) (rp\<lparr>fo_PRs := AList.update n p (fo_PRs rp)\<rparr>);
       ret (WriteJSON 201 (prJSON (fo_Owner rp) (fo_Name rp) p)) })"

definition hCreateComment :: "string \<Rightarrow> string \<Rightarrow> (fake_Server, reply) state" where
  "hCreateComment ow nm = repoOr404 ow nm (\<lambda>_. do {
     i \<leftarrow> fake_nextID;
     ret (WriteJSON 201 (JObj [(''id'', j_int i)])) })"

subsection \<open>Check runs\<close>

definition checkRunJSON :: "fake_CheckRun \<Rightarrow> json" where
  "checkRunJSON c = JObj
     ([(''id'', j_int (fc_ID c)), (''name'', JStr (fc_Name c)), (''head_sha'', JStr (fc_HeadSHA c)),
       (''status'', JStr (fc_Status c)), (''details_url'', JStr (fc_DetailsURL c)),
       (''output'', JObj [(''title'', JStr (fst (fc_Output c))), (''summary'', JStr (snd (fc_Output c)))])] @
      (if fc_Conclusion c \<noteq> [] then [(''conclusion'', JStr (fc_Conclusion c))] else []))"

definition hCreateCheckRun :: "string \<Rightarrow> string \<Rightarrow> json option \<Rightarrow> (fake_Server, reply) state" where
  "hCreateCheckRun ow nm body = repoOr404 ow nm (\<lambda>rp. do {
     i \<leftarrow> fake_nextID;
     (let sha = body_str ''head_sha'' body;
          cr = \<lparr>fc_ID = i, fc_Name = body_str ''name'' body, fc_HeadSHA = sha,
            fc_Status = body_str ''status'' body, fc_Conclusion = body_str ''conclusion'' body,
            fc_DetailsURL = body_str ''details_url'' body,
            fc_Output = body_field ''Output'' dec_Output ([], []) body\<rparr>
      in do {
        put_repo (ow @ ''/'' @ nm)
          (rp\<lparr>fo_CheckRuns := AList.update sha (go_at (fo_CheckRuns rp) sha [] @ [cr]) (fo_CheckRuns rp)\<rparr>);
        ret (WriteJSON 201 (checkRunJSON cr)) }) })"

text \<open>The first run with an id, edited in place.\<close>

fun edit_first :: "('a \<Rightarrow> bool) \<Rightarrow> ('a \<Rightarrow> 'a) \<Rightarrow> 'a list \<Rightarrow> ('a \<times> 'a list) option" where
  "edit_first p f [] = None"
| "edit_first p f (x # xs) =
     (if p x then Some (f x, f x # xs) else map_option (\<lambda>(y, ys). (y, x # ys)) (edit_first p f xs))"

fun edit_runs ::
  "int \<Rightarrow> (fake_CheckRun \<Rightarrow> fake_CheckRun) \<Rightarrow> (string \<times> fake_CheckRun list) list \<Rightarrow>
     (fake_CheckRun \<times> string \<times> fake_CheckRun list) option" where
  "edit_runs i f [] = None"
| "edit_runs i f ((sha, runs) # m) = (case edit_first (\<lambda>c. fc_ID c = i) f runs of
      Some (c, runs') \<Rightarrow> Some (c, sha, runs')
    | None \<Rightarrow> edit_runs i f m)"

definition edit_check_run :: "json option \<Rightarrow> fake_CheckRun \<Rightarrow> fake_CheckRun" where
  "edit_check_run body cr =
     (let status = body_str ''status'' body; conclusion = body_str ''conclusion'' body;
          detailsURL = body_str ''details_url'' body; out = body_field ''Output'' dec_Output ([], []) body;
          cr = (if status \<noteq> [] then cr\<lparr>fc_Status := status\<rparr> else cr);
          cr = (if conclusion \<noteq> [] then cr\<lparr>fc_Conclusion := conclusion\<rparr> else cr);
          cr = (if detailsURL \<noteq> [] then cr\<lparr>fc_DetailsURL := detailsURL\<rparr> else cr)
      in if fst out \<noteq> [] \<or> snd out \<noteq> [] then cr\<lparr>fc_Output := out\<rparr> else cr)"

definition hUpdateCheckRun ::
  "range_order \<Rightarrow> string \<Rightarrow> string \<Rightarrow> string \<Rightarrow> json option \<Rightarrow> (fake_Server, reply) state" where
  "hUpdateCheckRun ord ow nm i body = repoOr404 ow nm (\<lambda>rp.
     case edit_runs (parse_or_zero i) (edit_check_run body) (ranged ord (fo_CheckRuns rp)) of
       None \<Rightarrow> ret not_found
     | Some (cr, sha, runs) \<Rightarrow> do {
         put_repo (ow @ ''/'' @ nm) (rp\<lparr>fo_CheckRuns := AList.update sha runs (fo_CheckRuns rp)\<rparr>);
         ret (WriteJSON 200 (checkRunJSON cr)) })"

text \<open>A slice that was never appended to is nil, and written as \<open>null\<close>.\<close>

definition nil_slice :: "json list \<Rightarrow> json" where
  "nil_slice js = (if js = [] then JNull else JArr js)"

definition hListCheckRuns :: "string \<Rightarrow> string \<Rightarrow> string \<Rightarrow> string \<Rightarrow> (fake_Server, reply) state" where
  "hListCheckRuns ow nm sha nameFilter = repoOr404 ow nm (\<lambda>rp.
     let out = map checkRunJSON (filter (\<lambda>cr. nameFilter = [] \<or> fc_Name cr = nameFilter)
           (go_at (fo_CheckRuns rp) sha []))
     in ret (WriteJSON 200 (JObj [(''total_count'', j_int (int (length out))),
          (''check_runs'', nil_slice out)])))"

definition hListStatuses :: "string \<Rightarrow> string \<Rightarrow> (fake_Server, reply) state" where
  "hListStatuses ow nm = repoOr404 ow nm (\<lambda>_. ret (WriteJSON 200 (JArr [])))"

subsection \<open>Refs and merges\<close>

definition sha_object :: "string \<Rightarrow> json" where
  "sha_object sha = JObj [(''sha'', JStr sha)]"

definition message_json :: "string \<Rightarrow> json" where
  "message_json msg = JObj [(''message'', JStr msg)]"

definition trim_prefix :: "string \<Rightarrow> string \<Rightarrow> string" where
  "trim_prefix s p = (if has_prefix s p then drop (length p) s else s)"

definition hGetRef :: "string \<Rightarrow> string \<Rightarrow> string \<Rightarrow> (fake_Server, reply) state" where
  "hGetRef ow nm ref = repoOr404 ow nm (\<lambda>rp.
     case map_of (fo_Refs rp) (trim_prefix ref ''heads/'') of
       None \<Rightarrow> ret not_found
     | Some sha \<Rightarrow> ret (WriteJSON 200 (JObj [(''ref'', JStr (''refs/'' @ ref)),
         (''object'', JObj [(''sha'', JStr sha), (''type'', JStr ''commit'')])])))"

definition hCreateRef :: "string \<Rightarrow> string \<Rightarrow> json option \<Rightarrow> (fake_Server, reply) state" where
  "hCreateRef ow nm body = repoOr404 ow nm (\<lambda>rp.
     let ref = body_str ''ref'' body; sha = body_str ''sha'' body;
         branch = trim_prefix ref ''refs/heads/''
     in if map_of (fo_Refs rp) branch \<noteq> None
        then ret (WriteJSON 422 (message_json ''Reference already exists''))
        else if list_ex (\<lambda>(old, _). has_prefix branch (old @ ''/'') \<or> has_prefix old (branch @ ''/'')) (fo_Refs rp)
        then ret (WriteJSON 422 (message_json ''Reference update failed''))
        else do {
          put_repo (ow @ ''/'' @ nm) (rp\<lparr>fo_Refs := AList.update branch sha (fo_Refs rp)\<rparr>);
          ret (WriteJSON 201 (JObj [(''ref'', JStr ref), (''object'', sha_object sha)])) })"

text \<open>\<open>isAncestor\<close>: the recursion and its loop over the parents, as one walk with the commits left
  to visit. Nothing makes it end but the shape of the history.\<close>

partial_function (option) ancestor_walk ::
  "(string \<Rightarrow> string list) \<Rightarrow> string \<Rightarrow> string list \<Rightarrow> bool option" where
  "ancestor_walk parents anc todo =
     (case todo of
        [] \<Rightarrow> Some False
      | sha # rest \<Rightarrow>
          if anc = sha then Some True
          else Option.bind (ancestor_walk parents anc (parents sha))
            (\<lambda>found. if found then Some True else ancestor_walk parents anc rest))"

declare ancestor_walk.simps [code]

definition parents_of :: "fake_Repo \<Rightarrow> string \<Rightarrow> string list" where
  "parents_of rp sha = go_at (fo_Parents rp) sha []"

definition isAncestor :: "fake_Repo \<Rightarrow> string \<Rightarrow> string \<Rightarrow> bool option" where
  "isAncestor rp anc sha = ancestor_walk (parents_of rp) anc [sha]"

definition set_ref :: "string \<Rightarrow> string \<Rightarrow> fake_Repo \<Rightarrow> string \<Rightarrow> string \<Rightarrow> (fake_Server, reply) state" where
  "set_ref ow nm rp branch sha = do {
     put_repo (ow @ ''/'' @ nm) (rp\<lparr>fo_Refs := AList.update branch sha (fo_Refs rp)\<rparr>);
     ret (WriteJSON 200 (JObj [(''ref'', JStr (''refs/heads/'' @ branch)), (''object'', sha_object sha)])) }"

text \<open>A walk that does not end overflows the stack of the process.\<close>

definition hUpdateRef :: "string \<Rightarrow> string \<Rightarrow> string \<Rightarrow> json option \<Rightarrow> (fake_Server, reply) state" where
  "hUpdateRef ow nm ref body = repoOr404 ow nm (\<lambda>rp.
     let branch = trim_prefix ref ''heads/''; sha = body_str ''sha'' body
     in case map_of (fo_Refs rp) branch of
          None \<Rightarrow> ret (WriteJSON 422 (message_json ''Reference does not exist''))
        | Some old \<Rightarrow>
            if body_field ''force'' dec_bool False body then set_ref ow nm rp branch sha
            else if go_at (fo_ProtectedRefs rp) branch False
            then ret (WriteJSON 403
              (message_json ''Changes must be made through a pull request. (protected branch)''))
            else (case isAncestor rp old sha of
                None \<Rightarrow> ret Crash
              | Some ok \<Rightarrow>
                  if \<not> ok then ret (WriteJSON 422 (message_json ''Update is not a fast forward''))
                  else set_ref ow nm rp branch sha))"

definition hDeleteRef :: "string \<Rightarrow> string \<Rightarrow> string \<Rightarrow> (fake_Server, reply) state" where
  "hDeleteRef ow nm ref = repoOr404 ow nm (\<lambda>rp.
     let branch = trim_prefix ref ''heads/'' in do {
       put_repo (ow @ ''/'' @ nm) (rp\<lparr>fo_Refs := AList.delete branch (fo_Refs rp)\<rparr>);
       ret (if map_of (fo_Refs rp) branch = None
            then WriteJSON 422 (message_json ''Reference does not exist'') else EmptyReply 204) })"

definition hListBranches :: "range_order \<Rightarrow> string \<Rightarrow> string \<Rightarrow> (fake_Server, reply) state" where
  "hListBranches ord ow nm = repoOr404 ow nm (\<lambda>rp. ret (WriteJSON 200 (JArr
     (map (\<lambda>(b, sha). JObj [(''name'', JStr b), (''commit'', sha_object sha)]) (ranged ord (fo_Refs rp))))))"

definition merge_sha :: "string \<Rightarrow> string \<Rightarrow> string" where
  "merge_sha base head = ''merge('' @ base @ '','' @ head @ '')''"

definition hMerge :: "string \<Rightarrow> string \<Rightarrow> json option \<Rightarrow> (fake_Server, reply) state" where
  "hMerge ow nm body = repoOr404 ow nm (\<lambda>rp.
     let base = body_str ''Base'' body; head = body_str ''Head'' body
     in if go_at (fo_ConflictOn rp) head False then ret (WriteJSON 409 (message_json ''Merge conflict''))
        else case map_of (fo_Refs rp) base of
          None \<Rightarrow> ret not_found
        | Some tip \<Rightarrow>
            (let mergeSHA = merge_sha tip head in do {
               put_repo (ow @ ''/'' @ nm)
                 (rp\<lparr>fo_Parents := AList.update mergeSHA [tip, head] (fo_Parents rp),
                     fo_Refs := AList.update base mergeSHA (fo_Refs rp)\<rparr>);
               ret (WriteJSON 201 (JObj [(''sha'', JStr mergeSHA)])) }))"

definition hCompare :: "string \<Rightarrow> string \<Rightarrow> string \<Rightarrow> (fake_Server, reply) state" where
  "hCompare ow nm basehead = repoOr404 ow nm (\<lambda>rp. ret (WriteJSON 200
     (JObj [(''behind_by'', j_int (go_at (fo_BehindBy rp) basehead 0)), (''ahead_by'', j_int 0),
        (''commits'', JArr [])])))"

subsection \<open>Rules\<close>

definition hRulesForBranch :: "string \<Rightarrow> string \<Rightarrow> string \<Rightarrow> (fake_Server, reply) state" where
  "hRulesForBranch ow nm b = repoOr404 ow nm (\<lambda>rp.
     let checks = go_at (fo_RequiredChecks rp) b [] in ret (WriteJSON 200
       (if checks = [] then JArr []
        else JArr [JObj [(''type'', JStr ''required_status_checks''),
          (''parameters'', JObj [(''required_status_checks'',
            JArr (map (\<lambda>c. JObj [(''context'', JStr c)]) checks))])]])))"

definition raw_field :: "string \<Rightarrow> json option \<Rightarrow> (string \<times> json) list" where
  "raw_field name raw = (case raw of None \<Rightarrow> [] | Some v \<Rightarrow> [(name, v)])"

definition rulesetJSON :: "fake_Ruleset \<Rightarrow> json" where
  "rulesetJSON rs = JObj
     ([(''id'', j_int (fr_ID rs)), (''name'', JStr (fr_Name rs)), (''target'', JStr (fr_Target rs)),
       (''enforcement'', JStr (fr_Enforcement rs))] @ raw_field ''conditions'' (fr_Conditions rs) @
      [(''rules'', case fr_Rules rs of None \<Rightarrow> JNull
         | Some rules \<Rightarrow> JArr (map (\<lambda>(t, ps). JObj ((''type'', JStr t) # raw_field ''parameters'' ps)) rules))])"

definition hListRulesets :: "string \<Rightarrow> string \<Rightarrow> (fake_Server, reply) state" where
  "hListRulesets ow nm = repoOr404 ow nm (\<lambda>rp.
     ret (WriteJSON 200 (nil_slice (map rulesetJSON (fo_Rulesets rp)))))"

definition dec_rule :: "(string \<times> json option) decoder" where
  "dec_rule = dec_struct
     [(''type'', \<lambda>v (t, ps). case dec_string v t of (t, ok) \<Rightarrow> ((t, ps), ok)),
      (''parameters'', \<lambda>v (t, ps). case dec_any v ps of (ps, ok) \<Rightarrow> ((t, ps), ok))]"

definition hCreateRuleset :: "string \<Rightarrow> string \<Rightarrow> json option \<Rightarrow> (fake_Server, reply) state" where
  "hCreateRuleset ow nm body = repoOr404 ow nm (\<lambda>rp. do {
     i \<leftarrow> fake_nextID;
     (let rs = \<lparr>fr_ID = i, fr_Name = body_str ''name'' body, fr_Target = body_str ''target'' body,
            fr_Enforcement = body_str ''enforcement'' body,
            fr_Conditions = body_field ''conditions'' dec_any None body,
            fr_Rules = body_field ''rules'' (dec_pointer (dec_list dec_rule ([], None)) []) None body\<rparr>
      in do {
        put_repo (ow @ ''/'' @ nm) (rp\<lparr>fo_Rulesets := fo_Rulesets rp @ [rs]\<rparr>);
        ret (WriteJSON 201 (rulesetJSON rs)) }) })"

subsection \<open>GraphQL\<close>

definition graphql_errors :: "string \<Rightarrow> reply" where
  "graphql_errors msg = WriteJSON 200 (JObj [(''errors'', JArr [message_json msg])])"

text \<open>The last pull request with that node id, over all repositories, with its keys.\<close>

definition find_node ::
  "range_order \<Rightarrow> string \<Rightarrow> fake_Server \<Rightarrow> (string \<times> fake_Repo \<times> int \<times> fake_PR) option" where
  "find_node ord node s =
     fold (\<lambda>(key, rp) found. fold (\<lambda>(n, p) found. if fp_NodeID p = node then Some (key, rp, n, p) else found)
         (ranged ord (fo_PRs rp)) found)
       (ranged ord (fs_repos s)) None"

definition hGraphQL :: "range_order \<Rightarrow> json option \<Rightarrow> (fake_Server, reply) state" where
  "hGraphQL ord body =
     (if \<not> contains (body_str ''query'' body) ''disablePullRequestAutoMerge''
      then ret (graphql_errors ''ghfake: unsupported query'')
      else do {
        found \<leftarrow> gets (find_node ord
          (case body_field ''variables'' dec_any None body of
             Some (JObj kvs) \<Rightarrow> (case map_of (rev kvs) ''id'' of Some (JStr i) \<Rightarrow> i | _ \<Rightarrow> [])
           | _ \<Rightarrow> []));
        (case found of
           None \<Rightarrow> ret (graphql_errors ''Pull request auto merge is not enabled.'')
         | Some (key, rp, n, p) \<Rightarrow>
             if \<not> fp_AutoMerge p then ret (graphql_errors ''Pull request auto merge is not enabled.'')
             else do {
               put_repo key (rp\<lparr>fo_PRs := AList.update n (p\<lparr>fp_AutoMerge := False\<rparr>) (fo_PRs rp)\<rparr>);
               ret (WriteJSON 200 (JObj [(''data'', JObj [(''disablePullRequestAutoMerge'',
                 JObj [(''clientMutationId'', JNull)])])])) }) })"

subsection \<open>Routes\<close>

text \<open>A request with its decoded path segments; \<open>fq_Expires\<close> is the time one hour after it, as the
  server writes it. A pattern for GET is also one for HEAD. The rest of a path is joined again.\<close>

record fake_request =
  fq_Method :: string
  fq_Path :: "string list"
  fq_Query :: "string \<Rightarrow> string"
  fq_Auth :: string
  fq_Body :: "json option"
  fq_Expires :: string

definition is_get :: "fake_request \<Rightarrow> bool" where
  "is_get q \<longleftrightarrow> fq_Method q = ''GET'' \<or> fq_Method q = ''HEAD''"

definition unhandled :: "fake_request \<Rightarrow> (fake_Server, reply) state" where
  "unhandled q = ret (PlainReply 404
     (''ghfake: unhandled '' @ fq_Method q @ '' '' @ concat (map ((@) ''/'') (fq_Path q)) @ [CHR 0x0A]))"

definition rest_path :: "string list \<Rightarrow> string" where
  "rest_path segs = join_with ''/'' segs"

definition serve_git :: "string \<Rightarrow> string \<Rightarrow> string list \<Rightarrow> fake_request \<Rightarrow> (fake_Server, reply) state" where
  "serve_git ow nm tail q = (case tail of
       [] \<Rightarrow> unhandled q
     | a # rest \<Rightarrow>
         if a = ''ref'' \<and> rest \<noteq> [] \<and> is_get q then hGetRef ow nm (rest_path rest)
         else if a = ''refs'' \<and> rest = [] \<and> fq_Method q = ''POST'' then hCreateRef ow nm (fq_Body q)
         else if a = ''refs'' \<and> rest \<noteq> [] \<and> fq_Method q = ''PATCH''
         then hUpdateRef ow nm (rest_path rest) (fq_Body q)
         else if a = ''refs'' \<and> rest \<noteq> [] \<and> fq_Method q = ''DELETE''
         then hDeleteRef ow nm (rest_path rest)
         else unhandled q)"

text \<open>\<open>/repos/{o}/{r}/\<close> followed by one segment.\<close>

definition serve_list ::
  "range_order \<Rightarrow> string \<Rightarrow> string \<Rightarrow> string \<Rightarrow> fake_request \<Rightarrow> (fake_Server, reply) state" where
  "serve_list ord ow nm a q =
     (if a = ''pulls'' \<and> is_get q then hListPRs ord ow nm (fq_Query q ''state'')
      else if a = ''pulls'' \<and> fq_Method q = ''POST'' then hCreatePR ow nm (fq_Body q)
      else if a = ''check-runs'' \<and> fq_Method q = ''POST'' then hCreateCheckRun ow nm (fq_Body q)
      else if a = ''branches'' \<and> is_get q then hListBranches ord ow nm
      else if a = ''merges'' \<and> fq_Method q = ''POST'' then hMerge ow nm (fq_Body q)
      else if a = ''rulesets'' \<and> is_get q then hListRulesets ow nm
      else if a = ''rulesets'' \<and> fq_Method q = ''POST'' then hCreateRuleset ow nm (fq_Body q)
      else unhandled q)"

text \<open>\<open>/repos/{o}/{r}/\<close> followed by two segments.\<close>

definition serve_item ::
  "range_order \<Rightarrow> string \<Rightarrow> string \<Rightarrow> string \<Rightarrow> string \<Rightarrow> fake_request \<Rightarrow> (fake_Server, reply) state" where
  "serve_item ord ow nm a i q =
     (if a = ''pulls'' \<and> is_get q then hGetPR ow nm i
      else if a = ''pulls'' \<and> fq_Method q = ''PATCH'' then hEditPR ow nm i (fq_Body q)
      else if a = ''check-runs'' \<and> fq_Method q = ''PATCH'' then hUpdateCheckRun ord ow nm i (fq_Body q)
      else unhandled q)"

text \<open>\<open>/repos/{o}/{r}/\<close> followed by three segments.\<close>

definition serve_part ::
  "string \<Rightarrow> string \<Rightarrow> string \<Rightarrow> string \<Rightarrow> string \<Rightarrow> fake_request \<Rightarrow> (fake_Server, reply) state" where
  "serve_part ow nm a b c q =
     (if a = ''issues'' \<and> c = ''comments'' \<and> fq_Method q = ''POST'' then hCreateComment ow nm
      else if a = ''commits'' \<and> c = ''check-runs'' \<and> is_get q
      then hListCheckRuns ow nm b (fq_Query q ''check_name'')
      else if a = ''commits'' \<and> c = ''statuses'' \<and> is_get q then hListStatuses ow nm
      else if a = ''rules'' \<and> b = ''branches'' \<and> is_get q then hRulesForBranch ow nm c
      else unhandled q)"

definition serve_repo ::
  "range_order \<Rightarrow> string \<Rightarrow> string \<Rightarrow> string list \<Rightarrow> fake_request \<Rightarrow> (fake_Server, reply) state" where
  "serve_repo ord ow nm tail q = (case tail of
       [] \<Rightarrow> if is_get q then hGetRepo ow nm
             else if fq_Method q = ''PATCH'' then hPatchRepo ow nm (fq_Body q) else unhandled q
     | a # rest \<Rightarrow>
         if a = ''git'' then serve_git ow nm rest q
         else if a = ''compare'' \<and> rest \<noteq> [] \<and> is_get q then hCompare ow nm (rest_path rest)
         else (case rest of
             [] \<Rightarrow> serve_list ord ow nm a q
           | [b] \<Rightarrow> serve_item ord ow nm a b q
           | [b, c] \<Rightarrow> serve_part ow nm a b c q
           | _ \<Rightarrow> unhandled q))"

definition serve :: "range_order \<Rightarrow> fake_request \<Rightarrow> (fake_Server, reply) state" where
  "serve ord q =
     (if fq_Path q = [''api'', ''graphql''] \<and> fq_Method q = ''POST'' then hGraphQL ord (fq_Body q)
      else if take 2 (fq_Path q) \<noteq> [''api'', ''v3''] then unhandled q
      else (let path = drop 2 (fq_Path q) in
        if path = [''app'', ''hook'', ''config''] \<and> is_get q then hGetHookConfig
        else if path = [''app'', ''hook'', ''config''] \<and> fq_Method q = ''PATCH''
        then hUpdateHookConfig (fq_Body q)
        else if path = [''app'', ''installations''] \<and> is_get q then hListInstalls ord
        else if length path = 4 \<and> take 2 path = [''app'', ''installations''] \<and>
          path ! 3 = ''access_tokens'' \<and> fq_Method q = ''POST''
        then hAccessToken (fq_Expires q) (path ! 2)
        else if path = [''installation'', ''repositories''] \<and> is_get q then hInstallRepos (fq_Auth q)
        else (case path of
            a # ow # nm # tail \<Rightarrow> if a = ''repos'' then serve_repo ord ow nm tail q else unhandled q
          | _ \<Rightarrow> unhandled q)))"

end
