(* ===== verification/GhFakeInv.thy ===== *)
theory GhFakeInv
  imports GhFake
begin

text \<open>
  The histories of the server of theory \<open>GhFake\<close>: the walk behind \<open>isAncestor\<close> ends and computes
  reachability, because a merge commit is named by its two parents and so is longer than both;
  and a request only adds to the history of a branch, unless it forces or deletes the branch.
\<close>

subsection \<open>The walk\<close>

definition reach :: "(string \<Rightarrow> string list) \<Rightarrow> string \<Rightarrow> string \<Rightarrow> bool" where
  "reach parents = (\<lambda>p c. p \<in> set (parents c))\<^sup>*\<^sup>*"

lemma reach_refl [simp]: "reach ps a a"
  by (simp add: reach_def)

lemma reach_trans: "reach ps a b \<Longrightarrow> reach ps b c \<Longrightarrow> reach ps a c"
  unfolding reach_def by (rule rtranclp_trans)

lemma reach_parent: "p \<in> set (ps c) \<Longrightarrow> reach ps a p \<Longrightarrow> reach ps a c"
  unfolding reach_def by (rule rtranclp.rtrancl_into_rtrancl)

lemma reach_cases: "reach ps a c \<longleftrightarrow> a = c \<or> (\<exists>p \<in> set (ps c). reach ps a p)"
  unfolding reach_def by (auto elim: rtranclp.cases intro: rtranclp.rtrancl_into_rtrancl)

lemma reach_mono:
  assumes "\<And>c. ps c \<noteq> [] \<Longrightarrow> ps' c = ps c" "reach ps a c"
  shows "reach ps' a c"
  using assms(2) unfolding reach_def
proof (induction rule: rtranclp.induct)
  case (rtrancl_into_rtrancl a p c)
  then have "ps' c = ps c" by (intro assms(1)) auto
  with rtrancl_into_rtrancl show ?case by (auto intro: rtranclp.rtrancl_into_rtrancl)
qed simp

definition shorter_parents :: "(string \<Rightarrow> string list) \<Rightarrow> bool" where
  "shorter_parents ps \<longleftrightarrow> (\<forall>c. \<forall>p \<in> set (ps c). length p < length c)"

lemma ancestor_walk_total:
  assumes "shorter_parents ps"
  shows "\<forall>c \<in> set todo. length c < n \<Longrightarrow> ancestor_walk ps a todo = Some (\<exists>c \<in> set todo. reach ps a c)"
proof (induction n arbitrary: todo)
  case 0
  then show ?case by (cases todo) (auto simp: ancestor_walk.simps[of ps a "[]"])
next
  case (Suc n)
  from Suc.prems show ?case
  proof (induction todo)
    case Nil
    then show ?case by (simp add: ancestor_walk.simps[of ps a "[]"])
  next
    case (Cons c todo)
    have "\<forall>p \<in> set (ps c). length p < n" using assms Cons.prems by (force simp: shorter_parents_def)
    note parents = Suc.IH[OF this]
    from Cons have "ancestor_walk ps a todo = Some (\<exists>c \<in> set todo. reach ps a c)" by simp
    then show ?case
      by (subst ancestor_walk.simps) (auto simp: parents reach_cases[of ps a c])
  qed
qed

lemma isAncestor_total:
  "shorter_parents (parents_of rp) \<Longrightarrow> isAncestor rp a c = Some (reach (parents_of rp) a c)"
  using ancestor_walk_total[of "parents_of rp" "[c]" "Suc (length c)" a] by (simp add: isAncestor_def)

subsection \<open>Names of commits\<close>

text \<open>A commit is a name without brackets and commas, or a merge of two commits.\<close>

inductive good_sha :: "string \<Rightarrow> bool" where
  plain: "set s \<inter> {CHR ''('', CHR '','', CHR '')''} = {} \<Longrightarrow> good_sha s"
| merged: "good_sha a \<Longrightarrow> good_sha b \<Longrightarrow> good_sha (merge_sha a b)"

fun cut_comma :: "nat \<Rightarrow> string \<Rightarrow> string \<times> string" where
  "cut_comma d [] = ([], [])"
| "cut_comma d (c # cs) =
     (if c = CHR '','' \<and> d = 0 then ([], cs)
      else map_prod ((#) c) id (cut_comma
        (if c = CHR ''('' then Suc d else if c = CHR '')'' then d - 1 else d) cs))"

lemma cut_comma_plain:
  "set s \<inter> {CHR ''('', CHR '','', CHR '')''} = {} \<Longrightarrow>
     cut_comma d (s @ r) = map_prod ((@) s) id (cut_comma d r)"
  by (induction s) (auto simp: prod.map_comp comp_def prod_eq_iff)

lemma cut_comma_good: "good_sha s \<Longrightarrow> cut_comma d (s @ r) = map_prod ((@) s) id (cut_comma d r)"
proof (induction s arbitrary: d r rule: good_sha.induct)
  case (plain s)
  then show ?case by (intro cut_comma_plain)
next
  case (merged a b)
  show ?case by (simp add: merge_sha_def merged.IH prod_eq_iff)
qed

lemma merge_sha_inject:
  assumes "good_sha a" "good_sha a'" "merge_sha a b = merge_sha a' b'"
  shows "a = a' \<and> b = b'"
proof -
  have "cut_comma 0 (a @ CHR '','' # b) = (a, b)" "cut_comma 0 (a' @ CHR '','' # b') = (a', b')"
    using cut_comma_good[of a 0] cut_comma_good[of a' 0] assms(1,2) by simp_all
  moreover from assms(3) have "(''merge('' @ (a @ CHR '','' # b)) @ '')'' = (''merge('' @ (a' @ CHR '','' # b')) @ '')''"
    by (simp only: merge_sha_def append_assoc append_Cons append_Nil)
  then have "a @ CHR '','' # b = a' @ CHR '','' # b'"
    by (simp only: append_same_eq same_append_eq)
  ultimately show ?thesis by (metis prod.inject)
qed

lemma length_merge_sha: "length a < length (merge_sha a b)" "length b < length (merge_sha a b)"
  by (simp_all add: merge_sha_def)

subsection \<open>What a request does to a repository\<close>

text \<open>The requests that touch branches or commits; \<open>Other\<close> stands for all the others.\<close>

datatype ref_op = Other | CreateRef string string | ForceRef string string | ForwardRef string string
  | DeleteRef string | MergeRef string string

fun repo_op :: "ref_op \<Rightarrow> fake_Repo \<Rightarrow> fake_Repo \<Rightarrow> bool" where
  "repo_op Other rp rp' \<longleftrightarrow> fo_Refs rp' = fo_Refs rp \<and> fo_Parents rp' = fo_Parents rp"
| "repo_op (CreateRef b sha) rp rp' \<longleftrightarrow> map_of (fo_Refs rp) b = None \<and>
     map_of (fo_Refs rp') = (map_of (fo_Refs rp))(b \<mapsto> sha) \<and> fo_Parents rp' = fo_Parents rp"
| "repo_op (ForceRef b sha) rp rp' \<longleftrightarrow>
     map_of (fo_Refs rp') = (map_of (fo_Refs rp))(b \<mapsto> sha) \<and> fo_Parents rp' = fo_Parents rp"
| "repo_op (ForwardRef b sha) rp rp' \<longleftrightarrow>
     (\<exists>old. map_of (fo_Refs rp) b = Some old \<and> isAncestor rp old sha = Some True) \<and>
     map_of (fo_Refs rp') = (map_of (fo_Refs rp))(b \<mapsto> sha) \<and> fo_Parents rp' = fo_Parents rp"
| "repo_op (DeleteRef b) rp rp' \<longleftrightarrow>
     map_of (fo_Refs rp') = (map_of (fo_Refs rp))(b := None) \<and> fo_Parents rp' = fo_Parents rp"
| "repo_op (MergeRef b head) rp rp' \<longleftrightarrow> (\<exists>tip. map_of (fo_Refs rp) b = Some tip \<and>
     map_of (fo_Refs rp') = (map_of (fo_Refs rp))(b \<mapsto> merge_sha tip head) \<and>
     fo_Parents rp' = AList.update (merge_sha tip head) [tip, head] (fo_Parents rp))"

text \<open>The state is left alone but for one repository, which changes by \<open>op\<close>.\<close>

definition changes ::
  "ref_op \<Rightarrow> string \<Rightarrow> (string \<times> fake_Repo) list \<Rightarrow> (string \<times> fake_Repo) list \<Rightarrow> bool" where
  "changes op key m m' \<longleftrightarrow> (distinct (map fst m) \<longrightarrow> distinct (map fst m')) \<and>
     (map_of m' = map_of m \<or>
      (\<exists>rp rp'. map_of m key = Some rp \<and> map_of m' = (map_of m)(key \<mapsto> rp') \<and> repo_op op rp rp'))"

abbreviation puts :: "ref_op \<Rightarrow> string \<Rightarrow> fake_Server \<Rightarrow> fake_Server \<Rightarrow> bool" where
  "puts op key s s' \<equiv> changes op key (fs_repos s) (fs_repos s')"

lemma changes_same [simp]: "changes op key m m"
  by (simp add: changes_def)

lemma changes_update [simp]:
  "case map_of m key of None \<Rightarrow> False | Some rp \<Rightarrow> repo_op op rp rp' \<Longrightarrow>
     changes op key m (AList.update key rp' m)"
  unfolding changes_def by (auto simp: update_conv' distinct_update split: option.splits)

lemma run_put_repo [simp]:
  "run_state (put_repo key rp) s = ((), s\<lparr>fs_repos := AList.update key rp (fs_repos s)\<rparr>)"
  by (simp add: put_repo_def)

lemma run_fake_nextID [simp]:
  "run_state fake_nextID s = (fs_idSeq s + 1, s\<lparr>fs_idSeq := fs_idSeq s + 1\<rparr>)"
  by (simp add: fake_nextID_def)

lemma repoOr404_puts:
  assumes "run_state (repoOr404 ow nm f) s = (r, s')"
    and "\<And>rp. map_of (fs_repos s) (ow @ ''/'' @ nm) = Some rp \<Longrightarrow> run_state (f rp) s = (r, s') \<Longrightarrow>
      puts op (ow @ ''/'' @ nm) s s'"
  shows "puts op (ow @ ''/'' @ nm) s s'"
  using assms by (auto simp: repoOr404_def split: option.splits)

lemma puts_other:
  "run_state (hGetRepo ow nm) s = (r, s') \<Longrightarrow> puts Other (ow @ ''/'' @ nm) s s'"
  "run_state (hPatchRepo ow nm body) s = (r, s') \<Longrightarrow> puts Other (ow @ ''/'' @ nm) s s'"
  "run_state (hListPRs ord ow nm st) s = (r, s') \<Longrightarrow> puts Other (ow @ ''/'' @ nm) s s'"
  "run_state (hGetPR ow nm n) s = (r, s') \<Longrightarrow> puts Other (ow @ ''/'' @ nm) s s'"
  "run_state (hEditPR ow nm n body) s = (r, s') \<Longrightarrow> puts Other (ow @ ''/'' @ nm) s s'"
  "run_state (hCreatePR ow nm body) s = (r, s') \<Longrightarrow> puts Other (ow @ ''/'' @ nm) s s'"
  "run_state (hCreateComment ow nm) s = (r, s') \<Longrightarrow> puts Other (ow @ ''/'' @ nm) s s'"
  "run_state (hCreateCheckRun ow nm body) s = (r, s') \<Longrightarrow> puts Other (ow @ ''/'' @ nm) s s'"
  "run_state (hUpdateCheckRun ord ow nm i body) s = (r, s') \<Longrightarrow> puts Other (ow @ ''/'' @ nm) s s'"
  "run_state (hListCheckRuns ow nm sha name) s = (r, s') \<Longrightarrow> puts Other (ow @ ''/'' @ nm) s s'"
  "run_state (hListStatuses ow nm) s = (r, s') \<Longrightarrow> puts Other (ow @ ''/'' @ nm) s s'"
  "run_state (hGetRef ow nm ref) s = (r, s') \<Longrightarrow> puts Other (ow @ ''/'' @ nm) s s'"
  "run_state (hListBranches ord ow nm) s = (r, s') \<Longrightarrow> puts Other (ow @ ''/'' @ nm) s s'"
  "run_state (hCompare ow nm bh) s = (r, s') \<Longrightarrow> puts Other (ow @ ''/'' @ nm) s s'"
  "run_state (hRulesForBranch ow nm b) s = (r, s') \<Longrightarrow> puts Other (ow @ ''/'' @ nm) s s'"
  "run_state (hListRulesets ow nm) s = (r, s') \<Longrightarrow> puts Other (ow @ ''/'' @ nm) s s'"
  "run_state (hCreateRuleset ow nm body) s = (r, s') \<Longrightarrow> puts Other (ow @ ''/'' @ nm) s s'"
  unfolding hGetRepo_def hPatchRepo_def hListPRs_def hGetPR_def hEditPR_def hCreatePR_def
    hCreateComment_def hCreateCheckRun_def hUpdateCheckRun_def hListCheckRuns_def hListStatuses_def
    hGetRef_def hListBranches_def hCompare_def hRulesForBranch_def hListRulesets_def hCreateRuleset_def
  by (erule repoOr404_puts;
      auto simp: Let_def split: option.splits prod.splits)+

lemma puts_refs:
  "run_state (hCreateRef ow nm body) s = (r, s') \<Longrightarrow>
     puts (CreateRef (trim_prefix (body_str ''ref'' body) ''refs/heads/'') (body_str ''sha'' body)) (ow @ ''/'' @ nm) s s'"
  "run_state (hDeleteRef ow nm ref) s = (r, s') \<Longrightarrow>
     puts (DeleteRef (trim_prefix ref ''heads/'')) (ow @ ''/'' @ nm) s s'"
  "run_state (hMerge ow nm body) s = (r, s') \<Longrightarrow>
     puts (MergeRef (body_str ''Base'' body) (body_str ''Head'' body)) (ow @ ''/'' @ nm) s s'"
  "run_state (hUpdateRef ow nm ref body) s = (r, s') \<Longrightarrow>
     puts ((if body_field ''force'' dec_bool False body then ForceRef else ForwardRef)
       (trim_prefix ref ''heads/'') (body_str ''sha'' body)) (ow @ ''/'' @ nm) s s'"
  unfolding hCreateRef_def hDeleteRef_def hMerge_def hUpdateRef_def set_ref_def
  by (erule repoOr404_puts;
      auto simp: Let_def update_conv' delete_conv' split: option.splits if_splits)+

lemma ranged_subset: "set (ranged ord m) \<subseteq> set m"
  by (auto simp: ranged_def List.map_filter_def split: if_splits)

lemma find_node_repo:
  assumes "find_node ord node s = Some (key, rp, n, p)"
  shows "(key, rp) \<in> set (fs_repos s)"
proof -
  have inner: "fold (\<lambda>(n, p) found. if fp_NodeID p = node then Some (k, r, n, p) else found) ps x \<noteq> x \<Longrightarrow>
      \<exists>n p. fold (\<lambda>(n, p) found. if fp_NodeID p = node then Some (k, r, n, p) else found) ps x = Some (k, r, n, p)"
    for k :: string and r :: fake_Repo and ps x
    by (induction ps arbitrary: x) (auto split: if_splits, (metis (mono_tags, lifting))?)
  have "fold (\<lambda>(key, rp) found. fold (\<lambda>(n, p) found. if fp_NodeID p = node then Some (key, rp, n, p) else found)
         (ranged ord (fo_PRs rp)) found) rs x = Some (key, rp, n, p) \<Longrightarrow>
      x = Some (key, rp, n, p) \<or> (key, rp) \<in> set rs" for rs x
  proof (induction rs arbitrary: x)
    case (Cons a rs)
    obtain k r where a: "a = (k, r)" by fastforce
    let ?y = "fold (\<lambda>(n, p) found. if fp_NodeID p = node then Some (k, r, n, p) else found) (ranged ord (fo_PRs r)) x"
    from Cons.IH[of ?y] Cons.prems a have "?y = Some (key, rp, n, p) \<or> (key, rp) \<in> set rs" by simp
    with inner[of k r "ranged ord (fo_PRs r)" x] a show ?case by auto
  qed simp
  from this[of "ranged ord (fs_repos s)" None] assms ranged_subset[of ord "fs_repos s"] show ?thesis by (auto simp: find_node_def)
qed

lemma puts_graphql:
  assumes run: "run_state (hGraphQL ord body) s = (r, s')" and d: "distinct (map fst (fs_repos s))"
  shows "\<exists>key. puts Other key s s'"
proof -
  define node where "node = (case body_field ''variables'' dec_any None body of
      Some (JObj kvs) \<Rightarrow> (case map_of (rev kvs) ''id'' of Some (JStr i) \<Rightarrow> i | _ \<Rightarrow> []) | _ \<Rightarrow> [])"
  show ?thesis
  proof (cases "find_node ord node s")
    case None
    with run show ?thesis by (auto simp: hGraphQL_def node_def[symmetric] split: if_splits)
  next
    case (Some f)
    then obtain key rp n p where f: "find_node ord node s = Some (key, rp, n, p)" by (cases f) auto
    from find_node_repo[OF f] d have "map_of (fs_repos s) key = Some rp" by simp
    with run f have "puts Other key s s'"
      by (auto simp: hGraphQL_def node_def[symmetric] split: if_splits)
    then show ?thesis by blast
  qed
qed

definition rewinds :: "fake_request \<Rightarrow> string \<Rightarrow> string \<Rightarrow> bool" where
  "rewinds q key b \<longleftrightarrow> (\<exists>ow nm rest. fq_Path q = [''api'', ''v3'', ''repos'', ow, nm, ''git'', ''refs''] @ rest \<and>
     key = ow @ ''/'' @ nm \<and> b = trim_prefix (rest_path rest) ''heads/'' \<and>
     (fq_Method q = ''DELETE'' \<or> fq_Method q = ''PATCH'' \<and> body_field ''force'' dec_bool False (fq_Body q)))"

fun asks_for :: "fake_request \<Rightarrow> string \<Rightarrow> ref_op \<Rightarrow> bool" where
  "asks_for q key (CreateRef b sha) \<longleftrightarrow> sha = body_str ''sha'' (fq_Body q)"
| "asks_for q key (ForceRef b sha) \<longleftrightarrow> sha = body_str ''sha'' (fq_Body q) \<and> rewinds q key b"
| "asks_for q key (ForwardRef b sha) \<longleftrightarrow> sha = body_str ''sha'' (fq_Body q)"
| "asks_for q key (DeleteRef b) \<longleftrightarrow> rewinds q key b"
| "asks_for q key (MergeRef b head) \<longleftrightarrow> head = body_str ''Head'' (fq_Body q)"
| "asks_for q key Other \<longleftrightarrow> True"

lemma serve_git_puts:
  assumes run: "run_state (serve_git ow nm tail q) s = (r, s')"
    and path: "fq_Path q = [''api'', ''v3'', ''repos'', ow, nm, ''git''] @ tail"
  shows "\<exists>op. puts op (ow @ ''/'' @ nm) s s' \<and> asks_for q (ow @ ''/'' @ nm) op"
proof (cases tail)
  case Nil
  with run show ?thesis by (auto simp: serve_git_def unhandled_def intro: exI[of _ Other])
next
  case (Cons a rest)
  have rw: "rewinds q (ow @ ''/'' @ nm) (trim_prefix (rest_path rest) ''heads/'')"
    if "a = ''refs''" "fq_Method q = ''DELETE'' \<or> fq_Method q = ''PATCH'' \<and> body_field ''force'' dec_bool False (fq_Body q)"
    using that path Cons by (auto simp: rewinds_def)
  consider "run_state (hGetRef ow nm (rest_path rest)) s = (r, s')"
    | "run_state (hCreateRef ow nm (fq_Body q)) s = (r, s')"
    | "a = ''refs''" "fq_Method q = ''PATCH''" "run_state (hUpdateRef ow nm (rest_path rest) (fq_Body q)) s = (r, s')"
    | "a = ''refs''" "fq_Method q = ''DELETE''" "run_state (hDeleteRef ow nm (rest_path rest)) s = (r, s')"
    | "s' = s"
    using run Cons by (simp add: serve_git_def unhandled_def split: if_splits)
  then show ?thesis
  proof cases
    case 1
    then show ?thesis by (auto dest: puts_other(12) intro!: exI[of _ Other])
  next
    case 2
    from puts_refs(1)[OF this] show ?thesis
      by (intro exI[of _ "CreateRef (trim_prefix (body_str ''ref'' (fq_Body q)) ''refs/heads/'') (body_str ''sha'' (fq_Body q))"])
        simp
  next
    case 3
    let ?op = "(if body_field ''force'' dec_bool False (fq_Body q) then ForceRef else ForwardRef)
       (trim_prefix (rest_path rest) ''heads/'') (body_str ''sha'' (fq_Body q))"
    from puts_refs(4)[OF 3(3)] rw 3(1,2) show ?thesis by (intro exI[of _ ?op]) simp
  next
    case 4
    from puts_refs(2)[OF 4(3)] rw 4(1,2) show ?thesis
      by (intro exI[of _ "DeleteRef (trim_prefix (rest_path rest) ''heads/'')"]) simp
  next
    case 5
    then show ?thesis by (auto intro: exI[of _ Other])
  qed
qed

lemma serve_repo_puts:
  assumes run: "run_state (serve_repo ord ow nm tail q) s = (r, s')"
    and path: "fq_Path q = [''api'', ''v3'', ''repos'', ow, nm] @ tail"
    and key: "ow @ ''/'' @ nm = key"
  shows "\<exists>op. puts op key s s' \<and> asks_for q key op"
proof -
  note handlers = puts_other[where ow = ow and nm = nm, unfolded key]
  have other: ?thesis if "puts Other key s s'"
    using that by (intro exI[of _ Other]) simp
  have same: ?thesis if "run_state (unhandled q) s = (r, s')"
    using that by (intro other) (simp add: unhandled_def)
  have merge: ?thesis if "run_state (hMerge ow nm (fq_Body q)) s = (r, s')"
    using puts_refs(3)[OF that, unfolded key]
    by (intro exI[of _ "MergeRef (body_str ''Base'' (fq_Body q)) (body_str ''Head'' (fq_Body q))"]) simp
  have list: ?thesis if "run_state (serve_list ord ow nm a q) s = (r, s')" for a
    using that unfolding serve_list_def
    by (auto split: if_splits intro: merge same other dest: handlers)
  have item: ?thesis if "run_state (serve_item ord ow nm a i q) s = (r, s')" for a i
    using that unfolding serve_item_def
    by (auto split: if_splits intro: same other dest: handlers)
  have part: ?thesis if "run_state (serve_part ow nm a b c q) s = (r, s')" for a b c
    using that unfolding serve_part_def
    by (auto split: if_splits intro: same other dest: handlers)
  show ?thesis
  proof (cases tail)
    case Nil
    with run show ?thesis unfolding serve_repo_def
      by (auto split: if_splits intro: same other dest: handlers)
  next
    case (Cons a rest)
    show ?thesis
    proof (cases "a = ''git''")
      case True
      with run Cons have "run_state (serve_git ow nm rest q) s = (r, s')" by (simp add: serve_repo_def)
      from serve_git_puts[OF this, unfolded key] path Cons True show ?thesis by simp
    next
      case False
      with run Cons show ?thesis unfolding serve_repo_def
        by (auto split: if_splits list.splits intro: same other list item part dest: handlers)
    qed
  qed
qed

lemma serve_puts:
  assumes run: "run_state (serve ord q) s = (r, s')" and d: "distinct (map fst (fs_repos s))"
  shows "\<exists>op key. puts op key s s' \<and> asks_for q key op"
proof -
  have same: ?thesis if "fs_repos s' = fs_repos s"
    using that by (intro exI[of _ Other]) simp
  consider "run_state (hGraphQL ord (fq_Body q)) s = (r, s')" | "fs_repos s' = fs_repos s"
    | ow nm tail where "take 2 (fq_Path q) = [''api'', ''v3'']" "drop 2 (fq_Path q) = ''repos'' # ow # nm # tail"
      "run_state (serve_repo ord ow nm tail q) s = (r, s')"
    using run
    by (fastforce simp: serve_def unhandled_def Let_def hGetHookConfig_def hUpdateHookConfig_def
        hListInstalls_def hAccessToken_def hInstallRepos_def split: if_splits list.splits)
  then show ?thesis
  proof cases
    case 1
    from puts_graphql[OF this d] obtain key where "puts Other key s s'" by blast
    then show ?thesis by (intro exI[of _ Other] exI[of _ key]) simp
  next
    case 2
    then show ?thesis by (rule same)
  next
    case (3 ow nm tail)
    then have "fq_Path q = [''api'', ''v3'', ''repos'', ow, nm] @ tail"
      using append_take_drop_id[of 2 "fq_Path q"] by simp
    from serve_repo_puts[OF 3(3) this refl] show ?thesis by blast
  qed
qed

subsection \<open>Histories\<close>

definition good_refs :: "fake_Repo \<Rightarrow> bool" where
  "good_refs rp \<longleftrightarrow> (\<forall>b t. map_of (fo_Refs rp) b = Some t \<longrightarrow> good_sha t) \<and>
     (\<forall>c ps. map_of (fo_Parents rp) c = Some ps \<longrightarrow>
        (\<exists>x y. good_sha x \<and> good_sha y \<and> c = merge_sha x y \<and> ps = [x, y]))"

fun op_named :: "ref_op \<Rightarrow> bool" where
  "op_named (CreateRef b sha) \<longleftrightarrow> good_sha sha"
| "op_named (ForceRef b sha) \<longleftrightarrow> good_sha sha"
| "op_named (ForwardRef b sha) \<longleftrightarrow> good_sha sha"
| "op_named (MergeRef b head) \<longleftrightarrow> good_sha head"
| "op_named _ \<longleftrightarrow> True"

lemma parents_of_some: "p \<in> set (parents_of rp c) \<Longrightarrow> map_of (fo_Parents rp) c = Some (parents_of rp c)"
  by (cases "map_of (fo_Parents rp) c") (simp_all add: parents_of_def go_at_def)

lemma good_shorter:
  assumes "good_refs rp"
  shows "shorter_parents (parents_of rp)"
  unfolding shorter_parents_def
proof (intro allI ballI)
  fix c p
  assume p: "p \<in> set (parents_of rp c)"
  from parents_of_some[OF this] assms[unfolded good_refs_def] obtain x y
    where "c = merge_sha x y" "parents_of rp c = [x, y]" by blast
  with p length_merge_sha[of x y] length_merge_sha[of y x] show "length p < length c" by auto
qed

lemma parents_of_same: "fo_Parents rp' = fo_Parents rp \<Longrightarrow> parents_of rp' = parents_of rp"
  by (simp add: parents_of_def[abs_def])

lemma parents_of_merge:
  "fo_Parents rp' = AList.update m ps (fo_Parents rp) \<Longrightarrow>
     parents_of rp' = (parents_of rp)(m := ps)"
  by (auto simp: parents_of_def go_at_def update_conv' fun_eq_iff)

lemma op_shorter:
  assumes "repo_op op rp rp'" "shorter_parents (parents_of rp)"
  shows "shorter_parents (parents_of rp')"
proof (cases op)
  case (MergeRef b head)
  with assms(1) obtain t where "parents_of rp' = (parents_of rp)(merge_sha t head := [t, head])"
    by (auto dest: parents_of_merge)
  with assms(2) length_merge_sha show ?thesis by (simp add: shorter_parents_def)
qed (use assms in \<open>auto dest!: parents_of_same\<close>)

lemma op_good:
  assumes "repo_op op rp rp'" "good_refs rp" "op_named op"
  shows "good_refs rp'" "reach (parents_of rp) x c \<Longrightarrow> reach (parents_of rp') x c"
proof -
  show "good_refs rp'"
  proof (cases op)
    case (MergeRef b head)
    with assms(1) obtain t where ref: "map_of (fo_Refs rp) b = Some t"
      and t': "map_of (fo_Refs rp') = (map_of (fo_Refs rp))(b \<mapsto> merge_sha t head)"
        "fo_Parents rp' = AList.update (merge_sha t head) [t, head] (fo_Parents rp)"
      by auto
    from ref assms(2) have "good_sha t" unfolding good_refs_def by blast
    with MergeRef assms(3) t' have t: "good_sha t" "good_sha head"
      "map_of (fo_Refs rp') = (map_of (fo_Refs rp))(b \<mapsto> merge_sha t head)"
      "map_of (fo_Parents rp') = (map_of (fo_Parents rp))(merge_sha t head \<mapsto> [t, head])"
      by (simp_all add: update_conv')
    with good_sha.merged[OF t(1,2)] assms(2) show ?thesis
      unfolding good_refs_def t(3,4) by (metis fun_upd_apply option.inject)
  qed (use assms in \<open>auto simp: good_refs_def split: if_splits\<close>)
next
  assume r: "reach (parents_of rp) x c"
  show "reach (parents_of rp') x c"
  proof (cases op)
    case (MergeRef b head)
    with assms obtain t where t: "map_of (fo_Refs rp) b = Some t" "good_sha t" "good_sha head"
      "parents_of rp' = (parents_of rp)(merge_sha t head := [t, head])"
      by (auto simp: good_refs_def dest: parents_of_merge)
    have "parents_of rp' c = parents_of rp c" if c: "parents_of rp c \<noteq> []" for c
    proof (cases "c = merge_sha t head")
      case True
      from c have ps: "map_of (fo_Parents rp) c = Some (parents_of rp c)"
        by (cases "map_of (fo_Parents rp) c") (simp_all add: parents_of_def go_at_def)
      with assms(2)[unfolded good_refs_def] obtain x y
        where "good_sha x" "c = merge_sha x y" "parents_of rp c = [x, y]" by blast
      with merge_sha_inject[OF _ t(2), of x y head] True t(4) show ?thesis by simp
    qed (simp add: t(4))
    from reach_mono[OF this r] show ?thesis .
  qed (use assms r in \<open>auto dest!: parents_of_same\<close>)
qed

lemma op_tip:
  assumes "repo_op op rp rp'" "good_refs rp" "op_named op" "map_of (fo_Refs rp) b = Some t"
    "op \<noteq> DeleteRef b" "\<And>sha. op \<noteq> ForceRef b sha"
  shows "\<exists>t'. map_of (fo_Refs rp') b = Some t' \<and> reach (parents_of rp') t t'"
proof (cases op)
  case (ForwardRef b' sha)
  with assms isAncestor_total[OF good_shorter[OF assms(2)]] show ?thesis
    by (auto dest!: parents_of_same)
next
  case (MergeRef b' head)
  then obtain t0 where "map_of (fo_Refs rp) b' = Some t0"
      "parents_of rp' = (parents_of rp)(merge_sha t0 head := [t0, head])"
      "map_of (fo_Refs rp') = (map_of (fo_Refs rp))(b' \<mapsto> merge_sha t0 head)"
    using assms by (auto dest: parents_of_merge)
  with assms(4) reach_parent[of t0 "parents_of rp'" "merge_sha t0 head" t0] show ?thesis by auto
qed (use assms in \<open>auto split: if_splits\<close>)

text \<open>The tip of a branch, the parents of a commit and the ancestors, by repository.\<close>

definition key_tip :: "fake_Server \<Rightarrow> string \<Rightarrow> string \<Rightarrow> string option" where
  "key_tip s key b = (case map_of (fs_repos s) key of None \<Rightarrow> None | Some rp \<Rightarrow> map_of (fo_Refs rp) b)"

definition key_parents :: "fake_Server \<Rightarrow> string \<Rightarrow> string \<Rightarrow> string list" where
  "key_parents s key = (case map_of (fs_repos s) key of None \<Rightarrow> (\<lambda>_. []) | Some rp \<Rightarrow> parents_of rp)"

definition fake_ok :: "fake_Server \<Rightarrow> bool" where
  "fake_ok s \<longleftrightarrow> distinct (map fst (fs_repos s)) \<and>
     (\<forall>key rp. map_of (fs_repos s) key = Some rp \<longrightarrow> good_refs rp)"

definition fake_wf :: "fake_Server \<Rightarrow> bool" where
  "fake_wf s \<longleftrightarrow> distinct (map fst (fs_repos s)) \<and>
     (\<forall>key rp. map_of (fs_repos s) key = Some rp \<longrightarrow> shorter_parents (parents_of rp))"

lemma puts_wf: "puts op key s s' \<Longrightarrow> fake_wf s \<Longrightarrow> fake_wf s'"
  unfolding changes_def fake_wf_def by (metis fun_upd_apply op_shorter option.inject)

lemma change_good:
  assumes "M' = M \<or> (\<exists>rp rp'. M key = Some rp \<and> M' = M(key \<mapsto> rp') \<and> repo_op op rp rp')"
    and "\<forall>k rp. M k = Some rp \<longrightarrow> good_refs rp" and "op_named op"
  shows "M' k = Some rp \<Longrightarrow> good_refs rp"
    and "reach (case M k of None \<Rightarrow> (\<lambda>_. []) | Some rp \<Rightarrow> parents_of rp) x c \<Longrightarrow>
      reach (case M' k of None \<Rightarrow> (\<lambda>_. []) | Some rp \<Rightarrow> parents_of rp) x c"
  using assms by (auto split: if_splits option.splits) (blast intro: op_good)+

lemma puts_ok:
  assumes "puts op key s s'" "fake_ok s" "op_named op"
  shows "fake_ok s'" "reach (key_parents s k) x c \<Longrightarrow> reach (key_parents s' k) x c"
proof -
  from assms(1,2) have c: "map_of (fs_repos s') = map_of (fs_repos s) \<or>
      (\<exists>rp rp'. map_of (fs_repos s) key = Some rp \<and>
         map_of (fs_repos s') = (map_of (fs_repos s))(key \<mapsto> rp') \<and> repo_op op rp rp')"
    and d: "distinct (map fst (fs_repos s'))" and g: "\<forall>k rp. map_of (fs_repos s) k = Some rp \<longrightarrow> good_refs rp"
    unfolding changes_def fake_ok_def by blast+
  show "fake_ok s'" using d change_good(1)[OF c g assms(3)] unfolding fake_ok_def by blast
  show "reach (key_parents s k) x c \<Longrightarrow> reach (key_parents s' k) x c"
    unfolding key_parents_def by (rule change_good(2)[OF c g assms(3)])
qed

lemma puts_tip:
  assumes "puts op key s s'" "fake_ok s" "op_named op" "key_tip s k b = Some t"
    "k = key \<Longrightarrow> op \<noteq> DeleteRef b" "\<And>sha. k = key \<Longrightarrow> op \<noteq> ForceRef b sha"
  shows "\<exists>t'. key_tip s' k b = Some t' \<and> reach (key_parents s' k) t t'"
proof -
  obtain rp where rp: "map_of (fs_repos s) k = Some rp" "map_of (fo_Refs rp) b = Some t"
    using assms(4) by (auto simp: key_tip_def split: option.splits)
  have "good_refs rp" using assms(2) rp by (auto simp: fake_ok_def)
  with op_tip[of op rp _ b t] assms(1,3,5,6) rp show ?thesis
    by (cases "k = key") (auto simp: changes_def key_tip_def key_parents_def)
qed

subsection \<open>Runs of the server\<close>

text \<open>The states of a server whose requests satisfy \<open>P\<close>. Besides, the tests may add
  installations and pull requests, and change everything of a repository but its branches and
  commits.\<close>

inductive fake_run :: "(fake_request \<Rightarrow> bool) \<Rightarrow> range_order \<Rightarrow> fake_Server \<Rightarrow> bool" for P ord where
  start: "fake_run P ord fake_New"
| request: "fake_run P ord s \<Longrightarrow> P q \<Longrightarrow> run_state (serve ord q) s = (r, s') \<Longrightarrow> fake_run P ord s'"
| install: "fake_run P ord s \<Longrightarrow> run_state (AddInstallation i fulls) s = (u, s') \<Longrightarrow> fake_run P ord s'"
| repo: "fake_run P ord s \<Longrightarrow> run_state (AddRepo ow nm) s = (u, s') \<Longrightarrow> fake_run P ord s'"
| pull: "fake_run P ord s \<Longrightarrow> run_state (AddPR ow nm pr) s = (u, s') \<Longrightarrow> fake_run P ord s'"
| arrange: "fake_run P ord s \<Longrightarrow> map_of (fs_repos s) key = Some rp \<Longrightarrow> repo_op Other rp rp' \<Longrightarrow>
    run_state (put_repo key rp') s = (u, s') \<Longrightarrow> fake_run P ord s'"

text \<open>Every name a request brings is empty, plain, or made of merges.\<close>

definition well_named :: "fake_request \<Rightarrow> bool" where
  "well_named q \<longleftrightarrow> good_sha (body_str ''sha'' (fq_Body q)) \<and> good_sha (body_str ''Head'' (fq_Body q))"

lemma asks_named: "asks_for q key op \<Longrightarrow> well_named q \<Longrightarrow> op_named op"
  by (cases op) (auto simp: well_named_def)

lemma AddPR_puts: "run_state (AddPR ow nm pr) s = (u, s') \<Longrightarrow> puts Other (ow @ ''/'' @ nm) s s'"
  unfolding AddPR_def by (auto simp: Let_def split: option.splits if_splits)

lemma good_main: "good_sha ''sha-main''"
  by (rule good_sha.plain) simp

lemma good_new_repo: "good_refs (new_repo ow nm)"
  by (simp add: good_refs_def new_repo_def good_main)

lemma AddRepo_ok:
  "run_state (AddRepo ow nm) s = (u, s') \<Longrightarrow> fake_wf s \<Longrightarrow> fake_wf s'"
  "run_state (AddRepo ow nm) s = (u, s') \<Longrightarrow> fake_ok s \<Longrightarrow> fake_ok s'"
  using good_new_repo good_shorter[OF good_new_repo]
  by (auto simp: AddRepo_def fake_wf_def fake_ok_def update_conv' distinct_update split: if_splits)

lemma fake_run_wf: "fake_run P ord s \<Longrightarrow> fake_wf s"
proof (induction rule: fake_run.induct)
  case (request s q r s')
  then have "distinct (map fst (fs_repos s))" by (simp add: fake_wf_def)
  from serve_puts[OF request.hyps(3) this] request.IH show ?case by (blast intro: puts_wf)
next
  case (pull s ow nm pr u s')
  from puts_wf[OF AddPR_puts[OF pull.hyps(2)] pull.IH] show ?case .
next
  case (arrange s key rp rp' u s')
  then have "puts Other key s s'" by auto
  from puts_wf[OF this arrange.IH] show ?case .
qed (auto simp: fake_New_def AddInstallation_def intro: AddRepo_ok, simp_all add: fake_wf_def)

lemma fake_run_ok: "fake_run well_named ord s \<Longrightarrow> fake_ok s"
proof (induction rule: fake_run.induct)
  case (request s q r s')
  then have "distinct (map fst (fs_repos s))" by (simp add: fake_ok_def)
  from serve_puts[OF request.hyps(3) this] request.IH request.hyps(2) show ?case
    by (blast intro: puts_ok asks_named)
next
  case (pull s ow nm pr u s')
  from puts_ok(1)[OF AddPR_puts[OF pull.hyps(2)] pull.IH] show ?case by simp
next
  case (arrange s key rp rp' u s')
  then have "puts Other key s s'" by auto
  from puts_ok(1)[OF this arrange.IH] show ?case by simp
qed (auto simp: fake_New_def AddInstallation_def intro: AddRepo_ok, simp_all add: fake_ok_def)

end
