(* ===== verification/GitServer.thy ===== *)
theory GitServer
  imports GithubForge
begin

text \<open>
  What the GitHub adapter relies on when it builds and lands merge commits: the laws of a git
  server, and what the operations of the adapter guarantee on any server that keeps them. The
  server of theory \<open>GhFake\<close> is shown to keep them in theory \<open>GhFakeClient\<close>.
\<close>

text \<open>Between two states of a server the repository \<open>ow/nm\<close> keeps its commits and their
  ancestors, and all its branches but those in \<open>B\<close> stay where they are.\<close>

definition refs_step ::
  "('g \<Rightarrow> bool) \<Rightarrow> ('g \<Rightarrow> string \<Rightarrow> string option) \<Rightarrow> ('g \<Rightarrow> string \<Rightarrow> string \<Rightarrow> bool) \<Rightarrow>
     string set \<Rightarrow> 'g \<Rightarrow> 'g \<Rightarrow> bool" where
  "refs_step ok tip anc B g g' \<longleftrightarrow>
     (ok g \<longrightarrow> ok g' \<and> (\<forall>x y. anc g x y \<longrightarrow> anc g' x y) \<and> (\<forall>b. b \<notin> B \<longrightarrow> tip g' b = tip g b))"

lemma refs_step_po [simp]: "po_rel (refs_step ok tip anc B)"
  by (auto simp: po_rel_def refs_step_def)

lemma client_net: "run_state (ClientForRepo a ow nm) s = (r, s') \<Longrightarrow> gs_net s' = gs_net s"
  by (auto simp: ClientForRepo_def installationClient_def split: option.splits if_splits)

lemma refs_step_mono: "refs_step ok tip anc A g g' \<Longrightarrow> A \<subseteq> B \<Longrightarrow> refs_step ok tip anc B g g'"
  by (auto simp: refs_step_def)

locale git_server =
  fixes api :: "'g gh_api"
    and ok :: "'g \<Rightarrow> bool"
    and sha_ok :: "string \<Rightarrow> bool"
    and tip :: "'g \<Rightarrow> string \<Rightarrow> string \<Rightarrow> string \<Rightarrow> string option"
    and anc :: "'g \<Rightarrow> string \<Rightarrow> string \<Rightarrow> string \<Rightarrow> string \<Rightarrow> bool"
  assumes anc_refl: "anc g ow nm x x"
    and anc_trans: "anc g ow nm x y \<Longrightarrow> anc g ow nm y z \<Longrightarrow> anc g ow nm x z"
    and tip_ok: "ok g \<Longrightarrow> tip g ow nm b = Some t \<Longrightarrow> sha_ok t"
    and sha_nonempty: "sha_ok t \<Longrightarrow> t \<noteq> []"
    and get_ref: "run_state (ha_GetRef api c ow nm (''heads/'' @ b)) g = (r, g') \<Longrightarrow> ok g \<Longrightarrow>
      refs_step ok (\<lambda>g. tip g ow nm) (\<lambda>g. anc g ow nm) {} g g' \<and>
      (\<forall>s. r = Inr s \<longrightarrow> tip g ow nm b = Some (gh_text s))"
    and create_ref: "run_state (ha_CreateRef api c ow nm (''refs/heads/'' @ b) sha) g = (u, g') \<Longrightarrow>
      ok g \<Longrightarrow> sha_ok sha \<Longrightarrow>
      refs_step ok (\<lambda>g. tip g ow nm) (\<lambda>g. anc g ow nm) {b} g g' \<and>
      (u = Inr () \<longrightarrow> tip g' ow nm b = Some sha)"
    and force_ref: "run_state (ha_UpdateRef api c ow nm (''heads/'' @ b) sha True) g = ((u, st), g') \<Longrightarrow>
      ok g \<Longrightarrow> sha_ok sha \<Longrightarrow>
      refs_step ok (\<lambda>g. tip g ow nm) (\<lambda>g. anc g ow nm) {b} g g' \<and>
      (u = Inr () \<longrightarrow> tip g' ow nm b = Some sha)"
    and forward_ref: "run_state (ha_UpdateRef api c ow nm (''heads/'' @ b) sha False) g = ((u, st), g') \<Longrightarrow>
      ok g \<Longrightarrow> sha_ok sha \<Longrightarrow>
      refs_step ok (\<lambda>g. tip g ow nm) (\<lambda>g. anc g ow nm) {b} g g' \<and>
      (u = Inr () \<longrightarrow> tip g' ow nm b = Some sha \<and>
         (\<exists>t. tip g ow nm b = Some t \<and> anc g ow nm t sha))"
    and merge: "run_state (ha_Merge api c ow nm b head) g = ((m, st), g') \<Longrightarrow> ok g \<Longrightarrow> sha_ok head \<Longrightarrow>
      refs_step ok (\<lambda>g. tip g ow nm) (\<lambda>g. anc g ow nm) {b} g g' \<and>
      (\<forall>t. tip g ow nm b = Some t \<longrightarrow> (\<exists>t'. tip g' ow nm b = Some t' \<and> anc g' ow nm t t')) \<and>
      (\<forall>s. m = Inr s \<longrightarrow> (\<exists>t'. tip g' ow nm b = Some t' \<and> anc g' ow nm head t' \<and>
         (if gh_text s = [] then tip g ow nm b = Some t' else t' = gh_text s)))"
begin

abbreviation kept :: "string \<Rightarrow> string \<Rightarrow> string set \<Rightarrow> 'g \<Rightarrow> 'g \<Rightarrow> bool" where
  "kept ow nm \<equiv> refs_step ok (\<lambda>g. tip g ow nm) (\<lambda>g. anc g ow nm)"

lemma kept_trans: "kept ow nm B g h \<Longrightarrow> kept ow nm B h k \<Longrightarrow> kept ow nm B g k"
  using refs_step_po[of ok "\<lambda>g. tip g ow nm" "\<lambda>g. anc g ow nm" B] unfolding po_rel_def by blast

lemma kept_refl [simp]: "kept ow nm B g g"
  by (simp add: refs_step_def)

lemma run_in_github: "run_state (in_github m) s = (r, s') \<longleftrightarrow>
    (\<exists>g. run_state m (gs_net s) = (r, g) \<and> s' = s\<lparr>gs_net := g\<rparr>)"
  by (auto simp: in_github_def split: prod.splits)

lemma make_branch_spec:
  assumes run: "run_state (make_branch api c ow nm b sha) s = (u, s')"
    and "ok (gs_net s)" "sha_ok sha"
  shows "kept ow nm {b} (gs_net s) (gs_net s') \<and> (u = Inr () \<longrightarrow> tip (gs_net s') ow nm b = Some sha)"
proof -
  obtain r g where c: "run_state (ha_CreateRef api c ow nm (''refs/heads/'' @ b) sha) (gs_net s) = (r, g)"
    by fastforce
  note cr = create_ref[OF c assms(2,3)]
  then have okg: "ok g" using assms(2) by (simp add: refs_step_def)
  obtain r2 st g2 where f: "run_state (ha_UpdateRef api c ow nm (''heads/'' @ b) sha True) g = ((r2, st), g2)"
    by (metis prod.exhaust)
  note fr = force_ref[OF f okg assms(3)]
  show ?thesis
  proof (cases r)
    case (Inr x)
    with run c cr show ?thesis by (auto simp: make_branch_def in_github_def)
  next
    case (Inl e)
    with run c f cr fr show ?thesis
      by (auto simp: make_branch_def in_github_def split: if_splits sum.splits intro: kept_trans)
  qed
qed

lemma mergeHead_spec:
  assumes run: "run_state (mergeHead api c ow nm b head) s = (r, s')"
    and "ok (gs_net s)" "sha_ok head"
  shows "kept ow nm {b} (gs_net s) (gs_net s') \<and>
    (\<forall>t. tip (gs_net s) ow nm b = Some t \<longrightarrow>
       (\<exists>t'. tip (gs_net s') ow nm b = Some t' \<and> anc (gs_net s') ow nm t t')) \<and>
    (\<forall>sha. r = Inr (sha, False) \<longrightarrow> (\<exists>t'. tip (gs_net s') ow nm b = Some t' \<and>
       anc (gs_net s') ow nm head t' \<and> (if sha = [] then tip (gs_net s) ow nm b = Some t' else t' = sha)))"
proof -
  obtain m st g where m: "run_state (ha_Merge api c ow nm b head) (gs_net s) = ((m, st), g)"
    by (metis prod.exhaust)
  note law = merge[OF m assms(2,3)]
  show ?thesis
  proof (cases m)
    case (Inl e)
    with law run m show ?thesis by (auto simp: mergeHead_def in_github_def split: if_splits)
  next
    case (Inr x)
    with run m have "r = Inr (gh_text x, False)" "gs_net s' = g"
      by (auto simp: mergeHead_def in_github_def)
    with law Inr show ?thesis by simp
  qed
qed

text \<open>\<open>CreateMergeBranch\<close>: the commit it returns is the tip of the merge branch and contains the
  base as it was, and the head.\<close>

lemma CreateMergeBranch_spec:
  assumes run: "run_state (gh_CreateMergeBranch a ow nm base head b) s = (r, s')"
    and api: "ap_API a = api" and ok: "ok (gs_net s)" and head: "sha_ok head" and "base \<noteq> b"
  shows "kept ow nm {b} (gs_net s) (gs_net s') \<and>
    (\<forall>sha. r = Inr (sha, False) \<longrightarrow> (\<exists>t. tip (gs_net s) ow nm base = Some t \<and>
       tip (gs_net s') ow nm b = Some sha \<and> anc (gs_net s') ow nm t sha \<and> anc (gs_net s') ow nm head sha))"
proof -
  obtain k v where k: "run_state (ClientForRepo a ow nm) s = (k, v)" by fastforce
  then have net: "gs_net v = gs_net s" by (rule client_net)
  show ?thesis
  proof (cases k)
    case (Inl e)
    with run k net show ?thesis by (auto simp: gh_CreateMergeBranch_def with_client_def)
  next
    case (Inr c)
    obtain q g where q: "run_state (ha_GetRef api c ow nm (''heads/'' @ base)) (gs_net s) = (q, g)" by fastforce
    note gr = get_ref[OF q ok]
    then have okg: "ok g" using ok by (simp add: refs_step_def)
    show ?thesis
    proof (cases q)
      case (Inl e)
      with run k \<open>k = Inr c\<close> net q gr api show ?thesis
        by (auto simp: gh_CreateMergeBranch_def with_client_def in_github_def intro: refs_step_mono)
    next
      case (Inr x)
      then have t: "tip (gs_net s) ow nm base = Some (gh_text x)" "sha_ok (gh_text x)"
        using gr tip_ok ok by auto
      obtain u v1 where mk: "run_state (make_branch api c ow nm b (gh_text x)) (v\<lparr>gs_net := g\<rparr>) = (u, v1)"
        by fastforce
      note mb = make_branch_spec[OF mk] okg t(2)
      from mb have mb: "kept ow nm {b} g (gs_net v1)" "u = Inr () \<Longrightarrow> tip (gs_net v1) ow nm b = Some (gh_text x)"
        by simp_all
      then have ok1: "ok (gs_net v1)" using okg by (simp add: refs_step_def)
      have k1: "kept ow nm {b} (gs_net s) (gs_net v1)"
        using gr mb(1) by (auto intro: kept_trans refs_step_mono)
      show ?thesis
      proof (cases u)
        case (Inl e)
        with run k \<open>k = Inr c\<close> net q \<open>q = Inr x\<close> mk k1 api show ?thesis
          by (auto simp: gh_CreateMergeBranch_def with_client_def in_github_def Let_def)
      next
        case (Inr y)
        obtain m v2 where m: "run_state (mergeHead api c ow nm b head) v1 = (m, v2)" by fastforce
        note mh = mergeHead_spec[OF m ok1 head]
        from run k \<open>k = Inr c\<close> net q \<open>q = Inr x\<close> mk Inr m api
        have s': "s' = v2" and r: "r = (case m of Inl e \<Rightarrow> Inl e | Inr (sha, conflict) \<Rightarrow>
            Inr (if conflict then ([], True) else if sha = [] then (gh_text x, False) else (sha, False)))"
          by (auto simp: gh_CreateMergeBranch_def with_client_def in_github_def Let_def
              split: sum.splits prod.splits)
        have "kept ow nm {b} (gs_net s) (gs_net s')" using k1 mh s' by (auto intro: kept_trans)
        moreover have "tip (gs_net s') ow nm b = Some sha \<and> anc (gs_net s') ow nm (gh_text x) sha \<and>
            anc (gs_net s') ow nm head sha" if "r = Inr (sha, False)" for sha
        proof -
          from that r obtain z where z: "m = Inr (z, False)" "sha = (if z = [] then gh_text x else z)"
            by (auto split: sum.splits if_splits)
          with mh mb(2) Inr s' show ?thesis by (auto split: if_splits)
        qed
        ultimately show ?thesis using t(1) by blast
      qed
    qed
  qed
qed

text \<open>\<open>MergeInto\<close>: the branch only moves forward, and the commit returned is its tip and
  contains the head.\<close>

lemma MergeInto_spec:
  assumes run: "run_state (gh_MergeInto a ow nm b head) s = (r, s')"
    and api: "ap_API a = api" and ok: "ok (gs_net s)" and head: "sha_ok head"
    and t: "tip (gs_net s) ow nm b = Some t"
  shows "kept ow nm {b} (gs_net s) (gs_net s') \<and>
    (\<exists>t'. tip (gs_net s') ow nm b = Some t' \<and> anc (gs_net s') ow nm t t') \<and>
    (\<forall>sha. r = Inr (sha, False) \<longrightarrow> tip (gs_net s') ow nm b = Some sha \<and> anc (gs_net s') ow nm head sha)"
proof -
  obtain k v where k: "run_state (ClientForRepo a ow nm) s = (k, v)" by fastforce
  then have net: "gs_net v = gs_net s" by (rule client_net)
  show ?thesis
  proof (cases k)
    case (Inl e)
    with run k net t anc_refl show ?thesis by (auto simp: gh_MergeInto_def with_client_def)
  next
    case (Inr c)
    obtain m v1 where m: "run_state (mergeHead api c ow nm b head) v = (m, v1)" by fastforce
    have "ok (gs_net v)" using ok net by simp
    note mh = mergeHead_spec[OF m this head]
    then have ok1: "ok (gs_net v1)" using ok net by (simp add: refs_step_def)
    obtain q g where q: "run_state (ha_GetRef api c ow nm (''heads/'' @ b)) (gs_net v1) = (q, g)" by fastforce
    note gr = get_ref[OF q ok1]
    have gk: "kept ow nm {b} (gs_net v1) g" using gr by (auto intro: refs_step_mono)
    have gt: "tip g ow nm b = tip (gs_net v1) ow nm b" "\<And>x y. anc (gs_net v1) ow nm x y \<Longrightarrow> anc g ow nm x y"
      using gr ok1 by (auto simp: refs_step_def)
    show ?thesis
    proof (cases "m = Inr ([], False)")
      case True
      with run k \<open>k = Inr c\<close> m q api have r: "gs_net s' = g"
          "r = (case q of Inl e \<Rightarrow> Inl (Wrap (''resolve '' @ b @ '' after no-op merge'') e)
            | Inr x \<Rightarrow> Inr (gh_text x, False))"
        by (auto simp: gh_MergeInto_def with_client_def in_github_def split: sum.splits)
      show ?thesis
        using mh gr gk gt r True t net by (fastforce split: sum.splits intro: kept_trans)
    next
      case False
      with run k \<open>k = Inr c\<close> m api have "s' = v1" "r = m \<or> (\<forall>sha. r \<noteq> Inr (sha, False))"
          "r = Inr (sha, False) \<Longrightarrow> sha \<noteq> []" for sha
        by (auto simp: gh_MergeInto_def with_client_def in_github_def split: sum.splits prod.splits if_splits)
      with mh t net False show ?thesis by fastforce
    qed
  qed
qed

text \<open>\<open>FastForward\<close>: it moves the branch to the commit only if that contains what it held.\<close>

lemma FastForward_spec:
  assumes run: "run_state (gh_FastForward a ow nm b sha) s = (r, s')"
    and api: "ap_API a = api" and ok: "ok (gs_net s)" and sha: "sha_ok sha"
  shows "kept ow nm {b} (gs_net s) (gs_net s') \<and>
    (r = Inr () \<longrightarrow> tip (gs_net s') ow nm b = Some sha \<and>
       (\<exists>t. tip (gs_net s) ow nm b = Some t \<and> anc (gs_net s) ow nm t sha))"
proof -
  obtain k v where k: "run_state (ClientForRepo a ow nm) s = (k, v)" by fastforce
  then have net: "gs_net v = gs_net s" by (rule client_net)
  show ?thesis
  proof (cases k)
    case (Inl e)
    with run k net show ?thesis by (auto simp: gh_FastForward_def with_client_def)
  next
    case (Inr c)
    obtain u st g where f: "run_state (ha_UpdateRef api c ow nm (''heads/'' @ b) sha False) (gs_net s) = ((u, st), g)"
      by (metis prod.exhaust)
    from forward_ref[OF f ok sha] run k Inr f api net show ?thesis
      by (auto simp: gh_FastForward_def with_client_def in_github_def split: sum.splits)
  qed
qed

end

end
