(* ===== verification/GhFakeClient.thy ===== *)
theory GhFakeClient
  imports GhFakeInv GitServer
begin

text \<open>
  The server of theory \<open>GhFake\<close> as the GitHub of the adapter: \<open>fake_api\<close> instantiates the calls of
  the client library with the exchanges their documentation describes, and an interpretation
  shows that the server keeps the laws of \<open>git_server\<close>.
\<close>

subsection \<open>The calls\<close>

type_synonym 'a fake_answer = "(fake_Server, (error + 'a) \<times> int option) state"

definition reply_message :: "json \<Rightarrow> string" where
  "reply_message j = body_str ''message'' (Some j)"

definition fake_result :: "string \<Rightarrow> reply \<Rightarrow> (error + json) \<times> int option" where
  "fake_result m r = (case r of
       WriteJSON code j \<Rightarrow> (if 200 \<le> code \<and> code \<le> 299 then Inr j
         else Inl (GhErrorResponse (m @ '' '' @ reply_message j) (reply_message j) (Some code)), Some code)
     | PlainReply code text \<Rightarrow> (Inl (GhErrorResponse (m @ '' '' @ text) [] (Some code)), Some code)
     | EmptyReply code \<Rightarrow> (Inr JNull, Some code)
     | Crash \<Rightarrow> (Inl (PlainError ''EOF''), None))"

definition fake_call ::
  "range_order \<Rightarrow> string \<Rightarrow> string list \<Rightarrow> (string \<Rightarrow> string) \<Rightarrow> int \<Rightarrow> json option \<Rightarrow> json fake_answer" where
  "fake_call ord m path query c body = do {
     r \<leftarrow> serve ord \<lparr>fq_Method = m, fq_Path = [''api'', ''v3''] @ path, fq_Query = query,
       fq_Auth = ''token ghs_fake_'' @ show_int c, fq_Body = body, fq_Expires = []\<rparr>;
     ret (fake_result m r) }"

definition fake_plain :: "json fake_answer \<Rightarrow> (json \<Rightarrow> 'a) \<Rightarrow> (fake_Server, error + 'a) state" where
  "fake_plain m f = do { r \<leftarrow> m; ret (case fst r of Inl e \<Rightarrow> Inl e | Inr j \<Rightarrow> Inr (f j)) }"

definition fake_status :: "json fake_answer \<Rightarrow> (json \<Rightarrow> 'a) \<Rightarrow> 'a fake_answer" where
  "fake_status m f = do { r \<leftarrow> m; ret (case fst r of Inl e \<Rightarrow> Inl e | Inr j \<Rightarrow> Inr (f j), snd r) }"

text \<open>An answer without a link to a next page is the only page.\<close>

definition fake_iter :: "json fake_answer \<Rightarrow> (json \<Rightarrow> 'a list) \<Rightarrow> (fake_Server, 'a iter) state" where
  "fake_iter m f = do { r \<leftarrow> m; ret (case fst r of Inl e \<Rightarrow> ([], Some e) | Inr j \<Rightarrow> (f j, None)) }"

definition json_at :: "string \<Rightarrow> json \<Rightarrow> json" where
  "json_at k j = (case j of JObj kvs \<Rightarrow> go_at kvs k JNull | _ \<Rightarrow> JNull)"

definition json_items :: "json \<Rightarrow> json list" where
  "json_items j = (case j of JArr js \<Rightarrow> js | _ \<Rightarrow> [])"

definition json_text :: "json \<Rightarrow> string option" where
  "json_text j = (case j of JStr s \<Rightarrow> Some s | _ \<Rightarrow> None)"

definition json_int :: "json \<Rightarrow> int option" where
  "json_int j = (case j of JNum n \<Rightarrow> parse_int64 n | _ \<Rightarrow> None)"

definition read_pull :: "json \<Rightarrow> gh_PullRequest" where
  "read_pull j =
     \<lparr>hp_Number = json_int (json_at ''number'' j), hp_Title = json_text (json_at ''title'' j),
      hp_State = json_text (json_at ''state'' j),
      hp_Merged = (case json_at ''merged'' j of JBool b \<Rightarrow> Some b | _ \<Rightarrow> None),
      hp_Login = json_text (json_at ''login'' (json_at ''user'' j)),
      hp_HeadRef = json_text (json_at ''ref'' (json_at ''head'' j)),
      hp_HeadSHA = json_text (json_at ''sha'' (json_at ''head'' j)),
      hp_BaseRef = json_text (json_at ''ref'' (json_at ''base'' j)),
      hp_HTMLURL = json_text (json_at ''html_url'' j),
      hp_AutoMerge = (json_at ''auto_merge'' j \<noteq> JNull), hp_NodeID = json_text (json_at ''node_id'' j)\<rparr>"

definition read_run :: "json \<Rightarrow> gh_CheckRun" where
  "read_run j =
     \<lparr>hk_ID = json_int (json_at ''id'' j), hk_Name = json_text (json_at ''name'' j),
      hk_Status = json_text (json_at ''status'' j), hk_Conclusion = json_text (json_at ''conclusion'' j),
      hk_Summary = json_text (json_at ''summary'' (json_at ''output'' j)),
      hk_DetailsURL = json_text (json_at ''details_url'' j)\<rparr>"

definition optional_field :: "string \<Rightarrow> string option \<Rightarrow> (string \<times> json) list" where
  "optional_field k v = (case v of None \<Rightarrow> [] | Some s \<Rightarrow> [(k, JStr s)])"

definition run_body :: "gh_CheckRunOptions \<Rightarrow> (string \<times> json) list" where
  "run_body opts = [(''name'', JStr (ho_Name opts)), (''status'', JStr (ho_Status opts))] @
     optional_field ''conclusion'' (ho_Conclusion opts) @ optional_field ''details_url'' (ho_DetailsURL opts) @
     [(''output'', JObj [(''title'', JStr (ho_Title opts)), (''summary'', JStr (ho_Summary opts))])]"

abbreviation no_query :: "string \<Rightarrow> string" where
  "no_query \<equiv> \<lambda>_. []"

abbreviation repo_path :: "string \<Rightarrow> string \<Rightarrow> string list \<Rightarrow> string list" where
  "repo_path ow nm tail \<equiv> [''repos'', ow, nm] @ tail"

definition fake_api :: "range_order \<Rightarrow> fake_Server gh_api" where
  "fake_api ord =
     \<lparr>ha_ListInstallations = fake_iter (fake_call ord ''GET'' [''app'', ''installations''] no_query 0 None)
        (\<lambda>j. List.map_filter (\<lambda>i. json_int (json_at ''id'' i)) (json_items j)),
      ha_ListRepos = (\<lambda>c. fake_iter (fake_call ord ''GET'' [''installation'', ''repositories''] no_query c None)
        (\<lambda>j. List.map_filter (\<lambda>r. json_text (json_at ''full_name'' r)) (json_items (json_at ''repositories'' j)))),
      ha_UpdateHookConfig = (\<lambda>url secret ct. fake_plain (fake_call ord ''PATCH'' [''app'', ''hook'', ''config'']
        no_query 0 (Some (JObj [(''url'', JStr url), (''secret'', JStr secret), (''content_type'', JStr ct)])))
        (\<lambda>_. ())),
      ha_ListPulls = (\<lambda>c ow nm. fake_iter (fake_call ord ''GET'' (repo_path ow nm [''pulls''])
        (\<lambda>k. if k = ''state'' then ''open'' else []) c None) (map read_pull \<circ> json_items)),
      ha_GetPull = (\<lambda>c ow nm n. fake_plain
        (fake_call ord ''GET'' (repo_path ow nm [''pulls'', show_int n]) no_query c None) read_pull),
      ha_EditPullState = (\<lambda>c ow nm n st. fake_plain (fake_call ord ''PATCH''
        (repo_path ow nm [''pulls'', show_int n]) no_query c (Some (JObj [(''state'', JStr st)]))) (\<lambda>_. ())),
      ha_RulesForBranch = (\<lambda>c ow nm b. fake_plain
        (fake_call ord ''GET'' (repo_path ow nm [''rules'', ''branches'', b]) no_query c None)
        (\<lambda>j. map (\<lambda>rule. List.map_filter (\<lambda>rc. json_text (json_at ''context'' rc))
          (json_items (json_at ''required_status_checks'' (json_at ''parameters'' rule)))) (json_items j))),
      ha_IterCheckRuns = (\<lambda>c ow nm sha. fake_iter
        (fake_call ord ''GET'' (repo_path ow nm [''commits'', sha, ''check-runs'']) no_query c None)
        (map read_run \<circ> json_items \<circ> json_at ''check_runs'')),
      ha_ListCheckRuns = (\<lambda>c ow nm sha name. fake_plain
        (fake_call ord ''GET'' (repo_path ow nm [''commits'', sha, ''check-runs''])
          (\<lambda>k. if k = ''check_name'' then name else []) c None)
        (map read_run \<circ> json_items \<circ> json_at ''check_runs'')),
      ha_UpdateCheckRun = (\<lambda>c ow nm i opts. fake_plain (fake_call ord ''PATCH''
        (repo_path ow nm [''check-runs'', show_int i]) no_query c (Some (JObj (run_body opts)))) (\<lambda>_. ())),
      ha_CreateCheckRun = (\<lambda>c ow nm sha opts. fake_plain (fake_call ord ''POST''
        (repo_path ow nm [''check-runs'']) no_query c
        (Some (JObj ((''head_sha'', JStr sha) # run_body opts)))) read_run),
      ha_IterStatuses = (\<lambda>c ow nm sha. fake_iter
        (fake_call ord ''GET'' (repo_path ow nm [''commits'', sha, ''statuses'']) no_query c None)
        (map (\<lambda>j. \<lparr>hs_Context = json_text (json_at ''context'' j), hs_State = json_text (json_at ''state'' j),
           hs_Description = json_text (json_at ''description'' j),
           hs_TargetURL = json_text (json_at ''target_url'' j)\<rparr>) \<circ> json_items)),
      ha_GetRef = (\<lambda>c ow nm ref. fake_plain
        (fake_call ord ''GET'' (repo_path ow nm ([''git'', ''ref''] @ split_on (CHR ''/'') ref)) no_query c None)
        (json_text \<circ> json_at ''sha'' \<circ> json_at ''object'')),
      ha_CreateRef = (\<lambda>c ow nm ref sha. fake_plain
        (fake_call ord ''POST'' (repo_path ow nm [''git'', ''refs'']) no_query c
          (Some (JObj [(''ref'', JStr ref), (''sha'', JStr sha)]))) (\<lambda>_. ())),
      ha_UpdateRef = (\<lambda>c ow nm ref sha force. fake_status
        (fake_call ord ''PATCH'' (repo_path ow nm ([''git'', ''refs''] @ split_on (CHR ''/'') ref)) no_query c
          (Some (JObj [(''sha'', JStr sha), (''force'', JBool force)]))) (\<lambda>_. ())),
      ha_DeleteRef = (\<lambda>c ow nm ref. fake_status
        (fake_call ord ''DELETE'' (repo_path ow nm ([''git'', ''refs''] @ split_on (CHR ''/'') ref)) no_query c None)
        (\<lambda>_. ())),
      ha_Merge = (\<lambda>c ow nm base head. fake_status
        (fake_call ord ''POST'' (repo_path ow nm [''merges'']) no_query c
          (Some (JObj [(''base'', JStr base), (''head'', JStr head)]))) (json_text \<circ> json_at ''sha'')),
      ha_Compare = (\<lambda>c ow nm base head. fake_plain
        (fake_call ord ''GET'' (repo_path ow nm (''compare'' # split_on (CHR ''/'') (base @ ''...'' @ head)))
          no_query c None) (json_int \<circ> json_at ''behind_by'')),
      ha_IterBranches = (\<lambda>c ow nm. fake_iter
        (fake_call ord ''GET'' (repo_path ow nm [''branches'']) no_query c None)
        (map (json_text \<circ> json_at ''name'') \<circ> json_items)),
      ha_PostGraphQL = (\<lambda>c url payload. do {
        r \<leftarrow> hGraphQL ord (json_decode payload);
        ret (case r of WriteJSON _ j \<Rightarrow> Inr (json_print j) | _ \<Rightarrow> Inl (PlainError ''EOF'')) }),
      ha_CreateComment = (\<lambda>c ow nm n body. fake_plain (fake_call ord ''POST''
        (repo_path ow nm [''issues'', show_int n, ''comments'']) no_query c (Some (JObj [(''body'', JStr body)])))
        (\<lambda>_. ())),
      ha_AllowAutoMerge = (\<lambda>c ow nm b. fake_status (fake_call ord ''PATCH'' (repo_path ow nm []) no_query c
        (Some (JObj [(''allow_auto_merge'', JBool b)]))) (\<lambda>_. ())),
      ha_AllRulesets = (\<lambda>c ow nm. fake_status
        (fake_call ord ''GET'' (repo_path ow nm [''rulesets'']) no_query c None)
        (List.map_filter (\<lambda>r. json_text (json_at ''name'' r)) \<circ> json_items)),
      ha_CreateRuleset = (\<lambda>c ow nm rs. fake_status (fake_call ord ''POST'' (repo_path ow nm [''rulesets''])
        no_query c (Some (JObj [(''name'', JStr (hr_Name rs)), (''target'', JStr ''branch''),
          (''enforcement'', JStr ''active''), (''rules'', JArr [])]))) (\<lambda>_. ()))\<rparr>"

subsection \<open>The laws\<close>

definition fake_tip :: "fake_Server \<Rightarrow> string \<Rightarrow> string \<Rightarrow> string \<Rightarrow> string option" where
  "fake_tip s ow nm = key_tip s (ow @ ''/'' @ nm)"

definition fake_anc :: "fake_Server \<Rightarrow> string \<Rightarrow> string \<Rightarrow> string \<Rightarrow> string \<Rightarrow> bool" where
  "fake_anc s ow nm = reach (key_parents s (ow @ ''/'' @ nm))"

definition named_sha :: "string \<Rightarrow> bool" where
  "named_sha t \<longleftrightarrow> t \<noteq> [] \<and> good_sha t"

definition fake_good :: "fake_Server \<Rightarrow> bool" where
  "fake_good s \<longleftrightarrow> fake_ok s \<and> (\<forall>key b. key_tip s key b \<noteq> Some [])"

lemma slash_join_split: "join_with [c] (split_on c s) = s"
proof (induction s)
  case (Cons x xs)
  note IH = this
  show ?case
  proof (cases "split_on c xs")
    case (Cons p ps)
    then show ?thesis using IH by (cases ps) auto
  qed (use IH in auto)
qed simp

lemma split_nonempty: "split_on c s \<noteq> []"
  by (cases s) (auto split: list.splits)

lemma rest_path_split: "rest_path (split_on (CHR ''/'') ref) = ref"
  by (simp add: rest_path_def slash_join_split)

lemma serve_repo_path:
  "fq_Path q = [''api'', ''v3'', ''repos'', ow, nm] @ tail \<Longrightarrow> serve ord q = serve_repo ord ow nm tail q"
  by (simp add: serve_def Let_def)

lemma lower_letters: "char_of (98 :: nat) = CHR ''b''" "char_of (104 :: nat) = CHR ''h''"
  by code_simp+

lemma field_two:
  "body_str ''ref'' (Some (JObj [(''ref'', JStr x), (''sha'', JStr y)])) = x"
  "body_str ''sha'' (Some (JObj [(''ref'', JStr x), (''sha'', JStr y)])) = y"
  "body_str ''sha'' (Some (JObj [(''sha'', JStr x), (''force'', JBool f)])) = x"
  "body_field ''force'' dec_bool False (Some (JObj [(''sha'', JStr x), (''force'', JBool f)])) = f"
  "body_str ''Base'' (Some (JObj [(''base'', JStr x), (''head'', JStr y)])) = x"
  "body_str ''Head'' (Some (JObj [(''base'', JStr x), (''head'', JStr y)])) = y"
  by (simp_all add: body_str_def body_field_def dec_struct_def lookup_field_def dec_string_def dec_bool_def
      to_lower_def lower_char_def lower_letters)

lemma calls:
  "ha_GetRef (fake_api ord) c ow nm ref = do {
     r \<leftarrow> hGetRef ow nm ref;
     ret (case fst (fake_result ''GET'' r) of Inl e \<Rightarrow> Inl e
       | Inr j \<Rightarrow> Inr (json_text (json_at ''sha'' (json_at ''object'' j)))) }"
  "ha_CreateRef (fake_api ord) c ow nm ref sha = do {
     r \<leftarrow> hCreateRef ow nm (Some (JObj [(''ref'', JStr ref), (''sha'', JStr sha)]));
     ret (case fst (fake_result ''POST'' r) of Inl e \<Rightarrow> Inl e | Inr j \<Rightarrow> Inr ()) }"
  "ha_UpdateRef (fake_api ord) c ow nm ref sha force = do {
     r \<leftarrow> hUpdateRef ow nm ref (Some (JObj [(''sha'', JStr sha), (''force'', JBool force)]));
     ret (case fst (fake_result ''PATCH'' r) of Inl e \<Rightarrow> Inl e | Inr j \<Rightarrow> Inr (), snd (fake_result ''PATCH'' r)) }"
  "ha_Merge (fake_api ord) c ow nm base head = do {
     r \<leftarrow> hMerge ow nm (Some (JObj [(''base'', JStr base), (''head'', JStr head)]));
     ret (case fst (fake_result ''POST'' r) of Inl e \<Rightarrow> Inl e | Inr j \<Rightarrow> Inr (json_text (json_at ''sha'' j)),
       snd (fake_result ''POST'' r)) }"
  by (simp_all add: fake_api_def fake_call_def fake_plain_def fake_status_def serve_repo_path[where tail = "''git'' # t" for t]
      serve_repo_path[where tail = "[''merges'']"] serve_repo_def serve_git_def serve_list_def is_get_def
      split_nonempty rest_path_split comp_def)

lemma trim_prefix_self [simp]: "trim_prefix (p @ s) p = s"
  by (simp add: trim_prefix_def has_prefix_def)

lemmas trim_literals [simp] =
  trim_prefix_self[of "''heads/''", unfolded append_Cons append_Nil]
  trim_prefix_self[of "''refs/heads/''", unfolded append_Cons append_Nil]

lemma merge_sha_nonempty [simp]: "merge_sha a b \<noteq> []"
  by (simp add: merge_sha_def)

lemma reach_step: "p \<in> set (ps c) \<Longrightarrow> reach ps p c"
  by (rule reach_parent[OF _ reach_refl])

text \<open>The branch an operation may move, and whether it moves it to a proper commit.\<close>

fun moves :: "ref_op \<Rightarrow> string option" where
  "moves (CreateRef b sha) = Some b"
| "moves (ForceRef b sha) = Some b"
| "moves (ForwardRef b sha) = Some b"
| "moves (DeleteRef b) = Some b"
| "moves (MergeRef b head) = Some b"
| "moves Other = None"

fun op_proper :: "ref_op \<Rightarrow> bool" where
  "op_proper (CreateRef b sha) \<longleftrightarrow> named_sha sha"
| "op_proper (ForceRef b sha) \<longleftrightarrow> named_sha sha"
| "op_proper (ForwardRef b sha) \<longleftrightarrow> named_sha sha"
| "op_proper (MergeRef b head) \<longleftrightarrow> named_sha head"
| "op_proper _ \<longleftrightarrow> True"

lemma op_proper_named: "op_proper op \<Longrightarrow> op_named op"
  by (cases op) (auto simp: named_sha_def)

lemma op_tips:
  "repo_op op rp rp' \<Longrightarrow> moves op \<noteq> Some b \<Longrightarrow> map_of (fo_Refs rp') b = map_of (fo_Refs rp) b"
  "repo_op op rp rp' \<Longrightarrow> op_proper op \<Longrightarrow> map_of (fo_Refs rp) b \<noteq> Some [] \<Longrightarrow> map_of (fo_Refs rp') b \<noteq> Some []"
  by (cases op; auto simp: named_sha_def split: if_splits)+

lemma puts_tips:
  assumes "puts op key s s'"
  shows "moves op \<noteq> Some b \<Longrightarrow> key_tip s' key b = key_tip s key b"
    and "op_proper op \<Longrightarrow> key_tip s k b \<noteq> Some [] \<Longrightarrow> key_tip s' k b \<noteq> Some []"
  using assms
  by (auto simp: changes_def key_tip_def op_tips split: if_splits option.splits)

lemma puts_step:
  assumes "puts op (ow @ ''/'' @ nm) s s'" "op_proper op" "moves op = Some b"
  shows "refs_step fake_good (\<lambda>s. fake_tip s ow nm) (\<lambda>s. fake_anc s ow nm) {b} s s'"
  unfolding refs_step_def
proof (intro impI conjI allI)
  assume good: "fake_good s"
  then have ok: "fake_ok s" by (simp add: fake_good_def)
  note keep = puts_ok[OF assms(1) ok op_proper_named[OF assms(2)]]
  show "fake_good s'" using good keep(1) puts_tips(2)[OF assms(1,2)] by (simp add: fake_good_def)
  show "fake_anc s' ow nm x y" if "fake_anc s ow nm x y" for x y
    using keep(2) that by (simp add: fake_anc_def)
  show "fake_tip s' ow nm c = fake_tip s ow nm c" if "c \<notin> {b}" for c
    using puts_tips(1)[OF assms(1), of c] assms(3) that by (simp add: fake_tip_def)
qed

lemma get_ref_law:
  "run_state (ha_GetRef (fake_api ord) c ow nm (''heads/'' @ b)) s = (r, s') \<Longrightarrow>
     s' = s \<and> (\<forall>x. r = Inr x \<longrightarrow> fake_tip s ow nm b = Some (gh_text x))"
  by (auto simp: calls hGetRef_def repoOr404_def not_found_def fake_result_def fake_tip_def key_tip_def
      json_at_def json_text_def gh_text_def go_at_def split: option.splits)

lemma create_ref_law:
  assumes "run_state (ha_CreateRef (fake_api ord) c ow nm (''refs/heads/'' @ b) sha) s = (u, s')"
  shows "puts (CreateRef b sha) (ow @ ''/'' @ nm) s s' \<and> (u = Inr () \<longrightarrow> fake_tip s' ow nm b = Some sha)"
proof -
  let ?body = "Some (JObj [(''ref'', JStr (''refs/heads/'' @ b)), (''sha'', JStr sha)])"
  obtain r where r: "run_state (hCreateRef ow nm ?body) s = (r, s')"
    "u = (case fst (fake_result ''POST'' r) of Inl e \<Rightarrow> Inl e | Inr j \<Rightarrow> Inr ())"
    using assms by (auto simp: calls(2) split: prod.splits)
  have "puts (CreateRef b sha) (ow @ ''/'' @ nm) s s'"
    using puts_refs(1)[OF r(1)] by (simp add: field_two)
  moreover have "u = Inr () \<longrightarrow> fake_tip s' ow nm b = Some sha"
    using r by (auto simp: Let_def hCreateRef_def repoOr404_def field_two not_found_def fake_result_def
        fake_tip_def key_tip_def update_conv' split: option.splits if_splits)
  ultimately show ?thesis by blast
qed

lemma update_ref_law:
  assumes "run_state (ha_UpdateRef (fake_api ord) c ow nm (''heads/'' @ b) sha force) s = ((u, st), s')"
  shows "puts ((if force then ForceRef else ForwardRef) b sha) (ow @ ''/'' @ nm) s s' \<and>
    (u = Inr () \<longrightarrow> fake_tip s' ow nm b = Some sha \<and> (force \<or> fake_ok s \<longrightarrow>
       (\<exists>t. fake_tip s ow nm b = Some t \<and> (force \<or> fake_anc s ow nm t sha))))"
proof -
  let ?body = "Some (JObj [(''sha'', JStr sha), (''force'', JBool force)])"
  obtain r where r: "run_state (hUpdateRef ow nm (''heads/'' @ b) ?body) s = (r, s')"
    "u = (case fst (fake_result ''PATCH'' r) of Inl e \<Rightarrow> Inl e | Inr j \<Rightarrow> Inr ())"
    using assms by (auto simp: calls(3) split: prod.splits)
  have "puts ((if force then ForceRef else ForwardRef) b sha) (ow @ ''/'' @ nm) s s'"
    using puts_refs(4)[OF r(1)] by (simp add: field_two)
  moreover have anc: "reach (parents_of rp) a t" if "fake_ok s" "map_of (fs_repos s) k = Some rp"
    "isAncestor rp a t = Some True" for k rp a t
    using that isAncestor_total[OF good_shorter, of rp a t] by (auto simp: fake_ok_def)
  have "u = Inr () \<longrightarrow> fake_tip s' ow nm b = Some sha \<and> (force \<or> fake_ok s \<longrightarrow>
       (\<exists>t. fake_tip s ow nm b = Some t \<and> (force \<or> fake_anc s ow nm t sha)))"
    using r by (auto simp: Let_def hUpdateRef_def set_ref_def repoOr404_def field_two not_found_def fake_result_def
        fake_tip_def fake_anc_def key_tip_def key_parents_def update_conv' intro: anc
        split: option.splits if_splits)
  ultimately show ?thesis by blast
qed

lemma merge_law:
  assumes "run_state (ha_Merge (fake_api ord) c ow nm b head) s = ((m, st), s')"
  shows "puts (MergeRef b head) (ow @ ''/'' @ nm) s s' \<and>
    (\<forall>x. m = Inr x \<longrightarrow> gh_text x \<noteq> [] \<and> fake_tip s' ow nm b = Some (gh_text x) \<and>
       fake_anc s' ow nm head (gh_text x))"
proof -
  let ?body = "Some (JObj [(''base'', JStr b), (''head'', JStr head)])"
  obtain r where r: "run_state (hMerge ow nm ?body) s = (r, s')"
    "m = (case fst (fake_result ''POST'' r) of Inl e \<Rightarrow> Inl e | Inr j \<Rightarrow> Inr (json_text (json_at ''sha'' j)))"
    using assms by (auto simp: calls(4) split: prod.splits)
  have "puts (MergeRef b head) (ow @ ''/'' @ nm) s s'"
    using puts_refs(3)[OF r(1)] by (simp add: field_two)
  moreover have "\<forall>x. m = Inr x \<longrightarrow> gh_text x \<noteq> [] \<and> fake_tip s' ow nm b = Some (gh_text x) \<and>
       fake_anc s' ow nm head (gh_text x)"
    using r by (auto simp: Let_def hMerge_def repoOr404_def field_two not_found_def fake_result_def json_at_def
        json_text_def gh_text_def go_at_def fake_tip_def fake_anc_def key_tip_def key_parents_def
        parents_of_def update_conv' split: option.splits if_splits
        intro!: reach_step)
  ultimately show ?thesis by blast
qed

lemma fake_good_ok: "fake_good s \<Longrightarrow> fake_ok s"
  by (simp add: fake_good_def)

lemma fake_tip_named: "fake_good s \<Longrightarrow> fake_tip s ow nm b = Some t \<Longrightarrow> named_sha t"
  by (auto simp: fake_good_def fake_ok_def fake_tip_def key_tip_def named_sha_def good_refs_def
      split: option.splits)

text \<open>A merge moves the branch forward.\<close>

lemma merge_forward:
  assumes "puts (MergeRef b head) (ow @ ''/'' @ nm) s s'" "fake_good s" "named_sha head"
    "fake_tip s ow nm b = Some t"
  shows "\<exists>t'. fake_tip s' ow nm b = Some t' \<and> fake_anc s' ow nm t t'"
  using puts_tip[OF assms(1) fake_good_ok[OF assms(2)], of "ow @ ''/'' @ nm" b t] assms(3,4)
  by (simp add: named_sha_def fake_tip_def fake_anc_def)

interpretation fake: git_server "fake_api ord" fake_good named_sha fake_tip fake_anc
proof
  show "fake_anc s ow nm x x" for s ow nm x
    by (simp add: fake_anc_def)
  show "fake_anc s ow nm x y \<Longrightarrow> fake_anc s ow nm y z \<Longrightarrow> fake_anc s ow nm x z" for s ow nm x y z
    by (auto simp: fake_anc_def intro: reach_trans)
  show "fake_good s \<Longrightarrow> fake_tip s ow nm b = Some t \<Longrightarrow> named_sha t" for s ow nm b t
    by (rule fake_tip_named)
  show "named_sha t \<Longrightarrow> t \<noteq> []" for t
    by (simp add: named_sha_def)
  show "refs_step fake_good (\<lambda>g. fake_tip g ow nm) (\<lambda>g. fake_anc g ow nm) {} s s' \<and>
      (\<forall>x. r = Inr x \<longrightarrow> fake_tip s ow nm b = Some (gh_text x))"
    if "run_state (ha_GetRef (fake_api ord) c ow nm (''heads/'' @ b)) s = (r, s')" for c ow nm b s r s'
    using get_ref_law[OF that] by (simp add: refs_step_def)
  show "refs_step fake_good (\<lambda>g. fake_tip g ow nm) (\<lambda>g. fake_anc g ow nm) {b} s s' \<and>
      (u = Inr () \<longrightarrow> fake_tip s' ow nm b = Some sha)"
    if "run_state (ha_CreateRef (fake_api ord) c ow nm (''refs/heads/'' @ b) sha) s = (u, s')"
      "named_sha sha" for c ow nm b sha s u s'
    using create_ref_law[OF that(1)] puts_step[of "CreateRef b sha" ow nm s s' b] that(2) by simp
  show "refs_step fake_good (\<lambda>g. fake_tip g ow nm) (\<lambda>g. fake_anc g ow nm) {b} s s' \<and>
      (u = Inr () \<longrightarrow> fake_tip s' ow nm b = Some sha)"
    if "run_state (ha_UpdateRef (fake_api ord) c ow nm (''heads/'' @ b) sha True) s = ((u, st), s')"
      "named_sha sha" for c ow nm b sha s u st s'
    using update_ref_law[OF that(1)] puts_step[of "ForceRef b sha" ow nm s s' b] that(2) by simp
  show "refs_step fake_good (\<lambda>g. fake_tip g ow nm) (\<lambda>g. fake_anc g ow nm) {b} s s' \<and>
      (u = Inr () \<longrightarrow> fake_tip s' ow nm b = Some sha \<and>
         (\<exists>t. fake_tip s ow nm b = Some t \<and> fake_anc s ow nm t sha))"
    if "run_state (ha_UpdateRef (fake_api ord) c ow nm (''heads/'' @ b) sha False) s = ((u, st), s')"
      "fake_good s" "named_sha sha" for c ow nm b sha s u st s'
    using update_ref_law[OF that(1)] puts_step[of "ForwardRef b sha" ow nm s s' b] that(2,3)
    by (simp add: fake_good_ok)
  show "refs_step fake_good (\<lambda>g. fake_tip g ow nm) (\<lambda>g. fake_anc g ow nm) {b} s s' \<and>
      (\<forall>t. fake_tip s ow nm b = Some t \<longrightarrow> (\<exists>t'. fake_tip s' ow nm b = Some t' \<and> fake_anc s' ow nm t t')) \<and>
      (\<forall>x. m = Inr x \<longrightarrow> (\<exists>t'. fake_tip s' ow nm b = Some t' \<and> fake_anc s' ow nm head t' \<and>
         (if gh_text x = [] then fake_tip s ow nm b = Some t' else t' = gh_text x)))"
    if "run_state (ha_Merge (fake_api ord) c ow nm b head) s = ((m, st), s')" "fake_good s" "named_sha head"
    for c ow nm b head s m st s'
    using merge_law[OF that(1)] puts_step[of "MergeRef b head" ow nm s s' b] merge_forward[OF _ that(2,3)] that(3)
    by auto
qed

end
