(* ===== verification/GithubLanding.thy ===== *)
theory GithubLanding
  imports GitServer Batch
begin

text \<open>
  The batch engine on the GitHub adapter: what the branch it stacks contains, and what a
  fast-forward to it does to the target branch, on every server that keeps the laws of theory
  \<open>GitServer\<close>.
\<close>

text \<open>One turn of the loop of \<open>stack\<close> for a forge without \<open>StackMerges\<close>.\<close>

definition stack_turn ::
  "'f engine \<Rightarrow> string \<Rightarrow> string \<Rightarrow> string \<Rightarrow> string \<times> MergeStep list \<Rightarrow> ('f, string \<times> MergeStep list) go" where
  "stack_turn e base branch head acc = (case acc of (tip, steps) \<Rightarrow> do {
     m \<leftarrow> (if tip = [] then call_CreateMergeBranch (en_Forge e) (en_Owner e) (en_Repo e) base head branch
           else call_MergeInto (en_Forge e) (en_Owner e) (en_Repo e) branch head);
     (case m of
        Inl err \<Rightarrow> ret (tip, steps @ [MergeStep False (Some err)])
      | Inr (sha, conflict) \<Rightarrow>
          ret (if conflict then tip else sha, steps @ [MergeStep conflict None])) })"

lemma stack_turns:
  "f_StackMerges (en_Forge e) = None \<Longrightarrow>
     stack e base heads branch = do { r \<leftarrow> for_acc heads ([], []) (stack_turn e base branch); ret (Inr r) }"
  by (simp add: stack_def stack_turn_def[abs_def])

definition survived :: "MergeStep \<Rightarrow> bool" where
  "survived st \<longleftrightarrow> \<not> ms_Conflict st \<and> ms_Err st = None"

abbreviation server :: "'g github world \<Rightarrow> 'g" where
  "server w \<equiv> gs_net (w_forge w)"

context git_server
begin

text \<open>The loop invariant: the recorded tip contains every head merged so far and the base, and the
  branch contains the recorded tip.\<close>

definition stacked ::
  "string \<Rightarrow> string \<Rightarrow> string \<Rightarrow> string \<Rightarrow> 'g \<Rightarrow> string list \<Rightarrow> string \<times> MergeStep list \<Rightarrow> bool" where
  "stacked ow nm base branch g heads acc \<longleftrightarrow> (case acc of (tp, steps) \<Rightarrow>
     length steps = length heads \<and>
     (\<forall>(h, st) \<in> set (zip heads steps). survived st \<longrightarrow> anc g ow nm h tp) \<and>
     (if tp = [] then \<forall>st \<in> set steps. \<not> survived st
      else sha_ok tp \<and> (\<exists>t b. tip g ow nm base = Some t \<and> anc g ow nm t tp \<and>
        tip g ow nm branch = Some b \<and> anc g ow nm tp b)))"

lemma stacked_later:
  assumes "stacked ow nm base branch g heads (tp, steps)" "kept ow nm {branch} g g'" "ok g" "base \<noteq> branch"
    "\<And>b. tip g ow nm branch = Some b \<Longrightarrow> tp \<noteq> [] \<Longrightarrow> \<exists>b'. tip g' ow nm branch = Some b' \<and> anc g' ow nm b b'"
    "\<not> survived st"
  shows "stacked ow nm base branch g' (heads @ [h]) (tp, steps @ [st])"
proof -
  from assms(2,3) have mono: "anc g ow nm x y \<Longrightarrow> anc g' ow nm x y" for x y
    by (auto simp: refs_step_def)
  from assms(1) have len: "length steps = length heads" by (simp add: stacked_def)
  show ?thesis
  proof (cases "tp = []")
    case True
    with assms(1,6) mono len show ?thesis by (auto simp: stacked_def)
  next
    case False
    with assms(1) obtain t b where tb: "tip g ow nm base = Some t" "anc g ow nm t tp"
      "tip g ow nm branch = Some b" "anc g ow nm tp b" by (auto simp: stacked_def)
    from assms(5)[OF tb(3) False] obtain b' where b': "tip g' ow nm branch = Some b'" "anc g' ow nm b b'" by blast
    have "tip g' ow nm base = Some t" using assms(2,3,4) tb(1) by (simp add: refs_step_def)
    moreover have "anc g' ow nm tp b'" using anc_trans mono[OF tb(4)] b'(2) by blast
    ultimately show ?thesis using False assms(1,6) mono len tb b' by (auto simp: stacked_def)
  qed
qed

lemma stacked_merged:
  assumes "stacked ow nm base branch g heads (tp, steps)" "kept ow nm {branch} g g'" "ok g" "base \<noteq> branch"
    "tip g' ow nm branch = Some sha" "anc g' ow nm h sha"
    "tp = [] \<Longrightarrow> \<exists>t. tip g ow nm base = Some t \<and> anc g' ow nm t sha"
    "\<And>b. tip g ow nm branch = Some b \<Longrightarrow> tp \<noteq> [] \<Longrightarrow> anc g' ow nm b sha"
  shows "stacked ow nm base branch g' (heads @ [h]) (sha, steps @ [st])"
proof -
  from assms(2,3) have mono: "anc g ow nm x y \<Longrightarrow> anc g' ow nm x y" for x y
    by (auto simp: refs_step_def)
  from assms(1) have len: "length steps = length heads" by (simp add: stacked_def)
  have base: "tip g' ow nm base = tip g ow nm base" using assms(2-4) by (simp add: refs_step_def)
  have "ok g'" using assms(2,3) by (simp add: refs_step_def)
  with assms(5) have shaok: "sha_ok sha" using tip_ok by blast
  then have ne: "sha \<noteq> []" by (rule sha_nonempty)
  show ?thesis
  proof (cases "tp = []")
    case True
    then obtain t where "tip g ow nm base = Some t" "anc g' ow nm t sha" using assms(7) by blast
    moreover have "\<not> survived st'" if "(x, st') \<in> set (zip heads steps)" for x st'
      using assms(1) True set_zip_rightD[OF that] by (auto simp: stacked_def)
    ultimately show ?thesis using ne shaok base assms(5,6) anc_refl len by (fastforce simp: stacked_def)
  next
    case False
    with assms(1) obtain t b where tb: "tip g ow nm base = Some t" "anc g ow nm t tp"
      "tip g ow nm branch = Some b" "anc g ow nm tp b" by (auto simp: stacked_def)
    have up: "anc g' ow nm tp sha" using anc_trans mono[OF tb(4)] assms(8)[OF tb(3) False] by blast
    have "anc g' ow nm x sha" if "(x, st') \<in> set (zip heads steps)" "survived st'" for x st'
      using assms(1) that mono up anc_trans by (fastforce simp: stacked_def)
    with tb base ne shaok up assms(5,6) anc_refl anc_trans[OF mono[OF tb(2)] up] len show ?thesis
      by (fastforce simp: stacked_def)
  qed
qed

lemma stack_turn_spec:
  fixes e :: "'g github engine" and w :: "'g github world"
  assumes run: "run_state (stack_turn e base branch h (tp, steps)) w = (acc, w')"
    and e: "en_Forge e = NewGithubForge a url" "ap_API a = api"
    and inv: "stacked (en_Owner e) (en_Repo e) base branch (server w) heads (tp, steps)"
    and ok: "ok (server w)" "sha_ok h" "base \<noteq> branch"
  shows "kept (en_Owner e) (en_Repo e) {branch} (server w) (server w') \<and>
    stacked (en_Owner e) (en_Repo e) base branch (server w') (heads @ [h]) acc"
proof -
  let ?ow = "en_Owner e" and ?nm = "en_Repo e"
  have op: "f_CreateMergeBranch (en_Forge e) = gh_CreateMergeBranch a" "f_MergeInto (en_Forge e) = gh_MergeInto a"
    by (simp_all add: e NewGithubForge_def Let_def)
  show ?thesis
  proof (cases "tp = []")
    case True
    obtain m s where m: "run_state (gh_CreateMergeBranch a ?ow ?nm base h branch) (w_forge w) = (m, s)" by fastforce
    note spec = CreateMergeBranch_spec[OF m e(2) ok(1,2,3)]
    have acc: "server w' = gs_net s" "acc = (case m of Inl err \<Rightarrow> (tp, steps @ [MergeStep False (Some err)])
        | Inr (sha, conflict) \<Rightarrow> (if conflict then tp else sha, steps @ [MergeStep conflict None]))"
      using run True m op
      by (auto simp: stack_turn_def call_CreateMergeBranch_def run_forge_do split: sum.splits)
    show ?thesis
    proof (cases "\<exists>sha. m = Inr (sha, False)")
      case False
      then obtain st where "acc = (tp, steps @ [st])" "\<not> survived st"
        using acc True by (auto simp: survived_def split: sum.splits prod.splits)
      with stacked_later[OF inv _ ok(1,3), of "gs_net s" st h] spec acc True show ?thesis by auto
    next
      case True
      then obtain sha where "m = Inr (sha, False)" by blast
      with stacked_merged[OF inv _ ok(1,3), of "gs_net s" sha h "MergeStep False None"] spec acc \<open>tp = []\<close>
      show ?thesis by auto
    qed
  next
    case False
    with inv obtain t where t: "tip (server w) ?ow ?nm branch = Some t" by (auto simp: stacked_def)
    obtain m s where m: "run_state (gh_MergeInto a ?ow ?nm branch h) (w_forge w) = (m, s)" by fastforce
    note spec = MergeInto_spec[OF m e(2) ok(1,2) t]
    have acc: "server w' = gs_net s" "acc = (case m of Inl err \<Rightarrow> (tp, steps @ [MergeStep False (Some err)])
        | Inr (sha, conflict) \<Rightarrow> (if conflict then tp else sha, steps @ [MergeStep conflict None]))"
      using run False m op
      by (auto simp: stack_turn_def call_MergeInto_def run_forge_do split: sum.splits)
    show ?thesis
    proof (cases "\<exists>sha. m = Inr (sha, False)")
      case no: False
      then obtain st where "acc = (tp, steps @ [st])" "\<not> survived st"
        using acc by (auto simp: survived_def split: sum.splits prod.splits)
      with stacked_later[OF inv _ ok(1,3), of "gs_net s" st h] spec acc t show ?thesis by auto
    next
      case True
      then obtain sha where "m = Inr (sha, False)" by blast
      with stacked_merged[OF inv _ ok(1,3), of "gs_net s" sha h "MergeStep False None"] spec acc False t
      show ?thesis by auto
    qed
  qed
qed

lemma stack_loop:
  fixes e :: "'g github engine"
  assumes e: "en_Forge e = NewGithubForge a url" "ap_API a = api" and base: "base \<noteq> branch"
  shows "run_state (for_acc rest acc (stack_turn e base branch)) w = (acc', w') \<Longrightarrow>
    stacked (en_Owner e) (en_Repo e) base branch (server w) heads acc \<Longrightarrow>
    ok (server w) \<Longrightarrow> list_all sha_ok rest \<Longrightarrow>
    kept (en_Owner e) (en_Repo e) {branch} (server w) (server w') \<and>
    stacked (en_Owner e) (en_Repo e) base branch (server w') (heads @ rest) acc'"
proof (induction rest arbitrary: heads acc w)
  case (Cons h rest)
  obtain acc1 w1 where turn: "run_state (stack_turn e base branch h acc) w = (acc1, w1)" by fastforce
  obtain tp steps where "acc = (tp, steps)" by fastforce
  with stack_turn_spec[OF turn[unfolded this] e] Cons.prems base
  have one: "kept (en_Owner e) (en_Repo e) {branch} (server w) (server w1)"
    "stacked (en_Owner e) (en_Repo e) base branch (server w1) (heads @ [h]) acc1" by simp_all
  from Cons.prems(1) turn have "run_state (for_acc rest acc1 (stack_turn e base branch)) w1 = (acc', w')" by simp
  from Cons.IH[OF this one(2)] one(1) Cons.prems(3,4) show ?case
    by (auto simp: refs_step_def)
qed simp

text \<open>What \<open>stack\<close> returns.\<close>

lemma stack_spec:
  fixes e :: "'g github engine"
  assumes "en_Forge e = NewGithubForge a url" "ap_API a = api" "base \<noteq> branch"
    "ok (server w)" "list_all sha_ok heads"
    "run_state (stack e base heads branch) w = (r, w')"
  shows "\<exists>tp steps. r = Inr (tp, steps) \<and> kept (en_Owner e) (en_Repo e) {branch} (server w) (server w') \<and>
    stacked (en_Owner e) (en_Repo e) base branch (server w') heads (tp, steps)"
proof -
  have "f_StackMerges (en_Forge e) = None" by (simp add: assms(1) NewGithubForge_def Let_def)
  from stack_turns[OF this] assms(6) obtain acc where acc: "r = Inr acc"
    "run_state (for_acc heads ([], []) (stack_turn e base branch)) w = (acc, w')"
    by (auto split: prod.splits)
  have start: "stacked (en_Owner e) (en_Repo e) base branch (server w) [] ([], [])" by (simp add: stacked_def)
  from stack_loop[OF assms(1-3) acc(2) start assms(4,5)] acc(1) show ?thesis
    by (cases acc) auto
qed

text \<open>What a fast-forward to a stacked commit does.\<close>

lemma landing_spec:
  fixes e :: "'g github engine" and w :: "'g github world"
  assumes e: "en_Forge e = NewGithubForge a url" "ap_API a = api" "base \<noteq> branch"
    and w: "ok (server w)" "list_all sha_ok heads"
    and stack: "run_state (stack e base heads branch) w = (Inr (sha, steps), w1)" "sha \<noteq> []"
    and later: "kept (en_Owner e) (en_Repo e) UNIV (server w1) (server v)"
    and push: "run_state (call_FastForward (en_Forge e) (en_Owner e) (en_Repo e) base sha) v = (Inr (), v')"
  shows "tip (server v') (en_Owner e) (en_Repo e) base = Some sha"
    and "\<exists>t. tip (server v) (en_Owner e) (en_Repo e) base = Some t \<and>
      anc (server v') (en_Owner e) (en_Repo e) t sha"
    and "length steps = length heads"
    and "(h, st) \<in> set (zip heads steps) \<Longrightarrow> survived st \<Longrightarrow> anc (server v') (en_Owner e) (en_Repo e) h sha"
proof -
  let ?ow = "en_Owner e" and ?nm = "en_Repo e"
  from stack_spec[OF e w stack(1)] have st: "kept ?ow ?nm {branch} (server w) (server w1)"
    "stacked ?ow ?nm base branch (server w1) heads (sha, steps)" by auto
  then have ok: "ok (server w1)" "ok (server v)" and sha: "sha_ok sha"
    using w(1) later stack(2) by (auto simp: refs_step_def stacked_def)
  obtain r s where ff: "run_state (gh_FastForward a ?ow ?nm base sha) (w_forge v) = (r, s)" by fastforce
  then have r: "r = Inr ()" "server v' = gs_net s"
    using push by (simp_all add: call_FastForward_def run_forge_do e(1) NewGithubForge_def Let_def) auto
  note spec = FastForward_spec[OF ff e(2) ok(2) sha]
  have mono: "anc (server w1) ?ow ?nm x y \<Longrightarrow> anc (server v') ?ow ?nm x y"
    "anc (server v) ?ow ?nm x y \<Longrightarrow> anc (server v') ?ow ?nm x y" for x y
    using spec ok later r by (auto simp: refs_step_def)
  from spec r mono(2) show "tip (server v') ?ow ?nm base = Some sha"
    and "\<exists>t. tip (server v) ?ow ?nm base = Some t \<and> anc (server v') ?ow ?nm t sha" by auto
  from st(2) mono(1) show "length steps = length heads"
    and "(h, st) \<in> set (zip heads steps) \<Longrightarrow> survived st \<Longrightarrow> anc (server v') ?ow ?nm h sha"
    by (auto simp: stacked_def)
qed

end

end
