(* ===== verification/GhFakeProps.thy ===== *)
theory GhFakeProps
  imports GhFakeClient GithubLanding Fixtures
begin

text \<open>
  The properties of landing a batch on GitHub, and of the server the adapter is tested against.
\<close>

subsection \<open>Landing\<close>

text \<open>C2. What landing on GitHub means. On every server that keeps the laws of \<open>git_server\<close>: if
  the engine stacks heads for a batch, the server then does anything that only adds commits and
  keeps ancestors, and the fast-forward of the target branch to the stacked commit succeeds, then
  the target branch is at that commit, the commit contains all that was on the target branch at
  that moment, and it contains the head of every member whose merge step neither failed nor
  conflicted; so no member is landed without its head, and nothing on the target branch is lost.\<close>

theorem github_batch_lands:
  fixes e :: "'g github engine" and w :: "'g github world"
  assumes "git_server (ap_API a) ok sha_ok tip anc" "en_Forge e = NewGithubForge a url"
    "base \<noteq> branch" "ok (server w)" "list_all sha_ok heads"
    "run_state (stack e base heads branch) w = (Inr (sha, steps), w1)" "sha \<noteq> []"
    "refs_step ok (\<lambda>g. tip g (en_Owner e) (en_Repo e)) (\<lambda>g. anc g (en_Owner e) (en_Repo e)) UNIV
      (server w1) (server v)"
    "run_state (call_FastForward (en_Forge e) (en_Owner e) (en_Repo e) base sha) v = (Inr (), v')"
  shows "tip (server v') (en_Owner e) (en_Repo e) base = Some sha \<and>
    (\<exists>t. tip (server v) (en_Owner e) (en_Repo e) base = Some t \<and>
       anc (server v') (en_Owner e) (en_Repo e) t sha) \<and>
    length steps = length heads \<and>
    (\<forall>(h, st) \<in> set (zip heads steps). survived st \<longrightarrow> anc (server v') (en_Owner e) (en_Repo e) h sha)"
  using git_server.landing_spec[OF assms(1,2) refl assms(3-9)] by auto

text \<open>The fixture: a server with one repository, and the engine of that repository.\<close>

definition in_turn :: range_order where
  "in_turn n = [0 ..< n]"

definition fake_start :: fake_Server where
  "fake_start = snd (run_state (do { AddInstallation 7 [''org/app'']; AddRepo ''org'' ''app'' }) fake_New)"

definition fake_app :: "fake_Server gh_app" where
  "fake_app = \<lparr>ap_AppID = 1, ap_BaseURL = DefaultBaseURL, ap_Enterprise = (\<lambda>_. None), ap_API = fake_api in_turn\<rparr>"

definition fake_engine :: "fake_Server github engine" where
  "fake_engine = \<lparr>en_Forge = NewGithubForge fake_app [], en_Owner = ''org'', en_Repo = ''app'', en_RepoID = 1,
     en_ExternalURL = ''http://mq'', en_BatchMax = 4, en_BisectMaxSteps = 0, en_CheckTimeout = 3600,
     en_FallbackChecks = [], en_MergedPollAttempts = 1, en_Advance = True\<rparr>"

definition fake_world :: "fake_Server github world" where
  "fake_world = \<lparr>w_db = demo_db, w_now = 100, w_faults = (\<lambda>_. False), w_stmts = 0, w_tx = NoTx,
     w_forge = snd (run_state (Refresh fake_app) (new_github fake_start)), w_calls = [], w_trigger = {}\<rparr>"

definition fake_stacked :: "(error + string \<times> MergeStep list) \<times> fake_Server github world" where
  "fake_stacked = run_state (stack fake_engine ''main'' [''aaa'', ''bbb''] ''gitea-mq/batch/1'') fake_world"

definition fake_landed :: "(error + unit) \<times> fake_Server github world" where
  "fake_landed = run_state (call_FastForward (en_Forge fake_engine) ''org'' ''app'' ''main''
     ''merge(merge(sha-main,aaa),bbb)'') (snd fake_stacked)"

lemma fake_stacked_result: "fst fake_stacked =
    Inr (''merge(merge(sha-main,aaa),bbb)'', [MergeStep False None, MergeStep False None])"
  by code_simp

lemma fake_landed_result: "fst fake_landed = Inr ()"
  by code_simp

lemma fake_start_run: "fake_run P in_turn fake_start"
proof -
  obtain u1 s1 where i: "run_state (AddInstallation 7 [''org/app'']) fake_New = (u1, s1)"
    by (metis surj_pair)
  obtain u2 s2 where r: "run_state (AddRepo ''org'' ''app'') s1 = (u2, s2)" by (metis surj_pair)
  have "fake_start = s2" using i r by (simp add: fake_start_def)
  with fake_run.repo[OF fake_run.install[OF fake_run.start i] r] show ?thesis by simp
qed

lemma fake_start_repos: "fs_repos fake_start = [(''org/app'', new_repo ''org'' ''app'')]"
  by code_simp

lemma fake_start_good: "fake_good fake_start"
  using fake_run_ok[OF fake_start_run]
  by (auto simp: fake_good_def key_tip_def fake_start_repos new_repo_def)

lemma fake_world_server: "server fake_world = fake_start"
  by code_simp

theorem github_batch_lands_witness:
  "fake_tip (server (snd fake_landed)) ''org'' ''app'' ''main'' = Some ''merge(merge(sha-main,aaa),bbb)'' \<and>
   fake_anc (server (snd fake_landed)) ''org'' ''app'' ''aaa'' ''merge(merge(sha-main,aaa),bbb)'' \<and>
   fake_anc (server (snd fake_landed)) ''org'' ''app'' ''bbb'' ''merge(merge(sha-main,aaa),bbb)''"
proof -
  have e: "en_Forge fake_engine = NewGithubForge fake_app []" "en_Owner fake_engine = ''org''"
    "en_Repo fake_engine = ''app''"
    by (simp_all add: fake_engine_def)
  have laws: "git_server (ap_API fake_app) fake_good named_sha fake_tip fake_anc"
    by (simp add: fake_app_def fake.git_server_axioms)
  have heads: "list_all named_sha [''aaa'', ''bbb'']"
    by (auto simp: named_sha_def intro!: good_sha.plain)
  have run: "run_state (stack fake_engine ''main'' [''aaa'', ''bbb''] ''gitea-mq/batch/1'') fake_world =
      (Inr (''merge(merge(sha-main,aaa),bbb)'', [MergeStep False None, MergeStep False None]), snd fake_stacked)"
    using fake_stacked_result by (simp add: fake_stacked_def prod_eq_iff)
  have push: "run_state (call_FastForward (en_Forge fake_engine) (en_Owner fake_engine) (en_Repo fake_engine)
      ''main'' ''merge(merge(sha-main,aaa),bbb)'') (snd fake_stacked) = (Inr (), snd fake_landed)"
    using fake_landed_result by (simp add: fake_landed_def e prod_eq_iff)
  have good: "fake_good (server fake_world)"
    unfolding fake_world_server by (rule fake_start_good)
  from github_batch_lands[OF laws e(1) _ good heads run _ _ push] show ?thesis
    unfolding e by (simp add: survived_def refs_step_def)
qed

subsection \<open>The history of the server\<close>

text \<open>C34. The ancestor check of the test server ends. Nothing in its recursion bounds it, but in
  every state the server can reach, by any requests whatsoever, a commit is longer than its
  parents: so the check returns, its answer is reachability in the history, and no update of a ref
  brings the process down.\<close>

theorem fake_walk_ends:
  assumes "fake_run P ord s" "map_of (fs_repos s) key = Some rp"
  shows "isAncestor rp a c = Some (reach (parents_of rp) a c) \<and>
    fst (run_state (hUpdateRef ow nm ref body) s) \<noteq> Crash"
proof -
  have total: "isAncestor r x y = Some (reach (parents_of r) x y)"
    if "map_of (fs_repos s) k = Some r" for k r x y
    using fake_run_wf[OF assms(1)] that by (intro isAncestor_total) (auto simp: fake_wf_def)
  then show ?thesis
    using assms(2)
    by (auto simp: hUpdateRef_def set_ref_def repoOr404_def not_found_def Let_def split: option.splits)
qed

definition merge_request :: fake_request where
  "merge_request = \<lparr>fq_Method = ''POST'', fq_Path = [''api'', ''v3'', ''repos'', ''org'', ''app'', ''merges''],
     fq_Query = (\<lambda>_. []), fq_Auth = [],
     fq_Body = Some (JObj [(''base'', JStr ''main''), (''head'', JStr ''aaa'')]), fq_Expires = []\<rparr>"

definition fake_merged :: fake_Server where
  "fake_merged = snd (run_state (serve in_turn merge_request) fake_start)"

lemma fake_merged_run: "run_state (serve in_turn merge_request) fake_start =
    (fst (run_state (serve in_turn merge_request) fake_start), fake_merged)"
  by (simp add: fake_merged_def)

theorem fake_walk_ends_witness:
  "map_option (\<lambda>rp. isAncestor rp ''sha-main'' ''merge(sha-main,aaa)'') (map_of (fs_repos fake_merged) ''org/app'') =
     Some (Some True)"
proof -
  have "map_of (fs_repos fake_merged) ''org/app'' \<noteq> None" by code_simp
  then obtain rp where rp: "map_of (fs_repos fake_merged) ''org/app'' = Some rp" by blast
  have parents: "map_option (\<lambda>rp. parents_of rp ''merge(sha-main,aaa)'') (map_of (fs_repos fake_merged) ''org/app'') =
      Some [''sha-main'', ''aaa'']"
    by code_simp
  have "fake_run (\<lambda>_. True) in_turn fake_merged"
    by (rule fake_run.request[OF fake_start_run _ fake_merged_run]) simp
  from fake_walk_ends[OF this rp, of "''sha-main''" "''merge(sha-main,aaa)''"] rp parents
  show ?thesis by (simp add: reach_step)
qed

text \<open>C33. A request of the test server only adds to the history. Between well-formed names, no
  request takes an ancestor from a commit, and every branch that had a tip still has one that
  contains it, unless the request is a deletion or a forced update of that very branch.\<close>

theorem fake_history:
  assumes "fake_run well_named ord s" "well_named q" "run_state (serve ord q) s = (r, s')"
  shows "(\<forall>key x c. reach (key_parents s key) x c \<longrightarrow> reach (key_parents s' key) x c) \<and>
    (\<forall>key b t. key_tip s key b = Some t \<longrightarrow> \<not> rewinds q key b \<longrightarrow>
       (\<exists>t'. key_tip s' key b = Some t' \<and> reach (key_parents s' key) t t'))"
proof -
  have ok: "fake_ok s" by (rule fake_run_ok[OF assms(1)])
  then have "distinct (map fst (fs_repos s))" by (simp add: fake_ok_def)
  from serve_puts[OF assms(3) this] obtain op k where op: "puts op k s s'" "asks_for q k op" by blast
  note named = asks_named[OF op(2) assms(2)]
  have "\<exists>t'. key_tip s' key b = Some t' \<and> reach (key_parents s' key) t t'"
    if "key_tip s key b = Some t" "\<not> rewinds q key b" for key b t
  proof (rule puts_tip[OF op(1) ok named that(1)])
    show "key = k \<Longrightarrow> op \<noteq> DeleteRef b" "\<And>sha. key = k \<Longrightarrow> op \<noteq> ForceRef b sha"
      using op(2) that(2) by auto
  qed
  with puts_ok(2)[OF op(1) ok named] show ?thesis by blast
qed

theorem fake_history_witness:
  "key_tip fake_start ''org/app'' ''main'' = Some ''sha-main'' \<and>
   key_tip fake_merged ''org/app'' ''main'' = Some ''merge(sha-main,aaa)'' \<and>
   reach (key_parents fake_merged ''org/app'') ''sha-main'' ''merge(sha-main,aaa)''"
proof -
  have tips: "key_tip fake_start ''org/app'' ''main'' = Some ''sha-main''"
    "key_tip fake_merged ''org/app'' ''main'' = Some ''merge(sha-main,aaa)''"
    by code_simp+
  have "body_str ''sha'' (fq_Body merge_request) = []" "body_str ''Head'' (fq_Body merge_request) = ''aaa''"
    by code_simp+
  then have named: "well_named merge_request" by (auto simp: well_named_def intro!: good_sha.plain)
  have "\<not> rewinds merge_request ''org/app'' ''main''" by (auto simp: rewinds_def merge_request_def)
  with fake_history[OF fake_start_run named fake_merged_run] tips show ?thesis by fastforce
qed

end
