(* ===== verification/WebProps.thy ===== *)
theory WebProps
  imports Web Fixtures
begin

text \<open>
  Properties of the dashboard: the checks it shows are those the verdict is computed from, and
  looking at it changes nothing of the queue.
\<close>

subsection \<open>The checks shown\<close>

lemma status_map_append:
  "status_map (xs @ ys) c = (case status_map ys c of Some s \<Rightarrow> Some s | None \<Rightarrow> status_map xs c)"
  by (induction xs) (auto split: option.splits)

lemma status_map_context: "status_map ss c = Some s \<Longrightarrow> cs_Context s = c \<and> s \<in> set ss"
  by (induction ss) (auto split: option.splits if_splits)

lemma status_map_None: "c \<notin> cs_Context ` set ss \<Longrightarrow> status_map ss c = None"
  using status_map_context[of ss c] by (cases "status_map ss c") auto

lemma status_map_shown:
  assumes "\<And>c. cs_Context (g c) = c"
  shows "status_map (map g cs) c = (if c \<in> set cs then Some (g c) else None)"
  by (induction cs) (auto simp: assms split: option.splits)

lemma status_map_merge:
  assumes "required \<noteq> []" "c \<in> set required"
  shows "status_map (mergeCheckStatuses recorded required) c =
    Some (case status_map recorded c of Some s \<Rightarrow> s | None \<Rightarrow> pending_status c)"
proof -
  let ?g = "\<lambda>ctx. case status_map recorded ctx of Some s \<Rightarrow> s | None \<Rightarrow> pending_status ctx"
  have g: "cs_Context (?g ctx) = ctx" for ctx
    by (auto simp: pending_status_def dest: status_map_context split: option.splits)
  have "status_map (filter (\<lambda>s. cs_Context s \<notin> set required) recorded) c = None"
    using assms(2) by (intro status_map_None) auto
  with assms status_map_shown[of ?g required c, OF g] show ?thesis
    by (simp add: mergeCheckStatuses_def status_map_append)
qed

lemma pending_neutral: "\<not> red (cs_State (pending_status c))" "cs_State (pending_status c) \<noteq> CheckStateSuccess"
  by (simp_all add: pending_status_def red_def)

lemma first_red_merge:
  "(\<And>c. c \<in> set reqs \<Longrightarrow> m' c = Some (case m c of Some s \<Rightarrow> s | None \<Rightarrow> pending_status c)) \<Longrightarrow>
     first_red m' reqs = first_red m reqs"
  by (induction reqs) (auto simp: pending_neutral split: option.splits)

lemma all_green_merge:
  "(\<And>c. c \<in> set reqs \<Longrightarrow> m' c = Some (case m c of Some s \<Rightarrow> s | None \<Rightarrow> pending_status c)) \<Longrightarrow>
     all_green m' reqs = all_green m reqs"
  by (induction reqs) (auto simp: pending_neutral split: option.splits)

text \<open>C38. The page of a pull request tells the truth about its verdict. The statuses it shows, where
  a required check without a report appears as pending, evaluate to the same verdict as the statuses
  recorded for the entry; every required check appears, in the order of the requirement, followed by
  the recorded statuses that are not required, and by nothing else.\<close>

theorem shown_checks_verdict:
  "EvaluateChecks (mergeCheckStatuses recorded required) required = EvaluateChecks recorded required \<and>
   (required = [] \<or> map cs_Context (mergeCheckStatuses recorded required) =
      required @ filter (\<lambda>c. c \<notin> set required) (map cs_Context recorded))"
proof (cases "required = []")
  case True
  then show ?thesis by (simp add: mergeCheckStatuses_def)
next
  case False
  note m = status_map_merge[OF False, of _ recorded]
  have "map (cs_Context \<circ> (\<lambda>ctx. case status_map recorded ctx of Some s \<Rightarrow> s | None \<Rightarrow> pending_status ctx)) required
      = required"
    by (rule map_idI) (auto simp: pending_status_def dest: status_map_context split: option.splits)
  then show ?thesis
    using False first_red_merge[OF m] all_green_merge[OF m]
    by (simp add: EvaluateChecks_def mergeCheckStatuses_def filter_map comp_def)
qed

subsection \<open>Looking changes nothing\<close>

fun is_look :: "forge_call \<Rightarrow> bool" where
  "is_look (CallGetPR n) = True"
| "is_look (CallGetRequiredChecks b) = True"
| "is_look _ = False"

definition looked :: "'f world \<Rightarrow> 'f world \<Rightarrow> bool" where
  "looked w w' \<longleftrightarrow> d_entries (w_db w') = d_entries (w_db w) \<and> d_checks (w_db w') = d_checks (w_db w) \<and>
     d_batches (w_db w') = d_batches (w_db w) \<and> prefix (d_repos (w_db w)) (d_repos (w_db w')) \<and>
     w_trigger w' = w_trigger w \<and>
     (\<exists>calls. w_calls w' = w_calls w @ calls \<and> list_all (\<lambda>(_, _, c). is_look c) calls)"

lemma looked_po [io_intros, simp]: "po_rel looked"
  unfolding po_rel_def looked_def
  by (force intro: prefix_order.trans)

lemma looked_exec:
  assumes "\<And>now d. d_entries (snd (q now d)) = d_entries d" "\<And>now d. d_checks (snd (q now d)) = d_checks d"
    "\<And>now d. d_batches (snd (q now d)) = d_batches d" "\<And>now d. prefix (d_repos d) (d_repos (snd (q now d)))"
  shows "state_io_rel looked (exec_stmt q)"
proof (rule state_io_relI)
  fix w :: "'f world" and r w'
  have q: "q now d = (x, d') \<Longrightarrow> d_entries d' = d_entries d \<and> d_checks d' = d_checks d \<and>
      d_batches d' = d_batches d \<and> prefix (d_repos d) (d_repos d')" for now d x d'
    using assms(1-3)[of now d] assms(4)[of d now] by simp
  assume "run_state (exec_stmt q) w = (r, w')"
  then show "looked w w'" by (cases rule: exec_stmt_cases) (auto simp: looked_def dest: q)
qed

lemma looked_reads [io_intros]:
  "state_io_rel looked (exec_stmt (sql_ListActiveEntriesByRepo r))"
  "state_io_rel looked (exec_stmt (sql_ListLiveBatchesByRepo r))"
  "state_io_rel looked (exec_stmt (sql_GetQueueEntry r p))"
  "state_io_rel looked (exec_stmt (sql_CountQueuePosition r b p))"
  "state_io_rel looked (exec_stmt (sql_GetBatch i))"
  "state_io_rel looked (exec_stmt (sql_GetEntriesByIDs is))"
  "state_io_rel looked (exec_stmt (sql_GetCheckStatuses i))"
  "state_io_rel looked (exec_stmt (sql_GetOrCreateRepo k ow nm))"
  by (rule looked_exec; simp add: sql_ListActiveEntriesByRepo_def sql_ListLiveBatchesByRepo_def
      sql_GetQueueEntry_def sql_CountQueuePosition_def sql_GetBatch_def sql_GetEntriesByIDs_def
      sql_GetCheckStatuses_def sql_GetOrCreateRepo_def Let_def split: option.splits list.splits)+

lemma looked_queue [io_intros]:
  "state_io_rel looked (repo_row ref)"
  "state_io_rel looked (ListActiveEntries r)"
  "state_io_rel looked (ListLiveBatches r)"
  "state_io_rel looked (GetEntry r p)"
  "state_io_rel looked (Position r b p)"
  "state_io_rel looked (GetBatch i)"
  "state_io_rel looked (entries_or_nil is)"
  "state_io_rel looked (GetCheckStatuses i)"
  unfolding repo_row_def entries_or_nil_def queue_defs by (intro io_intros)+

lemma looked_forge [io_intros]:
  "state_io_rel looked (call_GetPR f ow nm n)"
  "state_io_rel looked (call_GetRequiredChecks f ow nm b)"
  by (auto simp: state_io_rel_def call_GetPR_def call_GetRequiredChecks_def run_forge_do looked_def)

lemma looked_pages [io_intros]:
  "state_io_rel looked (overviewHandler deps)"
  "state_io_rel looked (serveRepoDetail deps ref)"
  "state_io_rel looked (servePRDetail deps ref s)"
  unfolding overviewHandler_def overview_one_def serveRepoDetail_def servePRDetail_def or_server_error_def
    pr_in_queue_def pr_from_forge_def pr_from_batch_def pr_checks_def ResolveRequiredChecks_def Let_def
  by (intro io_intros)+

text \<open>Looking at the dashboard. Whatever the path and whatever fails, a request changes no entry,
  no check status, no batch and no repository row, wakes no poller, and makes no call of a forge but
  to read a pull request or a branch rule; at most rows of repositories are added. A path of a
  repository that is not managed, or of a forge that does not exist, is answered as not found before
  anything is read.\<close>

theorem dashboard_only_looks:
  "looked w (snd (run_state (NewMux deps path) w)) \<and>
   (wd_Contains deps (RepoRef_String \<lparr>rr_Forge = (if k = [] then KindGitea else k), rr_Owner = ow, rr_Name = nm\<rparr>) \<and>
      (k = [] \<or> Kind_Valid k) \<or> run_state (repoHandler deps k ow nm number) w = (NotFoundPage, w))"
proof
  have handler: "state_io_rel looked (repoHandler deps k ow nm number)" for k ow nm number
    unfolding repoHandler_def Let_def by (intro io_intros)
  have "state_io_rel looked (NewMux deps path)"
    unfolding NewMux_def by (intro io_intros handler)
  then show "looked w (snd (run_state (NewMux deps path) w))"
    by (cases "run_state (NewMux deps path) w") (auto dest: state_io_relD)
qed (auto simp: repoHandler_def Let_def)

end
