(* ===== verification/KeyedLock.thy ===== *)
theory KeyedLock
  imports Prelude "HOL-Library.AList"
begin

text \<open>
  The locks of the program that serialise work per key: \<open>lock\<close> of the batch engine, one mutex
  per target branch, and \<open>repoLock\<close> of the git cache, one mutex per repository. Threads are
  interleaved: a state holds the table of mutexes, who holds the mutex \<open>mu\<close> that guards the table,
  who holds each mutex of the table, and where in the locking protocol each thread is. A mutex is
  its address; the address of the next one allocated is part of the table.

  The locale \<open>lock_table\<close> states what the protocol needs of the search in the table; the two
  searches of the program interpret it.
\<close>

type_synonym thread = nat
type_synonym mutex = nat

text \<open>Where a thread is: outside, about to lock \<open>mu\<close>, searching the table, about to lock the mutex
  of its key, or in the critical section.\<close>

datatype lock_pc =
    Away
  | Entering string
  | Searching string
  | Waiting string mutex
  | Inside string mutex

record 's locking =
  lk_mu :: "thread option"
  lk_table :: 's
  lk_held :: "mutex \<Rightarrow> thread option"
  lk_pc :: "thread \<Rightarrow> lock_pc"

definition no_locks :: "'s \<Rightarrow> 's locking" where
  "no_locks table = \<lparr>lk_mu = None, lk_table = table, lk_held = (\<lambda>_. None), lk_pc = (\<lambda>_. Away)\<rparr>"

subsection \<open>The searches\<close>

text \<open>The Go map of the engine is nil until the first search.\<close>

type_synonym lock_map = "(string \<times> mutex) list"

definition engine_lock :: "string \<Rightarrow> lock_map option \<times> mutex \<Rightarrow> mutex \<times> lock_map option \<times> mutex" where
  "engine_lock targetBranch = (\<lambda>(locks, new).
     let m = (case locks of None \<Rightarrow> [] | Some m \<Rightarrow> m)
     in case map_of m targetBranch of
          Some l \<Rightarrow> (l, Some m, new)
        | None \<Rightarrow> (new, Some (AList.update targetBranch new m), Suc new))"

definition repoLock :: "string \<Rightarrow> lock_map \<times> mutex \<Rightarrow> mutex \<times> lock_map \<times> mutex" where
  "repoLock key = (\<lambda>(locks, new).
     case map_of locks key of
       Some l \<Rightarrow> (l, locks, new)
     | None \<Rightarrow> (new, AList.update key new locks, Suc new))"

subsection \<open>The protocol\<close>

abbreviation goes :: "thread \<Rightarrow> lock_pc \<Rightarrow> 's locking \<Rightarrow> 's locking" where
  "goes t pc s \<equiv> s\<lparr>lk_pc := (lk_pc s)(t := pc)\<rparr>"

text \<open>The next action of a thread; \<open>None\<close> when the mutex it waits for is taken, or when it is
  outside.\<close>

definition lock_turn :: "(string \<Rightarrow> 's \<Rightarrow> mutex \<times> 's) \<Rightarrow> thread \<Rightarrow> 's locking \<Rightarrow> 's locking option" where
  "lock_turn search t s = (case lk_pc s t of
       Away \<Rightarrow> None
     | Entering k \<Rightarrow> if lk_mu s = None then Some (goes t (Searching k) (s\<lparr>lk_mu := Some t\<rparr>)) else None
     | Searching k \<Rightarrow> (case search k (lk_table s) of
           (l, table) \<Rightarrow> Some (goes t (Waiting k l) (s\<lparr>lk_table := table, lk_mu := None\<rparr>)))
     | Waiting k l \<Rightarrow> if lk_held s l = None
         then Some (goes t (Inside k l) (s\<lparr>lk_held := (lk_held s)(l := Some t)\<rparr>)) else None
     | Inside k l \<Rightarrow> Some (goes t Away (s\<lparr>lk_held := (lk_held s)(l := None)\<rparr>)))"

inductive lock_step :: "(string \<Rightarrow> 's \<Rightarrow> mutex \<times> 's) \<Rightarrow> 's locking \<Rightarrow> 's locking \<Rightarrow> bool" for search where
  call: "lk_pc s t = Away \<Longrightarrow> lock_step search s (goes t (Entering k) s)"
| turn: "lock_turn search t s = Some s' \<Longrightarrow> lock_step search s s'"

abbreviation lock_run :: "(string \<Rightarrow> 's \<Rightarrow> mutex \<times> 's) \<Rightarrow> 's locking \<Rightarrow> 's locking \<Rightarrow> bool" where
  "lock_run search \<equiv> (lock_step search)\<^sup>*\<^sup>*"

subsection \<open>What the protocol guarantees\<close>

locale lock_table =
  fixes search :: "string \<Rightarrow> 's \<Rightarrow> mutex \<times> 's"
    and mutex_of :: "'s \<Rightarrow> string \<Rightarrow> mutex option"
    and table_ok :: "'s \<Rightarrow> bool"
  assumes table_ok_search: "table_ok s \<Longrightarrow> table_ok (snd (search k s))"
    and mutex_of_search: "table_ok s \<Longrightarrow> mutex_of (snd (search k s)) = (mutex_of s)(k \<mapsto> fst (search k s))"
    and search_same: "table_ok s \<Longrightarrow> mutex_of s k = Some l \<Longrightarrow> fst (search k s) = l"
    and mutex_of_inj: "table_ok s \<Longrightarrow> mutex_of s k = Some l \<Longrightarrow> mutex_of s k' = Some l \<Longrightarrow> k = k'"
begin

definition lock_inv :: "'s locking \<Rightarrow> bool" where
  "lock_inv s \<longleftrightarrow> table_ok (lk_table s) \<and>
     (\<forall>t k l. lk_pc s t = Waiting k l \<or> lk_pc s t = Inside k l \<longrightarrow> mutex_of (lk_table s) k = Some l) \<and>
     (\<forall>t l. lk_held s l = Some t \<longleftrightarrow> (\<exists>k. lk_pc s t = Inside k l)) \<and>
     (\<forall>t. lk_mu s = Some t \<longleftrightarrow> (\<exists>k. lk_pc s t = Searching k))"

lemma search_keeps:
  "table_ok s \<Longrightarrow> mutex_of s k = Some l \<Longrightarrow> mutex_of (snd (search k' s)) k = Some l"
  using search_same by (auto simp: mutex_of_search)

lemma lock_invD:
  assumes "lock_inv s"
  shows "table_ok (lk_table s)"
    and "lk_pc s t = Waiting k l \<Longrightarrow> mutex_of (lk_table s) k = Some l"
    and "lk_pc s t = Inside k l \<Longrightarrow> mutex_of (lk_table s) k = Some l"
    and "lk_held s l = Some t \<longleftrightarrow> (\<exists>k. lk_pc s t = Inside k l)"
    and "lk_mu s = Some t \<longleftrightarrow> (\<exists>k. lk_pc s t = Searching k)"
  using assms unfolding lock_inv_def by blast+

lemma one_inside:
  assumes "lock_inv s" "lk_pc s t = Inside k l" "lk_pc s t' = Inside k' l"
  shows "t = t'"
  using lock_invD(4)[OF assms(1), of l t] lock_invD(4)[OF assms(1), of l t'] assms(2,3) by auto

lemma one_searching:
  assumes "lock_inv s" "lk_pc s t = Searching k" "lk_pc s t' = Searching k'"
  shows "t = t'"
  using lock_invD(5)[OF assms(1), of t] lock_invD(5)[OF assms(1), of t'] assms(2,3) by auto

text \<open>A turn changes one thread; what it must respect is said once.\<close>

lemma lock_inv_goes:
  assumes inv: "lock_inv s"
    and pc: "lk_pc s' = (lk_pc s)(t := pc)" and ok: "table_ok (lk_table s')"
    and table: "\<And>k l. mutex_of (lk_table s) k = Some l \<Longrightarrow> mutex_of (lk_table s') k = Some l"
    and own: "\<And>k l. pc = Waiting k l \<or> pc = Inside k l \<Longrightarrow> mutex_of (lk_table s') k = Some l"
    and held: "\<And>t' l. lk_held s' l = Some t' \<longleftrightarrow>
      (if t' = t then \<exists>k. pc = Inside k l else lk_held s l = Some t')"
    and mu: "\<And>t'. lk_mu s' = Some t' \<longleftrightarrow>
      (if t' = t then \<exists>k. pc = Searching k else lk_mu s = Some t')"
  shows "lock_inv s'"
  unfolding lock_inv_def
proof (intro conjI allI impI ok)
  fix t' k l
  assume "lk_pc s' t' = Waiting k l \<or> lk_pc s' t' = Inside k l"
  then show "mutex_of (lk_table s') k = Some l"
    using own lock_invD(2,3)[OF inv] table by (cases "t' = t") (auto simp: pc)
next
  fix t' l
  show "lk_held s' l = Some t' \<longleftrightarrow> (\<exists>k. lk_pc s' t' = Inside k l)"
    using lock_invD(4)[OF inv] by (simp add: held pc)
next
  fix t'
  show "lk_mu s' = Some t' \<longleftrightarrow> (\<exists>k. lk_pc s' t' = Searching k)"
    using lock_invD(5)[OF inv] by (simp add: mu pc)
qed

lemma lock_inv_turn:
  assumes turn: "lock_turn search t s = Some s'" and inv: "lock_inv s"
  shows "lock_inv s'"
proof (cases "lk_pc s t")
  case (Entering k)
  with turn have "lk_mu s = None" and s': "s' = goes t (Searching k) (s\<lparr>lk_mu := Some t\<rparr>)"
    by (auto simp: lock_turn_def split: if_splits)
  then show ?thesis
    using lock_invD(1)[OF inv] lock_invD(4)[OF inv, of _ t] Entering by (intro lock_inv_goes[OF inv, where t = t]) auto
next
  case (Searching k)
  obtain l table where f: "search k (lk_table s) = (l, table)" by fastforce
  with turn Searching have "s' = goes t (Waiting k l) (s\<lparr>lk_table := table, lk_mu := None\<rparr>)"
    by (simp add: lock_turn_def)
  moreover have "lk_mu s = Some t" using lock_invD(5)[OF inv] Searching by blast
  ultimately show ?thesis
    using lock_invD(1)[OF inv] lock_invD(4)[OF inv, of _ t] Searching f search_keeps[of "lk_table s" _ _ k]
      table_ok_search[of "lk_table s" k] mutex_of_search[of "lk_table s" k]
    by (intro lock_inv_goes[OF inv, where t = t]) auto
next
  case (Waiting k l)
  with turn have "lk_held s l = None" "s' = goes t (Inside k l) (s\<lparr>lk_held := (lk_held s)(l := Some t)\<rparr>)"
    by (auto simp: lock_turn_def split: if_splits)
  then show ?thesis
    using lock_invD(1)[OF inv] lock_invD(4)[OF inv, of _ t] lock_invD(5)[OF inv, of t] lock_invD(2)[OF inv Waiting] Waiting
    by (intro lock_inv_goes[OF inv, where t = t]) auto
next
  case (Inside k l)
  with turn have "s' = goes t Away (s\<lparr>lk_held := (lk_held s)(l := None)\<rparr>)"
    by (simp add: lock_turn_def)
  moreover have "lk_held s l = Some t' \<longleftrightarrow> t' = t" for t'
    using lock_invD(4)[OF inv, of l t] Inside by auto
  ultimately show ?thesis
    using lock_invD(1)[OF inv] lock_invD(4)[OF inv, of _ t] lock_invD(5)[OF inv, of t] Inside by (intro lock_inv_goes[OF inv, where t = t]) auto
qed (use turn in \<open>simp add: lock_turn_def\<close>)

lemma lock_inv_run: "lock_run search s s' \<Longrightarrow> lock_inv s \<Longrightarrow> lock_inv s'"
proof (induction rule: rtranclp_induct)
  case (step s1 s2)
  have "lock_inv s1" using step by simp
  note inv = this
  from step(2) show ?case
  proof cases
    case (call t k)
    then show ?thesis
      using lock_invD(1)[OF inv] lock_invD(4)[OF inv, of _ t] lock_invD(5)[OF inv, of t]
      by (intro lock_inv_goes[OF inv, where t = t]) auto
  next
    case (turn t)
    then show ?thesis using inv by (rule lock_inv_turn)
  qed
qed simp

lemma lock_inv_start: "table_ok table \<Longrightarrow> lock_inv (no_locks table)"
  by (simp add: lock_inv_def no_locks_def)

text \<open>Mutual exclusion per key, and nothing shared between keys.\<close>

lemma exclusive:
  assumes "lock_inv s" "lk_pc s t = Inside k l" "lk_pc s t' = Inside k' l'"
  shows "k = k' \<longleftrightarrow> t = t'"
proof
  assume "k = k'"
  with assms have "l = l'" unfolding lock_inv_def by (metis option.inject)
  with assms have "lk_held s l = Some t" "lk_held s l = Some t'" unfolding lock_inv_def by blast+
  then show "t = t'" by simp
qed (use assms in simp)

text \<open>No deadlock: a thread that cannot go on waits for one that can, and for nobody but a thread
  inside with its own key, or the one that searches the table.\<close>

lemma waits_for:
  assumes "lock_inv s" "lk_pc s t \<noteq> Away" "lock_turn search t s = None"
  obtains (mu) k t' k' where "lk_pc s t = Entering k" "lk_pc s t' = Searching k'" "lock_turn search t' s \<noteq> None"
  | (key) k l t' where "lk_pc s t = Waiting k l" "lk_pc s t' = Inside k l" "lock_turn search t' s \<noteq> None"
proof (cases "lk_pc s t")
  case (Entering k)
  with assms(3) obtain t' where "lk_mu s = Some t'" by (auto simp: lock_turn_def split: if_splits)
  with assms(1) obtain k' where "lk_pc s t' = Searching k'" unfolding lock_inv_def by blast
  with mu[OF Entering this] show thesis by (simp add: lock_turn_def split: prod.splits)
next
  case (Waiting k l)
  with assms(3) obtain t' where h: "lk_held s l = Some t'" by (auto simp: lock_turn_def split: if_splits)
  with assms(1) obtain k' where i: "lk_pc s t' = Inside k' l" unfolding lock_inv_def by blast
  with assms(1) Waiting have "table_ok (lk_table s)" "mutex_of (lk_table s) k = Some l"
    "mutex_of (lk_table s) k' = Some l" unfolding lock_inv_def by blast+
  then have "k' = k" by (rule mutex_of_inj[symmetric])
  with key[OF Waiting] i show thesis by (simp add: lock_turn_def)
qed (use assms(2,3) in \<open>auto simp: lock_turn_def split: prod.splits\<close>)

end

subsection \<open>The two tables of the program\<close>

definition lock_map_ok :: "lock_map \<Rightarrow> mutex \<Rightarrow> bool" where
  "lock_map_ok m new \<longleftrightarrow> distinct (map fst m) \<and> distinct (map snd m) \<and> (\<forall>l \<in> set (map snd m). l < new)"

lemma lock_map_ok_add:
  assumes "lock_map_ok m new" "map_of m k = None"
  shows "lock_map_ok (AList.update k new m) (Suc new)"
proof -
  have "AList.update k new m = m @ [(k, new)]"
    using assms(2) by (induction m) (auto split: if_splits)
  moreover have "k \<notin> set (map fst m)" using assms(2) by (simp add: map_of_eq_None_iff)
  ultimately show ?thesis using assms(1) by (auto simp: lock_map_ok_def)
qed

lemma lock_map_inj:
  assumes "lock_map_ok m new" "map_of m k = Some l" "map_of m k' = Some l"
  shows "k = k'"
proof -
  have "(k, l) \<in> set m" "(k', l) \<in> set m" using assms(2,3) by (auto dest: map_of_SomeD)
  moreover have "inj_on snd (set m)" using assms(1) by (simp add: lock_map_ok_def distinct_map)
  ultimately show ?thesis using inj_onD[of snd "set m" "(k, l)" "(k', l)"] by simp
qed

lemma lock_map_ok_first: "lock_map_ok [(k, new)] (Suc new)"
  by (simp add: lock_map_ok_def)

abbreviation engine_map :: "lock_map option \<Rightarrow> lock_map" where
  "engine_map locks \<equiv> (case locks of None \<Rightarrow> [] | Some m \<Rightarrow> m)"

interpretation engine_locks: lock_table engine_lock "\<lambda>(locks, _). map_of (engine_map locks)"
  "\<lambda>(locks, new). lock_map_ok (engine_map locks) new"
  by unfold_locales
    (auto simp: engine_lock_def Let_def update_conv' lock_map_ok_add lock_map_ok_first split: option.splits
      dest: lock_map_inj)

interpretation cache_locks: lock_table repoLock "\<lambda>(locks, _). map_of locks"
  "\<lambda>(locks, new). lock_map_ok locks new"
  by unfold_locales
    (auto simp: repoLock_def update_conv' lock_map_ok_add lock_map_ok_first split: option.splits dest: lock_map_inj)

end
