(* ===== verification/Interleave.thy ===== *)
theory Interleave
  imports Service
begin

text \<open>
  Pollers, webhooks and the discovery loop run at the same time and share the database: their
  statements interleave. \<open>world_step\<close> is one atomic action of any of them (an update of the
  tables by one of the queries of the store, a statement without an effect, a call of the forge,
  a trigger, the passing of time, a transaction that is rolled back), so that every interleaving
  is a sequence of such steps. The interpretation \<open>atoms\<close> shows that every handler of the
  program is made of them.
\<close>

inductive_set store_updates :: "(int \<Rightarrow> db \<Rightarrow> db) set" where
  "effect (sql_ClearCheckStatuses ids) \<in> store_updates"
| "effect (sql_ClearEntryMergeBranch ids) \<in> store_updates"
| "effect (sql_DequeueAllByRepo r) \<in> store_updates"
| "effect (sql_DequeuePR r p) \<in> store_updates"
| "effect (sql_EnqueuePR r p s b) \<in> store_updates"
| "effect (sql_GetOrCreateRepo f ow n) \<in> store_updates"
| "effect (sql_SaveCheckStatus i c st u) \<in> store_updates"
| "effect (sql_UpdateEntryError r p m) \<in> store_updates"
| "effect (sql_UpdateEntryMergeBranch r p nm sh) \<in> store_updates"
| "effect (sql_UpdateEntryState est r p) \<in> store_updates"
| "effect (sql_CancelBatchesByRepo r) \<in> store_updates"
| "effect (sql_CreateBatch r b ids) \<in> store_updates"
| "effect (sql_SaveBatch x) \<in> store_updates"
| "effect (sql_SetEntryActiveBatch bid ids) \<in> store_updates"

inductive world_step :: "'f world \<Rightarrow> 'f world \<Rightarrow> bool" where
  update: "g \<in> store_updates \<Longrightarrow> world_step w (w\<lparr>w_db := g (w_now w) (w_db w)\<rparr>)"
| stmt: "world_step w (w\<lparr>w_stmts := Suc (w_stmts w)\<rparr>)"
| tx: "world_step w (w\<lparr>w_tx := t\<rparr>)"
| call: "world_step w (w\<lparr>w_forge := f, w_calls := w_calls w @ [c]\<rparr>)"
| trigger: "world_step w (w\<lparr>w_trigger := b\<rparr>)"
| outside: "w_now w \<le> t \<Longrightarrow> world_step w (w\<lparr>w_now := t, w_forge := f\<rparr>)"
| rollback: "world_step\<^sup>*\<^sup>* w w' \<Longrightarrow> world_step w (w'\<lparr>w_db := restore_tables (w_db w) (w_db w')\<rparr>)"

abbreviation world_run :: "'f world \<Rightarrow> 'f world \<Rightarrow> bool" where
  "world_run \<equiv> world_step\<^sup>*\<^sup>*"

interpretation atoms: landing_effects world_run "\<lambda>g. g \<in> store_updates" "\<lambda>_. True"
  by unfold_locales (auto intro: world_step.intros store_updates.intros)

lemma updates_keep_fifo: "g \<in> store_updates \<Longrightarrow> keeps_fifo g"
  by (induction rule: store_updates.induct) (rule keeps_fifo_sql keeps_fifo_deletes)+

lemma world_step_fifo: "world_step w w' \<Longrightarrow> fifo_step w w'"
proof (induction rule: world_step.induct)
  case (rollback w w')
  have "fifo_step w w'"
    using rollback by (induction rule: rtranclp_induct) (auto intro: fifo.P_refl fifo.P_trans)
  then show ?case by (rule fifo.P_rollback)
qed (auto intro: fifo.P_db fifo.P_stmts fifo.P_tx fifo.P_forge fifo.P_trigger fifo_outside
  updates_keep_fifo)

lemma world_run_fifo: "world_run w w' \<Longrightarrow> fifo_step w w'"
  by (induction rule: rtranclp_induct) (auto intro: fifo.P_refl fifo.P_trans world_step_fifo)

text \<open>A step of the service is a run of atomic actions.\<close>

lemma sys_step_atoms:
  assumes "sys_step cf s s'" "repos_ok (dd_Registry (cf_Discovery cf)) (sv_repos s)"
  shows "world_run (sv_world s) (sv_world s')"
  by (rule atoms.sys_step_respects[OF assms]) (rule r_into_rtranclp[of world_step], rule world_step.outside)

end
