(* ===== verification/ConcurrencyProps.thy ===== *)
theory ConcurrencyProps
  imports KeyedLock Interleave Fixtures
begin

text \<open>
  Properties of what happens at the same time: the locks per branch, and the queues under every
  interleaving of the loops.
\<close>

text \<open>Thread \<open>t'\<close> keeps \<open>t\<close> waiting: it is inside with the key of \<open>t\<close>, or it searches the table.\<close>

definition blocks :: "'s locking \<Rightarrow> thread \<Rightarrow> thread \<Rightarrow> bool" where
  "blocks s t' t \<longleftrightarrow> (case lk_pc s t of
       Entering k \<Rightarrow> \<exists>k'. lk_pc s t' = Searching k'
     | Waiting k l \<Rightarrow> lk_pc s t' = Inside k l
     | _ \<Rightarrow> False)"

text \<open>C11. The lock of the batch engine. Two threads are never inside with the same target branch,
  threads with different branches never share a mutex, and there is no deadlock: a thread
  that cannot go on waits for one that can, either the thread inside with its own branch or
  the one that searches the table of locks.\<close>

theorem engine_lock_excludes:
  assumes "lock_run engine_lock (no_locks (None, new)) s"
  shows "(\<forall>t t' k k' l l'. lk_pc s t = Inside k l \<longrightarrow> lk_pc s t' = Inside k' l' \<longrightarrow>
      (k = k' \<longleftrightarrow> t = t') \<and> (k = k' \<longleftrightarrow> l = l')) \<and>
    (\<forall>t. lk_pc s t \<noteq> Away \<longrightarrow> lock_turn engine_lock t s \<noteq> None \<or>
      (\<exists>t'. lock_turn engine_lock t' s \<noteq> None \<and> blocks s t' t))"
proof -
  have "lock_map_ok [] new" by (simp add: lock_map_ok_def)
  then have inv: "engine_locks.lock_inv s"
    by (intro engine_locks.lock_inv_run[OF assms] engine_locks.lock_inv_start) simp
  have "(k = k' \<longleftrightarrow> t = t') \<and> (k = k' \<longleftrightarrow> l = l')"
    if "lk_pc s t = Inside k l" "lk_pc s t' = Inside k' l'" for t t' k k' l l'
  proof -
    have "l = l' \<longleftrightarrow> t = t'"
    proof
      assume "l = l'"
      with that show "t = t'" by (intro engine_locks.one_inside[OF inv that(1), of t' k']) simp
    qed (use that in simp)
    with engine_locks.exclusive[OF inv that] show ?thesis by simp
  qed
  moreover have "lock_turn engine_lock t s \<noteq> None \<or> (\<exists>t'. lock_turn engine_lock t' s \<noteq> None \<and> blocks s t' t)"
    if "lk_pc s t \<noteq> Away" for t
  proof (cases "lock_turn engine_lock t s")
    case None
    from inv that None have "\<exists>t'. lock_turn engine_lock t' s \<noteq> None \<and> blocks s t' t"
    proof (cases rule: engine_locks.waits_for)
      case (mu k t' k')
      then show ?thesis by (intro exI[of _ t']) (simp add: blocks_def)
    next
      case (key k l t')
      then show ?thesis by (intro exI[of _ t']) (simp add: blocks_def)
    qed
    then show ?thesis ..
  qed simp
  ultimately show ?thesis by blast
qed

text \<open>A schedule: each thread in turn calls with a key, or goes on.\<close>

fun lock_schedule :: "(string \<Rightarrow> 's \<Rightarrow> mutex \<times> 's) \<Rightarrow> (thread \<times> string option) list \<Rightarrow> 's locking \<Rightarrow>
    's locking option" where
  "lock_schedule search [] s = Some s"
| "lock_schedule search ((t, Some k) # acts) s =
     (if lk_pc s t = Away then lock_schedule search acts (goes t (Entering k) s) else None)"
| "lock_schedule search ((t, None) # acts) s =
     (case lock_turn search t s of None \<Rightarrow> None | Some s' \<Rightarrow> lock_schedule search acts s')"

lemma lock_schedule_run: "lock_schedule search acts s = Some s' \<Longrightarrow> lock_run search s s'"
  by (induction search acts s rule: lock_schedule.induct)
    (auto split: if_splits option.splits intro: converse_rtranclp_into_rtranclp lock_step.intros)

text \<open>Two threads with the branch \<open>main\<close> and one with \<open>dev\<close>: the first and the third are inside.\<close>

definition demo_schedule :: "(thread \<times> string option) list" where
  "demo_schedule = [(1, Some ''main''), (2, Some ''main''), (1, None), (1, None), (3, Some ''dev''),
     (2, None), (2, None), (1, None), (3, None), (3, None), (3, None)]"

definition demo_locked :: "(lock_map option \<times> mutex) locking" where
  "demo_locked = the (lock_schedule engine_lock demo_schedule (no_locks (None, 0)))"

theorem engine_lock_excludes_witness:
  "lk_pc demo_locked 1 = Inside ''main'' 0 \<and> lk_pc demo_locked 2 = Waiting ''main'' 0 \<and>
   lk_pc demo_locked 3 = Inside ''dev'' 1 \<and> lock_turn engine_lock 2 demo_locked = None \<and>
   (\<exists>t'. lock_turn engine_lock t' demo_locked \<noteq> None \<and> blocks demo_locked t' 2)"
proof -
  have ran: "lock_schedule engine_lock demo_schedule (no_locks (None, 0)) = Some demo_locked"
    by (simp add: demo_locked_def demo_schedule_def lock_turn_def no_locks_def engine_lock_def)
  have pcs: "lk_pc demo_locked 1 = Inside ''main'' 0" "lk_pc demo_locked 2 = Waiting ''main'' 0"
    "lk_pc demo_locked 3 = Inside ''dev'' 1" "lock_turn engine_lock 2 demo_locked = None"
    by (simp_all add: demo_locked_def demo_schedule_def lock_turn_def no_locks_def engine_lock_def)
  with engine_lock_excludes[OF lock_schedule_run[OF ran]] show ?thesis by force
qed

text \<open>C10. Whatever the interleaving of the loops, statement by statement, with database failures,
  rolled back transactions and a forge that changes in between, the constraints of the store
  hold, and every queue evolves by removing rows and appending new ones: nobody overtakes. (Only
  the poller of a repository enqueues into its queues, so two enqueueing transactions of a queue
  do not overlap, and the time of the statement orders them like the start of the transaction.)\<close>

theorem any_interleaving_keeps_queues:
  assumes "world_run w w'" "fifo_wf (w_now w) (w_db w)"
  shows "db_wf (w_db w') \<and> times_ok (w_now w') (w_db w') \<and>
    (\<forall>r b. evolves (d_entry_seq (w_db w)) (queue_ids (w_db w) r b) (queue_ids (w_db w') r b))"
  using world_run_fifo[OF assms(1)] assms(2) by (simp add: fifo_step_def fifo_db_def fifo_wf_def)

text \<open>Two loops at once on \<open>demo_world\<close>: a pull request is enqueued behind the two that wait, and
  the first of them is removed.\<close>

definition demo_overlap :: "unit world" where
  "demo_overlap = (let w1 = demo_world\<lparr>w_db := snd (sql_EnqueuePR 1 13 ''head13'' ''main'' 100 demo_db)\<rparr>
     in w1\<lparr>w_db := snd (sql_DequeuePR 1 11 100 (w_db w1))\<rparr>)"

lemma demo_overlap_run: "world_run demo_world demo_overlap"
proof -
  let ?w1 = "demo_world\<lparr>w_db := snd (sql_EnqueuePR 1 13 ''head13'' ''main'' 100 demo_db)\<rparr>"
  have "world_step demo_world ?w1"
    using world_step.update[OF store_updates.intros(5)[of 1 13 "''head13''" "''main''"], of demo_world] by simp
  moreover have "world_step ?w1 demo_overlap"
    using world_step.update[OF store_updates.intros(4)[of 1 11], of ?w1] by (simp add: demo_overlap_def)
  ultimately show ?thesis by simp
qed

theorem any_interleaving_keeps_queues_witness:
  "queue_ids demo_db 1 ''main'' = [1, 2] \<and> queue_ids (w_db demo_overlap) 1 ''main'' = [2, 3] \<and>
   evolves 3 [1, 2] [2, 3]"
proof -
  have ids: "queue_ids demo_db 1 ''main'' = [1, 2]" "queue_ids (w_db demo_overlap) 1 ''main'' = [2, 3]"
    "d_entry_seq demo_db = 3"
    by (simp_all add: queue_ids_def queue_rows_def demo_overlap_def demo_db_def demo_entry_def demo_repo_def
        new_entry_def sql_EnqueuePR_def sql_DequeuePR_def delete_entries_def is_entry_def in_queue_def Let_def)
  have "fifo_wf (w_now demo_world) (w_db demo_world)"
    by (simp add: fifo_wf_def times_ok_def) (simp add: demo_db_def demo_entry_def new_entry_def)
  from any_interleaving_keeps_queues[OF demo_overlap_run this]
  have "evolves (d_entry_seq (w_db demo_world)) (queue_ids (w_db demo_world) 1 ''main'')
      (queue_ids (w_db demo_overlap) 1 ''main'')" by blast
  with ids show ?thesis by simp
qed

end
