(* ===== verification/Server.thy ===== *)
theory Server
  imports Startup GiteaForge GithubForge
begin

text \<open>
  \<open>run\<close> of \<open>cmd/gitea-mq/main.go\<close> from the environment to the point where the server listens: the
  configuration is loaded, the database connected, the adapters are made and registered, the
  repositories discovered for the first time, and the routes mounted. Listening, signals, shutdown
  and the log are left out.

  What the program does not contain is the record \<open>outside\<close>: the HTTP transport and git of the
  Gitea client, the calls of the GitHub client library and the checks its constructors make, the
  validation and parsing of GitHub deliveries, and connecting to the database.
\<close>

record 'n outside =
  ou_Connect :: "string \<Rightarrow> error option"
  ou_Send :: "http_call \<Rightarrow> ('n github, error + http_answer) state"
  ou_Git :: "'n github git_env"
  ou_AppsTransport :: "int \<Rightarrow> string \<Rightarrow> error option"
  ou_Enterprise :: "string \<Rightarrow> error option"
  ou_API :: "'n gh_api"
  ou_Validate :: "string \<Rightarrow> http_request \<Rightarrow> string option"
  ou_Parse :: "http_request \<Rightarrow> string \<Rightarrow> gh_event option"

datatype run_error = LoadFailed config_error | RunFailed error | MuxPanic

text \<open>A call on behalf of the whole service.\<close>

definition app_call :: "('f, 'a) state \<Rightarrow> ('f service, 'a) state" where
  "app_call m = in_world (forge_do [] [] CallDiscover m)"

definition start_gitea :: "'n outside \<Rightarrow> Config \<Rightarrow> GiteaConfig \<Rightarrow> 'n github gitea_client" where
  "start_gitea ou cfg g = NewHTTPClient (ou_Send ou) (ou_Git ou) (cfg_CacheDir cfg) (gc_URL g) (gc_Token g)"

definition clean_cache :: "'n outside \<Rightarrow> Config \<Rightarrow> ('n github service, unit) state" where
  "clean_cache ou cfg = (case cfg_Gitea cfg of
       None \<Rightarrow> ret ()
     | Some g \<Rightarrow> do {
         now \<leftarrow> in_world go_now;
         app_call (cleanupStale (http_git_cache (ou_Git ou) (cfg_CacheDir cfg) (trim_right (CHR ''/'') (gc_URL g))
           (gc_Token g)) now DefaultCacheMaxAge) })"

definition start_app :: "'n outside \<Rightarrow> Config \<Rightarrow> ('n github service, error + 'n gh_app option) state" where
  "start_app ou cfg = (case cfg_Github cfg of
       None \<Rightarrow> ret (Inr None)
     | Some h \<Rightarrow> (case NewApp (ou_AppsTransport ou) (ou_Enterprise ou) (ou_API ou) (hc_AppID h) (hc_PrivateKey h)
           DefaultBaseURL of
         Inl err \<Rightarrow> ret (Inl (Wrap ''init github app'' err))
       | Inr app \<Rightarrow> do {
           _ \<leftarrow> app_call (Refresh app);
           _ \<leftarrow> app_call (SyncHookConfig app (cfg_ExternalURL cfg) (hc_WebhookSecret h));
           ret (Inr (Some app)) }))"

definition run_forges :: "'n outside \<Rightarrow> Config \<Rightarrow> 'n gh_app option \<Rightarrow> 'n github forge_set" where
  "run_forges ou cfg app =
     startup_forges (map_option (\<lambda>g. NewForge (start_gitea ou cfg g) (gc_URL g)) (cfg_Gitea cfg))
       (map_option (\<lambda>a. NewGithubForge a []) app)"

definition run_sources :: "'n outside \<Rightarrow> Config \<Rightarrow> 'n gh_app option \<Rightarrow> 'n github repo_source list" where
  "run_sources ou cfg app =
     startup_sources (map_option (\<lambda>g. (gc_Topic g, TopicSource (start_gitea ou cfg g) (gc_Topic g))) (cfg_Gitea cfg))
       (map_option InstallationSource app)"

definition run_config ::
  "'n outside \<Rightarrow> Config \<Rightarrow> 'n gh_app option \<Rightarrow> mux \<Rightarrow> 'n github service_config" where
  "run_config ou cfg app m =
     \<lparr>cf_Discovery = startup_discovery cfg (run_forges ou cfg app) (run_sources ou cfg app),
      cf_GiteaSecret = giteaWebhookSecret cfg,
      cf_Validate = ou_Validate ou (case cfg_Github cfg of None \<Rightarrow> [] | Some h \<Rightarrow> hc_WebhookSecret h),
      cf_Parse = ou_Parse ou,
      cf_PollInterval = cfg_PollInterval cfg, cf_IdlePollInterval = cfg_IdlePollInterval cfg,
      cf_Mux = m, cf_Forges = run_forges ou cfg app, cf_FallbackChecks = cfg_RequiredChecks cfg,
      cf_RefreshInterval = int (trunc (in_units Second (nat (cfg_RefreshInterval cfg))))\<rparr>"

definition run ::
  "'n outside \<Rightarrow> env \<Rightarrow> (string \<Rightarrow> error + string) \<Rightarrow> map_order \<Rightarrow>
     ('n github service, run_error + 'n github service_config) state" where
  "run ou env rf ord = (case Load env rf of
       Inl e \<Rightarrow> ret (Inl (LoadFailed e))
     | Inr cfg \<Rightarrow> (case ou_Connect ou (cfg_DatabaseURL cfg) of
         Some e \<Rightarrow> ret (Inl (RunFailed (Wrap ''connect to database'' e)))
       | None \<Rightarrow> do {
           clean_cache ou cfg;
           app \<leftarrow> start_app ou cfg;
           (case app of
              Inl e \<Rightarrow> ret (Inl (RunFailed e))
            | Inr a \<Rightarrow> do {
                DiscoverOnce ord (startup_discovery cfg (run_forges ou cfg a) (run_sources ou cfg a));
                ret (case startup_mux cfg of None \<Rightarrow> Inl MuxPanic | Some m \<Rightarrow> Inr (run_config ou cfg a m)) }) }))"

end
