(* ===== verification/ServerProps.thy ===== *)
theory ServerProps
  imports Server ConfigProps GhFakeClient
begin

text \<open>The properties of the service as \<open>run\<close> brings it up, and of the routes it mounts.\<close>


subsection \<open>Coming up\<close>

lemma app_call_world:
  "run_state (app_call m) s = (a, s') \<Longrightarrow> service_inv cf s \<Longrightarrow> service_inv cf s' \<and> sv_repos s' = sv_repos s"
  by (auto simp: app_call_def run_in_world run_forge_do service_inv_def rows_ok_def)

lemma clean_cache_inv:
  "run_state (clean_cache ou cfg) s = (a, s') \<Longrightarrow> service_inv cf s \<Longrightarrow> service_inv cf s'"
  by (auto simp: clean_cache_def go_now_def run_in_world split: option.splits prod.splits dest!: app_call_world)

lemma start_app_inv:
  "run_state (start_app ou cfg) s = (a, s') \<Longrightarrow> service_inv cf s \<Longrightarrow> service_inv cf s'"
  by (auto simp: start_app_def split: option.splits sum.splits prod.splits dest!: app_call_world)

lemma run_cases:
  assumes "run_state (run ou env rf ord) s = (Inr cf, s')"
  obtains cfg app m s1 s2 where "Load env rf = Inr cfg" "startup_mux cfg = Some m"
    "cf = run_config ou cfg app m" "run_state (clean_cache ou cfg) s = ((), s1)"
    "run_state (start_app ou cfg) s1 = (Inr app, s2)" "run_state (DiscoverOnce ord (cf_Discovery cf)) s2 = ((), s')"
  using assms
  by (auto simp: run_def run_config_def split: sum.splits option.splits prod.splits)

lemma run_secrets:
  assumes "config_ok cfg" "m = startup_routes cfg" "mux_match m path = Some h"
  shows "h = GiteaWebhook \<Longrightarrow> giteaWebhookSecret cfg \<noteq> []"
    and "h = GithubWebhook \<Longrightarrow> \<exists>g. cfg_Github cfg = Some g \<and> hc_WebhookSecret g \<noteq> []"
proof -
  obtain p where "(p, h) \<in> set (startup_routes cfg)"
    using assms(3) by (rule mux_match_cases) (auto simp: assms(2) dest: map_of_SomeD)
  with assms(1) show "h = GiteaWebhook \<Longrightarrow> giteaWebhookSecret cfg \<noteq> []"
    "h = GithubWebhook \<Longrightarrow> \<exists>g. cfg_Github cfg = Some g \<and> hc_WebhookSecret g \<noteq> []"
    by (cases "cfg_Gitea cfg"; cases "cfg_Github cfg";
        auto simp: startup_routes_def config_ok_def giteaWebhookSecret_def gitea_ok_def github_ok_def
        split: if_splits)+
qed

text \<open>C4. A service that comes up is sound. From a database whose constraints hold, \<open>run\<close> either fails
  or brings up a service in which every state reached later satisfies the invariants, every webhook
  endpoint has a secret to check its requests with, no two discovery sources are of one kind, the
  explicit repositories are well-formed references, and the pollers have positive intervals.\<close>

theorem run_sound:
  assumes "run_state (run ou env rf ord) s = (Inr cf, s')" "sv_repos s = NewRegistry"
    "fifo_wf (w_now (sv_world s)) (w_db (sv_world s))" "rows_ok disjoint_ledger (sv_world s)"
  shows "(\<forall>s''. sys_run cf s' s'' \<longrightarrow> service_inv cf s'') \<and>
    (\<forall>path. (mux_match (cf_Mux cf) path = Some GiteaWebhook \<longrightarrow> cf_GiteaSecret cf \<noteq> []) \<and>
      (mux_match (cf_Mux cf) path = Some GithubWebhook \<longrightarrow>
        (\<exists>secret. secret \<noteq> [] \<and> cf_Validate cf = ou_Validate ou secret))) \<and>
    distinct (map src_Kind (dd_Sources (cf_Discovery cf))) \<and>
    list_all ref_ok (dd_ExplicitRepos (cf_Discovery cf)) \<and>
    0 < cf_PollInterval cf \<and> 0 < cf_IdlePollInterval cf"
proof -
  from assms(1) obtain cfg app m s1 s2 where load: "Load env rf = Inr cfg" and m: "startup_mux cfg = Some m"
    and cf: "cf = run_config ou cfg app m" and ran: "run_state (clean_cache ou cfg) s = ((), s1)"
      "run_state (start_app ou cfg) s1 = (Inr app, s2)" "run_state (DiscoverOnce ord (cf_Discovery cf)) s2 = ((), s')"
    by (rule run_cases)
  note ok = Load_ok[OF load] 
  have "service_inv cf s" using assms(2-4) by (simp add: service_inv_def)
  then have "service_inv cf s2" by (intro start_app_inv[OF ran(2)] clean_cache_inv[OF ran(1)])
  then have "service_inv cf s'" by (rule service_inv_step[OF sys_step.discover[OF ran(3)]])
  moreover have "mux_match m path = Some GiteaWebhook \<Longrightarrow> cf_GiteaSecret cf \<noteq> []"
    "mux_match m path = Some GithubWebhook \<Longrightarrow> \<exists>secret. secret \<noteq> [] \<and> cf_Validate cf = ou_Validate ou secret"
    for path
    using run_secrets[OF ok conjunct1[OF startup_mux_routes[OF m]], of path] by (auto simp: cf run_config_def)
  moreover have "distinct (map src_Kind (dd_Sources (cf_Discovery cf)))"
    by (auto simp: cf run_config_def startup_discovery_def run_sources_def startup_sources_def
        KindGitea_def KindGithub_def split: option.splits)
  moreover have "list_all ref_ok (dd_ExplicitRepos (cf_Discovery cf))"
    using explicit_ok[OF ok] by (simp add: cf run_config_def startup_discovery_def)
  moreover have "cf_Mux cf = m" "0 < cf_PollInterval cf" "0 < cf_IdlePollInterval cf"
    using ok by (simp_all add: cf run_config_def config_ok_def)
  ultimately show ?thesis using service_inv_run by metis
qed

text \<open>The service of \<open>demo_env\<close>, whose Gitea cannot be reached; the calls of GitHub, which it does
  not make, are those of the test server.\<close>

definition silent_world :: "fake_Server outside" where
  "silent_world = \<lparr>ou_Connect = (\<lambda>_. None), ou_Send = (\<lambda>_. ret (Inl (PlainError ''no route''))),
     ou_Git = \<lparr>ge_Exec = (\<lambda>_ _. ret ([], Some 1)), ge_Stat = (\<lambda>_. ret None), ge_MkdirAll = (\<lambda>_. ret (Inr ())),
       ge_RemoveAll = (\<lambda>_. ret (Inr ())), ge_WriteFile = (\<lambda>_. ret (Inr ())), ge_Glob = (\<lambda>_. ret None)\<rparr>,
     ou_AppsTransport = (\<lambda>_ _. None), ou_Enterprise = (\<lambda>_. None), ou_API = fake_api (\<lambda>n. [0..<n]),
     ou_Validate = (\<lambda>_ _. None), ou_Parse = (\<lambda>_ _. None)\<rparr>"

definition installed :: "fake_Server github service" where
  "installed = \<lparr>sv_world = \<lparr>w_db = empty_db, w_now = 100, w_faults = (\<lambda>_. False), w_stmts = 0, w_tx = NoTx,
     w_forge = new_github fake_New, w_calls = [], w_trigger = {}\<rparr>, sv_repos = NewRegistry\<rparr>"

lemma run_gitea:
  assumes "Load env rf = Inr cfg" "ou_Connect ou (cfg_DatabaseURL cfg) = None" "cfg_Github cfg = None"
    "startup_mux cfg = Some m"
  shows "fst (run_state (run ou env rf ord) s) = Inr (run_config ou cfg None m)"
  using assms by (simp add: run_def start_app_def split: prod.splits)

theorem run_sound_witness:
  "\<exists>cf s'. run_state (run silent_world demo_env (\<lambda>_. Inr []) id) installed = (Inr cf, s') \<and>
     service_inv cf s' \<and> mux_match (cf_Mux cf) ''/webhook/gitea'' = Some GiteaWebhook \<and> cf_GiteaSecret cf \<noteq> []"
proof -
  have "case Load demo_env (\<lambda>_. Inr []) of Inl _ \<Rightarrow> False
      | Inr c \<Rightarrow> cfg_Github c = None \<and> (case startup_mux c of None \<Rightarrow> False
          | Some m \<Rightarrow> mux_match m ''/webhook/gitea'' = Some GiteaWebhook)"
    by code_simp
  then obtain c m where c: "Load demo_env (\<lambda>_. Inr []) = Inr c" "cfg_Github c = None" "startup_mux c = Some m"
    "mux_match m ''/webhook/gitea'' = Some GiteaWebhook"
    by (auto split: sum.splits option.splits)
  let ?cf = "run_config silent_world c None m"
  have "ou_Connect silent_world (cfg_DatabaseURL c) = None" by (simp add: silent_world_def)
  from run_gitea[OF c(1) this c(2,3), of id installed]
  obtain s' where ran: "run_state (run silent_world demo_env (\<lambda>_. Inr []) id) installed = (Inr ?cf, s')"
    by (cases "run_state (run silent_world demo_env (\<lambda>_. Inr []) id) installed") simp
  have "fresh_service installed" by (simp add: fresh_service_def installed_def)
  then have "service_inv ?cf installed" by (rule service_inv_fresh)
  then have db: "fifo_wf (w_now (sv_world installed)) (w_db (sv_world installed))"
    "rows_ok disjoint_ledger (sv_world installed)" "sv_repos installed = NewRegistry"
    by (simp_all add: service_inv_def) (simp add: installed_def)
  have mux: "mux_match (cf_Mux ?cf) ''/webhook/gitea'' = Some GiteaWebhook" using c(4) by (simp add: run_config_def)
  from run_sound[OF ran db(3,1,2)] mux have "service_inv ?cf s'" "cf_GiteaSecret ?cf \<noteq> []"
    by (blast intro: rtranclp.rtrancl_refl)+
  with ran mux show ?thesis by (intro exI[of _ ?cf] exI[of _ s']) simp
qed

end
