(* ===== verification/Enums.thy ===== *)
theory Enums
  imports Store CheckRun
begin

text \<open>
  The enumerations of \<open>models.go\<close> at the border to the database. In Go each is a string; the generated
  \<open>Scan\<close> accepts any text and the generated \<open>Value\<close> sends any text, so that the values the rest of the
  model works with are those of the enum types of the migrations, which the database checks. The
  three types have the same generated code, which the first argument, the name of the type, tells apart.
\<close>

datatype sql_value = SqlNull | SqlText string | SqlBytes string | SqlOther string

definition enum_Scan :: "string \<Rightarrow> sql_value \<Rightarrow> error + string" where
  "enum_Scan ty src = (case src of
       SqlBytes s \<Rightarrow> Inr s
     | SqlText s \<Rightarrow> Inr s
     | SqlNull \<Rightarrow> Inl (PlainError (''unsupported scan type for '' @ ty @ '': <nil>''))
     | SqlOther t \<Rightarrow> Inl (PlainError (''unsupported scan type for '' @ ty @ '': '' @ t)))"

text \<open>A nullable value is the text and whether it is valid; an error leaves the text as it was.\<close>

record null_enum =
  ne_Text :: string
  ne_Valid :: bool

definition null_Scan :: "string \<Rightarrow> sql_value \<Rightarrow> null_enum \<Rightarrow> error option \<times> null_enum" where
  "null_Scan ty value ns = (if value = SqlNull then (None, \<lparr>ne_Text = [], ne_Valid = False\<rparr>)
     else case enum_Scan ty value of
       Inl err \<Rightarrow> (Some err, ns\<lparr>ne_Valid := True\<rparr>)
     | Inr s \<Rightarrow> (None, \<lparr>ne_Text = s, ne_Valid = True\<rparr>))"

definition null_Value :: "null_enum \<Rightarrow> sql_value" where
  "null_Value ns = (if \<not> ne_Valid ns then SqlNull else SqlText (ne_Text ns))"

definition BatchState_Scan :: "sql_value \<Rightarrow> error + string" where
  "BatchState_Scan = enum_Scan ''BatchState''"

definition NullBatchState_Scan :: "sql_value \<Rightarrow> null_enum \<Rightarrow> error option \<times> null_enum" where
  "NullBatchState_Scan = null_Scan ''BatchState''"

definition CheckState_Scan :: "sql_value \<Rightarrow> error + string" where
  "CheckState_Scan = enum_Scan ''CheckState''"

definition NullCheckState_Scan :: "sql_value \<Rightarrow> null_enum \<Rightarrow> error option \<times> null_enum" where
  "NullCheckState_Scan = null_Scan ''CheckState''"

definition EntryState_Scan :: "sql_value \<Rightarrow> error + string" where
  "EntryState_Scan = enum_Scan ''EntryState''"

definition NullEntryState_Scan :: "sql_value \<Rightarrow> null_enum \<Rightarrow> error option \<times> null_enum" where
  "NullEntryState_Scan = null_Scan ''EntryState''"

fun batch_state_string :: "batch_state \<Rightarrow> string" where
  "batch_state_string BatchStateForming = ''forming''"
| "batch_state_string BatchStateTesting = ''testing''"
| "batch_state_string BatchStateDone = ''done''"
| "batch_state_string BatchStateCancelled = ''cancelled''"

fun entry_state_string :: "entry_state \<Rightarrow> string" where
  "entry_state_string EntryStateQueued = ''queued''"
| "entry_state_string EntryStateTesting = ''testing''"
| "entry_state_string EntryStateSuccess = ''success''"
| "entry_state_string EntryStateFailed = ''failed''"
| "entry_state_string EntryStateCancelled = ''cancelled''"

text \<open>What is written is read back, as text or as bytes, and no two states are written alike.\<close>

lemmas scan_defs = enum_Scan_def null_Scan_def BatchState_Scan_def CheckState_Scan_def EntryState_Scan_def
  NullBatchState_Scan_def NullCheckState_Scan_def NullEntryState_Scan_def

lemma null_roundtrip:
  "NullBatchState_Scan (null_Value ns) old = (None, if ne_Valid ns then ns else \<lparr>ne_Text = [], ne_Valid = False\<rparr>)"
  "NullCheckState_Scan (null_Value ns) old = (None, if ne_Valid ns then ns else \<lparr>ne_Text = [], ne_Valid = False\<rparr>)"
  "NullEntryState_Scan (null_Value ns) old = (None, if ne_Valid ns then ns else \<lparr>ne_Text = [], ne_Valid = False\<rparr>)"
  by (cases ns; simp add: scan_defs null_Value_def)+

lemma batch_state_string_inj: "batch_state_string a = batch_state_string b \<Longrightarrow> a = b"
  by (cases a; cases b) simp_all

lemma entry_state_string_inj: "entry_state_string a = entry_state_string b \<Longrightarrow> a = b"
  by (cases a; cases b) simp_all

lemma enum_read_back:
  "BatchState_Scan (SqlText (batch_state_string b)) = Inr t \<Longrightarrow> batch_state_string b' = t \<Longrightarrow> b' = b"
  "EntryState_Scan (SqlText (entry_state_string e)) = Inr t \<Longrightarrow> entry_state_string e' = t \<Longrightarrow> e' = e"
  "CheckState_Scan (SqlText (check_state_string c)) = Inr (check_state_string c)"
  by (auto simp: scan_defs dest: batch_state_string_inj entry_state_string_inj)

end
